(* ===== verification/GoBase.thy ===== *)
theory GoBase
  imports Main "HOL-Library.Char_ord" "HOL-Library.List_Lexorder" "HOL-Library.Word"
begin

text \<open>
  The part of the Go standard library the server leans on: byte strings and the functions of
  package \<open>strings\<close>, \<open>unicode/utf8\<close> and \<open>strconv\<close> it calls, machine integers, and the shared
  lemma collections of the development.

  A Go string is a byte sequence; HOL's \<open>string\<close> is a list of bytes too, so \<open>length\<close> is Go's
  \<open>len\<close>. Case mapping and white space are modelled on ASCII: \<open>strings.ToLower\<close>, \<open>EqualFold\<close> and
  \<open>TrimSpace\<close> leave every byte from 128 on alone here.
\<close>

named_theorems frame_simps \<open>what a call leaves unchanged in the world\<close>
named_theorems outcome_simps \<open>unfolding rules for the results of one step of a handler\<close>

section \<open>Package strings\<close>

definition is_space :: "char \<Rightarrow> bool" where
  "is_space c \<longleftrightarrow> of_char c = (32::nat) \<or> (9 \<le> (of_char c :: nat) \<and> (of_char c :: nat) \<le> 13)"

definition trim_space :: "string \<Rightarrow> string" where
  "trim_space s = rev (dropWhile is_space (rev (dropWhile is_space s)))"

definition trim_right :: "char \<Rightarrow> string \<Rightarrow> string" where
  "trim_right c s = rev (dropWhile (\<lambda>x. x = c) (rev s))"

definition lower_char :: "char \<Rightarrow> char" where
  "lower_char c =
     (if 65 \<le> (of_char c :: nat) \<and> (of_char c :: nat) \<le> 90 then char_of (of_char c + (32::nat)) else c)"

definition upper_char :: "char \<Rightarrow> char" where
  "upper_char c =
     (if 97 \<le> (of_char c :: nat) \<and> (of_char c :: nat) \<le> 122 then char_of (of_char c - (32::nat)) else c)"

definition to_lower :: "string \<Rightarrow> string" where
  "to_lower s = map lower_char s"

definition to_upper :: "string \<Rightarrow> string" where
  "to_upper s = map upper_char s"

definition equal_fold :: "string \<Rightarrow> string \<Rightarrow> bool" where
  "equal_fold a b \<longleftrightarrow> to_lower a = to_lower b"

fun has_prefix :: "string \<Rightarrow> string \<Rightarrow> bool" where
  "has_prefix s [] = True"
| "has_prefix [] (_ # _) = False"
| "has_prefix (x # xs) (y # ys) = (x = y \<and> has_prefix xs ys)"

definition has_suffix :: "string \<Rightarrow> string \<Rightarrow> bool" where
  "has_suffix s suf \<longleftrightarrow> has_prefix (rev s) (rev suf)"

fun contains_sub :: "string \<Rightarrow> string \<Rightarrow> bool" where
  "contains_sub [] sub = (sub = [])"
| "contains_sub (x # xs) sub = (has_prefix (x # xs) sub \<or> contains_sub xs sub)"

definition contains_any :: "string \<Rightarrow> string \<Rightarrow> bool" where
  "contains_any s cs \<longleftrightarrow> list_ex (\<lambda>c. c \<in> set cs) s"

text \<open>\<open>strings.Cut\<close> at the first occurrence of a one-byte separator.\<close>

fun cut :: "char \<Rightarrow> string \<Rightarrow> (string \<times> string) option" where
  "cut c [] = None"
| "cut c (x # xs) =
     (if x = c then Some ([], xs)
      else (case cut c xs of None \<Rightarrow> None | Some (a, b) \<Rightarrow> Some (x # a, b)))"

definition cut_prefix :: "string \<Rightarrow> string \<Rightarrow> string option" where
  "cut_prefix s p = (if has_prefix s p then Some (drop (length p) s) else None)"

text \<open>\<open>s[strings.LastIndex(s, c)+1:]\<close>: what follows the last separator, all of it when there is none.\<close>

definition after_last :: "char \<Rightarrow> string \<Rightarrow> string" where
  "after_last c s = rev (takeWhile (\<lambda>x. x \<noteq> c) (rev s))"

text \<open>\<open>s[:strings.LastIndex(s, c)]\<close>, \<open>None\<close> when the separator does not occur.\<close>

definition before_last :: "char \<Rightarrow> string \<Rightarrow> string option" where
  "before_last c s =
     (if c \<in> set s then Some (rev (drop 1 (dropWhile (\<lambda>x. x \<noteq> c) (rev s)))) else None)"

fun split_on :: "char \<Rightarrow> string \<Rightarrow> string list" where
  "split_on c [] = [[]]"
| "split_on c (x # xs) =
     (case split_on c xs of
        [] \<Rightarrow> [[x]]
      | p # ps \<Rightarrow> (if x = c then [] # p # ps else (x # p) # ps))"

lemma split_on_nonempty [simp]: "split_on c s \<noteq> []"
  by (induction s) (auto split: list.splits)

fun join :: "string \<Rightarrow> string list \<Rightarrow> string" where
  "join sep [] = []"
| "join sep [x] = x"
| "join sep (x # y # ys) = x @ sep @ join sep (y # ys)"

lemma has_prefix_iff: "has_prefix s p \<longleftrightarrow> (\<exists>r. s = p @ r)"
  by (induction s p rule: has_prefix.induct) auto

lemma has_prefix_append [simp]: "has_prefix (p @ r) p"
  by (simp add: has_prefix_iff)

lemma cut_prefix_append [simp]: "cut_prefix (p @ r) p = Some r"
  by (simp add: cut_prefix_def)

lemma cut_prefix_SomeD: "cut_prefix s p = Some r \<Longrightarrow> s = p @ r"
  by (auto simp: cut_prefix_def has_prefix_iff split: if_splits)

lemma cut_SomeD: "cut c s = Some (a, b) \<Longrightarrow> s = a @ c # b \<and> c \<notin> set a"
  by (induction s arbitrary: a b) (auto split: if_splits option.splits)

lemma lower_char_idem [simp]: "lower_char (lower_char c) = lower_char c"
proof (cases "65 \<le> (of_char c :: nat) \<and> (of_char c :: nat) \<le> 90")
  case True
  then have "(of_char (lower_char c) :: nat) = of_char c + 32"
    by (auto simp: lower_char_def)
  with True show ?thesis by (simp add: lower_char_def)
next
  case False
  then show ?thesis by (auto simp: lower_char_def)
qed

lemma to_lower_idem [simp]: "to_lower (to_lower s) = to_lower s"
  by (simp add: to_lower_def o_def)

lemma to_lower_Nil [simp]: "to_lower s = [] \<longleftrightarrow> s = []"
  by (simp add: to_lower_def)

lemma equal_fold_refl [simp]: "equal_fold s s"
  by (simp add: equal_fold_def)

lemma trim_space_idem [simp]: "trim_space (trim_space v) = trim_space v"
proof (cases "dropWhile is_space v")
  case (Cons d ds)
  then have d: "\<not> is_space d" by (metis hd_dropWhile list.distinct(1) list.sel(1))
  then have "dropWhile is_space (rev (d # ds)) = dropWhile is_space (rev ds) @ [d]"
    by (induction ds rule: rev_induct) auto
  with Cons d show ?thesis
    by (simp add: trim_space_def) (metis dropWhile_idem)
next
  case Nil
  then have "trim_space v = []" unfolding trim_space_def by (simp only: rev.simps dropWhile.simps)
  moreover have "trim_space [] = []" by (simp add: trim_space_def)
  ultimately show ?thesis by simp
qed

section \<open>Package unicode/utf8\<close>

definition cont_byte :: "nat \<Rightarrow> nat \<Rightarrow> nat \<Rightarrow> bool" where
  "cont_byte lo hi b \<longleftrightarrow> lo \<le> b \<and> b \<le> hi"

text \<open>
  The length of the encoding at the head of a byte list, \<open>None\<close> where it is not the start of a
  well-formed one (\<open>DecodeRuneInString\<close> then reports one invalid byte). The ranges of the second
  byte are those of the accept table: no overlong forms, no surrogates, nothing above U+10FFFF.
\<close>

definition rune_len :: "nat list \<Rightarrow> nat option" where
  "rune_len bs =
     (case bs of
        [] \<Rightarrow> None
      | b0 # r \<Rightarrow>
          if b0 < 128 then Some 1
          else if cont_byte 194 223 b0 then
            (case r of b1 # _ \<Rightarrow> if cont_byte 128 191 b1 then Some 2 else None | _ \<Rightarrow> None)
          else if cont_byte 224 239 b0 then
            (case r of b1 # b2 # _ \<Rightarrow>
               if cont_byte (if b0 = 224 then 160 else 128) (if b0 = 237 then 159 else 191) b1
                  \<and> cont_byte 128 191 b2 then Some 3 else None
             | _ \<Rightarrow> None)
          else if cont_byte 240 244 b0 then
            (case r of b1 # b2 # b3 # _ \<Rightarrow>
               if cont_byte (if b0 = 240 then 144 else 128) (if b0 = 244 then 143 else 191) b1
                  \<and> cont_byte 128 191 b2 \<and> cont_byte 128 191 b3 then Some 4 else None
             | _ \<Rightarrow> None)
          else None)"

lemma rune_len_pos: "rune_len bs = Some n \<Longrightarrow> 0 < n"
  by (auto simp: rune_len_def split: list.splits if_splits)

text \<open>One entry per rune decoded: \<open>True\<close> for a well-formed one, \<open>False\<close> for an invalid byte.\<close>

function runes :: "nat list \<Rightarrow> bool list" where
  "runes [] = []"
| "runes (b # bs) =
     (case rune_len (b # bs) of
        None \<Rightarrow> False # runes bs
      | Some n \<Rightarrow> True # runes (drop n (b # bs)))"
  by pat_completeness auto
termination
  by (relation "measure length") (auto dest: rune_len_pos)

definition bytes :: "string \<Rightarrow> nat list" where
  "bytes s = map of_char s"

definition valid_utf8 :: "string \<Rightarrow> bool" where
  "valid_utf8 s \<longleftrightarrow> list_all id (runes (bytes s))"

definition rune_count :: "string \<Rightarrow> nat" where
  "rune_count s = length (runes (bytes s))"

lemma length_runes_le: "length (runes bs) \<le> length bs"
proof (induction bs rule: runes.induct)
  case (2 b bs)
  show ?case
  proof (cases "rune_len (b # bs)")
    case None
    with 2 show ?thesis by simp
  next
    case (Some n)
    with 2(2) have "length (runes (drop n (b # bs))) \<le> length (b # bs) - n"
      by simp
    with rune_len_pos [OF Some] Some show ?thesis by auto
  qed
qed simp

lemma rune_count_le_length: "rune_count s \<le> length s"
  using length_runes_le [of "bytes s"] by (simp add: rune_count_def bytes_def)

section \<open>Package strconv and machine integers\<close>

definition is_digit :: "char \<Rightarrow> bool" where
  "is_digit c \<longleftrightarrow> 48 \<le> (of_char c :: nat) \<and> (of_char c :: nat) \<le> 57"

definition digit_val :: "char \<Rightarrow> int" where
  "digit_val c = int (of_char c - (48::nat))"

definition parse_digits :: "string \<Rightarrow> int option" where
  "parse_digits s =
     (if s \<noteq> [] \<and> list_all is_digit s then Some (foldl (\<lambda>n c. 10 * n + digit_val c) 0 s) else None)"

definition max_int64 :: int where "max_int64 = 9223372036854775807"

definition in_int64 :: "int \<Rightarrow> bool" where
  "in_int64 n \<longleftrightarrow> - max_int64 - 1 \<le> n \<and> n \<le> max_int64"

text \<open>\<open>strconv.ParseInt(s, 10, 64)\<close> (and \<open>Atoi\<close>, \<open>int\<close> being 64 bits wide): an optional sign, digits, range.\<close>

definition parse_int64 :: "string \<Rightarrow> int option" where
  "parse_int64 s =
     (case (case s of
              [] \<Rightarrow> None
            | c # r \<Rightarrow> if c = CHR ''-'' then map_option uminus (parse_digits r)
                      else if c = CHR ''+'' then parse_digits r
                      else parse_digits s) of
        None \<Rightarrow> None
      | Some n \<Rightarrow> if in_int64 n then Some n else None)"

lemma parse_int64_range: "parse_int64 s = Some n \<Longrightarrow> in_int64 n"
  by (auto simp: parse_int64_def split: option.splits if_splits)

text \<open>A Go \<open>int64\<close> operation wraps around: the signed reading of the 64-bit word.\<close>

definition wrap64 :: "int \<Rightarrow> int" where
  "wrap64 n = sint (word_of_int n :: 64 word)"

lemma wrap64_id: "in_int64 n \<Longrightarrow> wrap64 n = n"
  by (auto simp: wrap64_def in_int64_def max_int64_def signed_take_bit_int_eq_self sint_sbintrunc')

text \<open>\<open>strconv.FormatInt\<close>.\<close>

fun nat_digits :: "nat \<Rightarrow> string" where
  "nat_digits n = (if n < 10 then [char_of (48 + n)] else nat_digits (n div 10) @ [char_of (48 + n mod 10)])"

declare nat_digits.simps [simp del]

definition itoa :: "int \<Rightarrow> string" where
  "itoa n = (if n < 0 then CHR ''-'' # nat_digits (nat (- n)) else nat_digits (nat n))"

section \<open>Lists and options\<close>

definition or_else :: "'a option \<Rightarrow> 'a \<Rightarrow> 'a" where
  "or_else x d = (case x of None \<Rightarrow> d | Some v \<Rightarrow> v)"

lemma or_else_simps [simp]: "or_else None d = d" "or_else (Some v) d = v"
  by (simp_all add: or_else_def)

text \<open>Sequential composition of results that may be errors: Go's \<open>if err != nil { return err }\<close>.\<close>

fun bind_sum :: "'e + 'a \<Rightarrow> ('a \<Rightarrow> 'e + 'b) \<Rightarrow> 'e + 'b" where
  "bind_sum (Inl e) f = Inl e"
| "bind_sum (Inr a) f = f a"

lemma bind_sum_Inr_iff: "bind_sum r f = Inr b \<longleftrightarrow> (\<exists>a. r = Inr a \<and> f a = Inr b)"
  by (cases r) auto

lemma bind_sum_InrE:
  assumes "bind_sum r f = Inr b"
  obtains a where "r = Inr a" and "f a = Inr b"
  using assms by (auto simp: bind_sum_Inr_iff)

text \<open>A check that only guards what follows.\<close>

definition ensure :: "bool \<Rightarrow> 'e \<Rightarrow> 'e + unit" where
  "ensure b e = (if b then Inr () else Inl e)"

lemma ensure_Inr [simp]: "ensure b e = Inr u \<longleftrightarrow> b"
  by (simp add: ensure_def)

lemma ensure_True [simp]: "ensure True e = Inr ()"
  by (simp add: ensure_def)

lemma ensure_False [simp]: "ensure False e = Inl e"
  by (simp add: ensure_def)

text \<open>A Go loop over a slice whose body may return an error.\<close>

fun map_sum_list :: "('a \<Rightarrow> 'e + 'b) \<Rightarrow> 'a list \<Rightarrow> 'e + 'b list" where
  "map_sum_list f [] = Inr []"
| "map_sum_list f (x # xs) =
     bind_sum (f x) (\<lambda>y. bind_sum (map_sum_list f xs) (\<lambda>ys. Inr (y # ys)))"

lemma map_sum_list_Inr_iff:
  "map_sum_list f xs = Inr ys \<longleftrightarrow> list_all2 (\<lambda>x y. f x = Inr y) xs ys"
proof (induction xs arbitrary: ys)
  case Nil
  show ?case by (cases ys) auto
next
  case (Cons x xs)
  then show ?case by (cases ys) (auto simp: bind_sum_Inr_iff)
qed

lemma map_sum_list_length: "map_sum_list f xs = Inr ys \<Longrightarrow> length ys = length xs"
  by (auto simp: map_sum_list_Inr_iff dest: list_all2_lengthD)

lemma list_all2_member: "list_all2 P xs ys \<Longrightarrow> y \<in> set ys \<Longrightarrow> \<exists>x\<in>set xs. P x y"
  by (induction rule: list_all2_induct) auto

lemma map_sum_list_all: "map_sum_list f xs = Inr ys \<Longrightarrow> x \<in> set xs \<Longrightarrow> \<exists>y. f x = Inr y"
  by (induction xs arbitrary: ys) (auto simp: bind_sum_Inr_iff)

lemma trim_right_last: "trim_right c s \<noteq> [] \<Longrightarrow> last (trim_right c s) \<noteq> c"
  using hd_dropWhile [of "\<lambda>x. x = c" "rev s"] by (simp add: trim_right_def last_rev)

end
