(* ===== verification/Json.thy ===== *)
theory Json
  imports GoBase
begin

text \<open>
  JSON as the server reads it through encoding/json. A \<open>json.RawMessage\<close> is modelled by its
  abstract syntax: the members of an object stay in the order of the text, duplicates included,
  and a number is its literal (\<open>UseNumber\<close> keeps it so). An absent message is \<open>JNull\<close>, which
  every reader of the code treats the same way (\<open>isNullArg\<close>).
\<close>

datatype json =
    JNull
  | JBool bool
  | JNum string
  | JStr string
  | JArr "json list"
  | JObj "(string \<times> json) list"

type_synonym raw = json
type_synonym obj = "(string \<times> json) list"

text \<open>A Go map keeps the last of two members with the same key.\<close>

definition lookup :: "obj \<Rightarrow> string \<Rightarrow> json option" where
  "lookup kvs k = map_of (rev kvs) k"

definition present :: "obj \<Rightarrow> string \<Rightarrow> bool" where
  "present kvs k \<longleftrightarrow> lookup kvs k \<noteq> None"

lemma lookup_Nil [simp]: "lookup [] k = None"
  by (simp add: lookup_def)

lemma lookup_snoc [simp]: "lookup (kvs @ [(k, v)]) k' = (if k = k' then Some v else lookup kvs k')"
  by (simp add: lookup_def)

lemma lookup_Cons: "lookup ((k, v) # kvs) k' =
    (case lookup kvs k' of Some w \<Rightarrow> Some w | None \<Rightarrow> (if k = k' then Some v else None))"
  by (simp add: lookup_def map_add_def split: option.splits)

lemma lookup_filter_neq: "k \<noteq> r \<Longrightarrow> lookup (filter (\<lambda>p. fst p \<noteq> r) kvs) k = lookup kvs k"
  by (induction kvs) (auto simp: lookup_Cons split: option.splits)

text \<open>\<open>decodeObject\<close>: an object, or a refusal for everything else, \<open>null\<close> and an absent value included.\<close>

definition isNullArg :: "raw \<Rightarrow> bool" where
  "isNullArg r \<longleftrightarrow> r = JNull"

fun decodeObject :: "raw \<Rightarrow> obj option" where
  "decodeObject (JObj kvs) = Some kvs"
| "decodeObject _ = None"

lemma decodeObject_Some_iff [simp]: "decodeObject r = Some kvs \<longleftrightarrow> r = JObj kvs"
  by (cases r) auto

text \<open>
  Decoding into a Go struct matches a member by its exact name or, failing that, by a
  case-insensitive one; of several matches the last is kept. \<open>struct_field\<close> is a one-field struct
  of type \<open>json.RawMessage\<close>, \<open>None\<close> where the text is not an object.
\<close>

definition struct_field :: "string \<Rightarrow> raw \<Rightarrow> json option" where
  "struct_field name r =
     (case r of
        JObj kvs \<Rightarrow> map_option snd (find (\<lambda>p. equal_fold (fst p) name) (rev kvs))
      | _ \<Rightarrow> None)"

section \<open>Typed reads of one argument\<close>

text \<open>\<open>optionalString\<close>: nil unless the member is a non-empty string.\<close>

definition optionalString :: "obj \<Rightarrow> string \<Rightarrow> string option" where
  "optionalString kvs k =
     (case lookup kvs k of Some (JStr s) \<Rightarrow> if s = [] then None else Some s | _ \<Rightarrow> None)"

text \<open>The two-value type assertion \<open>s, _ := obj[k].(string)\<close>: the empty string when it fails.\<close>

definition string_or_empty :: "obj \<Rightarrow> string \<Rightarrow> string" where
  "string_or_empty kvs k = (case lookup kvs k of Some (JStr s) \<Rightarrow> s | _ \<Rightarrow> [])"

definition object_or_empty :: "obj \<Rightarrow> string \<Rightarrow> obj" where
  "object_or_empty kvs k = (case lookup kvs k of Some (JObj o') \<Rightarrow> o' | _ \<Rightarrow> [])"

text \<open>\<open>intValue\<close>: a number literal that \<open>ParseInt\<close> reads.\<close>

definition intValue :: "json \<Rightarrow> int option" where
  "intValue v = (case v of JNum s \<Rightarrow> parse_int64 s | _ \<Rightarrow> None)"

lemma intValue_range: "intValue v = Some n \<Longrightarrow> in_int64 n"
  by (auto simp: intValue_def split: json.splits dest: parse_int64_range)

lemma optionalString_Some_iff:
  "optionalString kvs k = Some s \<longleftrightarrow> lookup kvs k = Some (JStr s) \<and> s \<noteq> []"
  by (auto simp: optionalString_def split: option.splits json.splits)

lemma optionalString_string_or_empty:
  "optionalString kvs k = Some s \<Longrightarrow> string_or_empty kvs k = s \<and> s \<noteq> []"
  by (auto simp: optionalString_Some_iff string_or_empty_def)

lemma optionalString_nonempty [dest]: "optionalString kvs k = Some s \<Longrightarrow> s \<noteq> []"
  by (simp add: optionalString_Some_iff)

lemma string_or_empty_optionalString:
  "string_or_empty kvs k = s \<Longrightarrow> s \<noteq> [] \<Longrightarrow> optionalString kvs k = Some s"
  by (auto simp: optionalString_def string_or_empty_def split: option.splits json.splits)

lemma optionalString_iff:
  "optionalString kvs k = Some s \<longleftrightarrow> string_or_empty kvs k = s \<and> s \<noteq> []"
  by (auto simp: optionalString_def string_or_empty_def split: option.splits json.splits)

section \<open>Decoded values\<close>

text \<open>
  Decoding into \<open>any\<close> turns every object of the tree into a map: of duplicate members the last
  survives. \<open>dedup\<close> keeps the last occurrence of each key.
\<close>

fun dedup :: "obj \<Rightarrow> obj" where
  "dedup [] = []"
| "dedup ((k, v) # kvs) = (if k \<in> set (map fst kvs) then dedup kvs else (k, v) # dedup kvs)"

fun decode_any :: "json \<Rightarrow> json" where
  "decode_any (JArr xs) = JArr (map decode_any xs)"
| "decode_any (JObj kvs) = JObj (dedup (map (\<lambda>(k, v). (k, decode_any v)) kvs))"
| "decode_any v = v"

text \<open>The string leaves of a value, and all strings that occur in it, keys included.\<close>

fun leaves :: "json \<Rightarrow> string set" where
  "leaves (JStr s) = {s}"
| "leaves (JNum s) = {s}"
| "leaves (JArr xs) = \<Union> (set (map leaves xs))"
| "leaves (JObj kvs) = \<Union> (set (map (\<lambda>(k, v). leaves v) kvs))"
| "leaves _ = {}"

lemma set_dedup_subset: "set (dedup kvs) \<subseteq> set kvs"
  by (induction kvs rule: dedup.induct) auto

lemma fst_set_dedup: "fst ` set (dedup kvs) = fst ` set kvs"
proof (induction kvs rule: dedup.induct)
  case (2 k v kvs)
  then show ?case by (cases "k \<in> fst ` set kvs") (auto simp: insert_absorb)
qed simp

lemma distinct_dedup: "distinct (map fst (dedup kvs))"
  by (induction kvs rule: dedup.induct) (auto simp: fst_set_dedup)

lemma dedup_distinct: "distinct (map fst kvs) \<Longrightarrow> dedup kvs = kvs"
  by (induction kvs rule: dedup.induct) (auto simp: image_iff)

lemma lookup_None_iff: "lookup kvs k = None \<longleftrightarrow> k \<notin> fst ` set kvs"
  by (simp add: lookup_def map_of_eq_None_iff)

lemma lookup_dedup [simp]: "lookup (dedup kvs) k = lookup kvs k"
proof (induction kvs rule: dedup.induct)
  case (2 k' v kvs)
  then show ?case
    using lookup_None_iff [of kvs k'] by (force simp: lookup_Cons split: option.splits)
qed simp

section \<open>The canonical form of a value\<close>

text \<open>
  A Go map read back from \<open>json.Marshal\<close>, which writes the keys of a map in order: \<open>canon\<close> is the
  value itself, as the model represents it. Two JSON texts of one value have the same \<open>canon\<close>.
\<close>

fun canon :: "json \<Rightarrow> json" where
  "canon (JArr xs) = JArr (map canon xs)"
| "canon (JObj kvs) = JObj (sort_key fst (dedup (map (\<lambda>(k, v). (k, canon v)) kvs)))"
| "canon v = v"

definition canon_obj :: "obj \<Rightarrow> obj" where
  "canon_obj kvs = sort_key fst (dedup (map (\<lambda>(k, v). (k, canon v)) kvs))"

lemma canon_JObj: "canon (JObj kvs) = JObj (canon_obj kvs)"
  by (simp add: canon_obj_def)

lemma distinct_sort_key_fst: "distinct (map fst (sort_key fst kvs)) = distinct (map fst kvs)"
  by (simp add: distinct_map)

lemma lookup_sort_key: "distinct (map fst kvs) \<Longrightarrow> lookup (sort_key fst kvs) k = lookup kvs k"
proof -
  assume d: "distinct (map fst kvs)"
  then have "distinct (map fst (rev kvs))" "distinct (map fst (rev (sort_key fst kvs)))"
    by (simp_all add: rev_map [symmetric] distinct_sort_key_fst)
  then have "map_of (rev (sort_key fst kvs)) = map_of (rev kvs)"
    by (simp add: map_of_inject_set)
  then show ?thesis by (simp add: lookup_def)
qed

lemma lookup_map_snd: "lookup (map (\<lambda>(k, v). (k, f v)) kvs) k = map_option f (lookup kvs k)"
  by (induction kvs) (auto simp: lookup_Cons split: option.splits)

lemma lookup_canon_obj [simp]: "lookup (canon_obj kvs) k = map_option canon (lookup kvs k)"
  by (simp add: canon_obj_def lookup_sort_key distinct_dedup lookup_map_snd)

lemma sorted_key_canon_obj: "sorted (map fst (canon_obj kvs)) \<and> distinct (map fst (canon_obj kvs))"
  by (simp add: canon_obj_def distinct_sort_key_fst distinct_dedup)

lemma canon_idem [simp]: "canon (canon v) = canon v"
proof (induction v rule: canon.induct)
  case (2 kvs)
  have "canon w = w" if "(k, w) \<in> set (canon_obj kvs)" for k w
  proof -
    have "(k, w) \<in> set (map (\<lambda>(k, v). (k, canon v)) kvs)"
      using that set_dedup_subset by (fastforce simp: canon_obj_def)
    with 2 show ?thesis by fastforce
  qed
  then have "map (\<lambda>(k, v). (k, canon v)) (canon_obj kvs) = canon_obj kvs"
    by (intro map_idI) auto
  then show ?case
    unfolding canon_JObj
    by (simp add: canon_obj_def [of "canon_obj kvs"] dedup_distinct sorted_key_canon_obj sort_key_id_if_sorted)
qed auto

lemma canon_obj_idem [simp]: "canon_obj (canon_obj kvs) = canon_obj kvs"
  using canon_idem [of "JObj kvs"] by (simp only: canon_JObj json.inject)

lemma canon_simps [simp]:
  "canon v = JStr s \<longleftrightarrow> v = JStr s"
  "canon v = JNull \<longleftrightarrow> v = JNull"
  "canon v = JObj kvs \<longleftrightarrow> (\<exists>kvs'. v = JObj kvs' \<and> kvs = canon_obj kvs')"
  by (cases v; auto simp: canon_obj_def)+

lemma string_or_empty_canon [simp]: "string_or_empty (canon_obj kvs) k = string_or_empty kvs k"
  by (auto simp: string_or_empty_def split: option.splits json.splits)

lemma object_or_empty_canon [simp]: "object_or_empty (canon_obj kvs) k = canon_obj (object_or_empty kvs k)"
  by (auto simp: object_or_empty_def canon_obj_def [of "[]"] split: option.splits json.splits)

lemma present_canon [simp]: "present (canon_obj kvs) k = present kvs k"
  by (simp add: present_def)

end
