(* ===== verification/K8sTypes.thy ===== *)
theory K8sTypes
  imports Json
begin

text \<open>
  The data that crosses the kubernetes boundary: internal/k8s types.go, service.go and the request
  and result types beside each method, plus the \<open>Pair\<close> of internal/approvalgate. A Go pointer
  that may be nil is an option, an untyped value (\<open>any\<close>, \<open>map[string]any\<close>) is a \<open>json\<close>.
\<close>

section \<open>Errors\<close>

text \<open>
  The \<open>error\<close> values the code tells apart: plain text, an integration that is not configured (the
  \<open>Unavailable() bool\<close> every package's error type answers), and a wrapped error (\<open>%w\<close>).
  Message texts are kept to their leading clause.
\<close>

datatype go_err =
    ErrText string
  | ErrUnavailable string
  | ErrWrap string go_err
  | ErrConsumed

fun err_text :: "go_err \<Rightarrow> string" where
  "err_text (ErrText s) = s"
| "err_text (ErrUnavailable s) = s"
| "err_text (ErrWrap p e) = p @ err_text e"
| "err_text ErrConsumed = ''approval has already been spent''"

text \<open>\<open>errors.As(err, &u) && u.Unavailable()\<close>: the wrap chain is searched.\<close>

fun is_unavailable :: "go_err \<Rightarrow> bool" where
  "is_unavailable (ErrUnavailable _) = True"
| "is_unavailable (ErrWrap _ e) = is_unavailable e"
| "is_unavailable _ = False"

definition apiErrorf :: "string \<Rightarrow> go_err" where
  "apiErrorf s = ErrText (''kubernetes api error: '' @ s)"

definition unavailableErr :: "string \<Rightarrow> go_err" where
  "unavailableErr s = ErrUnavailable (''kubernetes client unavailable: '' @ s)"

section \<open>RBAC pairs\<close>

record rbac_pair =
  Verb :: string
  Resource :: string

abbreviation mk_pair :: "string \<Rightarrow> string \<Rightarrow> rbac_pair" where
  "mk_pair v r \<equiv> \<lparr>Verb = v, Resource = r\<rparr>"

definition pair_string :: "rbac_pair \<Rightarrow> string" where
  "pair_string p = Verb p @ '' on '' @ Resource p"

section \<open>Requests\<close>

record list_query =
  lq_APIVersion :: string
  lq_Kind :: string
  lq_Namespace :: "string option"
  lq_LabelSelector :: "string option"
  lq_FieldSelector :: "string option"
  lq_Limit :: int
  lq_Continue :: string

record watch_query =
  wq_APIVersion :: string
  wq_Kind :: string
  wq_Namespace :: "string option"
  wq_LabelSelector :: "string option"
  wq_FieldSelector :: "string option"
  wq_ResourceVersion :: string
  wq_Seconds :: int

record log_options =
  lo_Container :: "string option"
  lo_TailLines :: "int option"
  lo_Previous :: bool
  lo_Timestamps :: bool
  lo_SinceSeconds :: "int option"

definition no_log_options :: log_options where
  "no_log_options = \<lparr>lo_Container = None, lo_TailLines = None, lo_Previous = False,
     lo_Timestamps = False, lo_SinceSeconds = None\<rparr>"

record resource_ref =
  rr_APIVersion :: string
  rr_Kind :: string
  rr_Namespace :: "string option"
  rr_Name :: string
  rr_Subresource :: string
  rr_Log :: log_options

record create_ref =
  cr_APIVersion :: string
  cr_Kind :: string
  cr_Namespace :: "string option"
  cr_Name :: string
  cr_Manifest :: obj

record update_ref =
  ur_APIVersion :: string
  ur_Kind :: string
  ur_Namespace :: "string option"
  ur_Name :: string
  ur_Subresource :: string
  ur_Manifest :: "obj option"
  ur_Replicas :: "int option"
  ur_ApprovedResourceVersion :: string

record patch_ref =
  pr_APIVersion :: string
  pr_Kind :: string
  pr_Namespace :: "string option"
  pr_Name :: string
  pr_PatchType :: string
  pr_Patch :: raw
  pr_FieldManager :: string
  pr_ApprovedResourceVersion :: string
  pr_ApprovedUID :: string

record delete_ref =
  dr_APIVersion :: string
  dr_Kind :: string
  dr_Namespace :: "string option"
  dr_Name :: string
  dr_GracePeriodSeconds :: "int option"

record delete_collection_ref =
  dc_APIVersion :: string
  dc_Kind :: string
  dc_Namespace :: string
  dc_LabelSelector :: string
  dc_FieldSelector :: string
  dc_GracePeriodSeconds :: "int option"

text \<open>\<open>ExecRef\<close>, \<open>AttachRef\<close> and \<open>PortForwardRef\<close> have the same four fields.\<close>

record pod_ref =
  po_APIVersion :: string
  po_Kind :: string
  po_Namespace :: "string option"
  po_Name :: string

type_synonym exec_ref = pod_ref
type_synonym attach_ref = pod_ref
type_synonym port_forward_ref = pod_ref

record proxy_ref =
  px_APIVersion :: string
  px_Kind :: string
  px_Namespace :: "string option"
  px_Name :: string
  px_Port :: "string option"

section \<open>Results\<close>

record api_resource =
  ar_Group :: string
  ar_Version :: string
  ar_Kind :: string
  ar_Name :: string
  ar_Namespaced :: bool
  ar_ShortNames :: "string list"
  ar_Verbs :: "string list"

record list_column =
  lc_Name :: string
  lc_Type :: string

record list_result =
  lr_Resource :: string
  lr_Namespaced :: bool
  lr_Columns :: "list_column list"
  lr_Rows :: "json list list"
  lr_Continue :: string
  lr_Truncated :: bool
  lr_Remaining :: "int option"

record watch_event =
  we_Type :: string
  we_Object :: obj

record watch_result =
  wr_Resource :: string
  wr_Namespaced :: bool
  wr_Namespace :: string
  wr_Events :: "watch_event list"
  wr_Truncated :: bool

record resource_result =
  rs_Resource :: string
  rs_Namespace :: string
  rs_Object :: "obj option"
  rs_Text :: string

record delete_collection_result =
  dcr_Resource :: string
  dcr_Namespace :: string
  dcr_LabelSelector :: string
  dcr_FieldSelector :: string

record exec_outcome =
  eo_Pod :: string
  eo_Stdout :: string
  eo_Stderr :: string
  eo_ExitCode :: "int option"
  eo_Success :: bool
  eo_StdoutTruncated :: bool
  eo_StderrTruncated :: bool
  eo_TimeLimited :: bool

record attach_outcome =
  ao_Pod :: string
  ao_Stdout :: string
  ao_Stderr :: string
  ao_ReadSeconds :: int
  ao_StdinWritten :: bool
  ao_StdoutTruncated :: bool
  ao_StderrTruncated :: bool

record port_forward_outcome =
  pf_Pod :: string
  pf_Port :: int
  pf_Response :: string
  pf_ResponseEncoding :: string
  pf_ResponseTruncated :: bool
  pf_BytesSent :: int
  pf_ReadSeconds :: int
  pf_TunnelClosed :: bool

record proxy_outcome =
  pxo_Method :: string
  pxo_Verb :: string
  pxo_Path :: string
  pxo_Name :: string
  pxo_Status :: int
  pxo_Body :: string
  pxo_BodyEncoding :: string
  pxo_Truncated :: bool
  pxo_ReadSeconds :: int

section \<open>The gate's own reads\<close>

record target_ref =
  tr_APIVersion :: string
  tr_Kind :: string
  tr_Namespace :: "string option"
  tr_Name :: string
  tr_Subresource :: string
  tr_MetadataOnly :: bool

record target_state =
  ts_ResourceVersion :: string
  ts_UID :: string
  ts_Replicas :: "int option"

record collection_target_ref =
  ct_APIVersion :: string
  ct_Kind :: string
  ct_Namespace :: string
  ct_LabelSelector :: string
  ct_FieldSelector :: string

record collection_target =
  cg_Name :: string
  cg_Namespace :: string
  cg_UID :: string
  cg_ResourceVersion :: string

record collection_target_state =
  cs_ResourceVersion :: string
  cs_Targets :: "collection_target list"

section \<open>The service interface\<close>

text \<open>A call on \<open>k8s.Service\<close>, method and arguments.\<close>

datatype k8s_call =
    CAPIResources
  | CList list_query
  | CWatch watch_query
  | CGet resource_ref
  | CCreate create_ref
  | CUpdate update_ref
  | CPatch patch_ref
  | CDelete delete_ref
  | CDeleteCollection delete_collection_ref
  | CExecInPod string string "string option" "string list"
  | CExec exec_ref "string option" "string list"
  | CAttach attach_ref "string option" "string option" int
  | CPortForward port_forward_ref int string int
  | CProxy proxy_ref string string string string int

text \<open>
  \<open>k8s.Service\<close>: one field per method. A method acts on the world \<open>'w\<close> and returns an error or
  its result.
\<close>

type_synonym ('w, 'a) act = "'w \<Rightarrow> (go_err + 'a) \<times> 'w"

record 'w k8s_service =
  APIResources :: "('w, api_resource list) act"
  ListResources :: "list_query \<Rightarrow> ('w, list_result) act"
  WatchResources :: "watch_query \<Rightarrow> ('w, watch_result) act"
  GetResource :: "resource_ref \<Rightarrow> ('w, resource_result) act"
  CreateResource :: "create_ref \<Rightarrow> ('w, resource_result) act"
  UpdateResource :: "update_ref \<Rightarrow> ('w, resource_result) act"
  PatchResource :: "patch_ref \<Rightarrow> ('w, resource_result) act"
  DeleteResource :: "delete_ref \<Rightarrow> ('w, resource_result) act"
  DeleteCollection :: "delete_collection_ref \<Rightarrow> ('w, delete_collection_result) act"
  ExecInPod :: "string \<Rightarrow> string \<Rightarrow> string option \<Rightarrow> string list \<Rightarrow> ('w, exec_outcome) act"
  ExecResource :: "exec_ref \<Rightarrow> string option \<Rightarrow> string list \<Rightarrow> ('w, exec_outcome) act"
  AttachResource :: "attach_ref \<Rightarrow> string option \<Rightarrow> string option \<Rightarrow> int \<Rightarrow> ('w, attach_outcome) act"
  PortForwardResource :: "port_forward_ref \<Rightarrow> int \<Rightarrow> string \<Rightarrow> int \<Rightarrow> ('w, port_forward_outcome) act"
  ProxyResource :: "proxy_ref \<Rightarrow> string \<Rightarrow> string \<Rightarrow> string \<Rightarrow> string \<Rightarrow> int \<Rightarrow> ('w, proxy_outcome) act"

text \<open>\<open>Unavailable\<close>: every method fails with the configured reason and does nothing else.\<close>

definition NewUnavailable :: "string \<Rightarrow> string" where
  "NewUnavailable reason' = (if reason' = [] then ''kubernetes client is not configured'' else reason')"

definition unavailable_service :: "string \<Rightarrow> 'w k8s_service" where
  "unavailable_service reason' =
     (let e = unavailableErr (NewUnavailable reason') in
      \<lparr>APIResources = Pair (Inl e), ListResources = (\<lambda>_. Pair (Inl e)),
       WatchResources = (\<lambda>_. Pair (Inl e)), GetResource = (\<lambda>_. Pair (Inl e)),
       CreateResource = (\<lambda>_. Pair (Inl e)), UpdateResource = (\<lambda>_. Pair (Inl e)),
       PatchResource = (\<lambda>_. Pair (Inl e)), DeleteResource = (\<lambda>_. Pair (Inl e)),
       DeleteCollection = (\<lambda>_. Pair (Inl e)), ExecInPod = (\<lambda>_ _ _ _. Pair (Inl e)),
       ExecResource = (\<lambda>_ _ _. Pair (Inl e)), AttachResource = (\<lambda>_ _ _ _. Pair (Inl e)),
       PortForwardResource = (\<lambda>_ _ _ _. Pair (Inl e)),
       ProxyResource = (\<lambda>_ _ _ _ _ _. Pair (Inl e))\<rparr>)"

text \<open>\<open>ProxyVerbForMethod\<close>: the verb an HTTP method spends, empty for a method with none.\<close>

definition ProxyVerbForMethod :: "string \<Rightarrow> string" where
  "ProxyVerbForMethod m =
     (let u = to_upper m in
      if u = ''GET'' then ''get'' else if u = ''POST'' then ''create''
      else if u = ''PUT'' then ''update'' else if u = ''PATCH'' then ''patch''
      else if u = ''DELETE'' then ''delete'' else [])"

text \<open>The bounds of internal/k8s the tool layer checks against.\<close>

definition ListDefaultLimit :: int where "ListDefaultLimit = 100"
definition ListMaxLimit :: int where "ListMaxLimit = 500"
definition WatchDefaultSeconds :: int where "WatchDefaultSeconds = 10"
definition WatchMaxSeconds :: int where "WatchMaxSeconds = 60"
definition WatchMaxEvents :: nat where "WatchMaxEvents = 100"
definition AttachDefaultReadSeconds :: int where "AttachDefaultReadSeconds = 5"
definition AttachMaxReadSeconds :: int where "AttachMaxReadSeconds = 30"
definition PortForwardDefaultReadSeconds :: int where "PortForwardDefaultReadSeconds = 5"
definition PortForwardMaxReadSeconds :: int where "PortForwardMaxReadSeconds = 30"
definition ProxyDefaultReadSeconds :: int where "ProxyDefaultReadSeconds = 10"
definition ProxyMaxReadSeconds :: int where "ProxyMaxReadSeconds = 30"
definition ScaleSubresource :: string where "ScaleSubresource = ''scale''"

definition patchTypes :: "string list" where
  "patchTypes = [''merge'', ''strategic'', ''json'', ''apply'']"

definition PatchTypeNames :: "string list" where
  "PatchTypeNames = sort patchTypes"

definition IsPatchType :: "string \<Rightarrow> bool" where
  "IsPatchType name \<longleftrightarrow> name \<in> set patchTypes"

lemma to_upper_idem [simp]: "to_upper (to_upper s) = to_upper s"
proof -
  have "upper_char (upper_char c) = upper_char c" for c
  proof (cases "97 \<le> (of_char c :: nat) \<and> (of_char c :: nat) \<le> 122")
    case True
    then have "(of_char (upper_char c) :: nat) = of_char c - 32"
      by (auto simp: upper_char_def)
    with True show ?thesis by (simp add: upper_char_def) linarith
  next
    case False
    then show ?thesis by (auto simp: upper_char_def)
  qed
  then show ?thesis by (simp add: to_upper_def o_def)
qed

lemma ProxyVerbForMethod_upper [simp]: "ProxyVerbForMethod (to_upper m) = ProxyVerbForMethod m"
  by (simp add: ProxyVerbForMethod_def Let_def)

end
