(* ===== verification/EventLog.thy ===== *)
theory EventLog
  imports GoBase
begin

text \<open>
  internal/eventlog: the record a tool call becomes. The closed string types of the source
  (\<open>Result\<close>, \<open>Reason\<close>, and \<open>approvalgate.Verdict\<close>, which the record carries as text) are datatypes;
  the empty string each may also hold is \<open>None\<close>.
\<close>

record principal =
  Method :: string
  ID :: string

definition Anonymous :: principal where
  "Anonymous = \<lparr>Method = ''none'', ID = []\<rparr>"

definition Unauthenticated :: principal where
  "Unauthenticated = \<lparr>Method = ''unauthenticated'', ID = []\<rparr>"

definition principal_string :: "principal \<Rightarrow> string" where
  "principal_string p =
     (if Method p = [] \<or> Method p = ''none'' then ''anonymous''
      else if Method p = ''unauthenticated'' then ''unauthenticated''
      else Method p @ '':'' @ ID p)"

record log_target =
  t_apiVersion :: string
  t_kind :: string
  t_namespace :: string
  t_name :: string

definition no_target :: log_target where
  "no_target = \<lparr>t_apiVersion = [], t_kind = [], t_namespace = [], t_name = []\<rparr>"

datatype result_kind = ResultSuccess | ResultRefused | ResultError

definition Results :: "result_kind list" where
  "Results = [ResultSuccess, ResultRefused, ResultError]"

datatype reason =
    ReasonAuthFailed | ReasonInvalidInput | ReasonUnconfigured | ReasonGateRejected
  | ReasonGateExpired | ReasonGateTimeout | ReasonGateUnreachable | ReasonGateUnconfigured

definition Reasons :: "reason list" where
  "Reasons = [ReasonAuthFailed, ReasonInvalidInput, ReasonUnconfigured, ReasonGateRejected,
     ReasonGateExpired, ReasonGateTimeout, ReasonGateUnreachable, ReasonGateUnconfigured]"

lemma Results_complete [simp]: "r \<in> set Results"
  by (cases r) (simp_all add: Results_def)

lemma set_Results: "set Results = UNIV"
  by auto

lemma Reasons_complete [simp]: "r \<in> set Reasons"
  by (cases r) (simp_all add: Reasons_def)

lemma set_Reasons: "set Reasons = UNIV"
  by auto

datatype verdict =
    VerdictApproved | VerdictRejected | VerdictExpired | VerdictTimeout
  | VerdictUnreachable | VerdictUnconfigured

definition Verdicts :: "verdict list" where
  "Verdicts = [VerdictApproved, VerdictRejected, VerdictExpired,
     VerdictTimeout, VerdictUnreachable, VerdictUnconfigured]"

lemma Verdicts_complete [simp]: "v \<in> set Verdicts"
  by (cases v) (simp_all add: Verdicts_def)

lemma set_Verdicts: "set Verdicts = UNIV"
  by auto

record gate_info =
  g_RequestID :: string
  g_Decision :: "verdict option"
  g_AutoApproved :: bool

definition no_gate :: gate_info where
  "no_gate = \<lparr>g_RequestID = [], g_Decision = None, g_AutoApproved = False\<rparr>"

record event_record =
  Tool :: string
  Principal :: principal
  Target :: log_target
  Result :: result_kind
  Reason :: "reason option"
  Gate :: gate_info
  Duration :: int
  GateWait :: int

text \<open>\<open>Attrs\<close>: the key/value pairs of a record line, groups flattened to their path, in the order of the source.\<close>

datatype attr_value = AText string | AResult result_kind | AReason "reason option"
  | AVerdict "verdict option" | ABool bool

definition Attrs :: "event_record \<Rightarrow> (string \<times> attr_value) list" where
  "Attrs r =
     [(''tool'', AText (Tool r)),
      (''principal'', AText (principal_string (Principal r))),
      (''target.apiVersion'', AText (t_apiVersion (Target r))),
      (''target.kind'', AText (t_kind (Target r))),
      (''target.namespace'', AText (t_namespace (Target r))),
      (''target.name'', AText (t_name (Target r))),
      (''result'', AResult (Result r)),
      (''reason'', AReason (Reason r)),
      (''gate.request_id'', AText (g_RequestID (Gate r))),
      (''gate.decision'', AVerdict (g_Decision (Gate r))),
      (''gate.auto_approved'', ABool (g_AutoApproved (Gate r)))]"

text \<open>
  A sink is a state transformer; \<open>Fanout\<close> hands the record to each sink in order.
\<close>

type_synonym 's sink = "event_record \<Rightarrow> 's \<Rightarrow> 's"

fun Fanout :: "'s sink list \<Rightarrow> 's sink" where
  "Fanout [] r s = s"
| "Fanout (k # ks) r s = Fanout ks r (k r s)"

lemma Fanout_append: "Fanout (ks @ ls) r s = Fanout ls r (Fanout ks r s)"
  by (induction ks arbitrary: s) auto

end
