(* ===== verification/Toolscope.thy ===== *)
theory Toolscope
  imports GoBase
begin

text \<open>
  internal/toolscope: what the authentication layer tells the dispatcher about a request, carried
  in the request context. A context value is a field; \<open>None\<close> (or the empty value the accessors
  give back) is a key that was never set.
\<close>

text \<open>\<open>TokenCap\<close>: a nil \<open>ExcludeRepositories\<close> or \<open>Permissions\<close> is \<open>None\<close>; the permission map is an association list.\<close>

record token_cap =
  Repositories :: "string list"
  ExcludeRepositories :: "string list option"
  Permissions :: "(string \<times> string) list option"

record scope_ctx =
  ctx_tools :: "string list option"
  ctx_caps :: "token_cap list"
  ctx_self :: string

definition background :: scope_ctx where
  "background = \<lparr>ctx_tools = None, ctx_caps = [], ctx_self = []\<rparr>"

definition With :: "'a scope_ctx_scheme \<Rightarrow> string list \<Rightarrow> 'a scope_ctx_scheme" where
  "With c tools = c\<lparr>ctx_tools := Some tools\<rparr>"

definition Restricted :: "'a scope_ctx_scheme \<Rightarrow> bool" where
  "Restricted c \<longleftrightarrow> ctx_tools c \<noteq> None"

definition Allows :: "'a scope_ctx_scheme \<Rightarrow> string \<Rightarrow> bool" where
  "Allows c tool = (case ctx_tools c of None \<Rightarrow> True | Some set' \<Rightarrow> tool \<in> set set')"

definition WithTokenCaps :: "'a scope_ctx_scheme \<Rightarrow> token_cap list \<Rightarrow> 'a scope_ctx_scheme" where
  "WithTokenCaps c caps = (if caps = [] then c else c\<lparr>ctx_caps := caps\<rparr>)"

definition WithTokenCap :: "'a scope_ctx_scheme \<Rightarrow> token_cap option \<Rightarrow> 'a scope_ctx_scheme" where
  "WithTokenCap c cap = (case cap of None \<Rightarrow> c | Some t \<Rightarrow> WithTokenCaps c [t])"

definition TokenCapsFrom :: "'a scope_ctx_scheme \<Rightarrow> token_cap list" where
  "TokenCapsFrom c = ctx_caps c"

definition WithSelfRepository :: "'a scope_ctx_scheme \<Rightarrow> string \<Rightarrow> 'a scope_ctx_scheme" where
  "WithSelfRepository c name = (if name = [] then c else c\<lparr>ctx_self := name\<rparr>)"

definition SelfRepository :: "'a scope_ctx_scheme \<Rightarrow> string" where
  "SelfRepository c = ctx_self c"

lemma Allows_With [simp]: "Allows (With c tools) t \<longleftrightarrow> t \<in> set tools"
  by (simp add: Allows_def With_def)

lemma Allows_unrestricted [simp]: "\<not> Restricted c \<Longrightarrow> Allows c t"
  by (simp add: Allows_def Restricted_def)

lemma Restricted_With [simp]: "Restricted (With c tools)"
  by (simp add: Restricted_def With_def)

lemma Allows_WithTokenCaps [simp]: "Allows (WithTokenCaps c caps) t = Allows c t"
  by (simp add: Allows_def WithTokenCaps_def)

lemma Allows_WithSelfRepository [simp]: "Allows (WithSelfRepository c n) t = Allows c t"
  by (simp add: Allows_def WithSelfRepository_def)

lemma TokenCapsFrom_WithSelfRepository [simp]:
  "TokenCapsFrom (WithSelfRepository c n) = TokenCapsFrom c"
  by (simp add: TokenCapsFrom_def WithSelfRepository_def)

lemma SelfRepository_WithSelfRepository:
  "SelfRepository (WithSelfRepository c n) = (if n = [] then SelfRepository c else n)"
  by (simp add: SelfRepository_def WithSelfRepository_def)

end
