(* ===== verification/World.thy ===== *)
theory World
  imports K8sTypes EventLog Toolscope
begin

text \<open>
  What a tool call can observe and change. Everything outside the process is reached through a
  call that is appended to the \<open>trace\<close>; what it answers is an arbitrary function of the whole world
  (history included), a parameter of the model. The clock counts nanoseconds.

  Three pieces of Go heap state are part of the world because the code mutates them through
  pointers: the \<open>used\<close> flag of an approval (an approval is identified by its cell, the list
  \<open>spent\<close> holds the cells whose flag is set), the \<open>callNote\<close> of the call in progress, and the two
  variables \<open>ref\<close> and \<open>approved\<close> that the \<open>Describe\<close> closure of \<open>authorize\<close> captures.
\<close>

section \<open>The approval screen\<close>

text \<open>
  The text an operator approves, line by line (\<open>approvalContext\<close>, \<open>collectionApprovalContext\<close>).
\<close>

datatype ctx_line =
    LTool string
  | LRbac "rbac_pair list"
  | LRequestedAt nat
  | LTarget target_ref
  | LResourceVersion string
  | LReplicas "int option" int
  | LProxy string string "string option" "string option"
  | LArgsNone
  | LArgs raw
  | LArgsMasked json
  | LArgsWithheld
  | LCollection string string string
  | LLabelSelector string
  | LFieldSelector string
  | LCount nat
  | LName string string
  | LMore nat nat

text \<open>\<open>createRequestBody\<close>: what is posted to the approval backend.\<close>

record approval_request =
  ExternalID :: string
  Context :: "ctx_line list"
  RequesterName :: string
  TimeoutSeconds :: int
  SessionID :: string
  ReasonText :: string

section \<open>Calls that leave the process\<close>

text \<open>The calls on the integrations beside kubernetes, one constructor per service method.\<close>

record commit_status_input =
  cs_Repository :: string
  cs_SHA :: string
  cs_State :: string
  cs_Context :: string
  cs_Description :: string
  cs_TargetURL :: string

record create_session =
  sn_Name :: string
  sn_WorkloadType :: string
  sn_Model :: string
  sn_Plugins :: "string list"

record drop_request =
  dq_ValidMinutes :: int
  dq_MaxDays :: int
  dq_Label :: string

datatype ext_call =
    XInstallationToken "string list option" "obj option"
  | XCommitStatus commit_status_input
  | XAwsConfig
  | XGrafanaToken
  | XSearch string "string option" "int option"
  | XPutDocument string "string option" obj
  | XDeleteDocument string string
  | XListSessions
  | XReadSession string int
  | XWriteSession string string
  | XCreateSession create_session
  | XDeleteSession string
  | XNotify string string string
  | XIssueToken drop_request

datatype effect =
    K8sCall k8s_call
  | ExtCall ext_call
  | GatePost approval_request
  | GatePoll string
  | GateRead target_ref
  | GateList collection_target_ref
  | Emitted event_record

text \<open>The calls a tool's own handler makes, as opposed to the gate's and the record's.\<close>

fun tool_effect :: "effect \<Rightarrow> bool" where
  "tool_effect (K8sCall _) = True"
| "tool_effect (ExtCall _) = True"
| "tool_effect _ = False"

record call_note =
  n_reason :: "reason option"
  n_gate :: gate_info
  n_gateWait :: int

definition fresh_note :: call_note where
  "fresh_note = \<lparr>n_reason = None, n_gate = no_gate, n_gateWait = 0\<rparr>"

record world =
  trace :: "effect list"
  clock :: nat
  spent :: "nat list"
  next_cell :: nat
  callnote :: call_note
  captured :: "target_ref option \<times> target_state option"

definition init_world :: world where
  "init_world = \<lparr>trace = [], clock = 0, spent = [], next_cell = 0, callnote = fresh_note, captured = (None, None)\<rparr>"

definition log_effect :: "effect \<Rightarrow> world \<Rightarrow> world" where
  "log_effect e w = w\<lparr>trace := trace w @ [e]\<rparr>"

text \<open>A call that leaves the process: it is logged, then answered by the environment.\<close>

definition perform :: "effect \<Rightarrow> (world \<Rightarrow> 'a) \<Rightarrow> world \<Rightarrow> 'a \<times> world" where
  "perform e answer w = (answer w, log_effect e w)"

lemma log_effect_simps [simp, frame_simps]:
  "trace (log_effect e w) = trace w @ [e]"
  "clock (log_effect e w) = clock w"
  "spent (log_effect e w) = spent w"
  "next_cell (log_effect e w) = next_cell w"
  "callnote (log_effect e w) = callnote w"
  "captured (log_effect e w) = captured w"
  by (simp_all add: log_effect_def)

lemma perform_simps [simp]:
  "fst (perform e a w) = a w"
  "snd (perform e a w) = log_effect e w"
  by (simp_all add: perform_def)

text \<open>\<open>extends w w'\<close>: \<open>w'\<close> comes after \<open>w\<close>; the trace only grows.\<close>

definition new_effects :: "world \<Rightarrow> world \<Rightarrow> effect list" where
  "new_effects w w' = drop (length (trace w)) (trace w')"

definition extends :: "world \<Rightarrow> world \<Rightarrow> bool" where
  "extends w w' \<longleftrightarrow> (\<exists>es. trace w' = trace w @ es)"

lemma extends_refl [simp]: "extends w w"
  by (simp add: extends_def)

lemma extends_trans [trans]: "extends w1 w2 \<Longrightarrow> extends w2 w3 \<Longrightarrow> extends w1 w3"
  by (auto simp: extends_def)

lemma extends_log [simp, intro]: "extends w (log_effect e w)"
  by (simp add: extends_def)

lemma new_effects_append: "trace w' = trace w @ es \<Longrightarrow> new_effects w w' = es"
  by (simp add: new_effects_def)

lemma extends_update [simp]:
  "extends w (w'\<lparr>clock := n\<rparr>) = extends w w'" "extends w (w'\<lparr>next_cell := m\<rparr>) = extends w w'"
  "extends w (w'\<lparr>captured := v\<rparr>) = extends w w'" "extends (w\<lparr>captured := v\<rparr>) w' = extends w w'"
  "extends w (w'\<lparr>callnote := u\<rparr>) = extends w w'" "extends (w\<lparr>callnote := u\<rparr>) w' = extends w w'"
  "extends w (w'\<lparr>spent := s\<rparr>) = extends w w'"
  by (simp_all add: extends_def)

lemma extends_set: "extends w w' \<Longrightarrow> set (trace w) \<subseteq> set (trace w')"
  by (auto simp: extends_def)

text \<open>What happened in the middle happened in the whole.\<close>

lemma new_effects_mono:
  "extends w0 w1 \<Longrightarrow> extends w1 w2 \<Longrightarrow> extends w2 w3 \<Longrightarrow>
     set (new_effects w1 w2) \<subseteq> set (new_effects w0 w3)"
  by (auto simp: extends_def new_effects_def)

section \<open>The kubernetes service at its interface\<close>

text \<open>
  What the implementation behind \<open>k8s.Service\<close> answers, as one function per method of the world
  and the arguments, and the service that logs each call before answering it.
\<close>

record k8s_oracle =
  o_APIResources :: "world \<Rightarrow> go_err + api_resource list"
  o_List :: "list_query \<Rightarrow> world \<Rightarrow> go_err + list_result"
  o_Watch :: "watch_query \<Rightarrow> world \<Rightarrow> go_err + watch_result"
  o_Object :: "k8s_call \<Rightarrow> world \<Rightarrow> go_err + resource_result"
  o_DeleteCollection :: "delete_collection_ref \<Rightarrow> world \<Rightarrow> go_err + delete_collection_result"
  o_Exec :: "k8s_call \<Rightarrow> world \<Rightarrow> go_err + exec_outcome"
  o_Attach :: "k8s_call \<Rightarrow> world \<Rightarrow> go_err + attach_outcome"
  o_PortForward :: "k8s_call \<Rightarrow> world \<Rightarrow> go_err + port_forward_outcome"
  o_Proxy :: "k8s_call \<Rightarrow> world \<Rightarrow> go_err + proxy_outcome"

definition live_service :: "k8s_oracle \<Rightarrow> world k8s_service" where
  "live_service o' =
     \<lparr>APIResources = perform (K8sCall CAPIResources) (o_APIResources o'),
      ListResources = (\<lambda>q. perform (K8sCall (CList q)) (o_List o' q)),
      WatchResources = (\<lambda>q. perform (K8sCall (CWatch q)) (o_Watch o' q)),
      GetResource = (\<lambda>r. perform (K8sCall (CGet r)) (o_Object o' (CGet r))),
      CreateResource = (\<lambda>r. perform (K8sCall (CCreate r)) (o_Object o' (CCreate r))),
      UpdateResource = (\<lambda>r. perform (K8sCall (CUpdate r)) (o_Object o' (CUpdate r))),
      PatchResource = (\<lambda>r. perform (K8sCall (CPatch r)) (o_Object o' (CPatch r))),
      DeleteResource = (\<lambda>r. perform (K8sCall (CDelete r)) (o_Object o' (CDelete r))),
      DeleteCollection = (\<lambda>r. perform (K8sCall (CDeleteCollection r)) (o_DeleteCollection o' r)),
      ExecInPod = (\<lambda>n s c cmd. perform (K8sCall (CExecInPod n s c cmd)) (o_Exec o' (CExecInPod n s c cmd))),
      ExecResource = (\<lambda>r c cmd. perform (K8sCall (CExec r c cmd)) (o_Exec o' (CExec r c cmd))),
      AttachResource = (\<lambda>r c i n. perform (K8sCall (CAttach r c i n)) (o_Attach o' (CAttach r c i n))),
      PortForwardResource =
        (\<lambda>r p b n. perform (K8sCall (CPortForward r p b n)) (o_PortForward o' (CPortForward r p b n))),
      ProxyResource =
        (\<lambda>r m p b t n. perform (K8sCall (CProxy r m p b t n)) (o_Proxy o' (CProxy r m p b t n)))\<rparr>"

end
