(* ===== verification/ToolArgs.thy ===== *)
theory ToolArgs
  imports World
begin

text \<open>
  The argument checks of the tools (internal/mcp: resource.go, exec.go, attach.go, port_forward.go,
  proxy.go, delete_collection.go). Each is one function because both the pair resolver and the
  handler run it. Errors are JSON-RPC errors; a message is kept to its leading clause.
\<close>

section \<open>JSON-RPC errors\<close>

record rpc_err =
  code :: int
  message :: string
  err_reason :: "reason option"
  err_gate :: gate_info

definition errf :: "int \<Rightarrow> string \<Rightarrow> rpc_err" where
  "errf c m = \<lparr>code = c, message = m, err_reason = None, err_gate = no_gate\<rparr>"

abbreviation invalid_params :: "string \<Rightarrow> rpc_err + 'a" where
  "invalid_params m \<equiv> Inl (errf (-32602) m)"

text \<open>A pointer that must not be nil.\<close>

definition need :: "'a option \<Rightarrow> string \<Rightarrow> rpc_err + 'a" where
  "need x m = (case x of None \<Rightarrow> invalid_params m | Some v \<Rightarrow> Inr v)"

lemma need_Inr [simp]: "need x m = Inr v \<longleftrightarrow> x = Some v"
  by (auto simp: need_def split: option.splits)

abbreviation check :: "bool \<Rightarrow> string \<Rightarrow> rpc_err + unit" where
  "check b m \<equiv> ensure b (errf (-32602) m)"

section \<open>Package encoding/base64, standard encoding\<close>

definition b64_val :: "char \<Rightarrow> nat option" where
  "b64_val c =
     (let n = (of_char c :: nat) in
      if 65 \<le> n \<and> n \<le> 90 then Some (n - 65)
      else if 97 \<le> n \<and> n \<le> 122 then Some (n - 71)
      else if 48 \<le> n \<and> n \<le> 57 then Some (n + 4)
      else if n = 43 then Some 62 else if n = 47 then Some 63 else None)"

definition b64_char :: "nat \<Rightarrow> char" where
  "b64_char v =
     (if v < 26 then char_of (v + 65) else if v < 52 then char_of (v + 71)
      else if v < 62 then char_of (v - 4) else if v = 62 then CHR ''+'' else CHR ''/'')"

fun b64_groups :: "string \<Rightarrow> string option" where
  "b64_groups [] = Some []"
| "b64_groups (a # b # c # d # r) =
     (case (b64_val a, b64_val b) of
        (Some x, Some y) \<Rightarrow>
          if d = CHR ''='' then
            (if r \<noteq> [] then None
             else if c = CHR ''='' then Some [char_of (x * 4 + y div 16)]
             else (case b64_val c of
                     None \<Rightarrow> None
                   | Some z \<Rightarrow> Some [char_of (x * 4 + y div 16), char_of (y * 16 + z div 4)]))
          else (case (b64_val c, b64_val d, b64_groups r) of
                  (Some z, Some u, Some rest) \<Rightarrow>
                    Some (char_of (x * 4 + y div 16) # char_of (y * 16 + z div 4) # char_of (z * 64 + u) # rest)
                | _ \<Rightarrow> None)
      | _ \<Rightarrow> None)"
| "b64_groups _ = None"

text \<open>\<open>DecodeString\<close> skips carriage returns and line feeds.\<close>

definition b64_decode :: "string \<Rightarrow> string option" where
  "b64_decode s = b64_groups (filter (\<lambda>c. c \<noteq> CHR 0x0A \<and> c \<noteq> CHR 0x0D) s)"

fun b64_encode :: "string \<Rightarrow> string" where
  "b64_encode [] = []"
| "b64_encode [a] =
     (let x = (of_char a :: nat) in [b64_char (x div 4), b64_char (x mod 4 * 16), CHR ''='', CHR ''=''])"
| "b64_encode [a, b] =
     (let x = (of_char a :: nat); y = (of_char b :: nat) in
      [b64_char (x div 4), b64_char (x mod 4 * 16 + y div 16), b64_char (y mod 16 * 4), CHR ''=''])"
| "b64_encode (a # b # c # r) =
     (let x = (of_char a :: nat); y = (of_char b :: nat); z = (of_char c :: nat) in
      b64_char (x div 4) # b64_char (x mod 4 * 16 + y div 16) # b64_char (y mod 16 * 4 + z div 64)
        # b64_char (z mod 64) # b64_encode r)"

text \<open>Decoding gives back what was encoded, six bits at a time.\<close>

lemma b64_val_char: "n < 64 \<Longrightarrow> b64_val (b64_char n) = Some n"
  by (auto simp: b64_char_def b64_val_def Let_def)

lemma b64_char_plain:
  assumes "n < 64"
  shows "b64_char n \<noteq> CHR ''=''" "b64_char n \<noteq> CHR 0x0A" "b64_char n \<noteq> CHR 0x0D"
proof -
  have none: "b64_val (CHR ''='') = None" "b64_val (CHR 0x0A) = None" "b64_val (CHR 0x0D) = None"
    by (simp_all add: b64_val_def)
  with b64_val_char [OF assms] show "b64_char n \<noteq> CHR ''=''" "b64_char n \<noteq> CHR 0x0A" "b64_char n \<noteq> CHR 0x0D"
    by (metis option.distinct(1))+
qed

lemma char_of_eq: "n mod 256 = (of_char c :: nat) \<Longrightarrow> char_of n = c"
  by (metis char_of_mod_256 char_of_char)

lemma byte_lt: "(of_char c :: nat) < 256"
  by simp

lemma sextet_one:
  fixes x y :: nat
  assumes "x < 256"
  shows "x div 4 < 64" "x mod 4 * 16 < 64" "y mod 16 * 4 < 64" "y mod 64 < 64"
    "(x div 4 * 4 + x mod 4) mod 256 = x"
  using assms by simp_all

lemma sextet_two:
  fixes x y :: nat
  assumes "y < 256"
  shows "x mod 4 * 16 + y div 16 < 64" "(x mod 4 * 16 + y div 16) div 16 = x mod 4"
    "((x mod 4 * 16 + y div 16) * 16 + y mod 16) mod 256 = y"
proof -
  have q: "y div 16 < 16" using assms by simp
  have r: "x mod 4 \<le> 3" by simp
  from q r show "x mod 4 * 16 + y div 16 < 64" by linarith
  from q show "(x mod 4 * 16 + y div 16) div 16 = x mod 4" by simp
  have "(x mod 4 * 16 + y div 16) * 16 + y mod 16 = y + 256 * (x mod 4)"
    by (simp add: distrib_right)
  with assms show "((x mod 4 * 16 + y div 16) * 16 + y mod 16) mod 256 = y" by simp
qed

lemma sextet_three:
  fixes y z :: nat
  assumes "z < 256"
  shows "y mod 16 * 4 + z div 64 < 64" "(y mod 16 * 4 + z div 64) div 4 = y mod 16"
    "((y mod 16 * 4 + z div 64) * 64 + z mod 64) mod 256 = z"
proof -
  have q: "z div 64 < 4" using assms by simp
  have r: "y mod 16 \<le> 15" by simp
  from q r show "y mod 16 * 4 + z div 64 < 64" by linarith
  from q show "(y mod 16 * 4 + z div 64) div 4 = y mod 16" by simp
  have "(y mod 16 * 4 + z div 64) * 64 + z mod 64 = z + 256 * (y mod 16)"
    by (simp add: distrib_right)
  with assms show "((y mod 16 * 4 + z div 64) * 64 + z mod 64) mod 256 = z" by simp
qed

lemma b64_groups_encode: "b64_groups (b64_encode s) = Some s"
proof (induction s rule: b64_encode.induct)
  case (2 a)
  note s = sextet_one [OF byte_lt [of a]]
  show ?case
    by (simp add: Let_def b64_val_char s char_of_eq)
next
  case (3 a b)
  note s = sextet_one [OF byte_lt [of a]] sextet_two [OF byte_lt [of b]]
  show ?case
    by (simp add: Let_def b64_val_char b64_char_plain s char_of_eq)
next
  case (4 a b c r)
  note s = sextet_one [OF byte_lt [of a]] sextet_two [OF byte_lt [of b]] sextet_three [OF byte_lt [of c]]
  show ?case
    using 4 by (simp add: Let_def b64_val_char b64_char_plain s char_of_eq)
qed simp

lemma b64_encode_plain: "list_all (\<lambda>c. c \<noteq> CHR 0x0A \<and> c \<noteq> CHR 0x0D) (b64_encode s)"
proof (induction s rule: b64_encode.induct)
  case (2 a)
  note s = sextet_one [OF byte_lt [of a]]
  show ?case by (simp add: Let_def b64_char_plain s)
next
  case (3 a b)
  note s = sextet_one [OF byte_lt [of a]] sextet_two [OF byte_lt [of b]]
  show ?case by (simp add: Let_def b64_char_plain s)
next
  case (4 a b c r)
  note s = sextet_one [OF byte_lt [of a]] sextet_two [OF byte_lt [of b]] sextet_three [OF byte_lt [of c]]
  show ?case using 4 by (simp add: Let_def b64_char_plain s)
qed simp

lemma b64_decode_encode [simp]: "b64_decode (b64_encode s) = Some s"
proof -
  have "filter (\<lambda>c. c \<noteq> CHR 0x0A \<and> c \<noteq> CHR 0x0D) (b64_encode s) = b64_encode s"
    using b64_encode_plain [of s] by (intro filter_True) (simp add: list_all_iff)
  then show ?thesis by (simp add: b64_decode_def b64_groups_encode)
qed

section \<open>Coordinates\<close>

definition required_string :: "obj \<Rightarrow> string \<Rightarrow> rpc_err + string" where
  "required_string o' k = need (optionalString o' k) (k @ '' is required'')"

record coordinate =
  co_apiVersion :: string
  co_kind :: string
  co_namespace :: "string option"

definition parseCoordinate :: "obj \<Rightarrow> rpc_err + coordinate" where
  "parseCoordinate o' =
     bind_sum (required_string o' ''apiVersion'') (\<lambda>av.
     bind_sum (required_string o' ''kind'') (\<lambda>k.
     Inr \<lparr>co_apiVersion = av, co_kind = k, co_namespace = optionalString o' ''namespace''\<rparr>))"

definition boolArg :: "obj \<Rightarrow> string \<Rightarrow> rpc_err + bool" where
  "boolArg o' k =
     (case lookup o' k of
        None \<Rightarrow> Inr False
      | Some (JBool b) \<Rightarrow> Inr b
      | Some _ \<Rightarrow> invalid_params (k @ '' must be a boolean''))"

text \<open>An optional integer argument with a range check in the order of the source.\<close>

definition int_arg :: "obj \<Rightarrow> string \<Rightarrow> (int \<Rightarrow> rpc_err + unit) \<Rightarrow> int \<Rightarrow> rpc_err + int" where
  "int_arg o' k chk dflt =
     (case lookup o' k of
        None \<Rightarrow> Inr dflt
      | Some v \<Rightarrow>
          bind_sum (need (intValue v) (k @ '' must be an integer'')) (\<lambda>n.
          bind_sum (chk n) (\<lambda>_. Inr n)))"

definition at_least :: "string \<Rightarrow> int \<Rightarrow> int \<Rightarrow> rpc_err + unit" where
  "at_least k lo n = check (lo \<le> n) (k @ '' must be >= '' @ itoa lo)"

definition between :: "string \<Rightarrow> int \<Rightarrow> int \<Rightarrow> int \<Rightarrow> rpc_err + unit" where
  "between k lo hi n =
     bind_sum (at_least k lo n) (\<lambda>_. check (n \<le> hi) (k @ '' must be <= '' @ itoa hi))"

lemma between_Inr [simp]: "between k lo hi n = Inr u \<longleftrightarrow> lo \<le> n \<and> n \<le> hi"
  by (simp add: between_def at_least_def bind_sum_Inr_iff)

lemma at_least_Inr [simp]: "at_least k lo n = Inr u \<longleftrightarrow> lo \<le> n"
  by (simp add: at_least_def)

lemma int_arg_Inr_iff:
  "int_arg o' k chk dflt = Inr n \<longleftrightarrow>
     (lookup o' k = None \<and> n = dflt) \<or> (\<exists>v. lookup o' k = Some v \<and> intValue v = Some n \<and> chk n = Inr ())"
  by (auto simp: int_arg_def bind_sum_Inr_iff split: option.splits)

section \<open>resource.go\<close>

definition logsDefaultTailLines :: int where "logsDefaultTailLines = 200"
definition logsMaxTailLines :: int where "logsMaxTailLines = 5000"

definition getSubresources :: "string list" where
  "getSubresources = [''log'', ''scale'', ''status'']"

definition parseUpdateTarget :: "obj \<Rightarrow> rpc_err + string \<times> int" where
  "parseUpdateTarget o' =
     bind_sum (case optionalString o' ''subresource'' of
                 None \<Rightarrow> Inr []
               | Some s \<Rightarrow> bind_sum (check (s = ScaleSubresource) ''subresource must be scale'') (\<lambda>_. Inr s))
     (\<lambda>sub.
      if sub = [] then
        bind_sum (check (\<not> present o' ''replicas'') ''replicas applies to subresource=scale only'') (\<lambda>_.
        bind_sum (check (present o' ''manifest'') ''manifest is required'') (\<lambda>_.
        Inr ([], 0)))
      else
        bind_sum (check (\<not> present o' ''manifest'') ''manifest does not apply to subresource=scale'') (\<lambda>_.
        bind_sum (need (lookup o' ''replicas'') ''replicas is required for subresource=scale'') (\<lambda>rv.
        bind_sum (need (intValue rv) ''replicas must be an integer'') (\<lambda>n.
        bind_sum (at_least ''replicas'' 0 n) (\<lambda>_.
        bind_sum (check (n \<le> 2147483647) ''replicas is too large'') (\<lambda>_.
        Inr (sub, n)))))))"

text \<open>\<open>got, ok := m[k].(string); ok && got != want\<close>: a string member that says something else.\<close>

definition differs :: "obj \<Rightarrow> string \<Rightarrow> string \<Rightarrow> bool" where
  "differs m k want = (case lookup m k of Some (JStr got) \<Rightarrow> got \<noteq> want | _ \<Rightarrow> False)"

definition parseManifest :: "obj \<Rightarrow> coordinate \<Rightarrow> string \<Rightarrow> rpc_err + obj" where
  "parseManifest o' coord name =
     (case lookup o' ''manifest'' of
        Some (JObj manifest) \<Rightarrow>
          bind_sum (check (manifest \<noteq> []) ''manifest must be a non-empty object'') (\<lambda>_.
          bind_sum (check (\<not> differs manifest ''apiVersion'' (co_apiVersion coord))
                     ''manifest apiVersion differs from the coordinate'') (\<lambda>_.
          bind_sum (check (\<not> differs manifest ''kind'' (co_kind coord))
                     ''manifest kind differs from the coordinate'') (\<lambda>_.
          bind_sum (check (\<not> (case lookup manifest ''metadata'' of
                                Some (JObj md) \<Rightarrow> differs md ''name'' name | _ \<Rightarrow> False))
                     ''manifest metadata.name differs from name'') (\<lambda>_.
          Inr manifest))))
      | _ \<Rightarrow> invalid_params ''manifest must be a non-empty object'')"

definition parseDeleteTarget :: "obj \<Rightarrow> rpc_err + string \<times> int option" where
  "parseDeleteTarget o' =
     bind_sum (check (\<not> present o' ''labelSelector'') ''labelSelector does not apply to resource_delete'') (\<lambda>_.
     bind_sum (check (\<not> present o' ''fieldSelector'') ''fieldSelector does not apply to resource_delete'') (\<lambda>_.
     bind_sum (check (\<not> present o' ''subresource'') ''subresource does not apply to resource_delete'') (\<lambda>_.
     bind_sum (required_string o' ''name'') (\<lambda>name.
     bind_sum (case lookup o' ''gracePeriodSeconds'' of
                 None \<Rightarrow> Inr None
               | Some v \<Rightarrow>
                   bind_sum (need (intValue v) ''gracePeriodSeconds must be an integer'') (\<lambda>n.
                   bind_sum (at_least ''gracePeriodSeconds'' 0 n) (\<lambda>_. Inr (Some n)))) (\<lambda>grace.
     Inr (name, grace))))))"

text \<open>The patch body is read through a struct, so its key is matched case-insensitively.\<close>

definition rawPatchBody :: "raw \<Rightarrow> raw option" where
  "rawPatchBody r =
     (case struct_field ''patch'' r of None \<Rightarrow> None | Some JNull \<Rightarrow> None | Some b \<Rightarrow> Some b)"

definition parseLogOptions :: "obj \<Rightarrow> rpc_err + log_options" where
  "parseLogOptions o' =
     bind_sum (boolArg o' ''previous'') (\<lambda>previous.
     bind_sum (boolArg o' ''timestamps'') (\<lambda>timestamps.
     bind_sum (int_arg o' ''tailLines'' (between ''tailLines'' 1 logsMaxTailLines) logsDefaultTailLines) (\<lambda>tail.
     bind_sum (case lookup o' ''sinceSeconds'' of
                 None \<Rightarrow> Inr None
               | Some v \<Rightarrow>
                   bind_sum (need (intValue v) ''sinceSeconds must be an integer'') (\<lambda>n.
                   bind_sum (at_least ''sinceSeconds'' 1 n) (\<lambda>_. Inr (Some n)))) (\<lambda>since.
     Inr \<lparr>lo_Container = optionalString o' ''container'', lo_TailLines = Some tail,
          lo_Previous = previous, lo_Timestamps = timestamps, lo_SinceSeconds = since\<rparr>))))"

section \<open>delete_collection.go\<close>

record collection_selection =
  sel_namespace :: string
  sel_labelSelector :: string
  sel_fieldSelector :: string
  sel_grace :: "int option"

definition parseDeleteCollectionTarget :: "obj \<Rightarrow> rpc_err + collection_selection" where
  "parseDeleteCollectionTarget o' =
     bind_sum (check (\<not> present o' ''name'') ''name does not apply to resource_delete_collection'') (\<lambda>_.
     bind_sum (check (\<not> present o' ''subresource'') ''subresource does not apply to resource_delete_collection'') (\<lambda>_.
     bind_sum (required_string o' ''namespace'') (\<lambda>ns.
     bind_sum (case lookup o' ''gracePeriodSeconds'' of
                 None \<Rightarrow> Inr None
               | Some v \<Rightarrow>
                   bind_sum (need (intValue v) ''gracePeriodSeconds must be an integer'') (\<lambda>n.
                   bind_sum (at_least ''gracePeriodSeconds'' 0 n) (\<lambda>_. Inr (Some n)))) (\<lambda>grace.
     Inr \<lparr>sel_namespace = ns,
          sel_labelSelector = or_else (optionalString o' ''labelSelector'') [],
          sel_fieldSelector = or_else (optionalString o' ''fieldSelector'') [],
          sel_grace = grace\<rparr>))))"

section \<open>exec.go, attach.go, port_forward.go\<close>

text \<open>The coordinate of one named pod, the part the three stream tools share.\<close>

definition parse_pod_ref :: "obj \<Rightarrow> string \<Rightarrow> rpc_err + pod_ref" where
  "parse_pod_ref o' tool =
     bind_sum (required_string o' ''apiVersion'') (\<lambda>av.
     bind_sum (required_string o' ''kind'') (\<lambda>k.
     bind_sum (required_string o' ''name'') (\<lambda>n.
     bind_sum (check (string_or_empty o' ''subresource'' = []) (tool @ '' takes no subresource'')) (\<lambda>_.
     Inr \<lparr>po_APIVersion = av, po_Kind = k, po_Namespace = optionalString o' ''namespace'', po_Name = n\<rparr>))))"

definition command_part :: "json \<Rightarrow> rpc_err + string" where
  "command_part v =
     (case v of
        JStr s \<Rightarrow> if s = [] then invalid_params ''command element must be a non-empty string'' else Inr s
      | _ \<Rightarrow> invalid_params ''command element must be a non-empty string'')"

definition parseExecTarget :: "obj \<Rightarrow> rpc_err + exec_ref \<times> string list \<times> string option" where
  "parseExecTarget o' =
     bind_sum (parse_pod_ref o' ''resource_exec'') (\<lambda>ref.
     bind_sum (need (lookup o' ''command'') ''command is required'') (\<lambda>cv.
     bind_sum (case cv of
                 JArr items \<Rightarrow>
                   (if items = [] then invalid_params ''command must be a non-empty array of strings''
                    else map_sum_list command_part items)
               | _ \<Rightarrow> invalid_params ''command must be a non-empty array of strings'') (\<lambda>command.
     Inr (ref, command, optionalString o' ''container''))))"

record attach_args =
  at_ref :: attach_ref
  at_container :: "string option"
  at_stdin :: "string option"
  at_readSeconds :: int

definition parseAttachTarget :: "obj \<Rightarrow> rpc_err + attach_args" where
  "parseAttachTarget o' =
     bind_sum (parse_pod_ref o' ''resource_attach'') (\<lambda>ref.
     bind_sum (check (\<not> present o' ''command'') ''resource_attach takes no command'') (\<lambda>_.
     bind_sum (int_arg o' ''readSeconds'' (between ''readSeconds'' 1 AttachMaxReadSeconds)
                AttachDefaultReadSeconds) (\<lambda>secs.
     bind_sum (case lookup o' ''stdin'' of
                 None \<Rightarrow> Inr None
               | Some (JStr s) \<Rightarrow> Inr (Some s)
               | Some _ \<Rightarrow> invalid_params ''stdin must be a string'') (\<lambda>stdin.
     Inr \<lparr>at_ref = ref, at_container = optionalString o' ''container'', at_stdin = stdin,
          at_readSeconds = secs\<rparr>))))"

text \<open>Bytes in one of two spellings: text, or base64 under the key with the suffix.\<close>

definition parse_bytes :: "obj \<Rightarrow> string \<Rightarrow> rpc_err + string" where
  "parse_bytes o' k =
     (case (lookup o' k, lookup o' (k @ ''Base64'')) of
        (Some _, Some _) \<Rightarrow> invalid_params (''pass '' @ k @ '' or its base64 spelling, not both'')
      | (Some v, None) \<Rightarrow>
          (case v of JStr s \<Rightarrow> Inr s | _ \<Rightarrow> invalid_params (k @ '' must be a string''))
      | (None, Some v) \<Rightarrow>
          (case v of
             JStr s \<Rightarrow> need (b64_decode s) (k @ ''Base64 is not valid base64'')
           | _ \<Rightarrow> invalid_params (k @ ''Base64 must be a base64 string''))
      | (None, None) \<Rightarrow> Inr [])"

definition parsePortForwardPayload :: "obj \<Rightarrow> rpc_err + string" where
  "parsePortForwardPayload o' = parse_bytes o' ''payload''"

record port_forward_args =
  pa_ref :: port_forward_ref
  pa_port :: int
  pa_payload :: string
  pa_readSeconds :: int

definition parsePortForwardTarget :: "obj \<Rightarrow> rpc_err + port_forward_args" where
  "parsePortForwardTarget o' =
     bind_sum (parse_pod_ref o' ''resource_port_forward'') (\<lambda>ref.
     bind_sum (need (lookup o' ''port'') ''port is required'') (\<lambda>pv.
     bind_sum (need (intValue pv) ''port must be an integer'') (\<lambda>port.
     bind_sum (between ''port'' 1 65535 port) (\<lambda>_.
     bind_sum (int_arg o' ''readSeconds'' (between ''readSeconds'' 1 PortForwardMaxReadSeconds)
                PortForwardDefaultReadSeconds) (\<lambda>secs.
     bind_sum (parsePortForwardPayload o') (\<lambda>payload.
     Inr \<lparr>pa_ref = ref, pa_port = port, pa_payload = payload, pa_readSeconds = secs\<rparr>))))))"

section \<open>proxy.go\<close>

text \<open>The pattern of a port name: lower-case letters, digits and inner hyphens, 15 at most.\<close>

definition lower_alnum :: "char \<Rightarrow> bool" where
  "lower_alnum c \<longleftrightarrow> is_digit c \<or> (97 \<le> (of_char c :: nat) \<and> (of_char c :: nat) \<le> 122)"

definition proxyPortName :: "string \<Rightarrow> bool" where
  "proxyPortName s \<longleftrightarrow>
     s \<noteq> [] \<and> length s \<le> 15 \<and> lower_alnum (hd s) \<and> lower_alnum (last s) \<and>
     list_all (\<lambda>c. lower_alnum c \<or> c = CHR ''-'') s"

definition parseProxyPort :: "obj \<Rightarrow> string \<Rightarrow> rpc_err + string option" where
  "parseProxyPort o' kind =
     (case lookup o' ''port'' of
        None \<Rightarrow> Inr None
      | Some v \<Rightarrow>
          bind_sum (check (\<not> equal_fold kind ''Node'') ''port applies to Pod and Service'') (\<lambda>_.
          bind_sum (case v of
                      JStr s \<Rightarrow> Inr s
                    | _ \<Rightarrow> bind_sum (need (intValue v) ''port must be a port number or a named container port'')
                             (\<lambda>n. Inr (itoa n))) (\<lambda>port.
          (case parse_int64 port of
             Some n \<Rightarrow> bind_sum (check (1 \<le> n \<and> n \<le> 65535) ''port must be between 1 and 65535'')
                         (\<lambda>_. Inr (Some (itoa n)))
           | None \<Rightarrow>
               bind_sum (check (\<not> equal_fold kind ''Pod'') ''a Pod proxy takes a port number'') (\<lambda>_.
               bind_sum (check (proxyPortName port \<and> \<not> contains_sub port ''--'')
                          ''port is neither a port number nor a valid port name'') (\<lambda>_.
               Inr (Some port)))))))"

definition parseProxyBody :: "obj \<Rightarrow> rpc_err + string" where
  "parseProxyBody o' = parse_bytes o' ''body''"

record proxy_args =
  xa_ref :: proxy_ref
  xa_method :: string
  xa_path :: string
  xa_body :: string
  xa_contentType :: string
  xa_readSeconds :: int

definition parseProxyTarget :: "obj \<Rightarrow> rpc_err + proxy_args" where
  "parseProxyTarget o' =
     bind_sum (required_string o' ''apiVersion'') (\<lambda>av.
     bind_sum (required_string o' ''kind'') (\<lambda>kind.
     bind_sum (required_string o' ''name'') (\<lambda>name.
     bind_sum (check (CHR '':'' \<notin> set name) ''name must be the name of the object alone'') (\<lambda>_.
     bind_sum (parseProxyPort o' kind) (\<lambda>port.
     bind_sum (check (string_or_empty o' ''subresource'' = []) ''resource_proxy takes no subresource'') (\<lambda>_.
     bind_sum (required_string o' ''method'') (\<lambda>method.
     bind_sum (check (ProxyVerbForMethod (to_upper method) \<noteq> []) ''method must be one of GET, POST, PUT, PATCH, DELETE'') (\<lambda>_.
     bind_sum (required_string o' ''path'') (\<lambda>path.
     bind_sum (check (has_prefix path ''/'') ''path must start with a slash'') (\<lambda>_.
     bind_sum (int_arg o' ''readSeconds'' (between ''readSeconds'' 1 ProxyMaxReadSeconds)
                ProxyDefaultReadSeconds) (\<lambda>secs.
     bind_sum (parseProxyBody o') (\<lambda>body.
     Inr \<lparr>xa_ref = \<lparr>px_APIVersion = av, px_Kind = kind, px_Namespace = optionalString o' ''namespace'',
                     px_Name = name, px_Port = port\<rparr>,
          xa_method = to_upper method, xa_path = path, xa_body = body,
          xa_contentType = or_else (optionalString o' ''contentType'') [],
          xa_readSeconds = secs\<rparr>))))))))))))"

section \<open>What an accepted call satisfies\<close>

lemma required_string_Inr:
  "required_string o' k = Inr s \<longleftrightarrow> optionalString o' k = Some s"
  by (simp add: required_string_def)

lemmas parse_simps = bind_sum_Inr_iff required_string_Inr int_arg_Inr_iff

lemma parse_pod_ref_Inr:
  "parse_pod_ref o' tool = Inr r \<longleftrightarrow>
     optionalString o' ''apiVersion'' = Some (po_APIVersion r) \<and>
     optionalString o' ''kind'' = Some (po_Kind r) \<and>
     optionalString o' ''name'' = Some (po_Name r) \<and>
     string_or_empty o' ''subresource'' = [] \<and>
     po_Namespace r = optionalString o' ''namespace''"
  by (cases r) (auto simp: parse_pod_ref_def parse_simps)

lemma parseAttachTarget_bounds:
  "parseAttachTarget o' = Inr a \<Longrightarrow> 1 \<le> at_readSeconds a \<and> at_readSeconds a \<le> AttachMaxReadSeconds"
  by (auto simp: parseAttachTarget_def parse_simps AttachDefaultReadSeconds_def AttachMaxReadSeconds_def)

lemma parsePortForwardTarget_bounds:
  "parsePortForwardTarget o' = Inr a \<Longrightarrow>
     1 \<le> pa_port a \<and> pa_port a \<le> 65535 \<and> 1 \<le> pa_readSeconds a \<and> pa_readSeconds a \<le> PortForwardMaxReadSeconds"
  by (auto simp: parsePortForwardTarget_def parse_simps PortForwardDefaultReadSeconds_def
      PortForwardMaxReadSeconds_def)

lemma parseUpdateTarget_Inr:
  "parseUpdateTarget o' = Inr (s, n) \<Longrightarrow>
     (s = [] \<and> n = 0 \<and> present o' ''manifest'' \<and> \<not> present o' ''replicas'') \<or>
     (s = ScaleSubresource \<and> 0 \<le> n \<and> n \<le> 2147483647 \<and> \<not> present o' ''manifest'' \<and> present o' ''replicas'')"
  by (auto simp: parseUpdateTarget_def parse_simps ScaleSubresource_def present_def
      split: option.splits if_splits)

lemma parseProxyTarget_fields:
  assumes "parseProxyTarget o' = Inr a"
  shows "optionalString o' ''apiVersion'' = Some (px_APIVersion (xa_ref a))"
    and "optionalString o' ''kind'' = Some (px_Kind (xa_ref a))"
    and "optionalString o' ''name'' = Some (px_Name (xa_ref a))"
    and "CHR '':'' \<notin> set (px_Name (xa_ref a))"
    and "ProxyVerbForMethod (xa_method a) \<noteq> []"
    and "has_prefix (xa_path a) ''/''"
    and "1 \<le> xa_readSeconds a \<and> xa_readSeconds a \<le> ProxyMaxReadSeconds"
  using assms
  by (auto simp: parseProxyTarget_def parse_simps ProxyDefaultReadSeconds_def ProxyMaxReadSeconds_def)

end
