(* ===== verification/Declaration.thy ===== *)
theory Declaration
  imports ToolArgs
begin

text \<open>
  What a tool declares and what one call of it exercises: internal/mcp declaration.go, the
  declaration half of gate.go, create.go's document parser and the resource naming of confine.go.

  Two libraries are parameters, the record \<open>api_machinery\<close>: apimachinery's parser of an
  apiVersion and its guess of a plural, and the YAML reader and converter.
\<close>

section \<open>Libraries\<close>

text \<open>
  \<open>ParseGroupVersion\<close> gives a group and a version or an error; \<open>guessPlural\<close> is the resource of
  \<open>UnsafeGuessKindToResource\<close>; \<open>readYAML\<close> gives the documents read before the end of the input
  and whether it ended there (rather than in an error); \<open>YAMLToJSON\<close> is \<open>YAMLToJSONStrict\<close>.
\<close>

record api_machinery =
  ParseGroupVersion :: "string \<Rightarrow> (string \<times> string) option"
  guessPlural :: "string \<times> string \<Rightarrow> string \<Rightarrow> string"
  readYAML :: "string \<Rightarrow> string list \<times> bool"
  YAMLToJSON :: "string \<Rightarrow> json option"

text \<open>The documented behaviour the probes of \<open>approvalNeed\<close> rest on.\<close>

definition core_names :: "api_machinery \<Rightarrow> bool" where
  "core_names am \<longleftrightarrow> ParseGroupVersion am ''v1'' = Some ([], ''v1'')
     \<and> guessPlural am ([], ''v1'') ''Secret'' = ''secrets''
     \<and> guessPlural am ([], ''v1'') ''ConfigMap'' = ''configmaps''"

definition resourceName :: "api_machinery \<Rightarrow> string \<Rightarrow> string \<Rightarrow> string \<Rightarrow> string + string" where
  "resourceName am apiVersion kind subresource =
     (case ParseGroupVersion am apiVersion of
        None \<Rightarrow> Inl (''apiVersion '' @ apiVersion @ '' is not a group/version'')
      | Some gv \<Rightarrow>
          (let resource = guessPlural am gv kind in
           Inr (if subresource \<noteq> [] then resource @ ''/'' @ subresource else resource)))"

section \<open>Declarations\<close>

definition gatedVerbs :: "string list" where
  "gatedVerbs = [''create'', ''update'', ''patch'', ''delete'', ''deletecollection'']"

datatype no_permission_kind = touchesNothing | discoveryOnly | OtherKind string

record no_resource_permission =
  np_kind :: no_permission_kind
  np_reason :: string

text \<open>\<open>toolDeclaration\<close>: a nil function or marker is \<open>None\<close>, a plain error is its text.\<close>

record tool_declaration =
  td_pairs :: "rbac_pair list"
  noResourcePermission :: "no_resource_permission option"
  resolve :: "(raw \<Rightarrow> string + rbac_pair list) option"
  target :: "(raw \<Rightarrow> string + target_ref) option"
  collectionTarget :: "(raw \<Rightarrow> string + collection_target_ref) option"
  outsideGate :: string
  alwaysGated :: string

definition no_declaration :: tool_declaration where
  "no_declaration = \<lparr>td_pairs = [], noResourcePermission = None, resolve = None, target = None,
     collectionTarget = None, outsideGate = [], alwaysGated = []\<rparr>"

record 'h tool_entry =
  decl :: tool_declaration
  handle :: "'h option"
  createBatch :: bool
  collectionGate :: bool

definition callPairs :: "tool_declaration \<Rightarrow> raw \<Rightarrow> string + rbac_pair list" where
  "callPairs d rawArgs = (case resolve d of None \<Rightarrow> Inr (td_pairs d) | Some f \<Rightarrow> f rawArgs)"

definition resourceIsSensitive :: "rbac_pair \<Rightarrow> string list \<Rightarrow> bool" where
  "resourceIsSensitive p sensitiveKinds =
     (let resource = (case cut (CHR ''/'') (Resource p) of None \<Rightarrow> Resource p | Some (a, _) \<Rightarrow> a) in
      list_ex (\<lambda>kind. let name = to_lower (after_last (CHR ''/'') kind) in
                 resource = name @ ''s'' \<or> resource = name) sensitiveKinds)"

definition readIsSensitive :: "rbac_pair \<Rightarrow> string list \<Rightarrow> bool" where
  "readIsSensitive p sensitiveKinds =
     (if Verb p \<noteq> ''get'' \<and> Verb p \<noteq> ''watch'' then False else resourceIsSensitive p sensitiveKinds)"

definition pair_gated :: "string list \<Rightarrow> rbac_pair \<Rightarrow> bool" where
  "pair_gated sensitiveKinds p \<longleftrightarrow> Verb p \<in> set gatedVerbs \<or> readIsSensitive p sensitiveKinds"

definition gatedPairs :: "tool_declaration \<Rightarrow> string list \<Rightarrow> raw \<Rightarrow> string + rbac_pair list" where
  "gatedPairs d sensitiveKinds rawArgs =
     (if outsideGate d \<noteq> [] then Inr []
      else bind_sum (callPairs d rawArgs) (\<lambda>pairs.
        if alwaysGated d \<noteq> [] then Inr pairs
        else Inr (filter (pair_gated sensitiveKinds) pairs)))"

definition changesState :: "rbac_pair list \<Rightarrow> bool" where
  "changesState gated \<longleftrightarrow> list_ex (\<lambda>p. Verb p \<in> set gatedVerbs) gated"

definition writesASensitiveKind :: "rbac_pair list \<Rightarrow> string list \<Rightarrow> bool" where
  "writesASensitiveKind gated sensitiveKinds \<longleftrightarrow>
     list_ex (\<lambda>p. Verb p \<in> set gatedVerbs \<and> resourceIsSensitive p sensitiveKinds) gated"

definition pairsText :: "rbac_pair list \<Rightarrow> string" where
  "pairsText ps = join '', '' (map pair_string ps)"

section \<open>Resolving the pairs of one call\<close>

definition genericPairs :: "api_machinery \<Rightarrow> string \<Rightarrow> raw \<Rightarrow> string + rbac_pair list" where
  "genericPairs am verb rawArgs =
     (case decodeObject rawArgs of
        None \<Rightarrow> Inl ''arguments must be an object''
      | Some o' \<Rightarrow>
          (let apiVersion = string_or_empty o' ''apiVersion''; kind = string_or_empty o' ''kind'' in
           if apiVersion = [] \<or> kind = [] then
             Inl ''apiVersion and kind are required before this call can be judged''
           else bind_sum (resourceName am apiVersion kind (string_or_empty o' ''subresource'')) (\<lambda>resource.
             Inr [mk_pair verb resource])))"

text \<open>A resolver runs the argument checks of its tool first; a refusal of theirs becomes a plain error.\<close>

definition checked :: "(obj \<Rightarrow> rpc_err + 'a) \<Rightarrow> (obj \<Rightarrow> string + 'b) \<Rightarrow> raw \<Rightarrow> string + 'b" where
  "checked parse k rawArgs =
     (case decodeObject rawArgs of
        None \<Rightarrow> Inl ''arguments must be an object''
      | Some o' \<Rightarrow> (case parse o' of Inl e \<Rightarrow> Inl (message e) | Inr _ \<Rightarrow> k o'))"

definition updatePairs :: "api_machinery \<Rightarrow> raw \<Rightarrow> string + rbac_pair list" where
  "updatePairs am rawArgs = checked parseUpdateTarget (\<lambda>_. genericPairs am ''update'' rawArgs) rawArgs"

definition deletePairs :: "api_machinery \<Rightarrow> raw \<Rightarrow> string + rbac_pair list" where
  "deletePairs am rawArgs = checked parseDeleteTarget (\<lambda>_. genericPairs am ''delete'' rawArgs) rawArgs"

definition deleteCollectionPairs :: "api_machinery \<Rightarrow> raw \<Rightarrow> string + rbac_pair list" where
  "deleteCollectionPairs am rawArgs =
     checked parseDeleteCollectionTarget (\<lambda>_. genericPairs am ''deletecollection'' rawArgs) rawArgs"

text \<open>The coordinate a stream tool builds for \<open>genericPairs\<close>: its subresource is fixed.\<close>

definition stream_coordinate :: "obj \<Rightarrow> string \<Rightarrow> raw" where
  "stream_coordinate o' sub =
     JObj [(''apiVersion'', JStr (string_or_empty o' ''apiVersion'')),
           (''kind'', JStr (string_or_empty o' ''kind'')), (''subresource'', JStr sub)]"

definition execPairs :: "api_machinery \<Rightarrow> raw \<Rightarrow> string + rbac_pair list" where
  "execPairs am = checked parseExecTarget (\<lambda>o'. genericPairs am ''create'' (stream_coordinate o' ''exec''))"

definition attachPairs :: "api_machinery \<Rightarrow> raw \<Rightarrow> string + rbac_pair list" where
  "attachPairs am = checked parseAttachTarget (\<lambda>o'. genericPairs am ''create'' (stream_coordinate o' ''attach''))"

definition portForwardPairs :: "api_machinery \<Rightarrow> raw \<Rightarrow> string + rbac_pair list" where
  "portForwardPairs am =
     checked parsePortForwardTarget (\<lambda>o'. genericPairs am ''create'' (stream_coordinate o' ''portforward''))"

definition proxyPairs :: "api_machinery \<Rightarrow> raw \<Rightarrow> string + rbac_pair list" where
  "proxyPairs am rawArgs =
     (case decodeObject rawArgs of
        None \<Rightarrow> Inl ''arguments must be an object''
      | Some o' \<Rightarrow>
          (case parseProxyTarget o' of
             Inl e \<Rightarrow> Inl (message e)
           | Inr args \<Rightarrow>
               bind_sum (resourceName am (px_APIVersion (xa_ref args)) (px_Kind (xa_ref args)) ''proxy'') (\<lambda>resource.
               Inr [mk_pair (ProxyVerbForMethod (xa_method args)) resource])))"

definition genericTarget :: "raw \<Rightarrow> string + target_ref" where
  "genericTarget rawArgs =
     (case decodeObject rawArgs of
        None \<Rightarrow> Inl ''arguments must be an object''
      | Some o' \<Rightarrow>
          (let apiVersion = string_or_empty o' ''apiVersion''; kind = string_or_empty o' ''kind'';
               name = string_or_empty o' ''name'' in
           if apiVersion = [] \<or> kind = [] then
             Inl ''apiVersion and kind are required before this call can be described for approval''
           else if name = [] then Inl ''name is required; the approval screen has to name the object it asks about''
           else Inr \<lparr>tr_APIVersion = apiVersion, tr_Kind = kind,
                     tr_Namespace = optionalString o' ''namespace'', tr_Name = name,
                     tr_Subresource = string_or_empty o' ''subresource'', tr_MetadataOnly = False\<rparr>))"

definition genericCollectionTarget :: "raw \<Rightarrow> string + collection_target_ref" where
  "genericCollectionTarget rawArgs =
     (case decodeObject rawArgs of
        None \<Rightarrow> Inl ''arguments must be an object''
      | Some o' \<Rightarrow>
          (case parseDeleteCollectionTarget o' of
             Inl e \<Rightarrow> Inl (message e)
           | Inr sel \<Rightarrow>
               (let apiVersion = string_or_empty o' ''apiVersion''; kind = string_or_empty o' ''kind'' in
                if apiVersion = [] \<or> kind = [] then
                  Inl ''apiVersion and kind are required before this call can be described for approval''
                else Inr \<lparr>ct_APIVersion = apiVersion, ct_Kind = kind, ct_Namespace = sel_namespace sel,
                          ct_LabelSelector = sel_labelSelector sel, ct_FieldSelector = sel_fieldSelector sel\<rparr>)))"

section \<open>create.go: the documents of a manifest\<close>

record create_document =
  doc_ref :: create_ref
  doc_raw :: raw
  doc_pair :: rbac_pair

text \<open>One document of a YAML stream: \<open>null\<close> is skipped, anything else must be an object.\<close>

definition yaml_document :: "api_machinery \<Rightarrow> string \<Rightarrow> rpc_err + obj list" where
  "yaml_document am data =
     (case YAMLToJSON am data of
        None \<Rightarrow> invalid_params ''manifest contains invalid YAML/JSON or duplicate fields''
      | Some v \<Rightarrow>
          (if v = JNull then Inr []
           else (case decodeObject v of
                   None \<Rightarrow> invalid_params ''each manifest document must be an object''
                 | Some o' \<Rightarrow> Inr [canon_obj o'])))"

definition manifest_objects :: "api_machinery \<Rightarrow> obj \<Rightarrow> rpc_err + obj list" where
  "manifest_objects am args =
     (case lookup args ''manifest'' of
        Some (JObj manifest) \<Rightarrow> Inr [canon_obj manifest]
      | Some (JStr manifest) \<Rightarrow>
          (case readYAML am manifest of (docs, ended) \<Rightarrow>
           bind_sum (map_sum_list (yaml_document am) docs) (\<lambda>objs.
           bind_sum (check ended ''manifest contains an invalid YAML document'') (\<lambda>_.
           Inr (concat objs))))
      | _ \<Rightarrow> invalid_params ''manifest must be an object or a YAML/JSON string'')"

definition manifest_namespace :: "obj \<Rightarrow> rpc_err + string option" where
  "manifest_namespace metadata =
     (case lookup metadata ''namespace'' of
        None \<Rightarrow> Inr None
      | Some (JStr ns) \<Rightarrow>
          (if trim_space ns = [] then invalid_params ''metadata.namespace must be a non-empty string''
           else Inr (Some ns))
      | Some _ \<Rightarrow> invalid_params ''metadata.namespace must be a non-empty string'')"

text \<open>The body of the loop over the objects.\<close>

definition create_document :: "api_machinery \<Rightarrow> obj \<Rightarrow> rpc_err + create_document" where
  "create_document am object' =
     (let apiVersion = string_or_empty object' ''apiVersion''; kind = string_or_empty object' ''kind'';
          metadata = object_or_empty object' ''metadata''; name = string_or_empty metadata ''name'' in
      bind_sum (check (trim_space apiVersion \<noteq> [] \<and> trim_space kind \<noteq> [] \<and> trim_space name \<noteq> [])
                 ''manifest document requires apiVersion, kind and metadata.name'') (\<lambda>_.
      bind_sum (check (ParseGroupVersion am apiVersion \<noteq> None) ''manifest document has an invalid apiVersion'') (\<lambda>_.
      bind_sum (manifest_namespace metadata) (\<lambda>ns.
      bind_sum (case genericPairs am ''create'' (JObj [(''apiVersion'', JStr apiVersion), (''kind'', JStr kind)]) of
                  Inl _ \<Rightarrow> invalid_params ''manifest document has an invalid coordinate''
                | Inr pairs \<Rightarrow> Inr (hd pairs)) (\<lambda>pair.
      Inr \<lparr>doc_ref = \<lparr>cr_APIVersion = apiVersion, cr_Kind = kind, cr_Namespace = ns, cr_Name = name,
                       cr_Manifest = object'\<rparr>,
           doc_raw = JObj [(''manifest'', JObj object')], doc_pair = pair\<rparr>)))))"

definition parseCreateDocuments :: "api_machinery \<Rightarrow> raw \<Rightarrow> rpc_err + create_document list" where
  "parseCreateDocuments am rawArgs =
     (case decodeObject rawArgs of
        None \<Rightarrow> invalid_params ''arguments must contain only manifest''
      | Some args \<Rightarrow>
          bind_sum (check (length (dedup args) = 1) ''arguments must contain only manifest'') (\<lambda>_.
          bind_sum (manifest_objects am args) (\<lambda>objects.
          bind_sum (check (objects \<noteq> []) ''manifest must contain at least one object'') (\<lambda>_.
          map_sum_list (create_document am) objects))))"

definition createPairs :: "api_machinery \<Rightarrow> raw \<Rightarrow> string + rbac_pair list" where
  "createPairs am rawArgs =
     (case parseCreateDocuments am rawArgs of
        Inl e \<Rightarrow> Inl (message e)
      | Inr docs \<Rightarrow> Inr (map doc_pair docs))"

definition createCoordinate :: "create_ref \<Rightarrow> obj" where
  "createCoordinate ref =
     [(''apiVersion'', JStr (cr_APIVersion ref)), (''kind'', JStr (cr_Kind ref)),
      (''namespace'', case cr_Namespace ref of None \<Rightarrow> JNull | Some ns \<Rightarrow> JStr ns),
      (''name'', JStr (cr_Name ref))]"

section \<open>The tools and what they declare\<close>

abbreviation claims :: "no_permission_kind \<Rightarrow> string \<Rightarrow> tool_declaration" where
  "claims k why \<equiv> no_declaration\<lparr>noResourcePermission := Some \<lparr>np_kind = k, np_reason = why\<rparr>\<rparr>"

abbreviation resolves :: "(raw \<Rightarrow> string + rbac_pair list) \<Rightarrow> tool_declaration" where
  "resolves f \<equiv> no_declaration\<lparr>resolve := Some f\<rparr>"

abbreviation resolves_target :: "(raw \<Rightarrow> string + rbac_pair list) \<Rightarrow> tool_declaration" where
  "resolves_target f \<equiv> no_declaration\<lparr>resolve := Some f, target := Some genericTarget\<rparr>"

definition exemptAcceptedByOwner :: string where
  "exemptAcceptedByOwner = ''prd-approval-gate: accepted by the owner''"

definition gatedEveryMethodByAC15 :: string where
  "gatedEveryMethodByAC15 = ''prd-resource-generic AC15: gated whatever the method''"

text \<open>
  The two flags of an entry (\<open>createBatch\<close>, \<open>collectionGate\<close>) follow the declaration. The handlers
  are bound to the names in theory \<open>Registry\<close>.
\<close>

definition kubernetesTools :: "api_machinery \<Rightarrow> (string \<times> tool_declaration \<times> bool \<times> bool) list" where
  "kubernetesTools am =
    [(''ping'', claims touchesNothing ''answers from a constant; reaches no backend at all'', False, False),
     (''api_resources'', claims discoveryOnly ''discovery is not a resource permission'', False, False),
     (''resource_list'', resolves (genericPairs am ''list''), False, False),
     (''resource_get'', resolves_target (genericPairs am ''get''), False, False),
     (''resource_watch'', resolves (genericPairs am ''watch''), False, False),
     (''resource_update'', resolves_target (updatePairs am), False, False),
     (''resource_create'', resolves (createPairs am), True, False),
     (''resource_patch'', resolves_target (genericPairs am ''patch''), False, False),
     (''resource_delete'', resolves_target (deletePairs am), False, False),
     (''resource_delete_collection'',
        no_declaration\<lparr>resolve := Some (deleteCollectionPairs am),
                       collectionTarget := Some genericCollectionTarget\<rparr>, False, True),
     (''resource_exec'', resolves_target (execPairs am), False, False),
     (''resource_attach'', resolves_target (attachPairs am), False, False),
     (''resource_port_forward'', resolves_target (portForwardPairs am), False, False),
     (''resource_proxy'',
        no_declaration\<lparr>resolve := Some (proxyPairs am), target := Some genericTarget,
                       alwaysGated := gatedEveryMethodByAC15\<rparr>, False, False)]"

definition integrationTools :: "(string \<times> tool_declaration \<times> bool \<times> bool) list" where
  "integrationTools =
    [(''dear_baby_reset_user'',
        no_declaration\<lparr>td_pairs := [mk_pair ''list'' ''pods'', mk_pair ''create'' ''pods/exec''],
                       outsideGate := exemptAcceptedByOwner\<rparr>, False, False),
     (''github_app_installation_token'', claims touchesNothing ''mints a GitHub installation token'', False, False),
     (''github_commit_status_create'', claims touchesNothing ''writes a GitHub commit status'', False, False),
     (''pocket_aide_notification_send'', claims touchesNothing ''sends a push notification through PocketAide'', False, False),
     (''drop_token_issue'', claims touchesNothing ''issues a drop (file share) token'', False, False),
     (''opensearch_search'', claims touchesNothing ''queries OpenSearch'', False, False),
     (''opensearch_document_put'', claims touchesNothing ''writes an OpenSearch document'', False, False),
     (''opensearch_document_delete'', claims touchesNothing ''deletes an OpenSearch document'', False, False),
     (''session_create'', claims touchesNothing ''creates a session through the session platform API'', False, False),
     (''session_delete'', claims touchesNothing ''deletes a session through the session platform API'', False, False),
     (''session_read'', claims touchesNothing ''reads through the session platform API'', False, False),
     (''session_write'', claims touchesNothing ''writes through the session platform API'', False, False),
     (''aws_config_get'', claims touchesNothing ''returns AWS config'', False, False),
     (''grafana_token'', claims touchesNothing ''mints a Grafana Cloud token'', False, False),
     (''session_list'', claims touchesNothing ''lists sessions through the session platform API'', False, False)]"

definition declaredTools :: "api_machinery \<Rightarrow> (string \<times> tool_declaration \<times> bool \<times> bool) list" where
  "declaredTools am = kubernetesTools am @ integrationTools"

section \<open>Which calls may ask for approval\<close>

datatype approval_need = neverApproved | approvedForSensitiveKinds | alwaysApproved

definition defaultSensitiveKind :: string where "defaultSensitiveKind = ''v1/Secret''"

definition probe :: "string \<Rightarrow> raw" where
  "probe kind = JObj [(''apiVersion'', JStr ''v1''), (''kind'', JStr kind),
                      (''namespace'', JStr ''probe''), (''name'', JStr ''probe'')]"

definition ordinaryProbe :: raw where "ordinaryProbe = probe ''ConfigMap''"
definition sensitiveProbe :: raw where "sensitiveProbe = probe ''Secret''"

definition asks :: "tool_declaration \<Rightarrow> string list \<Rightarrow> raw \<Rightarrow> bool" where
  "asks d ks r = (case gatedPairs d ks r of Inl _ \<Rightarrow> True | Inr g \<Rightarrow> g \<noteq> [])"

definition approvalNeed :: "tool_declaration \<Rightarrow> approval_need" where
  "approvalNeed d =
     (if outsideGate d \<noteq> [] then neverApproved
      else if alwaysGated d \<noteq> [] then alwaysApproved
      else if resolve d = None \<and> td_pairs d = [] then neverApproved
      else if asks d [defaultSensitiveKind] ordinaryProbe then alwaysApproved
      else if asks d [defaultSensitiveKind] sensitiveProbe then approvedForSensitiveKinds
      else neverApproved)"

definition mayAskForApproval :: "tool_declaration \<Rightarrow> bool" where
  "mayAskForApproval d \<longleftrightarrow> approvalNeed d \<noteq> neverApproved"

section \<open>What resolution gives\<close>

lemma genericPairs_Inr:
  "genericPairs am verb rawArgs = Inr ps \<longleftrightarrow>
     (\<exists>o' av k r. rawArgs = JObj o' \<and> optionalString o' ''apiVersion'' = Some av \<and>
        optionalString o' ''kind'' = Some k \<and>
        resourceName am av k (string_or_empty o' ''subresource'') = Inr r \<and> ps = [mk_pair verb r])"
  by (cases rawArgs)
    (auto simp: genericPairs_def Let_def bind_sum_Inr_iff optionalString_iff)

lemma checked_Inr:
  "checked parse k rawArgs = Inr b \<longleftrightarrow> (\<exists>o' a. rawArgs = JObj o' \<and> parse o' = Inr a \<and> k o' = Inr b)"
  by (cases rawArgs) (auto simp: checked_def split: sum.splits)

lemma proxyPairs_Inr:
  "proxyPairs am rawArgs = Inr ps \<longleftrightarrow>
     (\<exists>o' a r. rawArgs = JObj o' \<and> parseProxyTarget o' = Inr a \<and>
        resourceName am (px_APIVersion (xa_ref a)) (px_Kind (xa_ref a)) ''proxy'' = Inr r \<and>
        ps = [mk_pair (ProxyVerbForMethod (xa_method a)) r])"
  by (cases rawArgs) (auto simp: proxyPairs_def bind_sum_Inr_iff split: sum.splits)

lemmas resolver_defs =
  updatePairs_def deletePairs_def deleteCollectionPairs_def execPairs_def attachPairs_def portForwardPairs_def

lemma stream_coordinate_simps [simp]:
  "lookup [(''apiVersion'', a), (''kind'', b), (''subresource'', c)] ''apiVersion'' = Some a"
  "lookup [(''apiVersion'', a), (''kind'', b), (''subresource'', c)] ''kind'' = Some b"
  "lookup [(''apiVersion'', a), (''kind'', b), (''subresource'', c)] ''subresource'' = Some c"
  by (simp_all add: lookup_Cons)

lemma create_document_Inr:
  assumes "create_document am ob = Inr d"
  shows "cr_Manifest (doc_ref d) = ob" and "doc_raw d = JObj [(''manifest'', JObj ob)]"
    and "cr_APIVersion (doc_ref d) = string_or_empty ob ''apiVersion''"
    and "cr_Kind (doc_ref d) = string_or_empty ob ''kind''"
    and "cr_Name (doc_ref d) = string_or_empty (object_or_empty ob ''metadata'') ''name''"
    and "Verb (doc_pair d) = ''create''"
    and "resourceName am (cr_APIVersion (doc_ref d)) (cr_Kind (doc_ref d)) [] = Inr (Resource (doc_pair d))"
  using assms
  by (auto simp: create_document_def Let_def bind_sum_Inr_iff genericPairs_Inr optionalString_def
      string_or_empty_def lookup_Cons split: sum.splits if_splits)

lemma manifest_objects_canon:
  assumes "manifest_objects am args = Inr obs" and "ob \<in> set obs"
  shows "canon_obj ob = ob"
proof -
  have doc: "\<exists>o'. ys = [] \<or> ys = [canon_obj o']" if "yaml_document am x = Inr ys" for x ys
    using that by (auto simp: yaml_document_def split: option.splits if_splits)
  show ?thesis
  proof (cases "\<exists>m. lookup args ''manifest'' = Some (JObj m)")
    case True
    with assms show ?thesis by (auto simp: manifest_objects_def)
  next
    case False
    with assms(1) obtain m docs parts where "readYAML am m = (docs, True)"
      and parts: "map_sum_list (yaml_document am) docs = Inr parts" and obs: "obs = concat parts"
      by (auto simp: manifest_objects_def bind_sum_Inr_iff split: option.splits json.splits prod.splits)
    from assms(2) obs obtain ys where ys: "ys \<in> set parts" "ob \<in> set ys" by auto
    with parts obtain x where "yaml_document am x = Inr ys"
      by (auto simp: map_sum_list_Inr_iff in_set_conv_nth list_all2_conv_all_nth)
    from doc [OF this] ys(2) show ?thesis by auto
  qed
qed

lemma parseCreateDocuments_Inr:
  assumes "parseCreateDocuments am rawArgs = Inr docs"
  obtains args objects where "rawArgs = JObj args" and "manifest_objects am args = Inr objects"
    and "objects \<noteq> []" and "list_all2 (\<lambda>ob d. create_document am ob = Inr d) objects docs"
  using assms
  by (cases rawArgs) (auto simp: parseCreateDocuments_def bind_sum_Inr_iff map_sum_list_Inr_iff)

text \<open>Every document is well formed, and is parsed back from the arguments its own call is given.\<close>

lemma parseCreateDocuments_member:
  assumes "parseCreateDocuments am rawArgs = Inr docs" and "d \<in> set docs"
  obtains ob where "create_document am ob = Inr d" and "canon_obj ob = ob"
proof -
  obtain args objects where a: "rawArgs = JObj args" "manifest_objects am args = Inr objects"
    and a2: "list_all2 (\<lambda>ob d. create_document am ob = Inr d) objects docs"
    using assms(1) by (rule parseCreateDocuments_Inr) blast
  from list_all2_member [OF a2 assms(2)] obtain ob where "ob \<in> set objects" "create_document am ob = Inr d"
    by blast
  with manifest_objects_canon [OF a(2)] that show thesis by blast
qed

lemma parse_single_document:
  assumes "create_document am ob = Inr d" and "canon_obj ob = ob"
  shows "parseCreateDocuments am (doc_raw d) = Inr [d]"
  using assms by (simp add: create_document_Inr(2) [OF assms(1)] parseCreateDocuments_def manifest_objects_def lookup_Cons)

lemma parseCreateDocuments_single:
  "parseCreateDocuments am rawArgs = Inr docs \<Longrightarrow> d \<in> set docs \<Longrightarrow>
     parseCreateDocuments am (doc_raw d) = Inr [d]"
  by (erule (1) parseCreateDocuments_member) (rule parse_single_document)

lemma createPairs_verb:
  assumes "createPairs am rawArgs = Inr ps" and "p \<in> set ps"
  shows "Verb p = ''create''"
proof -
  obtain docs where docs: "parseCreateDocuments am rawArgs = Inr docs" and ps: "ps = map doc_pair docs"
    using assms(1) by (auto simp: createPairs_def split: sum.splits)
  from assms(2) obtain d where d: "d \<in> set docs" "p = doc_pair d" by (auto simp: ps)
  from docs d(1) show ?thesis
    by (rule parseCreateDocuments_member) (simp add: d(2) create_document_Inr(6))
qed

section \<open>The pairs of the registered tools\<close>

lemma gatedPairs_Inr:
  "gatedPairs d ks r = Inr g \<longleftrightarrow>
     (if outsideGate d \<noteq> [] then g = []
      else \<exists>ps. callPairs d r = Inr ps \<and>
             g = (if alwaysGated d \<noteq> [] then ps else filter (pair_gated ks) ps))"
  by (auto simp: gatedPairs_def bind_sum_Inr_iff)

lemma gatedPairs_subset:
  "gatedPairs d ks r = Inr g \<Longrightarrow> callPairs d r = Inr ps \<Longrightarrow> set g \<subseteq> set ps"
  by (auto simp: gatedPairs_Inr split: if_splits)

text \<open>Nothing that changes state, and no sensitive read, is left out of the gate.\<close>

lemma gatedPairs_complete:
  "gatedPairs d ks r = Inr g \<Longrightarrow> callPairs d r = Inr ps \<Longrightarrow> outsideGate d = [] \<Longrightarrow>
     p \<in> set ps \<Longrightarrow> pair_gated ks p \<Longrightarrow> p \<in> set g"
  by (auto simp: gatedPairs_Inr split: if_splits)

definition is_declared :: "api_machinery \<Rightarrow> string \<Rightarrow> tool_declaration \<Rightarrow> bool" where
  "is_declared am name d \<longleftrightarrow> (name, d) \<in> set (map (\<lambda>(n, d, _). (n, d)) (declaredTools am))"

lemma is_declared_all:
  "list_all (\<lambda>(n, d, _). P n d) (declaredTools am) \<Longrightarrow> is_declared am name d \<Longrightarrow> P name d"
  by (auto simp: is_declared_def list_all_iff)

lemmas declared_defs = declaredTools_def kubernetesTools_def integrationTools_def no_declaration_def

lemma declared_outsideGate:
  "is_declared am name d \<Longrightarrow> outsideGate d = (if name = ''dear_baby_reset_user'' then exemptAcceptedByOwner else [])"
  by (rule is_declared_all [where P = "\<lambda>n d. outsideGate d = (if n = ''dear_baby_reset_user'' then exemptAcceptedByOwner else [])"])
    (simp add: declared_defs)

lemma declared_marker:
  "is_declared am name d \<Longrightarrow> noResourcePermission d \<noteq> None \<longleftrightarrow> (resolve d = None \<and> td_pairs d = [])"
  by (rule is_declared_all [where P = "\<lambda>n d. noResourcePermission d \<noteq> None \<longleftrightarrow> (resolve d = None \<and> td_pairs d = [])"])
    (simp add: declared_defs)

end
