(* ===== verification/Provenance.thy ===== *)
theory Provenance
  imports Declaration
begin

text \<open>
  Where a call comes from and what the registry promises about it: internal/mcp provenance.go
  (session id, reason), the checks that run before the server listens (declaration.go and the
  registry half of gate.go), and the advertised list (scoped_tools_list.go).
\<close>

section \<open>The context of one call\<close>

text \<open>
  The values a request's context carries beyond the scope: a key that was never set is the empty
  string or \<open>None\<close>. \<open>cx_cancelled\<close> is \<open>ctx.Err() != nil\<close> at the moment it is asked.
\<close>

record call_ctx = scope_ctx +
  cx_sessionID :: string
  cx_reason :: string
  cx_approved :: "target_state option"
  cx_principal :: principal
  cx_cancelled :: "world \<Rightarrow> bool"

definition maxSessionIDRunes :: nat where "maxSessionIDRunes = 128"
definition maxReasonRunes :: nat where "maxReasonRunes = 2000"

definition withSessionID :: "call_ctx \<Rightarrow> string \<Rightarrow> call_ctx" where
  "withSessionID ctx header =
     (let sid = trim_space header in
      if sid = [] then ctx
      else if \<not> valid_utf8 sid \<or> maxSessionIDRunes < rune_count sid then ctx
      else ctx\<lparr>cx_sessionID := sid\<rparr>)"

definition withReason :: "call_ctx \<Rightarrow> string \<Rightarrow> call_ctx" where
  "withReason ctx reason' = (if reason' = [] then ctx else ctx\<lparr>cx_reason := reason'\<rparr>)"

section \<open>The reason argument\<close>

text \<open>
  \<open>splitReason\<close>: every other member keeps its place and its value; arguments that are no object,
  or have no reason, come back as they came.
\<close>

definition splitReason :: "raw \<Rightarrow> rpc_err + raw \<times> string" where
  "splitReason rawArgs =
     (case rawArgs of
        JObj kvs \<Rightarrow>
          (case lookup kvs ''reason'' of
             None \<Rightarrow> Inr (rawArgs, [])
           | Some value \<Rightarrow>
               (let kept = JObj (filter (\<lambda>p. fst p \<noteq> ''reason'') kvs) in
                case value of
                  JNull \<Rightarrow> Inr (kept, [])
                | JStr s \<Rightarrow>
                    (let reason' = trim_space s in
                     if maxReasonRunes < rune_count reason' then invalid_params ''reason is too long''
                     else Inr (kept, reason'))
                | _ \<Rightarrow> invalid_params ''reason must be a string''))
      | _ \<Rightarrow> Inr (rawArgs, []))"

definition requireReason ::
  "call_ctx \<Rightarrow> string list \<Rightarrow> string \<Rightarrow> tool_declaration \<Rightarrow> raw \<Rightarrow> rpc_err option"
where
  "requireReason ctx sensitiveKinds name d rawArgs =
     (if cx_reason ctx \<noteq> [] then None
      else (case gatedPairs d sensitiveKinds rawArgs of
              Inl _ \<Rightarrow> None
            | Inr gated \<Rightarrow>
                if gated = [] then None
                else Some (errf (-32602)
                  (''reason is required: this '' @ name @ '' call ('' @ pairsText gated @ '') needs human approval''))))"

lemma splitReason_Inr:
  assumes "splitReason r = Inr (kept, s)"
  shows "decodeObject kept = map_option (filter (\<lambda>p. fst p \<noteq> ''reason'')) (decodeObject r)"
    and "rune_count s \<le> maxReasonRunes" and "s = trim_space s"
    and "s \<noteq> [] \<Longrightarrow> \<exists>kvs v. r = JObj kvs \<and> lookup kvs ''reason'' = Some (JStr v) \<and> s = trim_space v"
proof -
  show "decodeObject kept = map_option (filter (\<lambda>p. fst p \<noteq> ''reason'')) (decodeObject r)"
    using assms by (auto simp: splitReason_def Let_def lookup_None_iff image_iff intro!: filter_True [symmetric]
        split: json.splits option.splits if_splits)
  show "rune_count s \<le> maxReasonRunes" "s = trim_space s"
    and "s \<noteq> [] \<Longrightarrow> \<exists>kvs v. r = JObj kvs \<and> lookup kvs ''reason'' = Some (JStr v) \<and> s = trim_space v"
    using assms by (auto simp: splitReason_def Let_def rune_count_def bytes_def trim_space_def [of "[]"]
        split: json.splits option.splits if_splits)
qed

section \<open>The checks before the server listens\<close>

text \<open>A problem is told by its leading words.\<close>

definition declaration_problems :: "string \<Rightarrow> tool_declaration \<Rightarrow> string list" where
  "declaration_problems name d =
     (let declaresPairs = (td_pairs d \<noteq> [] \<or> resolve d \<noteq> None) in
      case noResourcePermission d of
        None \<Rightarrow>
          (if \<not> declaresPairs then [name @ '' declares no (verb, resource) pair and carries no no-resource-permission marker'']
           else [])
      | Some marker \<Rightarrow>
          (if declaresPairs then [name @ '' both declares pairs and claims no resource permission'']
           else (case np_kind marker of
                   OtherKind k \<Rightarrow> [name @ '' has a no-resource-permission marker of unknown kind '' @ k]
                 | _ \<Rightarrow> [])
                @ (if np_reason marker = []
                   then [name @ '' claims no resource permission without saying why''] else [])))"

definition validateDeclarations :: "(string \<times> 'h tool_entry) list \<Rightarrow> string list" where
  "validateDeclarations registered =
     sort (concat (map (\<lambda>(name, entry). declaration_problems name (decl entry)) registered))"

definition validateRegistry :: "(string \<times> 'h tool_entry) list \<Rightarrow> string list \<Rightarrow> string option" where
  "validateRegistry registered advertised =
     (let undeclared = sort (filter (\<lambda>n. n \<notin> fst ` set registered) advertised);
          unreachable' = sort (filter (\<lambda>n. n \<notin> set advertised) (map fst registered));
          problems = (if undeclared \<noteq> [] then [''advertised but not registered (no declaration): '' @ join '', '' undeclared] else [])
            @ (if unreachable' \<noteq> [] then [''registered but not advertised: '' @ join '', '' unreachable'] else [])
            @ concat (map (\<lambda>(name, entry). if handle entry = None then [name @ '' has no handler''] else []) registered)
            @ validateDeclarations registered
      in if problems = [] then None
         else Some (''tool registry is inconsistent: '' @ join ''; '' (sort problems)))"

definition ToolNames :: "(string \<times> 'h tool_entry) list \<Rightarrow> string list" where
  "ToolNames registry = sort (map fst registry)"

definition Exemptions :: "(string \<times> 'h tool_entry) list \<Rightarrow> (string \<times> string) list" where
  "Exemptions registry =
     map (\<lambda>(name, entry). (name, outsideGate (decl entry)))
       (filter (\<lambda>(name, entry). outsideGate (decl entry) \<noteq> [] \<and>
                  list_ex (\<lambda>p. Verb p \<in> set gatedVerbs) (td_pairs (decl entry))) registry)"

definition gateTargetKind :: string where "gateTargetKind = ''<kind>''"

definition GatePairs :: "rbac_pair list" where
  "GatePairs = [mk_pair ''get'' gateTargetKind, mk_pair ''list'' gateTargetKind]"

definition well_declared :: "tool_declaration \<Rightarrow> bool" where
  "well_declared d \<longleftrightarrow>
     (case noResourcePermission d of
        None \<Rightarrow> td_pairs d \<noteq> [] \<or> resolve d \<noteq> None
      | Some m \<Rightarrow> td_pairs d = [] \<and> resolve d = None \<and> np_reason m \<noteq> [] \<and>
                  (np_kind m = touchesNothing \<or> np_kind m = discoveryOnly))"

lemma declaration_problems_Nil: "declaration_problems name d = [] \<longleftrightarrow> well_declared d"
  by (auto simp: declaration_problems_def well_declared_def Let_def
      split: option.splits no_permission_kind.splits)

lemma sort_Nil_iff [simp]: "sort xs = [] \<longleftrightarrow> xs = ([] :: 'a :: linorder list)"
  by (metis length_0_conv length_sort)

lemma validateDeclarations_Nil:
  "validateDeclarations registered = [] \<longleftrightarrow> list_all (\<lambda>(name, e). well_declared (decl e)) registered"
  by (auto simp: validateDeclarations_def declaration_problems_Nil list_all_iff)

lemma validateRegistry_None:
  "validateRegistry registered advertised = None \<longleftrightarrow>
     set advertised = fst ` set registered \<and>
     list_all (\<lambda>(name, e). handle e \<noteq> None \<and> well_declared (decl e)) registered"
  by (auto simp: validateRegistry_def Let_def validateDeclarations_Nil filter_empty_conv list_all_iff
      image_iff split: if_splits) force+

section \<open>tools/list\<close>

definition toolsList :: "'a scope_ctx_scheme \<Rightarrow> (string \<times> raw) list \<Rightarrow> (string \<times> raw) list" where
  "toolsList ctx advertised =
     (if \<not> Restricted ctx then advertised else filter (\<lambda>t. Allows ctx (fst t)) advertised)"

lemma toolsList_filter: "toolsList ctx advertised = filter (\<lambda>t. Allows ctx (fst t)) advertised"
  by (simp add: toolsList_def)

end
