(* ===== verification/Confine.thy ===== *)
theory Confine
  imports Provenance
begin

text \<open>
  internal/mcp confine.go: the kubernetes client a handler is given answers only for the pairs the
  call declared. The contract of such a client is the locale \<open>bounded_service\<close>; the live client,
  the confined one and the unavailable one are its instances.
\<close>

section \<open>The confined client\<close>

text \<open>The set of pairs is a list here; Go prints it in no particular order.\<close>

record confinement =
  cf_tool :: string
  cf_allowed :: "rbac_pair list"
  cf_discovery :: bool

definition declaredText :: "rbac_pair list \<Rightarrow> bool \<Rightarrow> string" where
  "declaredText allowed discovery =
     (if allowed = [] then (if discovery then ''discovery only'' else ''no kubernetes access'')
      else pairsText allowed)"

definition allow :: "confinement \<Rightarrow> rbac_pair \<Rightarrow> go_err + unit" where
  "allow c p =
     ensure (p \<in> set (cf_allowed c))
       (ErrText (''refusing '' @ cf_tool c @ '': this call declared ''
          @ declaredText (cf_allowed c) (cf_discovery c) @ '', and '' @ pair_string p @ '' is outside it''))"

definition permit :: "api_machinery \<Rightarrow> confinement \<Rightarrow> string \<Rightarrow> string \<Rightarrow> string \<Rightarrow> string \<Rightarrow> go_err + unit" where
  "permit am c verb apiVersion kind subresource =
     (case resourceName am apiVersion kind subresource of
        Inl e \<Rightarrow> Inl (ErrText (''refusing '' @ cf_tool c @ '': '' @ e))
      | Inr resource \<Rightarrow> allow c (mk_pair verb resource))"

definition confine ::
  "string \<Rightarrow> tool_declaration \<Rightarrow> raw \<Rightarrow> string + confinement"
where
  "confine tool d rawArgs =
     (case noResourcePermission d of
        Some marker \<Rightarrow> Inr \<lparr>cf_tool = tool, cf_allowed = [], cf_discovery = (np_kind marker = discoveryOnly)\<rparr>
      | None \<Rightarrow>
          bind_sum (callPairs d rawArgs) (\<lambda>pairs.
          Inr \<lparr>cf_tool = tool, cf_allowed = pairs, cf_discovery = False\<rparr>))"

text \<open>A method runs only when the check gives no error.\<close>

definition guarded :: "go_err + unit \<Rightarrow> ('w, 'a) act \<Rightarrow> ('w, 'a) act" where
  "guarded chk act w = (case chk of Inl e \<Rightarrow> (Inl e, w) | Inr _ \<Rightarrow> act w)"

definition discovery_check :: "confinement \<Rightarrow> go_err + unit" where
  "discovery_check c =
     ensure (cf_discovery c)
       (ErrText (''refusing '' @ cf_tool c @ '': this call declared ''
          @ declaredText (cf_allowed c) (cf_discovery c) @ '', and discovery is outside it''))"

definition exec_in_pod_check :: "confinement \<Rightarrow> go_err + unit" where
  "exec_in_pod_check c =
     bind_sum (allow c (mk_pair ''list'' ''pods'')) (\<lambda>_. allow c (mk_pair ''create'' ''pods/exec''))"

definition confinedService :: "api_machinery \<Rightarrow> confinement \<Rightarrow> 'w k8s_service \<Rightarrow> 'w k8s_service" where
  "confinedService am c inner =
     \<lparr>APIResources = guarded (discovery_check c) (APIResources inner),
      ListResources = (\<lambda>q. guarded (permit am c ''list'' (lq_APIVersion q) (lq_Kind q) []) (ListResources inner q)),
      WatchResources = (\<lambda>q. guarded (permit am c ''watch'' (wq_APIVersion q) (wq_Kind q) []) (WatchResources inner q)),
      GetResource = (\<lambda>r. guarded (permit am c ''get'' (rr_APIVersion r) (rr_Kind r) (rr_Subresource r)) (GetResource inner r)),
      CreateResource = (\<lambda>r. guarded (permit am c ''create'' (cr_APIVersion r) (cr_Kind r) []) (CreateResource inner r)),
      UpdateResource = (\<lambda>r. guarded (permit am c ''update'' (ur_APIVersion r) (ur_Kind r) (ur_Subresource r)) (UpdateResource inner r)),
      PatchResource = (\<lambda>r. guarded (permit am c ''patch'' (pr_APIVersion r) (pr_Kind r) []) (PatchResource inner r)),
      DeleteResource = (\<lambda>r. guarded (permit am c ''delete'' (dr_APIVersion r) (dr_Kind r) []) (DeleteResource inner r)),
      DeleteCollection = (\<lambda>r. guarded (permit am c ''deletecollection'' (dc_APIVersion r) (dc_Kind r) []) (DeleteCollection inner r)),
      ExecInPod = (\<lambda>n s k cmd. guarded (exec_in_pod_check c) (ExecInPod inner n s k cmd)),
      ExecResource = (\<lambda>r k cmd. guarded (permit am c ''create'' (po_APIVersion r) (po_Kind r) ''exec'') (ExecResource inner r k cmd)),
      AttachResource = (\<lambda>r k i n. guarded (permit am c ''create'' (po_APIVersion r) (po_Kind r) ''attach'') (AttachResource inner r k i n)),
      PortForwardResource = (\<lambda>r p b n. guarded (permit am c ''create'' (po_APIVersion r) (po_Kind r) ''portforward'')
        (PortForwardResource inner r p b n)),
      ProxyResource = (\<lambda>r m p b t n. guarded (permit am c (ProxyVerbForMethod m) (px_APIVersion r) (px_Kind r) ''proxy'')
        (ProxyResource inner r m p b t n))\<rparr>"

section \<open>The permissions a call exercises\<close>

text \<open>
  Specified apart from the wrapper: the pairs one call on the client stands for. Discovery is no
  permission (\<open>None\<close>); a coordinate whose apiVersion does not parse has no name.
\<close>

definition named :: "api_machinery \<Rightarrow> string \<Rightarrow> string \<Rightarrow> string \<Rightarrow> string \<Rightarrow> rbac_pair list option" where
  "named am verb av k sub =
     (case resourceName am av k sub of Inl _ \<Rightarrow> None | Inr r \<Rightarrow> Some [mk_pair verb r])"

fun exercises :: "api_machinery \<Rightarrow> k8s_call \<Rightarrow> rbac_pair list option" where
  "exercises am CAPIResources = None"
| "exercises am (CList q) = named am ''list'' (lq_APIVersion q) (lq_Kind q) []"
| "exercises am (CWatch q) = named am ''watch'' (wq_APIVersion q) (wq_Kind q) []"
| "exercises am (CGet r) = named am ''get'' (rr_APIVersion r) (rr_Kind r) (rr_Subresource r)"
| "exercises am (CCreate r) = named am ''create'' (cr_APIVersion r) (cr_Kind r) []"
| "exercises am (CUpdate r) = named am ''update'' (ur_APIVersion r) (ur_Kind r) (ur_Subresource r)"
| "exercises am (CPatch r) = named am ''patch'' (pr_APIVersion r) (pr_Kind r) []"
| "exercises am (CDelete r) = named am ''delete'' (dr_APIVersion r) (dr_Kind r) []"
| "exercises am (CDeleteCollection r) = named am ''deletecollection'' (dc_APIVersion r) (dc_Kind r) []"
| "exercises am (CExecInPod n s k cmd) = Some [mk_pair ''list'' ''pods'', mk_pair ''create'' ''pods/exec'']"
| "exercises am (CExec r k cmd) = named am ''create'' (po_APIVersion r) (po_Kind r) ''exec''"
| "exercises am (CAttach r k i n) = named am ''create'' (po_APIVersion r) (po_Kind r) ''attach''"
| "exercises am (CPortForward r p b n) = named am ''create'' (po_APIVersion r) (po_Kind r) ''portforward''"
| "exercises am (CProxy r m p b t n) = named am (ProxyVerbForMethod m) (px_APIVersion r) (px_Kind r) ''proxy''"

definition permits :: "api_machinery \<Rightarrow> confinement \<Rightarrow> k8s_call \<Rightarrow> bool" where
  "permits am c call \<longleftrightarrow>
     (case call of CAPIResources \<Rightarrow> cf_discovery c
      | _ \<Rightarrow> (case exercises am call of None \<Rightarrow> False | Some ps \<Rightarrow> set ps \<subseteq> set (cf_allowed c)))"

text \<open>An act that fails without a trace, or makes exactly one call of those it may make.\<close>

definition bounded_act :: "(k8s_call \<Rightarrow> bool) \<Rightarrow> k8s_call \<Rightarrow> (world, 'a) act \<Rightarrow> bool" where
  "bounded_act may call act \<longleftrightarrow>
     (\<forall>w r w'. act w = (r, w') \<longrightarrow>
        (w' = w \<and> (\<exists>e. r = Inl e)) \<or> (may call \<and> w' = log_effect (K8sCall call) w))"

locale bounded_service =
  fixes svc :: "world k8s_service" and may :: "k8s_call \<Rightarrow> bool"
  assumes b_api: "bounded_act may CAPIResources (APIResources svc)"
    and b_list: "bounded_act may (CList q) (ListResources svc q)"
    and b_watch: "bounded_act may (CWatch wq) (WatchResources svc wq)"
    and b_get: "bounded_act may (CGet gr) (GetResource svc gr)"
    and b_create: "bounded_act may (CCreate cr) (CreateResource svc cr)"
    and b_update: "bounded_act may (CUpdate ur) (UpdateResource svc ur)"
    and b_patch: "bounded_act may (CPatch pr) (PatchResource svc pr)"
    and b_delete: "bounded_act may (CDelete dr) (DeleteResource svc dr)"
    and b_collection: "bounded_act may (CDeleteCollection dc) (DeleteCollection svc dc)"
    and b_exec_in_pod: "bounded_act may (CExecInPod n s k cmd) (ExecInPod svc n s k cmd)"
    and b_exec: "bounded_act may (CExec er k cmd) (ExecResource svc er k cmd)"
    and b_attach: "bounded_act may (CAttach ar k i secs) (AttachResource svc ar k i secs)"
    and b_port_forward: "bounded_act may (CPortForward fr p b secs) (PortForwardResource svc fr p b secs)"
    and b_proxy: "bounded_act may (CProxy xr m path b ct secs) (ProxyResource svc xr m path b ct secs)"
begin

lemmas bounded_acts = b_api b_list b_watch b_get b_create b_update b_patch b_delete b_collection
  b_exec_in_pod b_exec b_attach b_port_forward b_proxy

end

lemma bounded_act_perform: "may call \<Longrightarrow> bounded_act may call (perform (K8sCall call) a)"
  by (auto simp: bounded_act_def perform_def)

lemma bounded_act_refuse: "bounded_act may call (Pair (Inl e))"
  by (auto simp: bounded_act_def)

lemma bounded_act_guarded:
  "bounded_act may call act \<Longrightarrow> (chk = Inr () \<Longrightarrow> may' call) \<Longrightarrow>
     bounded_act (\<lambda>k. may k \<and> may' k) call (guarded chk act)"
  by (cases chk) (auto simp: bounded_act_def guarded_def)

lemma permit_Inr: "permit am c v av k s = Inr u \<longleftrightarrow>
    (\<exists>r. resourceName am av k s = Inr r \<and> mk_pair v r \<in> set (cf_allowed c))"
  by (auto simp: permit_def allow_def split: sum.splits)

lemma named_permit:
  "permit am c v av k s = Inr () \<Longrightarrow>
     (case named am v av k s of None \<Rightarrow> False | Some ps \<Rightarrow> set ps \<subseteq> set (cf_allowed c))"
  by (auto simp: permit_Inr named_def)

interpretation live: bounded_service "live_service or'" "\<lambda>_. True"
  by unfold_locales (simp_all add: live_service_def bounded_act_perform)

interpretation unavailable_k8s: bounded_service "unavailable_service why" "\<lambda>_. False"
  by unfold_locales (simp_all add: unavailable_service_def Let_def bounded_act_refuse)

lemma bounded_service_confined:
  assumes "bounded_service svc may"
  shows "bounded_service (confinedService am c svc) (\<lambda>k. may k \<and> permits am c k)"
  by (rule bounded_service.intro; simp only: confinedService_def k8s_service.simps;
      rule bounded_act_guarded, rule bounded_service.bounded_acts [OF assms],
      simp add: permits_def named_permit discovery_check_def exec_in_pod_check_def allow_def bind_sum_Inr_iff)

interpretation confined: bounded_service "confinedService am c (live_service or')" "permits am c"
  using bounded_service_confined [OF live.bounded_service_axioms] by simp

section \<open>Declaration and confinement agree\<close>

text \<open>The pairs a confinement allows are those the call declares.\<close>

lemma confine_Inr:
  assumes "confine tool d r = Inr c"
  shows "cf_allowed c = (if noResourcePermission d = None then projr (callPairs d r) else [])"
    and "cf_discovery c \<longleftrightarrow> (\<exists>m. noResourcePermission d = Some m \<and> np_kind m = discoveryOnly)"
    and "cf_tool c = tool"
  using assms by (auto simp: confine_def bind_sum_Inr_iff split: option.splits)

lemma confine_no_permission:
  "confine tool d r = Inr c \<Longrightarrow> noResourcePermission d \<noteq> None \<Longrightarrow> permits am c k \<Longrightarrow> k = CAPIResources"
  by (cases k) (auto simp: permits_def named_def dest: confine_Inr split: sum.splits)

end
