(* ===== verification/Screen.thy ===== *)
theory Screen
  imports Confine
begin

text \<open>
  What an operator is shown: the pure half of internal/mcp gate.go and the context builder of
  delete_collection.go. A line of the screen is a constructor of \<open>ctx_line\<close>; the wording around
  its values is fixed text. The arguments of a write to a sensitive kind are masked first.
\<close>

section \<open>Masking\<close>

definition credentialFields :: "string list" where
  "credentialFields = [''data'', ''stringData'']"

definition maskedValue :: "json \<Rightarrow> bool \<Rightarrow> string" where
  "maskedValue value encoded =
     (case value of
        JStr s \<Rightarrow>
          (let size = (if encoded then (case b64_decode s of Some r \<Rightarrow> length r | None \<Rightarrow> length s)
                       else length s)
           in ''(masked, '' @ itoa (int size) @ ''B)'')
      | _ \<Rightarrow> ''(masked)'')"

definition maskedEntries :: "obj \<Rightarrow> bool \<Rightarrow> obj" where
  "maskedEntries entries encoded = map (\<lambda>(k, v). (k, JStr (maskedValue v encoded))) entries"

definition masked_field :: "string \<Rightarrow> json \<Rightarrow> json" where
  "masked_field k v =
     (case v of
        JObj entries \<Rightarrow> JObj (maskedEntries entries (k = ''data''))
      | _ \<Rightarrow> JStr (maskedValue v (k = ''data'')))"

fun maskCredentialTree :: "json \<Rightarrow> json" where
  "maskCredentialTree (JObj kvs) =
     JObj (map (\<lambda>(k, v). (k, if k \<in> set credentialFields then masked_field k v else maskCredentialTree v)) kvs)"
| "maskCredentialTree (JArr xs) = JArr (map maskCredentialTree xs)"
| "maskCredentialTree v = v"

definition credentialPath :: "string \<Rightarrow> (string \<times> string) option" where
  "credentialPath path =
     (case find (\<lambda>name. path = ''/'' @ name \<or> has_prefix path (''/'' @ name @ ''/'')) credentialFields of
        None \<Rightarrow> None
      | Some name \<Rightarrow>
          (if path = ''/'' @ name then Some (name, []) else Some (name, drop (length name + 2) path)))"

text \<open>\<open>set_member\<close> writes a member of a map that has it.\<close>

definition set_member :: "string \<Rightarrow> json \<Rightarrow> obj \<Rightarrow> obj" where
  "set_member k v kvs = map (\<lambda>(k', v'). (k', if k' = k then v else v')) kvs"

definition maskJSONPatchOp :: "json \<Rightarrow> json" where
  "maskJSONPatchOp item =
     (case item of
        JObj op \<Rightarrow>
          (case credentialPath (string_or_empty op ''path'') of
             None \<Rightarrow> item
           | Some (field, rest) \<Rightarrow>
               (case lookup op ''value'' of
                  None \<Rightarrow> item
                | Some value \<Rightarrow>
                    (case (rest, value) of
                       ([], JObj entries) \<Rightarrow>
                         JObj (set_member ''value'' (JObj (maskedEntries entries (field = ''data''))) op)
                     | _ \<Rightarrow> JObj (set_member ''value'' (JStr (maskedValue value (field = ''data''))) op))))
      | _ \<Rightarrow> item)"

definition maskJSONPatchOps :: "json \<Rightarrow> json" where
  "maskJSONPatchOps node = (case node of JArr ops \<Rightarrow> JArr (map maskJSONPatchOp ops) | _ \<Rightarrow> node)"

definition maskCredentialValues :: "raw \<Rightarrow> ctx_line" where
  "maskCredentialValues rawArgs =
     (case rawArgs of
        JObj kvs \<Rightarrow>
          (let args = canon_obj kvs;
               args' = (if string_or_empty args ''patchType'' = ''json''
                        then map (\<lambda>(k, v). (k, if k = ''patch'' then maskJSONPatchOps v else v)) args
                        else args)
           in LArgsMasked (maskCredentialTree (JObj args')))
      | _ \<Rightarrow> LArgsWithheld)"

section \<open>The lines of the screen\<close>

definition kubeletHighPowerPaths :: "string list" where
  "kubeletHighPowerPaths = [''/exec'', ''/attach'', ''/portForward'', ''/run'', ''/logs'', ''/containerLogs'']"

text \<open>\<open>strings.IndexAny(s, "/?")\<close> on the path without its leading slash.\<close>

definition kubeletHighPowerEndpoint :: "string \<Rightarrow> string option" where
  "kubeletHighPowerEndpoint path =
     (let rest = (case cut_prefix path ''/'' of None \<Rightarrow> path | Some r \<Rightarrow> r);
          stop = (\<lambda>c. c = CHR ''/'' \<or> c = CHR ''?'');
          head = (if list_ex stop rest then ''/'' @ takeWhile (\<lambda>c. \<not> stop c) rest else path)
      in find (equal_fold head) kubeletHighPowerPaths)"

definition proxyPathDetail :: "string \<Rightarrow> raw \<Rightarrow> ctx_line list" where
  "proxyPathDetail name rawArgs =
     (if name \<noteq> ''resource_proxy'' then []
      else (case decodeObject rawArgs of
              None \<Rightarrow> []
            | Some o' \<Rightarrow>
                (case parseProxyTarget o' of
                   Inl _ \<Rightarrow> []
                 | Inr args \<Rightarrow>
                     [LProxy (xa_method args) (xa_path args) (px_Port (xa_ref args))
                        (if equal_fold (string_or_empty o' ''kind'') ''Node''
                         then kubeletHighPowerEndpoint (xa_path args) else None)])))"

definition replicaChange :: "raw \<Rightarrow> target_ref option \<Rightarrow> target_state option \<Rightarrow> ctx_line list" where
  "replicaChange rawArgs ref state =
     (case ref of
        None \<Rightarrow> []
      | Some r \<Rightarrow>
          if tr_Subresource r \<noteq> ScaleSubresource then []
          else (case decodeObject rawArgs of
                  None \<Rightarrow> []
                | Some o' \<Rightarrow>
                    (case parseUpdateTarget o' of
                       Inl _ \<Rightarrow> []
                     | Inr (_, want) \<Rightarrow>
                         [LReplicas (case state of None \<Rightarrow> None | Some s \<Rightarrow> ts_Replicas s) want])))"

definition argumentsBlock :: "rbac_pair list \<Rightarrow> raw \<Rightarrow> string list \<Rightarrow> ctx_line" where
  "argumentsBlock gated rawArgs sensitiveKinds =
     (if rawArgs = JNull then LArgsNone
      else if writesASensitiveKind gated sensitiveKinds then maskCredentialValues rawArgs
      else LArgs rawArgs)"

definition approvalContext ::
  "string \<Rightarrow> rbac_pair list \<Rightarrow> raw \<Rightarrow> string list \<Rightarrow> target_ref option \<Rightarrow> target_state option \<Rightarrow> nat \<Rightarrow> ctx_line list"
where
  "approvalContext name gated rawArgs sensitiveKinds ref state time =
     [LTool name, LRbac gated, LRequestedAt time]
     @ (case ref of None \<Rightarrow> [] | Some r \<Rightarrow> [LTarget r])
     @ (case state of None \<Rightarrow> [] | Some s \<Rightarrow> [LResourceVersion (ts_ResourceVersion s)])
     @ replicaChange rawArgs ref state
     @ proxyPathDetail name rawArgs
     @ [argumentsBlock gated rawArgs sensitiveKinds]"

definition contextNameLimit :: nat where "contextNameLimit = 20"

text \<open>Names up to the limit, then one line for the rest.\<close>

definition target_lines :: "collection_target list \<Rightarrow> ctx_line list" where
  "target_lines targets =
     map (\<lambda>t. LName (cg_Namespace t) (cg_Name t)) (take contextNameLimit targets)
     @ (if contextNameLimit < length targets
        then [LMore (length targets - contextNameLimit) (length targets)] else [])"

definition collectionApprovalContext ::
  "string \<Rightarrow> rbac_pair list \<Rightarrow> raw \<Rightarrow> string list \<Rightarrow> collection_target_ref \<Rightarrow> collection_target_state \<Rightarrow> nat \<Rightarrow> ctx_line list"
where
  "collectionApprovalContext name gated rawArgs sensitiveKinds ref state time =
     [LTool name, LRbac gated, LRequestedAt time,
      LCollection (ct_APIVersion ref) (ct_Kind ref) (ct_Namespace ref),
      LLabelSelector (ct_LabelSelector ref), LFieldSelector (ct_FieldSelector ref),
      LCount (length (cs_Targets state))]
     @ target_lines (cs_Targets state)
     @ [argumentsBlock gated rawArgs sensitiveKinds]"

lemma approvalContext_nonempty [simp]: "approvalContext n g r ks ref st t \<noteq> []"
  by (simp add: approvalContext_def)

lemma collectionApprovalContext_nonempty [simp]: "collectionApprovalContext n g r ks ref st t \<noteq> []"
  by (simp add: collectionApprovalContext_def)

section \<open>Nothing but sizes is shown of a credential\<close>

text \<open>The text a masked value is replaced with.\<close>

definition is_mask :: "json \<Rightarrow> bool" where
  "is_mask v \<longleftrightarrow> v = JStr ''(masked)'' \<or> (\<exists>n. v = JStr (''(masked, '' @ itoa (int n) @ ''B)''))"

definition field_masked :: "json \<Rightarrow> bool" where
  "field_masked v \<longleftrightarrow> is_mask v \<or> (\<exists>kvs. v = JObj kvs \<and> list_all (\<lambda>(k, w). is_mask w) kvs)"

text \<open>Every credential field, at any depth, holds masks only.\<close>

fun credentials_masked :: "json \<Rightarrow> bool" where
  "credentials_masked (JObj kvs) =
     list_all id (map (\<lambda>(k, v). if k \<in> set credentialFields then field_masked v else credentials_masked v) kvs)"
| "credentials_masked (JArr xs) = list_all id (map credentials_masked xs)"
| "credentials_masked _ = True"

lemma is_mask_maskedValue [simp]: "is_mask (JStr (maskedValue v e))"
  by (auto simp: is_mask_def maskedValue_def Let_def split: json.splits)

lemma field_masked_maskedEntries [simp]: "field_masked (JObj (maskedEntries es e))"
  by (auto simp: field_masked_def maskedEntries_def list_all_iff)

lemma field_masked_masked_field [simp]: "field_masked (masked_field k v)"
  by (auto simp: masked_field_def field_masked_def [of "JStr s" for s] split: json.splits)

lemma credentials_masked_tree: "credentials_masked (maskCredentialTree v)"
  by (induction v rule: maskCredentialTree.induct) (auto simp: list_all_iff)

text \<open>What is not under a credential field keeps its place in the tree.\<close>

lemma maskCredentialTree_lookup:
  "k \<notin> set credentialFields \<Longrightarrow> maskCredentialTree (JObj kvs) = JObj kvs' \<Longrightarrow>
     lookup kvs' k = map_option maskCredentialTree (lookup kvs k)"
  by (induction kvs arbitrary: kvs') (auto simp: lookup_Cons split: option.splits)

text \<open>An operation of a JSON patch under a credential path carries masks only.\<close>

definition op_masked :: "json \<Rightarrow> bool" where
  "op_masked item =
     (case item of
        JObj op \<Rightarrow>
          (case (credentialPath (string_or_empty op ''path''), lookup op ''value'') of
             (Some _, Some v) \<Rightarrow> field_masked v
           | _ \<Rightarrow> True)
      | _ \<Rightarrow> True)"

lemma lookup_set_member: "lookup (set_member k v kvs) k' =
    (if k' = k then map_option (\<lambda>_. v) (lookup kvs k) else lookup kvs k')"
  by (induction kvs) (auto simp: set_member_def lookup_Cons split: option.splits)

lemma string_or_empty_set_member [simp]:
  "k' \<noteq> k \<Longrightarrow> string_or_empty (set_member k v kvs) k' = string_or_empty kvs k'"
  by (simp add: string_or_empty_def lookup_set_member)

lemma op_masked_maskJSONPatchOp: "op_masked (maskJSONPatchOp item)"
  by (auto simp: maskJSONPatchOp_def op_masked_def lookup_set_member field_masked_def [of "JStr s" for s]
      split: json.splits option.splits list.splits)

text \<open>A second pass over a masked value leaves masks.\<close>

lemma is_mask_again:
  assumes "is_mask w"
  shows "is_mask (if k \<in> set credentialFields then masked_field k w else maskCredentialTree w)"
proof -
  from assms obtain s where "w = JStr s" by (auto simp: is_mask_def)
  with assms show ?thesis by (simp add: masked_field_def)
qed

lemma field_masked_tree:
  assumes "field_masked v"
  shows "field_masked (maskCredentialTree v)"
proof (cases v)
  case (JObj kvs)
  with assms have "list_all (\<lambda>(k, w). is_mask w) kvs" by (auto simp: field_masked_def is_mask_def)
  then have "list_all (\<lambda>(k, w). is_mask w)
      (map (\<lambda>(k, v). (k, if k \<in> set credentialFields then masked_field k v else maskCredentialTree v)) kvs)"
    using is_mask_again by (fastforce simp: list_all_iff)
  then show ?thesis by (auto simp: field_masked_def JObj)
qed (use assms in \<open>auto simp: field_masked_def is_mask_def\<close>)

lemma string_or_empty_tree:
  "k \<notin> set credentialFields \<Longrightarrow> maskCredentialTree (JObj kvs) = JObj kvs' \<Longrightarrow>
     string_or_empty kvs' k = string_or_empty kvs k"
  by (auto simp: string_or_empty_def maskCredentialTree_lookup split: option.splits json.splits)

lemma op_masked_tree: "op_masked item \<Longrightarrow> op_masked (maskCredentialTree item)"
proof (cases item)
  case (JObj kvs)
  assume m: "op_masked item"
  obtain kvs' where t: "maskCredentialTree (JObj kvs) = JObj kvs'" by simp
  have f: "''path'' \<notin> set credentialFields" "''value'' \<notin> set credentialFields" by (simp_all add: credentialFields_def)
  have "op_masked (JObj kvs')"
    using m unfolding JObj op_masked_def
    by (simp add: string_or_empty_tree [OF f(1) t] maskCredentialTree_lookup [OF f(2) t]
        split: option.splits) (auto intro: field_masked_tree)
  then show ?thesis by (simp only: JObj t)
qed (auto simp: op_masked_def)

lemma lookup_map_key: "lookup (map (\<lambda>(k, v). (k, f k v)) kvs) x = map_option (f x) (lookup kvs x)"
  by (induction kvs) (auto simp: lookup_Cons split: option.splits)

text \<open>Every operation of a JSON patch is shown masked.\<close>

lemma maskCredentialValues_patch:
  assumes "string_or_empty kvs ''patchType'' = ''json''" and "lookup kvs ''patch'' = Some (JArr ops)"
  shows "\<exists>shown ops'. maskCredentialValues (JObj kvs) = LArgsMasked (JObj shown) \<and>
     lookup shown ''patch'' = Some (JArr ops') \<and> length ops' = length ops \<and> list_all op_masked ops'"
proof -
  let ?args = "map (\<lambda>(k, v). (k, if k = ''patch'' then maskJSONPatchOps v else v)) (canon_obj kvs)"
  let ?ops = "map maskJSONPatchOp (map canon ops)"
  obtain shown where shown: "maskCredentialTree (JObj ?args) = JObj shown" by simp
  have "lookup ?args ''patch'' = Some (JArr ?ops)"
    using assms(2) lookup_map_key [of "\<lambda>k v. if k = ''patch'' then maskJSONPatchOps v else v" "canon_obj kvs"]
    by (simp add: maskJSONPatchOps_def)
  then have "lookup shown ''patch'' = Some (JArr (map maskCredentialTree ?ops))"
    using maskCredentialTree_lookup [OF _ shown, of "''patch''"] by (simp add: credentialFields_def)
  moreover have "list_all op_masked (map maskCredentialTree ?ops)"
    by (auto simp: list_all_iff op_masked_tree op_masked_maskJSONPatchOp)
  moreover have "maskCredentialValues (JObj kvs) = LArgsMasked (JObj shown)"
    using assms(1) shown by (simp add: maskCredentialValues_def Let_def)
  ultimately show ?thesis by simp
qed
end
