(* ===== verification/ApprovalGate.thy ===== *)
theory ApprovalGate
  imports World
begin

text \<open>
  internal/approvalgate: the client of the approval backend and the gate that refuses everything.
  The backend, the token file, the random source and the caller's context are the parameter
  \<open>gate_env\<close>; durations are nanoseconds.
\<close>

section \<open>Configuration\<close>

definition second :: int where "second = 1000000000"
definition defaultTimeout :: int where "defaultTimeout = 300 * second"
definition defaultPollInterval :: int where "defaultPollInterval = 2 * second"
definition defaultGatedKind :: string where "defaultGatedKind = ''v1/Secret''"
definition DefaultTokenFile :: string where
  "DefaultTokenFile = ''/var/run/secrets/pocket-aide/token''"

record gate_config =
  BaseURL :: string
  TokenFile :: string
  Timeout :: int
  PollInterval :: int
  GatedKinds :: "string list"

text \<open>\<open>readToken\<close>, of a file system that gives a file's content or nothing.\<close>

definition readToken :: "(string \<Rightarrow> string option) \<Rightarrow> string \<Rightarrow> go_err + string" where
  "readToken files path =
     (case files path of
        None \<Rightarrow> Inl (ErrText ''approval gate service account token'')
      | Some c \<Rightarrow>
          (if trim_space c = [] then Inl (ErrText ''approval gate service account token is empty'')
           else Inr (trim_space c)))"

definition durationFromEnv :: "(string \<Rightarrow> string) \<Rightarrow> string \<Rightarrow> int \<Rightarrow> go_err + int" where
  "durationFromEnv getenv key fallback =
     (let v = trim_space (getenv key) in
      if v = [] then Inr fallback
      else (case parse_int64 v of
              None \<Rightarrow> Inl (ErrText (key @ '' must be a positive integer''))
            | Some n \<Rightarrow> if n \<le> 0 then Inl (ErrText (key @ '' must be a positive integer''))
                       else Inr (wrap64 (n * second))))"

definition gatedKindsFromEnv :: "(string \<Rightarrow> string) \<Rightarrow> string list" where
  "gatedKindsFromEnv getenv =
     (let v = trim_space (getenv ''RESOURCE_GATED_KINDS'') in
      if v = [] then [defaultGatedKind]
      else let kinds = filter (\<lambda>s. s \<noteq> []) (map trim_space (split_on (CHR '','') v))
           in if kinds = [] then [defaultGatedKind] else kinds)"

definition FromEnv :: "(string \<Rightarrow> string) \<Rightarrow> (string \<Rightarrow> string option) \<Rightarrow> go_err + gate_config option" where
  "FromEnv getenv files =
     (let base = trim_right (CHR ''/'') (trim_space (getenv ''APPROVAL_GATE_URL''));
          tokenFile = trim_space (getenv ''APPROVAL_GATE_TOKEN_FILE'') in
      if base = [] then
        (if tokenFile \<noteq> [] then Inl (ErrText ''APPROVAL_GATE_TOKEN_FILE is set but APPROVAL_GATE_URL is not'')
         else Inr None)
      else let file = (if tokenFile = [] then DefaultTokenFile else tokenFile) in
        bind_sum (readToken files file) (\<lambda>_.
        bind_sum (durationFromEnv getenv ''APPROVAL_GATE_TIMEOUT_SECONDS'' defaultTimeout) (\<lambda>timeout.
        bind_sum (durationFromEnv getenv ''APPROVAL_GATE_POLL_INTERVAL_SECONDS'' defaultPollInterval) (\<lambda>poll.
        Inr (Some \<lparr>BaseURL = base, TokenFile = file, Timeout = timeout, PollInterval = poll,
                   GatedKinds = gatedKindsFromEnv getenv\<rparr>)))))"

lemma gatedKindsFromEnv_ok:
  "gatedKindsFromEnv getenv \<noteq> [] \<and> list_all (\<lambda>k. k \<noteq> [] \<and> trim_space k = k) (gatedKindsFromEnv getenv)"
proof -
  have "trim_space defaultGatedKind = defaultGatedKind \<and> defaultGatedKind \<noteq> []" by code_simp
  then show ?thesis by (auto simp: gatedKindsFromEnv_def Let_def list_all_iff)
qed

section \<open>Calls, refusals, decisions\<close>

text \<open>
  \<open>Call\<close>. \<open>Describe\<close> is a closure that may read the cluster: a world transformer that returns an
  error or the screen it rendered; \<open>None\<close> is the nil function.
\<close>

record gate_call =
  gc_Tool :: string
  gc_Pair :: rbac_pair
  gc_SessionID :: string
  gc_Reason :: string
  gc_Describe :: "(world \<Rightarrow> (go_err + ctx_line list) \<times> world) option"

text \<open>A \<open>*Refusal\<close>, or an error of another type (which only a foreign \<open>Gate\<close> gives).\<close>

datatype gate_err =
    Refusal "verdict option" string go_err
  | Untyped go_err

fun gate_err_text :: "gate_err \<Rightarrow> go_err" where
  "gate_err_text (Refusal _ _ e) = e"
| "gate_err_text (Untyped e) = e"

record decision =
  d_RequestID :: string
  d_ExternalID :: string
  d_AutoApproved :: bool
  d_cell :: nat

type_synonym gate = "gate_call \<Rightarrow> world \<Rightarrow> (gate_err + decision) \<times> world"

text \<open>A new \<open>Decision\<close> gets a cell of its own, not spent.\<close>

definition new_decision :: "string \<Rightarrow> string \<Rightarrow> bool \<Rightarrow> world \<Rightarrow> decision \<times> world" where
  "new_decision rid ext auto' w =
     (\<lparr>d_RequestID = rid, d_ExternalID = ext, d_AutoApproved = auto', d_cell = next_cell w\<rparr>,
      w\<lparr>next_cell := Suc (next_cell w)\<rparr>)"

definition Consume :: "decision \<Rightarrow> world \<Rightarrow> (go_err + unit) \<times> world" where
  "Consume d w =
     (if d_cell d \<in> set (spent w) then (Inl ErrConsumed, w)
      else (Inr (), w\<lparr>spent := d_cell d # spent w\<rparr>))"

text \<open>\<open>Call.describe\<close>: a missing renderer, an error and an empty rendering are all refusals.\<close>

definition describe :: "gate_call \<Rightarrow> world \<Rightarrow> (go_err + ctx_line list) \<times> world" where
  "describe call w =
     (case gc_Describe call of
        None \<Rightarrow> (Inl (ErrText (''refusing '' @ gc_Tool call)), w)
      | Some f \<Rightarrow>
          (case f w of
             (Inl e, w') \<Rightarrow> (Inl (ErrWrap (''refusing '' @ gc_Tool call @ '': '') e), w')
           | (Inr text', w') \<Rightarrow>
               (if text' = [] then (Inl (ErrText (''refusing '' @ gc_Tool call)), w')
                else (Inr text', w'))))"

definition unavailable_gate :: "go_err \<Rightarrow> gate" where
  "unavailable_gate reason' call w = (Inl (Refusal (Some VerdictUnconfigured) [] reason'), w)"

section \<open>The live client\<close>

text \<open>
  One HTTP exchange with the backend: no response, or a status and a body that decodes to a
  request id and its status (\<open>None\<close> when it does not decode).
\<close>

datatype http_answer =
    NoResponse string
  | Response int "(string \<times> string) option"

record gate_env =
  ge_token :: "world \<Rightarrow> go_err + string"
  ge_newID :: "world \<Rightarrow> go_err + string"
  ge_newRequest :: "world \<Rightarrow> go_err + unit"
  ge_post :: "approval_request \<Rightarrow> world \<Rightarrow> http_answer"
  ge_get :: "string \<Rightarrow> world \<Rightarrow> http_answer"
  ge_elapsed :: "world \<Rightarrow> nat"
  ge_ctxDone :: "nat option"
  ge_pick :: "world \<Rightarrow> nat"

record client =
  cl_cfg :: gate_config
  cl_requester :: string

definition New :: "gate_config \<Rightarrow> string \<Rightarrow> client" where
  "New cfg requester =
     (let c1 = (if Timeout cfg \<le> 0 then cfg\<lparr>Timeout := defaultTimeout\<rparr> else cfg);
          c2 = (if PollInterval c1 \<le> 0 then c1\<lparr>PollInterval := defaultPollInterval\<rparr> else c1)
      in \<lparr>cl_cfg = c2, cl_requester = requester\<rparr>)"

definition StatusPending :: string where "StatusPending = ''PENDING''"
definition StatusApproved :: string where "StatusApproved = ''APPROVED''"
definition StatusRejected :: string where "StatusRejected = ''REJECTED''"
definition StatusExpired :: string where "StatusExpired = ''EXPIRED''"

lemmas status_defs = StatusPending_def StatusApproved_def StatusRejected_def StatusExpired_def

text \<open>An exchange takes time.\<close>

definition exchange :: "gate_env \<Rightarrow> effect \<Rightarrow> (world \<Rightarrow> http_answer) \<Rightarrow> world \<Rightarrow> http_answer \<times> world" where
  "exchange e eff answer w =
     (answer w, (log_effect eff w)\<lparr>clock := clock w + ge_elapsed e w\<rparr>)"

text \<open>The fields of the request \<open>create\<close> posts.\<close>

definition request_body :: "client \<Rightarrow> gate_call \<Rightarrow> ctx_line list \<Rightarrow> string \<Rightarrow> approval_request" where
  "request_body c call text' ext =
     \<lparr>ExternalID = ext, Context = text', RequesterName = cl_requester c,
      TimeoutSeconds = Timeout (cl_cfg c) div second,
      SessionID = gc_SessionID call, ReasonText = gc_Reason call\<rparr>"

definition unreachable :: "string \<Rightarrow> string \<Rightarrow> string \<Rightarrow> gate_err" where
  "unreachable rid tool what =
     Refusal (Some VerdictUnreachable) rid (ErrText (''refusing '' @ tool @ '': '' @ what))"

definition create_request ::
  "gate_env \<Rightarrow> client \<Rightarrow> gate_call \<Rightarrow> ctx_line list \<Rightarrow> string \<Rightarrow> world \<Rightarrow> (gate_err + string \<times> string) \<times> world"
where
  "create_request e c call text' ext w =
     (case ge_newRequest e w of
        Inl er \<Rightarrow> (Inl (unreachable [] (gc_Tool call) (err_text er)), w)
      | Inr _ \<Rightarrow>
     (case ge_token e w of
        Inl er \<Rightarrow> (Inl (unreachable [] (gc_Tool call) (err_text er)), w)
      | Inr _ \<Rightarrow>
     (let req = request_body c call text' ext in
      case exchange e (GatePost req) (ge_post e req) w of (answer, w') \<Rightarrow>
     (case answer of
        NoResponse s \<Rightarrow> (Inl (unreachable [] (gc_Tool call) ''approval request failed''), w')
      | Response code body \<Rightarrow>
          if code = 409 then (Inl (unreachable [] (gc_Tool call) ''approval request id collided (409)''), w')
          else if code = 401 then
            (Inl (unreachable [] (gc_Tool call) ''approval backend did not accept this service account (401)''), w')
          else if code < 200 \<or> code > 299 then
            (Inl (unreachable [] (gc_Tool call) (''approval backend returned '' @ itoa code)), w')
          else (case body of
                  None \<Rightarrow> (Inl (unreachable [] (gc_Tool call) ''unreadable approval response''), w')
                | Some (rid, status) \<Rightarrow>
                    if rid = [] then (Inl (unreachable [] (gc_Tool call) ''approval response carried no request id''), w')
                    else (Inr (rid, status), w'))))))"

definition get_request :: "gate_env \<Rightarrow> string \<Rightarrow> world \<Rightarrow> (string + string) \<times> world" where
  "get_request e rid w =
     (case ge_newRequest e w of
        Inl er \<Rightarrow> (Inl (err_text er), w\<lparr>clock := clock w + ge_elapsed e w\<rparr>)
      | Inr _ \<Rightarrow>
     (case ge_token e w of
        Inl er \<Rightarrow> (Inl (err_text er), w\<lparr>clock := clock w + ge_elapsed e w\<rparr>)
      | Inr _ \<Rightarrow>
     (case exchange e (GatePoll rid) (ge_get e rid) w of (answer, w') \<Rightarrow>
     (case answer of
        NoResponse s \<Rightarrow> (Inl ''approval poll failed'', w')
      | Response code body \<Rightarrow>
          if code < 200 \<or> code > 299 then (Inl (''approval backend returned '' @ itoa code @ '' while polling''), w')
          else (case body of
                  None \<Rightarrow> (Inl ''unreadable approval poll response'', w')
                | Some (_, status) \<Rightarrow> (Inr status, w'))))))"

text \<open>
  The \<open>select\<close> at the end of a polling round. Each channel fires at a fixed time: the caller's
  context, the deadline started before the loop, the interval timer started in this round. The
  goroutine resumes as soon as one of them has fired, and picks among those that have.
\<close>

datatype wake = CtxDone | DeadlineFired | Tick

text \<open>
  Only \<open>New\<close> builds a client, so the interval is positive (\<open>tick_interval_New\<close>); the accessor
  reads it back with the default \<open>New\<close> puts in.
\<close>

definition tick_interval :: "client \<Rightarrow> nat" where
  "tick_interval c =
     nat (if PollInterval (cl_cfg c) \<le> 0 then defaultPollInterval else PollInterval (cl_cfg c))"

definition fires_by :: "nat \<Rightarrow> nat option \<Rightarrow> bool" where
  "fires_by moment t = (case t of None \<Rightarrow> False | Some n \<Rightarrow> n \<le> moment)"

definition resume_at :: "gate_env \<Rightarrow> nat \<Rightarrow> nat \<Rightarrow> world \<Rightarrow> nat" where
  "resume_at e deadline tick w =
     max (clock w) (case ge_ctxDone e of None \<Rightarrow> min deadline tick | Some t \<Rightarrow> min t (min deadline tick))"

definition ready_channels :: "gate_env \<Rightarrow> nat \<Rightarrow> nat \<Rightarrow> nat \<Rightarrow> wake list" where
  "ready_channels e deadline tick moment =
     (if fires_by moment (ge_ctxDone e) then [CtxDone] else [])
     @ (if deadline \<le> moment then [DeadlineFired] else [])
     @ (if tick \<le> moment then [Tick] else [])"

definition select :: "gate_env \<Rightarrow> nat \<Rightarrow> nat \<Rightarrow> world \<Rightarrow> wake \<times> world" where
  "select e deadline tick w =
     (let moment = resume_at e deadline tick w;
          ready = ready_channels e deadline tick moment
      in (ready ! (ge_pick e w mod length ready), w\<lparr>clock := moment\<rparr>))"

lemma tick_interval_pos [simp]: "0 < tick_interval c"
  by (simp add: tick_interval_def defaultPollInterval_def second_def)

lemma tick_interval_New: "tick_interval (New cfg r) = nat (PollInterval (cl_cfg (New cfg r)))"
  by (auto simp: tick_interval_def New_def Let_def)

lemma New_positive: "0 < Timeout (cl_cfg (New cfg r)) \<and> 0 < PollInterval (cl_cfg (New cfg r))"
  by (auto simp: New_def Let_def defaultTimeout_def defaultPollInterval_def second_def)

lemma get_request_clock: "get_request e rid w = (r, w') \<Longrightarrow> clock w \<le> clock w'"
  by (auto simp: get_request_def exchange_def Let_def
      split: sum.splits http_answer.splits if_splits option.splits prod.splits)

lemma select_clock: "select e d t w = (x, w') \<Longrightarrow> clock w' = resume_at e d t w \<and> clock w \<le> clock w'"
  by (auto simp: select_def Let_def resume_at_def)

lemma ready_channels_nonempty: "ready_channels e d t (resume_at e d t w) \<noteq> []"
  by (auto simp: ready_channels_def resume_at_def fires_by_def min_def max_def split: option.splits)

lemma select_member:
  assumes "select e d t w = (x, w')"
  shows "(case x of CtxDone \<Rightarrow> fires_by (clock w') (ge_ctxDone e)
                  | DeadlineFired \<Rightarrow> d \<le> clock w' | Tick \<Rightarrow> t \<le> clock w')"
proof -
  let ?ready = "ready_channels e d t (clock w')"
  have w': "clock w' = resume_at e d t w" using select_clock [OF assms] by simp
  have "x = ?ready ! (ge_pick e w mod length ?ready)"
    using assms by (auto simp: select_def Let_def)
  moreover have "?ready ! (ge_pick e w mod length ?ready) \<in> set ?ready"
    using ready_channels_nonempty [of e d t w] unfolding w' by (intro nth_mem mod_less_divisor) simp
  ultimately have "x \<in> set ?ready" by simp
  then show ?thesis by (auto simp: ready_channels_def split: if_splits)
qed

text \<open>A round that ends with the interval timer ends before the deadline, and later than it began.\<close>

lemma select_Tick_progress:
  assumes "select e d (clock w + tick_interval c) w = (Tick, w')"
  shows "clock w < clock w'" and "clock w < d" and "clock w' \<le> d"
    and "clock w + tick_interval c \<le> clock w'"
proof -
  from select_member [OF assms] have t: "clock w + tick_interval c \<le> clock w'" by simp
  have m: "clock w' = resume_at e d (clock w + tick_interval c) w"
    using select_clock [OF assms] by simp
  have "clock w < clock w + tick_interval c" by simp
  with t show "clock w < clock w'" by linarith
  have "clock w' \<le> max (clock w) d" unfolding m by (auto simp: resume_at_def split: option.splits)
  with \<open>clock w < clock w'\<close> show "clock w < d" "clock w' \<le> d" by auto
  show "clock w + tick_interval c \<le> clock w'" by (rule t)
qed

lemma select_Tick_measure:
  "select e d (clock w + tick_interval c) w = (Tick, w') \<Longrightarrow>
     clock w < clock w' \<and> clock w < d \<and> clock w' \<le> d"
  using select_Tick_progress by blast

text \<open>\<open>poll\<close>. Every round but the last moves the clock towards the deadline.\<close>

function poll :: "gate_env \<Rightarrow> client \<Rightarrow> string \<Rightarrow> string \<Rightarrow> string \<Rightarrow> nat \<Rightarrow> world \<Rightarrow> (gate_err + decision) \<times> world" where
  "poll e c tool rid ext deadline w =
     (case get_request e rid w of
        (Inl er, w1) \<Rightarrow> (Inl (unreachable rid tool er), w1)
      | (Inr status, w1) \<Rightarrow>
          if status = StatusApproved then
            (case new_decision rid ext False w1 of (d, w2) \<Rightarrow> (Inr d, w2))
          else if status = StatusRejected then
            (Inl (Refusal (Some VerdictRejected) rid (ErrText (''refusing '' @ tool @ '': approval rejected''))), w1)
          else if status = StatusExpired then
            (Inl (Refusal (Some VerdictExpired) rid (ErrText (''refusing '' @ tool @ '': approval expired''))), w1)
          else if status \<noteq> StatusPending \<and> status \<noteq> [] then
            (Inl (unreachable rid tool (''unknown approval status '' @ status)), w1)
          else
            (case select e deadline (clock w1 + tick_interval c) w1 of
               (CtxDone, w2) \<Rightarrow>
                 (Inl (Refusal (Some VerdictTimeout) rid (ErrText (''refusing '' @ tool @ '': context done''))), w2)
             | (DeadlineFired, w2) \<Rightarrow>
                 (Inl (Refusal (Some VerdictTimeout) rid (ErrText (''refusing '' @ tool @ '': no approval in time''))), w2)
             | (Tick, w2) \<Rightarrow> poll e c tool rid ext deadline w2))"
  by pat_completeness auto
termination
  by (relation "measure (\<lambda>(e, c, tool, rid, ext, deadline, w). deadline - clock w)")
     (auto dest!: get_request_clock select_Tick_measure sym [of "(_, _)"])

declare poll.simps [simp del]

text \<open>Induction over the rounds of one polling loop.\<close>

lemma poll_rounds_induct:
  assumes round': "\<And>w. (\<And>status w1 w2. get_request e rid w = (Inr status, w1) \<Longrightarrow>
      select e dl (clock w1 + tick_interval c) w1 = (Tick, w2) \<Longrightarrow> P w2) \<Longrightarrow> P w"
  shows "P w"
proof (induction "dl - clock w" arbitrary: w rule: less_induct)
  case less
  show ?case
  proof (rule round')
    fix status w1 w2
    assume "get_request e rid w = (Inr status, w1)"
      and "select e dl (clock w1 + tick_interval c) w1 = (Tick, w2)"
    then have "clock w \<le> clock w1" "clock w1 < clock w2" "clock w1 < dl"
      using get_request_clock select_Tick_measure by blast+
    then show "P w2" by (intro less) simp
  qed
qed

text \<open>\<open>Client.Authorize\<close>.\<close>

definition authorize_client :: "gate_env \<Rightarrow> client \<Rightarrow> gate" where
  "authorize_client e c call w =
     (case describe call w of
        (Inl er, w1) \<Rightarrow>
          (Inl (Refusal (if is_unavailable er then Some VerdictUnconfigured else None) [] er), w1)
      | (Inr text', w1) \<Rightarrow>
          (case ge_newID e w1 of
             Inl er \<Rightarrow> (Inl (unreachable [] (gc_Tool call) (err_text er)), w1)
           | Inr ext \<Rightarrow>
               (case create_request e c call text' ext w1 of
                  (Inl er, w2) \<Rightarrow> (Inl er, w2)
                | (Inr (rid, status), w2) \<Rightarrow>
                    if status = StatusApproved then
                      (case new_decision rid ext True w2 of (d, w3) \<Rightarrow> (Inr d, w3))
                    else if status = StatusRejected then
                      (Inl (Refusal (Some VerdictRejected) rid
                         (ErrText (''refusing '' @ gc_Tool call @ '': approval auto-rejected''))), w2)
                    else poll e c (gc_Tool call) rid ext (clock w2 + nat (Timeout (cl_cfg c))) w2)))"

section \<open>What the gate does to the world\<close>

definition gate_effect :: "effect \<Rightarrow> bool" where
  "gate_effect x = (case x of GatePost _ \<Rightarrow> True | GatePoll _ \<Rightarrow> True | GateRead _ \<Rightarrow> True | GateList _ \<Rightarrow> True | _ \<Rightarrow> False)"

lemma gate_effect_simps [simp]:
  "gate_effect (GatePost q)" "gate_effect (GatePoll i)" "gate_effect (GateRead t)" "gate_effect (GateList l)"
  "\<not> gate_effect (K8sCall k)" "\<not> gate_effect (ExtCall x)" "\<not> gate_effect (Emitted r)"
  by (simp_all add: gate_effect_def)

lemma gate_effect_not_tool: "gate_effect x \<Longrightarrow> \<not> tool_effect x"
  by (cases x) simp_all

text \<open>
  \<open>gate_steps w w'\<close>: the trace grew by calls of the gate alone, no approval was spent, cells were
  only allocated, and the record's note is untouched.
\<close>

definition gate_steps :: "world \<Rightarrow> world \<Rightarrow> bool" where
  "gate_steps w w' \<longleftrightarrow>
     (\<exists>es. trace w' = trace w @ es \<and> list_all gate_effect es) \<and>
     spent w' = spent w \<and> next_cell w \<le> next_cell w' \<and> callnote w' = callnote w"

lemma gate_steps_refl [simp, intro]: "gate_steps w w"
  by (simp add: gate_steps_def)

lemma gate_steps_trans [trans]: "gate_steps w1 w2 \<Longrightarrow> gate_steps w2 w3 \<Longrightarrow> gate_steps w1 w3"
  by (auto simp: gate_steps_def)

lemma gate_steps_log [intro]: "gate_effect x \<Longrightarrow> gate_steps w (log_effect x w)"
  by (simp add: gate_steps_def)

lemma gate_steps_clock [simp]:
  "gate_steps w (w'\<lparr>clock := n\<rparr>) = gate_steps w w'"
  "gate_steps w (w'\<lparr>captured := v\<rparr>) = gate_steps w w'"
  by (simp_all add: gate_steps_def)

lemma gate_steps_exchange: "exchange e x f w = (a, w') \<Longrightarrow> gate_effect x \<Longrightarrow> gate_steps w w'"
  by (auto simp: exchange_def)

lemma gate_steps_new_decision: "new_decision rid ext a w = (d, w') \<Longrightarrow> gate_steps w w'"
  by (auto simp: new_decision_def gate_steps_def)

lemma gate_steps_get_request: "get_request e rid w = (r, w') \<Longrightarrow> gate_steps w w'"
  by (auto simp: get_request_def Let_def
      split: sum.splits http_answer.splits if_splits option.splits prod.splits
      dest!: gate_steps_exchange)

lemma gate_steps_select: "select e d t w = (x, w') \<Longrightarrow> gate_steps w w'"
  by (auto simp: select_def Let_def)

lemma gate_steps_create: "create_request e c call text' ext w = (r, w') \<Longrightarrow> gate_steps w w'"
  by (auto simp: create_request_def Let_def
      split: sum.splits http_answer.splits if_splits option.splits prod.splits
      dest!: gate_steps_exchange)

lemma gate_steps_poll: "poll e c tool rid ext dl w = (r, w') \<Longrightarrow> gate_steps w w'"
proof (induction w arbitrary: r w' rule: poll_rounds_induct [where e = e and rid = rid and dl = dl and c = c])
  case (1 w)
  obtain a w1 where g: "get_request e rid w = (a, w1)" by fastforce
  then have s1: "gate_steps w w1" by (rule gate_steps_get_request)
  show ?case
  proof (cases a)
    case (Inl er)
    with g 1(2) s1 show ?thesis by (simp add: poll.simps)
  next
    case (Inr status)
    obtain x w2 where sel: "select e dl (clock w1 + tick_interval c) w1 = (x, w2)" by fastforce
    have s2: "gate_steps w w2"
      using s1 gate_steps_select [OF sel] by (rule gate_steps_trans)
    have "x = Tick \<Longrightarrow> poll e c tool rid ext dl w2 = (r, w') \<Longrightarrow> gate_steps w w'"
      using 1(1) g sel gate_steps_trans [OF s2] unfolding Inr by blast
    with 1(2) g Inr sel s1 s2 show ?thesis
      by (auto simp: poll.simps [of e c tool rid ext dl w] split: if_splits wake.splits prod.splits
          dest: gate_steps_new_decision intro: gate_steps_trans)
  qed
qed

text \<open>A describing closure that itself only reads through the gate.\<close>

definition quiet_call :: "gate_call \<Rightarrow> bool" where
  "quiet_call call \<longleftrightarrow>
     (\<forall>f w r w'. gc_Describe call = Some f \<longrightarrow> f w = (r, w') \<longrightarrow> gate_steps w w')"

lemma gate_steps_describe: "quiet_call call \<Longrightarrow> describe call w = (r, w') \<Longrightarrow> gate_steps w w'"
  unfolding quiet_call_def describe_def
  by (fastforce split: option.splits sum.splits prod.splits if_splits)

lemma gate_steps_authorize_client:
  assumes "quiet_call call" and "authorize_client e c call w = (r, w')"
  shows "gate_steps w w'"
proof -
  obtain a w1 where d: "describe call w = (a, w1)" by fastforce
  with assms(1) have s1: "gate_steps w w1" by (rule gate_steps_describe)
  show ?thesis
  proof (cases a)
    case Inl
    with assms(2) d s1 show ?thesis by (simp add: authorize_client_def)
  next
    case (Inr text')
    show ?thesis
    proof (cases "ge_newID e w1")
      case Inl
      with assms(2) d Inr s1 show ?thesis by (simp add: authorize_client_def)
    next
      case ext: (Inr ext)
      obtain b w2 where cr: "create_request e c call text' ext w1 = (b, w2)" by fastforce
      have s2: "gate_steps w w2" using s1 gate_steps_create [OF cr] by (rule gate_steps_trans)
      with assms(2) d Inr ext cr show ?thesis
        by (auto simp: authorize_client_def split: sum.splits if_splits prod.splits
            dest!: gate_steps_new_decision gate_steps_poll intro: gate_steps_trans)
    qed
  qed
qed

text \<open>After the description nothing in the gate assigns the captured variables.\<close>

definition keeps_captured :: "world \<Rightarrow> world \<Rightarrow> bool" where
  "keeps_captured w w' \<longleftrightarrow> captured w' = captured w"

lemma keeps_captured_trans: "keeps_captured w1 w2 \<Longrightarrow> keeps_captured w2 w3 \<Longrightarrow> keeps_captured w1 w3"
  by (simp add: keeps_captured_def)

lemma keeps_captured_simps [simp]:
  "keeps_captured w w" "keeps_captured w (log_effect x w)"
  "keeps_captured w (w'\<lparr>clock := n\<rparr>) = keeps_captured w w'"
  by (simp_all add: keeps_captured_def)

lemma keeps_captured_new_decision: "new_decision rid ext a w = (d, w') \<Longrightarrow> keeps_captured w w'"
  by (auto simp: new_decision_def keeps_captured_def)

lemma keeps_captured_get_request: "get_request e rid w = (r, w') \<Longrightarrow> keeps_captured w w'"
  by (auto simp: get_request_def exchange_def Let_def
      split: sum.splits http_answer.splits if_splits option.splits prod.splits)

lemma keeps_captured_create: "create_request e c call text' ext w = (r, w') \<Longrightarrow> keeps_captured w w'"
  by (auto simp: create_request_def exchange_def Let_def
      split: sum.splits http_answer.splits if_splits option.splits prod.splits)

lemma keeps_captured_select: "select e d t w = (x, w') \<Longrightarrow> keeps_captured w w'"
  by (auto simp: select_def Let_def)

lemma keeps_captured_poll: "poll e c tool rid ext dl w = (r, w') \<Longrightarrow> keeps_captured w w'"
proof (induction w arbitrary: r w' rule: poll_rounds_induct [where e = e and rid = rid and dl = dl and c = c])
  case (1 w)
  obtain a w1 where g: "get_request e rid w = (a, w1)" by fastforce
  then have s1: "keeps_captured w w1" by (rule keeps_captured_get_request)
  show ?case
  proof (cases a)
    case (Inl er)
    with g 1(2) s1 show ?thesis by (simp add: poll.simps)
  next
    case (Inr status)
    obtain x w2 where sel: "select e dl (clock w1 + tick_interval c) w1 = (x, w2)" by fastforce
    have s2: "keeps_captured w w2"
      using s1 keeps_captured_select [OF sel] by (rule keeps_captured_trans)
    have "x = Tick \<Longrightarrow> poll e c tool rid ext dl w2 = (r, w') \<Longrightarrow> keeps_captured w w'"
      using 1(1) g sel keeps_captured_trans [OF s2] unfolding Inr by blast
    with 1(2) g Inr sel s1 s2 show ?thesis
      by (auto simp: poll.simps [of e c tool rid ext dl w] split: if_splits wake.splits prod.splits
          dest: keeps_captured_new_decision intro: keeps_captured_trans)
  qed
qed

lemma authorize_client_described:
  assumes "authorize_client e c call w = (Inr d, w')"
  shows "\<exists>text' wd. describe call w = (Inr text', wd) \<and> keeps_captured wd w' \<and> gate_steps wd w'"
proof -
  from assms obtain text' w1 where d: "describe call w = (Inr text', w1)"
    by (auto simp: authorize_client_def split: sum.splits prod.splits)
  with assms obtain ext where x: "ge_newID e w1 = Inr ext"
    by (auto simp: authorize_client_def split: sum.splits prod.splits)
  with assms d obtain rid status w2
    where cr: "create_request e c call text' ext w1 = (Inr (rid, status), w2)"
    by (auto simp: authorize_client_def split: sum.splits prod.splits)
  have "keeps_captured w2 w' \<and> gate_steps w2 w'"
    using assms d x cr
    by (auto simp: authorize_client_def split: if_splits prod.splits
        dest: keeps_captured_poll gate_steps_poll keeps_captured_new_decision gate_steps_new_decision)
  with d keeps_captured_create [OF cr] gate_steps_create [OF cr] gate_steps_trans keeps_captured_trans
  show ?thesis by blast
qed

section \<open>The polling loop is bounded\<close>

definition poll_count :: "world \<Rightarrow> nat" where
  "poll_count w = length (filter (\<lambda>x. case x of GatePoll _ \<Rightarrow> True | _ \<Rightarrow> False) (trace w))"

lemma poll_count_log [simp]:
  "poll_count (log_effect x w) = poll_count w + (case x of GatePoll _ \<Rightarrow> 1 | _ \<Rightarrow> 0)"
  by (simp add: poll_count_def split: effect.splits)

lemma poll_count_update [simp]:
  "poll_count (w\<lparr>clock := n\<rparr>) = poll_count w" "poll_count (w\<lparr>next_cell := m\<rparr>) = poll_count w"
  "poll_count (w\<lparr>captured := v\<rparr>) = poll_count w"
  by (simp_all add: poll_count_def)

lemma poll_count_get_request: "get_request e rid w = (r, w') \<Longrightarrow> poll_count w' \<le> Suc (poll_count w)"
  by (auto simp: get_request_def exchange_def Let_def
      split: sum.splits http_answer.splits if_splits option.splits prod.splits)

lemma poll_count_select: "select e d t w = (x, w') \<Longrightarrow> poll_count w' = poll_count w"
  by (auto simp: select_def Let_def)

lemma poll_count_new_decision: "new_decision rid ext a w = (d, w') \<Longrightarrow> poll_count w' = poll_count w"
  by (auto simp: new_decision_def)

lemma poll_count_create: "create_request e c call text' ext w = (r, w') \<Longrightarrow> poll_count w' = poll_count w"
  by (auto simp: create_request_def exchange_def Let_def
      split: sum.splits http_answer.splits if_splits option.splits prod.splits)

lemma poll_count_poll:
  "poll e c tool rid ext dl w = (r, w') \<Longrightarrow>
     poll_count w' \<le> poll_count w + Suc ((dl - clock w) div tick_interval c)"
proof (induction w arbitrary: r w' rule: poll_rounds_induct [where e = e and rid = rid and dl = dl and c = c])
  case (1 w)
  obtain a w1 where g: "get_request e rid w = (a, w1)" by fastforce
  note p1 = poll_count_get_request [OF g] and k1 = get_request_clock [OF g]
  show ?case
  proof (cases a)
    case (Inl er)
    with g 1(2) p1 show ?thesis by (simp add: poll.simps)
  next
    case (Inr status)
    obtain x w2 where sel: "select e dl (clock w1 + tick_interval c) w1 = (x, w2)" by fastforce
    note p2 = poll_count_select [OF sel]
    have again: "poll_count w' \<le> poll_count w + Suc ((dl - clock w) div tick_interval c)"
      if x: "x = Tick" and rest: "poll e c tool rid ext dl w2 = (r, w')"
    proof -
      note sel' = sel [unfolded x]
      have k2: "clock w + tick_interval c \<le> clock w2" "clock w2 \<le> dl"
        using select_Tick_progress [OF sel'] k1 by simp_all
      have "(dl - clock w2) div tick_interval c \<le> (dl - clock w - tick_interval c) div tick_interval c"
        using k2 by (intro div_le_mono) simp
      also have "Suc \<dots> = (dl - clock w) div tick_interval c"
        using k2 by (simp add: le_div_geq)
      finally have "Suc ((dl - clock w2) div tick_interval c) \<le> (dl - clock w) div tick_interval c" by simp
      moreover have "poll_count w' \<le> poll_count w2 + Suc ((dl - clock w2) div tick_interval c)"
        using 1(1) g sel' rest unfolding Inr by blast
      ultimately show ?thesis using p1 p2 by simp
    qed
    with 1(2) g Inr sel p1 p2 show ?thesis
      by (auto simp: poll.simps [of e c tool rid ext dl w] split: if_splits wake.splits prod.splits
          dest!: poll_count_new_decision)
  qed
qed

lemma authorize_client_polls:
  assumes "describe call w = (t, wd)" and "authorize_client e (New cfg requester) call w = (r, w')"
  shows "poll_count w' \<le> poll_count wd +
     Suc (nat (Timeout (cl_cfg (New cfg requester))) div nat (PollInterval (cl_cfg (New cfg requester))))"
proof -
  show ?thesis
  proof (cases t)
    case Inl
    with assms show ?thesis by (simp add: authorize_client_def)
  next
    case (Inr text')
    obtain ext where ext: "ge_newID e wd = ext" by blast
    show ?thesis
    proof (cases ext)
      case Inl
      with assms Inr ext show ?thesis by (simp add: authorize_client_def)
    next
      case e': (Inr ext')
      obtain q w2 where cr: "create_request e (New cfg requester) call text' ext' wd = (q, w2)" by fastforce
      note pc = poll_count_create [OF cr]
      show ?thesis
      proof (cases q)
        case Inl
        with assms Inr ext e' cr pc show ?thesis by (simp add: authorize_client_def)
      next
        case q: (Inr rs)
        obtain rid status where rs: "rs = (rid, status)" by fastforce
        have "poll_count w' \<le> poll_count w2 \<or>
            (\<exists>dl. poll e (New cfg requester) (gc_Tool call) rid ext' (clock w2 + nat (Timeout (cl_cfg (New cfg requester)))) w2 = (r, w'))"
          using assms Inr ext e' cr q rs
          by (auto simp: authorize_client_def new_decision_def split: if_splits)
        then show ?thesis
          using poll_count_poll [of e "New cfg requester"] pc
          by (force simp: tick_interval_New)
      qed
    qed
  qed
qed

section \<open>What an approval rests on\<close>

definition ok_answer :: "http_answer \<Rightarrow> string \<Rightarrow> string \<Rightarrow> bool" where
  "ok_answer a rid status \<longleftrightarrow>
     (\<exists>code. a = Response code (Some (rid, status)) \<and> 200 \<le> code \<and> code \<le> 299)"

text \<open>
  The backend said \<open>APPROVED\<close> to the request posted for this very call: in its answer to the post
  (an automatic approval), or when polled about that request.
\<close>

definition approval_evidence ::
  "gate_env \<Rightarrow> client \<Rightarrow> gate_call \<Rightarrow> world \<Rightarrow> world \<Rightarrow> decision \<Rightarrow> bool"
where
  "approval_evidence e c call w w' d \<longleftrightarrow>
     (\<exists>text' wd status. describe call w = (Inr text', wd) \<and> text' \<noteq> [] \<and> extends wd w' \<and>
        GatePost (request_body c call text' (d_ExternalID d)) \<in> set (new_effects wd w') \<and>
        ok_answer (ge_post e (request_body c call text' (d_ExternalID d)) wd) (d_RequestID d) status \<and>
        d_RequestID d \<noteq> [] \<and>
        (if d_AutoApproved d then status = StatusApproved
         else GatePoll (d_RequestID d) \<in> set (new_effects wd w') \<and>
              (\<exists>wg i. extends wd wg \<and> extends wg w' \<and> ok_answer (ge_get e (d_RequestID d) wg) i StatusApproved)))"

lemma get_request_InrD:
  "get_request e rid w = (Inr status, w') \<Longrightarrow>
     trace w' = trace w @ [GatePoll rid] \<and> (\<exists>i. ok_answer (ge_get e rid w) i status)"
  by (fastforce simp: get_request_def exchange_def ok_answer_def Let_def
      split: sum.splits http_answer.splits if_splits option.splits prod.splits)

lemma create_request_InrD:
  "create_request e c call text' ext w = (Inr (rid, status), w') \<Longrightarrow>
     trace w' = trace w @ [GatePost (request_body c call text' ext)] \<and> rid \<noteq> [] \<and>
     ok_answer (ge_post e (request_body c call text' ext) w) rid status"
  by (fastforce simp: create_request_def exchange_def ok_answer_def Let_def
      split: sum.splits http_answer.splits if_splits option.splits prod.splits)

lemma gate_steps_extends: "gate_steps w w' \<Longrightarrow> extends w w'"
  by (auto simp: gate_steps_def extends_def)

lemma describe_InrD: "describe call w = (Inr text', w') \<Longrightarrow> text' \<noteq> []"
  by (auto simp: describe_def split: option.splits sum.splits prod.splits if_splits)

lemma gate_steps_traceD: "gate_steps w w' \<Longrightarrow> x \<in> set (trace w) \<Longrightarrow> x \<in> set (trace w')"
  by (auto simp: gate_steps_def)

lemma gate_steps_cell: "gate_steps w w' \<Longrightarrow> next_cell w \<le> next_cell w'"
  by (simp add: gate_steps_def)

text \<open>A decision of the loop: the last poll said \<open>APPROVED\<close>, and its cell is new.\<close>

lemma poll_InrD:
  "poll e c tool rid ext dl w = (Inr d, w') \<Longrightarrow>
     d_RequestID d = rid \<and> d_ExternalID d = ext \<and> \<not> d_AutoApproved d \<and>
     (\<exists>wg i. extends w wg \<and> extends wg w' \<and> GatePoll rid \<in> set (new_effects wg w') \<and>
        ok_answer (ge_get e rid wg) i StatusApproved) \<and>
     next_cell w \<le> d_cell d \<and> d_cell d < next_cell w'"
proof (induction w arbitrary: w' rule: poll_rounds_induct [where e = e and rid = rid and dl = dl and c = c])
  case (1 w)
  obtain a w1 where g: "get_request e rid w = (a, w1)" by fastforce
  show ?case
  proof (cases a)
    case (Inl er)
    with g 1(2) show ?thesis by (simp add: poll.simps)
  next
    case (Inr status)
    note g = g [unfolded Inr]
    note cell1 = gate_steps_cell [OF gate_steps_get_request [OF g]]
    obtain x w2 where sel: "select e dl (clock w1 + tick_interval c) w1 = (x, w2)" by fastforce
    note cell2 = gate_steps_cell [OF gate_steps_select [OF sel]]
    show ?thesis
    proof (cases "status = StatusApproved")
      case True
      with 1(2) g have "d = \<lparr>d_RequestID = rid, d_ExternalID = ext, d_AutoApproved = False, d_cell = next_cell w1\<rparr>"
        and "w' = w1\<lparr>next_cell := Suc (next_cell w1)\<rparr>"
        by (auto simp: poll.simps new_decision_def)
      moreover obtain i where "trace w1 = trace w @ [GatePoll rid]" "ok_answer (ge_get e rid w) i StatusApproved"
        using get_request_InrD [OF g] True by blast
      ultimately show ?thesis using cell1
        by (auto simp: extends_def new_effects_def intro!: exI [of _ w])
    next
      case False
      with 1(2) g sel have x: "x = Tick" "poll e c tool rid ext dl w2 = (Inr d, w')"
        by (auto simp: poll.simps [of e c tool rid ext dl w] split: if_splits wake.splits)
      have "extends w w2"
        using gate_steps_extends [OF gate_steps_get_request [OF g]] gate_steps_extends [OF gate_steps_select [OF sel]]
        by (rule extends_trans)
      with 1(1) [OF g sel [unfolded x(1)] x(2)] cell1 cell2 show ?thesis
        by (meson extends_trans order_trans)
    qed
  qed
qed

lemma authorize_client_InrD:
  assumes "authorize_client e c call w = (Inr d, w')"
  shows "approval_evidence e c call w w' d"
    and "quiet_call call \<Longrightarrow> next_cell w \<le> d_cell d" and "d_cell d < next_cell w'"
proof -
  from assms obtain text' w1 where d: "describe call w = (Inr text', w1)"
    by (auto simp: authorize_client_def split: sum.splits prod.splits)
  with assms obtain ext where x: "ge_newID e w1 = Inr ext"
    by (auto simp: authorize_client_def split: sum.splits prod.splits)
  with assms d obtain rid status w2
    where cr: "create_request e c call text' ext w1 = (Inr (rid, status), w2)"
    by (auto simp: authorize_client_def split: sum.splits prod.splits)
  note post = create_request_InrD [OF cr] and text' = describe_InrD [OF d]
  have e12: "extends w1 w2" using post by (auto simp: extends_def)
  have cells: "quiet_call call \<Longrightarrow> next_cell w \<le> next_cell w2"
    using gate_steps_describe [OF _ d] gate_steps_create [OF cr] gate_steps_cell order_trans by blast
  have "approval_evidence e c call w w' d \<and> (quiet_call call \<longrightarrow> next_cell w \<le> d_cell d) \<and> d_cell d < next_cell w'"
  proof (cases "status = StatusApproved")
    case True
    with assms d x cr have dw: "d = \<lparr>d_RequestID = rid, d_ExternalID = ext, d_AutoApproved = True, d_cell = next_cell w2\<rparr>"
      "w' = w2\<lparr>next_cell := Suc (next_cell w2)\<rparr>"
      by (auto simp: authorize_client_def new_decision_def)
    with post have "GatePost (request_body c call text' ext) \<in> set (new_effects w1 w')" "extends w1 w'"
      by (simp_all add: new_effects_def extends_def)
    with post text' d True cells dw show ?thesis by (auto simp: approval_evidence_def)
  next
    case False
    with assms d x cr have p: "poll e c (gc_Tool call) rid ext (clock w2 + nat (Timeout (cl_cfg c))) w2 = (Inr d, w')"
      by (auto simp: authorize_client_def split: if_splits)
    note e2 = gate_steps_extends [OF gate_steps_poll [OF p]]
    from poll_InrD [OF p] obtain wg i where dd: "d_RequestID d = rid" "d_ExternalID d = ext" "\<not> d_AutoApproved d"
      and wg: "extends w2 wg" "extends wg w'" "GatePoll rid \<in> set (new_effects wg w')"
        "ok_answer (ge_get e rid wg) i StatusApproved"
      and cell: "next_cell w2 \<le> d_cell d" "d_cell d < next_cell w'" by blast
    have "GatePost (request_body c call text' ext) \<in> set (new_effects w1 w2)"
      using post by (simp add: new_effects_def)
    with new_effects_mono [OF extends_refl e12 e2]
    have n1: "GatePost (request_body c call text' ext) \<in> set (new_effects w1 w')" by blast
    have "extends w1 wg" using e12 wg(1) by (rule extends_trans)
    with new_effects_mono [OF this wg(2) extends_refl] wg(3)
    have n2: "GatePoll rid \<in> set (new_effects w1 w')" "extends w1 wg" by blast+
    have "extends w1 w'" using e12 e2 by (rule extends_trans)
    then have "approval_evidence e c call w w' d"
      unfolding approval_evidence_def using d text' n1 n2 post dd wg by auto
    with cells cell show ?thesis by auto
  qed
  then show "approval_evidence e c call w w' d"
    and "quiet_call call \<Longrightarrow> next_cell w \<le> d_cell d" and "d_cell d < next_cell w'" by auto
qed

section \<open>The gate as an interface\<close>

text \<open>
  What the dispatcher relies on: \<open>Authorize\<close> acts on the world through the gate's own calls, and a
  decision has evidence and a flag nobody else holds.
\<close>

definition cells_ok :: "world \<Rightarrow> bool" where
  "cells_ok w \<longleftrightarrow> list_all (\<lambda>n. n < next_cell w) (spent w)"

locale approval_gate =
  fixes authorize :: gate
    and evidence :: "gate_call \<Rightarrow> world \<Rightarrow> world \<Rightarrow> decision \<Rightarrow> bool"
  assumes quiet: "quiet_call call \<Longrightarrow> authorize call w = (r, w') \<Longrightarrow> gate_steps w w'"
    and approves: "authorize call w = (Inr d, w') \<Longrightarrow> evidence call w w' d"
    and fresh: "quiet_call call \<Longrightarrow> authorize call w = (Inr d, w') \<Longrightarrow>
      next_cell w \<le> d_cell d \<and> d_cell d < next_cell w'"
    and described: "authorize call w = (Inr d, w') \<Longrightarrow>
      \<exists>text' wd. describe call w = (Inr text', wd) \<and> keeps_captured wd w' \<and> gate_steps wd w'"
begin

lemma first_consume:
  assumes "quiet_call call" and "authorize call w = (Inr d, w')" and "cells_ok w"
  shows "Consume d w' = (Inr (), w'\<lparr>spent := d_cell d # spent w'\<rparr>)"
    and "cells_ok (w'\<lparr>spent := d_cell d # spent w'\<rparr>)"
proof -
  have s: "spent w' = spent w" "next_cell w \<le> next_cell w'"
    using quiet [OF assms(1,2)] by (auto simp: gate_steps_def)
  have c: "next_cell w \<le> d_cell d" "d_cell d < next_cell w'" using fresh [OF assms(1,2)] by auto
  with assms(3) s show "Consume d w' = (Inr (), w'\<lparr>spent := d_cell d # spent w'\<rparr>)"
    by (auto simp: Consume_def cells_ok_def list_all_iff)
  from assms(3) s c show "cells_ok (w'\<lparr>spent := d_cell d # spent w'\<rparr>)"
    by (auto simp: cells_ok_def list_all_iff)
qed

lemma no_tool_effect:
  assumes "quiet_call call" and "authorize call w = (r, w')"
  shows "\<exists>es. trace w' = trace w @ es \<and> list_all (\<lambda>x. \<not> tool_effect x) es"
  using quiet [OF assms] by (auto simp: gate_steps_def list_all_iff dest: gate_effect_not_tool)

end

interpretation client: approval_gate "authorize_client e c" "approval_evidence e c"
  by unfold_locales (simp_all add: gate_steps_authorize_client authorize_client_InrD authorize_client_described)

interpretation unavailable: approval_gate "unavailable_gate er" "\<lambda>call w w' d. False"
  by unfold_locales (auto simp: unavailable_gate_def)

end
