(* ===== verification/Authorize.thy ===== *)
theory Authorize
  imports Screen ApprovalGate
begin

text \<open>
  The gate step of one call: the effectful half of internal/mcp gate.go and the parts of mcp.go
  that record what the gate said (\<open>gateRefusal\<close>, \<open>afterVerdict\<close>, \<open>noteGate\<close>, \<open>askGate\<close>).
\<close>

section \<open>Refusals and the call's note\<close>

definition gateOf :: "decision option \<Rightarrow> gate_info" where
  "gateOf d =
     (case d of
        None \<Rightarrow> no_gate
      | Some dec \<Rightarrow> \<lparr>g_RequestID = d_RequestID dec, g_Decision = Some VerdictApproved,
                    g_AutoApproved = d_AutoApproved dec\<rparr>)"

definition reasonOf :: "rpc_err \<Rightarrow> reason" where
  "reasonOf e =
     (case err_reason e of
        Some r \<Rightarrow> r
      | None \<Rightarrow> if code e = -32602 then ReasonInvalidInput else ReasonGateUnconfigured)"

definition afterVerdict :: "rpc_err \<Rightarrow> decision \<Rightarrow> rpc_err" where
  "afterVerdict e d = e\<lparr>err_reason := Some ReasonGateRejected, err_gate := gateOf (Some d)\<rparr>"

fun verdict_reason :: "verdict option \<Rightarrow> reason" where
  "verdict_reason (Some VerdictRejected) = ReasonGateRejected"
| "verdict_reason (Some VerdictExpired) = ReasonGateExpired"
| "verdict_reason (Some VerdictTimeout) = ReasonGateTimeout"
| "verdict_reason (Some VerdictUnconfigured) = ReasonGateUnconfigured"
| "verdict_reason None = ReasonInvalidInput"
| "verdict_reason (Some _) = ReasonGateUnreachable"

definition gateRefusal :: "gate_err \<Rightarrow> rpc_err" where
  "gateRefusal err =
     (let e = errf (-32603) (err_text (gate_err_text err)) in
      case err of
        Untyped _ \<Rightarrow> e\<lparr>err_reason := Some ReasonGateUnreachable\<rparr>
      | Refusal v rid _ \<Rightarrow>
          e\<lparr>err_gate := \<lparr>g_RequestID = rid, g_Decision = v, g_AutoApproved = False\<rparr>,
            err_reason := Some (verdict_reason v)\<rparr>)"

definition noteGate :: "decision \<Rightarrow> world \<Rightarrow> world" where
  "noteGate d w =
     (let note' = callnote w; g = gateOf (Some d);
          g' = (if g_RequestID (n_gate note') \<noteq> [] then
                  g\<lparr>g_RequestID := g_RequestID (n_gate note') @ '','' @ g_RequestID g,
                    g_AutoApproved := g_AutoApproved (n_gate note') \<and> g_AutoApproved g\<rparr>
                else g)
      in w\<lparr>callnote := note'\<lparr>n_gate := g'\<rparr>\<rparr>)"

section \<open>The gate's side of the dispatcher\<close>

record gate_side =
  h_gate :: gate
  h_gateReader :: "target_ref \<Rightarrow> (world, target_state) act"
  h_gateCollectionReader :: "collection_target_ref \<Rightarrow> (world, collection_target_state) act"
  h_sensitiveKinds :: "string list"

definition askGate :: "'a gate_side_scheme \<Rightarrow> gate_call \<Rightarrow> world \<Rightarrow> (gate_err + decision) \<times> world" where
  "askGate h call w =
     (case h_gate h call w of (r, w') \<Rightarrow>
        (r, w'\<lparr>callnote := (callnote w')\<lparr>n_gateWait := n_gateWait (callnote w') + int (clock w' - clock w)\<rparr>\<rparr>))"

definition readGateTarget ::
  "'a gate_side_scheme \<Rightarrow> tool_declaration \<Rightarrow> rbac_pair list \<Rightarrow> raw \<Rightarrow>
   (world, target_ref option \<times> target_state option) act"
where
  "readGateTarget h d gated rawArgs w =
     (case target d of
        None \<Rightarrow> (Inr (None, None), w)
      | Some f \<Rightarrow>
          (case f rawArgs of
             Inl e \<Rightarrow> (Inl (ErrText e), w)
           | Inr ref0 \<Rightarrow>
               (let ref = ref0\<lparr>tr_MetadataOnly := resourceIsSensitive (hd gated) (h_sensitiveKinds h)\<rparr> in
                case h_gateReader h ref w of
                  (Inl e, w') \<Rightarrow> (Inl e, w')
                | (Inr state, w') \<Rightarrow> (Inr (Some ref, Some state), w'))))"

text \<open>The \<open>Describe\<close> closure assigns the two captured variables, also on its error paths.\<close>

definition describe_target ::
  "'a gate_side_scheme \<Rightarrow> string \<Rightarrow> tool_declaration \<Rightarrow> rbac_pair list \<Rightarrow> raw \<Rightarrow> (world, ctx_line list) act"
where
  "describe_target h name d gated rawArgs w =
     (case readGateTarget h d gated rawArgs w of
        (Inl e, w') \<Rightarrow> (Inl e, w'\<lparr>captured := (None, None)\<rparr>)
      | (Inr (ref, approved), w') \<Rightarrow>
          (Inr (approvalContext name gated rawArgs (h_sensitiveKinds h) ref approved (clock w')),
           w'\<lparr>captured := (ref, approved)\<rparr>))"

definition gate_call_of ::
  "call_ctx \<Rightarrow> string \<Rightarrow> rbac_pair \<Rightarrow> (world, ctx_line list) act \<Rightarrow> gate_call"
where
  "gate_call_of ctx name p f =
     \<lparr>gc_Tool = name, gc_Pair = p, gc_SessionID = cx_sessionID ctx, gc_Reason = cx_reason ctx,
      gc_Describe = Some f\<rparr>"

definition confirmTargetUnchanged ::
  "'a gate_side_scheme \<Rightarrow> string \<Rightarrow> decision \<Rightarrow> target_ref option \<Rightarrow> target_state option \<Rightarrow>
   world \<Rightarrow> rpc_err option \<times> world"
where
  "confirmTargetUnchanged h name d ref approved w =
     (case (ref, approved) of
        (Some r, Some a) \<Rightarrow>
          (case h_gateReader h r w of
             (Inl e, w') \<Rightarrow>
               (Some (afterVerdict (errf (-32603) (''refusing '' @ name
                  @ '': the approved target could not be re-read before execution: '' @ err_text e)) d), w')
           | (Inr current, w') \<Rightarrow>
               (if ts_ResourceVersion current = ts_ResourceVersion a \<and> ts_UID current = ts_UID a then (None, w')
                else (Some (afterVerdict (errf (-32603) (''refusing '' @ name @ '': the target changed after it was approved'')) d), w')))
      | _ \<Rightarrow> (None, w))"

definition authorize ::
  "'a gate_side_scheme \<Rightarrow> call_ctx \<Rightarrow> string \<Rightarrow> tool_declaration \<Rightarrow> raw \<Rightarrow> world \<Rightarrow>
   (rpc_err + decision option \<times> target_state option) \<times> world"
where
  "authorize h ctx name d rawArgs w =
     (case gatedPairs d (h_sensitiveKinds h) rawArgs of
        Inl e \<Rightarrow> (invalid_params e, w)
      | Inr gated \<Rightarrow>
          if gated = [] then (Inr (None, None), w)
          else if resolve d \<noteq> None \<and> target d = None \<and> changesState gated then
            (Inl (errf (-32603) (''refusing '' @ name @ '': it declares no target for the gate to read'')), w)
          else
            (case askGate h (gate_call_of ctx name (hd gated) (describe_target h name d gated rawArgs))
                    (w\<lparr>captured := (None, None)\<rparr>) of
               (Inl e, w1) \<Rightarrow> (Inl (gateRefusal e), w1)
             | (Inr decision, w1) \<Rightarrow>
                 (case Consume decision w1 of
                    (Inl e, w2) \<Rightarrow> (Inl (afterVerdict (errf (-32603) (err_text e)) decision), w2)
                  | (Inr _, w2) \<Rightarrow>
                      (case confirmTargetUnchanged h name decision (fst (captured w2)) (snd (captured w2)) w2 of
                         (Some e, w3) \<Rightarrow> (Inl e, w3)
                       | (None, w3) \<Rightarrow> (Inr (Some decision, snd (captured w2)), w3)))))"

section \<open>The interface of the gate's readers\<close>

text \<open>
  A reader acts on the world through the gate's own reads; the live readers and the unavailable one
  are its instances. With a gate that meets its own contract, the gate step is quiet.
\<close>

locale gate_readers =
  fixes reader :: "target_ref \<Rightarrow> (world, target_state) act"
    and lister :: "collection_target_ref \<Rightarrow> (world, collection_target_state) act"
  assumes reads: "reader ref w = (r, w') \<Longrightarrow> gate_steps w w' \<and> captured w' = captured w"
    and lists: "lister sel w = (s, w') \<Longrightarrow> gate_steps w w' \<and> captured w' = captured w"

record read_oracle =
  o_ReadTarget :: "target_ref \<Rightarrow> world \<Rightarrow> go_err + target_state"
  o_ListTargets :: "collection_target_ref \<Rightarrow> world \<Rightarrow> go_err + collection_target_state"

definition live_reader :: "read_oracle \<Rightarrow> target_ref \<Rightarrow> (world, target_state) act" where
  "live_reader o' ref = perform (GateRead ref) (o_ReadTarget o' ref)"

definition live_lister :: "read_oracle \<Rightarrow> collection_target_ref \<Rightarrow> (world, collection_target_state) act" where
  "live_lister o' ref = perform (GateList ref) (o_ListTargets o' ref)"

text \<open>\<open>NewUnavailableTargetReader\<close>, both methods.\<close>

definition unavailable_reader :: "string \<Rightarrow> 'r \<Rightarrow> (world, 's) act" where
  "unavailable_reader why ref = Pair (Inl (unavailableErr why))"

interpretation live_readers: gate_readers "live_reader o'" "live_lister o'"
  by unfold_locales (auto simp: live_reader_def live_lister_def perform_def)

interpretation no_readers: gate_readers "unavailable_reader why" "unavailable_reader why"
  by unfold_locales (auto simp: unavailable_reader_def)

text \<open>
  What the gate step leaves: the trace grew by the gate's own calls, and of the call's note only
  the waiting time moved.
\<close>

definition asked_gate :: "world \<Rightarrow> world \<Rightarrow> bool" where
  "asked_gate w w' \<longleftrightarrow>
     (\<exists>es. trace w' = trace w @ es \<and> list_all gate_effect es) \<and>
     n_gate (callnote w') = n_gate (callnote w) \<and> n_reason (callnote w') = n_reason (callnote w) \<and>
     next_cell w \<le> next_cell w' \<and> set (spent w) \<subseteq> set (spent w')"

lemma asked_gate_refl [simp, intro]: "asked_gate w w"
  by (simp add: asked_gate_def)

lemma asked_gate_trans [trans]: "asked_gate w1 w2 \<Longrightarrow> asked_gate w2 w3 \<Longrightarrow> asked_gate w1 w3"
  by (auto simp: asked_gate_def)

lemma asked_gate_steps: "gate_steps w w' \<Longrightarrow> asked_gate w w'"
  by (auto simp: asked_gate_def gate_steps_def)

lemma asked_gate_captured [simp]:
  "asked_gate (w\<lparr>captured := v\<rparr>) w' = asked_gate w w'" "asked_gate w (w'\<lparr>captured := v\<rparr>) = asked_gate w w'"
  by (simp_all add: asked_gate_def)

lemma asked_gate_consume: "Consume d w = (r, w') \<Longrightarrow> asked_gate w w'"
  by (auto simp: Consume_def asked_gate_def split: if_splits)

lemma Consume_InrD: "Consume d w = (Inr u, w') \<Longrightarrow>
    d_cell d \<notin> set (spent w) \<and> d_cell d \<in> set (spent w') \<and> captured w' = captured w \<and> trace w' = trace w"
  by (auto simp: Consume_def split: if_splits)

text \<open>
  What a passed gate means. The approval has evidence, for a call that described the target in the
  state the gate read; its flag was clear and is now set; and a read after the approval found the
  target still in that version and identity.
\<close>

definition authorized ::
  "'a gate_side_scheme \<Rightarrow> (gate_call \<Rightarrow> world \<Rightarrow> world \<Rightarrow> decision \<Rightarrow> bool) \<Rightarrow> call_ctx \<Rightarrow> string \<Rightarrow> tool_declaration \<Rightarrow> raw \<Rightarrow> world \<Rightarrow> world \<Rightarrow> decision \<Rightarrow> target_state option \<Rightarrow> bool"
where
  "authorized h evidence ctx name d rawArgs w w' dec st \<longleftrightarrow>
     (\<exists>gated w0 w1.
        gatedPairs d (h_sensitiveKinds h) rawArgs = Inr gated \<and>
        evidence (gate_call_of ctx name (hd gated) (describe_target h name d gated rawArgs)) w0 w1 dec \<and>
        extends w w0 \<and> extends w1 w' \<and>
        d_cell dec \<notin> set (spent w1) \<and> d_cell dec \<in> set (spent w') \<and>
        (case target d of
           None \<Rightarrow> st = None
         | Some f \<Rightarrow>
             (\<exists>ref0 ref a w2 wa wb current.
                f rawArgs = Inr ref0 \<and>
                ref = ref0\<lparr>tr_MetadataOnly := resourceIsSensitive (hd gated) (h_sensitiveKinds h)\<rparr> \<and>
                st = Some a \<and>
                h_gateReader h ref w0 = (Inr a, wa) \<and>
                h_gateReader h ref w2 = (Inr current, wb) \<and>
                d_cell dec \<in> set (spent w2) \<and>
                ts_ResourceVersion current = ts_ResourceVersion a \<and> ts_UID current = ts_UID a)))"

section \<open>The gate step is quiet and approves only what was read\<close>

locale gated_dispatch = approval_gate "h_gate h" evidence + gate_readers "h_gateReader h" "h_gateCollectionReader h"
  for h :: "'a gate_side_scheme" and evidence
begin

lemma readGateTarget_steps:
  "readGateTarget h d gated rawArgs w = (r, w') \<Longrightarrow> gate_steps w w'"
  by (auto simp: readGateTarget_def Let_def split: option.splits sum.splits prod.splits dest!: reads)

lemma describe_target_steps:
  "describe_target h name d gated rawArgs w = (r, w') \<Longrightarrow> gate_steps w w'"
  by (auto simp: describe_target_def split: sum.splits prod.splits dest!: readGateTarget_steps)

lemma quiet_describe: "quiet_call (gate_call_of ctx name p (describe_target h name d gated rawArgs))"
  by (auto simp: quiet_call_def gate_call_of_def dest: describe_target_steps)

lemma askGate_steps:
  "askGate h call w = (r, w') \<Longrightarrow> quiet_call call \<Longrightarrow> asked_gate w w'"
  by (auto simp: askGate_def asked_gate_def gate_steps_def split: prod.splits dest!: quiet)

lemma confirm_steps: "confirmTargetUnchanged h name d ref approved w = (r, w') \<Longrightarrow> gate_steps w w'"
  by (auto simp: confirmTargetUnchanged_def split: option.splits sum.splits prod.splits if_splits dest!: reads)

lemma authorize_steps:
  assumes "Authorize.authorize h ctx name d rawArgs w = (r, w')"
  shows "asked_gate w w'"
proof (cases "gatedPairs d (h_sensitiveKinds h) rawArgs")
  case Inl
  with assms show ?thesis by (simp add: authorize_def)
next
  case (Inr gated)
  let ?call = "gate_call_of ctx name (hd gated) (describe_target h name d gated rawArgs)"
  obtain a w1 where ask: "askGate h ?call (w\<lparr>captured := (None, None)\<rparr>) = (a, w1)" by fastforce
  from askGate_steps [OF ask quiet_describe] have s1: "asked_gate w w1" by simp
  show ?thesis
  proof (cases a)
    case Inl
    with assms Inr ask s1 show ?thesis by (auto simp: authorize_def split: if_splits)
  next
    case a: (Inr dec)
    obtain b w2 where c: "Consume dec w1 = (b, w2)" by fastforce
    obtain e w3 where k: "confirmTargetUnchanged h name dec (fst (captured w2)) (snd (captured w2)) w2 = (e, w3)"
      by fastforce
    have s2: "asked_gate w w2" using s1 asked_gate_consume [OF c] by (rule asked_gate_trans)
    have s3: "asked_gate w w3" using s2 asked_gate_steps [OF confirm_steps [OF k]] by (rule asked_gate_trans)
    from assms Inr ask a c k s2 s3 show ?thesis
      by (auto simp: authorize_def split: if_splits sum.splits option.splits)
  qed
qed

lemma authorize_Inr:
  assumes "Authorize.authorize h ctx name d rawArgs w = (Inr (Some dec, st), w')"
  shows "authorized h evidence ctx name d rawArgs w w' dec st"
proof -
  obtain gated where g: "gatedPairs d (h_sensitiveKinds h) rawArgs = Inr gated"
    using assms by (cases "gatedPairs d (h_sensitiveKinds h) rawArgs") (auto simp: authorize_def)
  let ?call = "gate_call_of ctx name (hd gated) (describe_target h name d gated rawArgs)"
  let ?w0 = "w\<lparr>captured := (None, None)\<rparr>"
  obtain a w1 where ask: "askGate h ?call ?w0 = (a, w1)" by fastforce
  obtain d1 where a: "a = Inr d1"
    using assms g ask by (cases a) (simp_all add: authorize_def split: if_splits)
  obtain b w2 where c: "Consume d1 w1 = (b, w2)" by fastforce
  have b: "b = Inr ()"
    using assms g ask a c by (cases b) (simp_all add: authorize_def split: if_splits)
  obtain e w3 where k: "confirmTargetUnchanged h name d1 (fst (captured w2)) (snd (captured w2)) w2 = (e, w3)"
    by fastforce
  have "e = None" "d1 = dec" and st: "st = snd (captured w2)" and "w3 = w'"
    using assms g ask a c b k by (cases e; simp add: authorize_def split: if_splits)+
  note ask = ask [unfolded a this] and c = c [unfolded b this] and k = k [unfolded this]
  from ask obtain wg where auth: "h_gate h ?call ?w0 = (Inr dec, wg)"
    and w1: "captured w1 = captured wg" "spent w1 = spent wg" "trace w1 = trace wg"
    by (auto simp: askGate_def split: prod.splits)
  from described [OF auth] obtain text' wd where desc: "describe ?call ?w0 = (Inr text', wd)"
    and keep: "captured wg = captured wd" by (auto simp: keeps_captured_def)
  note cd = Consume_InrD [OF c]
  have dt: "describe_target h name d gated rawArgs ?w0 = (Inr text', wd)"
    using desc by (auto simp: describe_def gate_call_of_def split: sum.splits prod.splits if_splits)
  obtain q wr where q: "readGateTarget h d gated rawArgs ?w0 = (q, wr)" by fastforce
  have "captured w2 = captured wd" using cd w1 keep by simp
  with dt q have rd: "readGateTarget h d gated rawArgs ?w0 = (Inr (captured w2), wr)"
    by (cases q) (auto simp: describe_target_def split: prod.splits)
  have tr: "extends w ?w0" "extends wg w'"
    using gate_steps_extends [OF confirm_steps [OF k]] cd w1 by (auto simp: extends_def)
  have sp: "d_cell dec \<in> set (spent w')" "d_cell dec \<notin> set (spent wg)"
    using confirm_steps [OF k] cd w1 by (auto simp: gate_steps_def)
  have tgt: "case target d of None \<Rightarrow> st = None
     | Some f \<Rightarrow> (\<exists>ref0 ref a w2 wa wb current. f rawArgs = Inr ref0 \<and>
                ref = ref0\<lparr>tr_MetadataOnly := resourceIsSensitive (hd gated) (h_sensitiveKinds h)\<rparr> \<and>
                st = Some a \<and> h_gateReader h ref ?w0 = (Inr a, wa) \<and>
                h_gateReader h ref w2 = (Inr current, wb) \<and> d_cell dec \<in> set (spent w2) \<and>
                ts_ResourceVersion current = ts_ResourceVersion a \<and> ts_UID current = ts_UID a)"
  proof (cases "target d")
    case None
    with rd have "captured w2 = (None, None)" by (simp add: readGateTarget_def)
    with None st show ?thesis by simp
  next
    case (Some f)
    from rd Some obtain ref0 a wa where f: "f rawArgs = Inr ref0"
      and r1: "h_gateReader h (ref0\<lparr>tr_MetadataOnly := resourceIsSensitive (hd gated) (h_sensitiveKinds h)\<rparr>) ?w0 = (Inr a, wa)"
      and cap: "captured w2 = (Some (ref0\<lparr>tr_MetadataOnly := resourceIsSensitive (hd gated) (h_sensitiveKinds h)\<rparr>), Some a)"
      by (auto simp: readGateTarget_def Let_def split: sum.splits prod.splits)
    from k cap obtain current where
      "h_gateReader h (ref0\<lparr>tr_MetadataOnly := resourceIsSensitive (hd gated) (h_sensitiveKinds h)\<rparr>) w2 = (Inr current, w')"
      "ts_ResourceVersion current = ts_ResourceVersion a" "ts_UID current = ts_UID a"
      by (auto simp: confirmTargetUnchanged_def split: sum.splits prod.splits if_splits)
    with Some f r1 cap st cd show ?thesis by auto
  qed
  from g approves [OF auth] tr sp tgt show ?thesis unfolding authorized_def by blast
qed

lemma authorize_ungated:
  assumes "Authorize.authorize h ctx name d rawArgs w = (Inr (None, st), w')"
  shows "gatedPairs d (h_sensitiveKinds h) rawArgs = Inr [] \<and> st = None \<and> w' = w"
  using assms by (auto simp: authorize_def split: sum.splits if_splits prod.splits option.splits)

end

end
