(* ===== verification/Results.thy ===== *)
theory Results
  imports Authorize
begin

text \<open>
  What a tool answers with, and the text renderers of internal/mcp (mcp.go, resource.go,
  delete_collection.go). A tool result is the map the code builds: its content items, its
  structured content when it has one, and its \<open>isError\<close> member.
\<close>

section \<open>prettyJSON\<close>

definition hex_digit :: "nat \<Rightarrow> char" where
  "hex_digit n = (if n < 10 then char_of (48 + n) else char_of (87 + n))"

text \<open>encoding/json escapes quotes, backslashes, control characters and the three HTML characters.\<close>

definition escape_char :: "char \<Rightarrow> string" where
  "escape_char c =
     (let n = (of_char c :: nat) in
      if n = 34 then [CHR 0x5C, CHR 0x22] else if n = 92 then [CHR 0x5C, CHR 0x5C]
      else if n = 8 then [CHR 0x5C, CHR ''b''] else if n = 12 then [CHR 0x5C, CHR ''f'']
      else if n = 10 then [CHR 0x5C, CHR ''n''] else if n = 13 then [CHR 0x5C, CHR ''r'']
      else if n = 9 then [CHR 0x5C, CHR ''t'']
      else if n < 32 \<or> n = 60 \<or> n = 62 \<or> n = 38
        then [CHR 0x5C, CHR ''u'', CHR ''0'', CHR ''0'', hex_digit (n div 16), hex_digit (n mod 16)]
      else [c])"

definition quote :: "string \<Rightarrow> string" where
  "quote s = [CHR 0x22] @ concat (map escape_char s) @ [CHR 0x22]"

definition newline :: "nat \<Rightarrow> string" where
  "newline depth = CHR 0x0A # replicate (2 * depth) CHR 0x20"

text \<open>\<open>MarshalIndent(v, "", "  ")\<close> of a value whose members are in order (\<open>canon\<close>).\<close>

fun pretty :: "nat \<Rightarrow> json \<Rightarrow> string" where
  "pretty n JNull = ''null''"
| "pretty n (JBool b) = (if b then ''true'' else ''false'')"
| "pretty n (JNum s) = s"
| "pretty n (JStr s) = quote s"
| "pretty n (JArr xs) =
     (if xs = [] then ''[]''
      else ''['' @ newline (Suc n) @ join ('','' @ newline (Suc n)) (map (pretty (Suc n)) xs) @ newline n @ '']'')"
| "pretty n (JObj kvs) =
     (if kvs = [] then ''{}''
      else ''{'' @ newline (Suc n)
        @ join ('','' @ newline (Suc n)) (map (\<lambda>(k, v). quote k @ '': '' @ pretty (Suc n) v) kvs)
        @ newline n @ ''}'')"

definition prettyJSON :: "json \<Rightarrow> string" where
  "prettyJSON v = pretty 0 (canon v)"

section \<open>Results\<close>

datatype content_item = CText string | CResource string string string

record tool_result =
  content :: "content_item list"
  structured :: "obj option"
  isError :: bool

definition toolText :: "string \<Rightarrow> bool \<Rightarrow> tool_result" where
  "toolText text' err = \<lparr>content = [CText text'], structured = None, isError = err\<rparr>"

definition structuredResult :: "string \<Rightarrow> obj \<Rightarrow> bool \<Rightarrow> tool_result" where
  "structuredResult text' payload err = \<lparr>content = [CText text'], structured = Some payload, isError = err\<rparr>"

definition successResult :: "obj \<Rightarrow> tool_result" where
  "successResult payload = structuredResult (prettyJSON (JObj payload)) payload False"

definition resourceResult :: "string \<Rightarrow> string \<Rightarrow> tool_result" where
  "resourceResult uri text' = \<lparr>content = [CResource uri ''text/plain'' text'], structured = None, isError = False\<rparr>"

text \<open>\<open>toolError\<close>: the text for the client, and the mark on the call's note for an integration nobody configured.\<close>

definition noteError :: "go_err \<Rightarrow> world \<Rightarrow> world" where
  "noteError e w =
     (if is_unavailable e then w\<lparr>callnote := (callnote w)\<lparr>n_reason := Some ReasonUnconfigured\<rparr>\<rparr> else w)"

definition toolError :: "go_err \<Rightarrow> world \<Rightarrow> tool_result \<times> world" where
  "toolError e w = (toolText (err_text e) True, noteError e w)"

definition annotateAutoApproval :: "tool_result \<Rightarrow> decision option \<Rightarrow> tool_result" where
  "annotateAutoApproval result d =
     (case d of
        None \<Rightarrow> result
      | Some dec \<Rightarrow>
          if \<not> d_AutoApproved dec then result
          else result\<lparr>content := content result
                 @ [CText (''[auto-approved by PocketAide without human review: request '' @ d_RequestID dec @ '']'')]\<rparr>)"

lemma annotateAutoApproval_simps [simp]:
  "isError (annotateAutoApproval r d) = isError r"
  "structured (annotateAutoApproval r d) = structured r"
  by (simp_all add: annotateAutoApproval_def split: option.splits)

text \<open>JSON values of Go values.\<close>

definition j_opt :: "('a \<Rightarrow> json) \<Rightarrow> 'a option \<Rightarrow> json" where
  "j_opt f x = (case x of None \<Rightarrow> JNull | Some v \<Rightarrow> f v)"

definition j_int :: "int \<Rightarrow> json" where "j_int n = JNum (itoa n)"
definition j_strs :: "string list \<Rightarrow> json" where "j_strs xs = JArr (map JStr xs)"

section \<open>Text renderers\<close>

definition pad_to :: "nat \<Rightarrow> string \<Rightarrow> string" where
  "pad_to n s = s @ replicate (n - length s) CHR 0x20"

definition watchEventName :: "obj \<Rightarrow> string" where
  "watchEventName object' =
     (let metadata = object_or_empty object' ''metadata''; name = string_or_empty metadata ''name'';
          ns = string_or_empty metadata ''namespace'' in
      if ns \<noteq> [] then ns @ ''/'' @ name else if name = [] then ''(unnamed)'' else name)"

definition watchEventResourceVersion :: "obj \<Rightarrow> string" where
  "watchEventResourceVersion object' =
     string_or_empty (object_or_empty object' ''metadata'') ''resourceVersion''"

definition renderWatch :: "watch_result \<Rightarrow> int \<Rightarrow> string" where
  "renderWatch result seconds =
     (if wr_Events result = [] then ''(no events in '' @ itoa seconds @ ''s)''
      else concat (map (\<lambda>ev.
             pad_to 8 (we_Type ev) @ '' '' @ watchEventName (we_Object ev)
             @ (let rv = watchEventResourceVersion (we_Object ev) in if rv \<noteq> [] then ''   rv='' @ rv else [])
             @ [CHR 0x0A]) (wr_Events result))
        @ (if wr_Truncated result
           then CHR 0x0A # ''(truncated at '' @ itoa (int WatchMaxEvents) @ '' events; re-watch from the last rv above)'' @ [CHR 0x0A]
           else []))"

text \<open>\<open>fmt.Sprintf("%v", cell)\<close> of a decoded cell.\<close>

fun cell_text :: "json \<Rightarrow> string" where
  "cell_text JNull = ''<nil>''"
| "cell_text (JBool b) = (if b then ''true'' else ''false'')"
| "cell_text (JNum s) = s"
| "cell_text (JStr s) = s"
| "cell_text (JArr xs) = ''['' @ join '' '' (map cell_text xs) @ '']''"
| "cell_text (JObj kvs) = ''map['' @ join '' '' (map (\<lambda>(k, v). k @ '':'' @ cell_text v) kvs) @ '']''"

definition table_line :: "nat \<Rightarrow> json list \<Rightarrow> string list" where
  "table_line cols row = map (\<lambda>i. if i < length row then cell_text (canon (row ! i)) else []) [0..<cols]"

definition table_widths :: "list_column list \<Rightarrow> string list list \<Rightarrow> nat list" where
  "table_widths columns cells =
     map (\<lambda>i. foldl max (length (lc_Name (columns ! i))) (map (\<lambda>line. length (line ! i)) cells)) [0..<length columns]"

definition write_row :: "nat list \<Rightarrow> string list \<Rightarrow> string" where
  "write_row widths values =
     join ''   '' (map (\<lambda>i. if i < length values - 1 then pad_to (widths ! i) (values ! i) else values ! i)
                    [0..<length values]) @ [CHR 0x0A]"

definition renderTable :: "list_result \<Rightarrow> int \<Rightarrow> string" where
  "renderTable result limit =
     (if lr_Rows result = [] then ''(no resources found)''
      else let cells = map (table_line (length (lr_Columns result))) (lr_Rows result);
               widths = table_widths (lr_Columns result) cells in
        write_row widths (map (\<lambda>c. to_upper (lc_Name c)) (lr_Columns result))
        @ concat (map (write_row widths) cells)
        @ (if lr_Truncated result
           then CHR 0x0A # ''(truncated at limit='' @ itoa limit @ ''; pass continue='' @ quote (lr_Continue result)
             @ '' for the next page'' @ (case lr_Remaining result of None \<Rightarrow> [] | Some n \<Rightarrow> ''; '' @ itoa n @ '' more'')
             @ '')'' @ [CHR 0x0A]
           else []))"

definition grace_text :: "int option \<Rightarrow> string" where
  "grace_text grace = (case grace of None \<Rightarrow> [] | Some n \<Rightarrow> '' (gracePeriodSeconds='' @ itoa n @ '')'')"

definition deletionText :: "resource_result \<Rightarrow> string \<Rightarrow> int option \<Rightarrow> string" where
  "deletionText result name grace =
     ''accepted for deletion: '' @ rs_Resource result @ '' ''
     @ (if rs_Namespace result \<noteq> [] then rs_Namespace result @ ''/'' @ name else name)
     @ grace_text grace @ CHR 0x0A # ''The object is removed once its grace period and finalizers are done.''"

definition collectionDeletionText :: "delete_collection_result \<Rightarrow> int option \<Rightarrow> string" where
  "collectionDeletionText result grace =
     ''accepted for deletion: the '' @ dcr_Resource result @ '' selection in namespace '' @ dcr_Namespace result
     @ grace_text grace
     @ CHR 0x0A # ''The approval screen listed the objects this selection named at approval time.''
     @ CHR 0x0A # ''Each is removed once its grace period and finalizers are done.''"

section \<open>The shape of a handler\<close>

text \<open>
  A handler checks its arguments, makes one call on a service and renders what came back;
  \<open>parsed\<close> and \<open>respond\<close> are the two early returns.
\<close>

type_synonym 'a outcome = "(rpc_err + 'a) \<times> world"

definition parsed :: "rpc_err + 'a \<Rightarrow> ('a \<Rightarrow> world \<Rightarrow> 'b outcome) \<Rightarrow> world \<Rightarrow> 'b outcome" where
  "parsed p k w = (case p of Inl e \<Rightarrow> (Inl e, w) | Inr a \<Rightarrow> k a w)"

definition respond :: "(world, 'a) act \<Rightarrow> ('a \<Rightarrow> tool_result) \<Rightarrow> world \<Rightarrow> tool_result outcome" where
  "respond act k w =
     (case act w of
        (Inl e, w1) \<Rightarrow> (case toolError e w1 of (res, w2) \<Rightarrow> (Inr res, w2))
      | (Inr a, w1) \<Rightarrow> (Inr (k a), w1))"

definition object_arg :: "raw \<Rightarrow> rpc_err + obj" where
  "object_arg r = need (decodeObject r) ''arguments must be an object''"

end
