(* ===== verification/Services.thy ===== *)
theory Services
  imports Results
begin

text \<open>
  The services a handler is given: \<open>k8s.Service\<close> and one field per method of the seven integrations
  beside it (the \<open>Service\<close> interfaces of internal/github, awsconfig, grafana, opensearch,
  sessionplatform, pocketaide and drop), and what their answers hold.
\<close>

datatype installation_token = InstallationToken
  (tok_Token: string) (tok_ExpiresAt: string) (tok_Permissions: obj) (tok_RepositorySelection: string)

datatype commit_status = CommitStatus
  (st_ID: int) (st_State: string) (st_Context: string) (st_SHA: string) (st_Description: string)
  (st_TargetURL: string) (st_CreatedAt: string)

datatype aws_object = AwsObject
  (aws_Bucket: string) (aws_Key: string) (aws_Content: string) (aws_ContentType: string)
  (aws_ETag: string) (aws_LastModified: string) (aws_Size: int)

datatype grafana_credentials = GrafanaCredentials
  (gr_Token: string) (gr_ExpiresAt: string) (gr_MetricsURL: string) (gr_MetricsUser: string)
  (gr_LogsURL: string) (gr_LogsUser: string)

datatype search_hit = SearchHit (hit_Index: string) (hit_ID: string) (hit_Score: "string option") (hit_Source: raw)

datatype search_result = SearchResult (sr_Total: int) (sr_Hits: "search_hit list")

datatype document_result = DocumentResult (do_Index: string) (do_ID: string) (do_Result: string)

datatype session = Session
  (se_ID: string) (se_Name: string) (se_WorkloadType: string) (se_State: string) (se_Pod: string)
  (se_Plugins: "string list") (se_CreatedAt: string) (se_LastAccess: string)

datatype read_session = ReadSession (rd_Session: session) (rd_Path: string) (rd_Payload: string) (rd_NextOffset: int)

datatype write_session = WriteSession (ws_Session: session) (ws_Path: string)

datatype notify_result = NotifyResult (nt_Devices: int) (nt_Sent: int)

datatype drop_token = DropToken
  (dt_Token: string) (dt_ExpiresAt: string) (dt_MaxDays: int) (dt_CreatedBy: string) (dt_BaseURL: string)

record services =
  sv_k8s :: "world k8s_service"
  CreateInstallationToken :: "string list option \<Rightarrow> obj option \<Rightarrow> (world, installation_token) act"
  CreateCommitStatus :: "commit_status_input \<Rightarrow> (world, commit_status) act"
  GetConfig :: "(world, aws_object) act"
  CreateToken :: "(world, grafana_credentials) act"
  Search :: "string \<Rightarrow> string option \<Rightarrow> int option \<Rightarrow> (world, search_result) act"
  PutDocument :: "string \<Rightarrow> string option \<Rightarrow> obj \<Rightarrow> (world, document_result) act"
  DeleteDocument :: "string \<Rightarrow> string \<Rightarrow> (world, document_result) act"
  ListSessions :: "(world, session list) act"
  ReadSessionAt :: "string \<Rightarrow> int \<Rightarrow> (world, read_session) act"
  WriteSessionTo :: "string \<Rightarrow> string \<Rightarrow> (world, write_session) act"
  CreateSession :: "create_session \<Rightarrow> (world, session) act"
  DeleteSession :: "string \<Rightarrow> (world, unit) act"
  Notify :: "string \<Rightarrow> string \<Rightarrow> string \<Rightarrow> (world, notify_result) act"
  IssueToken :: "drop_request \<Rightarrow> (world, drop_token) act"

section \<open>The contract of the services\<close>

text \<open>An act that fails without a trace, or makes exactly the one call.\<close>

definition single_act :: "effect \<Rightarrow> (world, 'a) act \<Rightarrow> bool" where
  "single_act x act \<longleftrightarrow>
     (\<forall>w r w'. act w = (r, w') \<longrightarrow> (w' = w \<and> (\<exists>e. r = Inl e)) \<or> w' = log_effect x w)"

lemma single_act_perform [simp]: "single_act x (perform x a)"
  by (auto simp: single_act_def perform_def)

lemma single_act_refuse [simp]: "single_act x (Pair (Inl e))"
  by (simp add: single_act_def)

locale bounded_services = bounded_service "sv_k8s sv" may
  for sv :: services and may :: "k8s_call \<Rightarrow> bool" +
  assumes s_token: "single_act (ExtCall (XInstallationToken repos perms)) (CreateInstallationToken sv repos perms)"
    and s_status: "single_act (ExtCall (XCommitStatus cs)) (CreateCommitStatus sv cs)"
    and s_aws: "single_act (ExtCall XAwsConfig) (GetConfig sv)"
    and s_grafana: "single_act (ExtCall XGrafanaToken) (CreateToken sv)"
    and s_search: "single_act (ExtCall (XSearch qs ix sz)) (Search sv qs ix sz)"
    and s_put: "single_act (ExtCall (XPutDocument i did doc)) (PutDocument sv i did doc)"
    and s_delete_doc: "single_act (ExtCall (XDeleteDocument i j)) (DeleteDocument sv i j)"
    and s_sessions: "single_act (ExtCall XListSessions) (ListSessions sv)"
    and s_read: "single_act (ExtCall (XReadSession sid off)) (ReadSessionAt sv sid off)"
    and s_write: "single_act (ExtCall (XWriteSession sid pl)) (WriteSessionTo sv sid pl)"
    and s_create: "single_act (ExtCall (XCreateSession sn)) (CreateSession sv sn)"
    and s_delete_session: "single_act (ExtCall (XDeleteSession sid)) (DeleteSession sv sid)"
    and s_notify: "single_act (ExtCall (XNotify t b rq)) (Notify sv t b rq)"
    and s_issue: "single_act (ExtCall (XIssueToken dq)) (IssueToken sv dq)"
begin

lemmas single_acts = s_token s_status s_aws s_grafana s_search s_put s_delete_doc s_sessions s_read
  s_write s_create s_delete_session s_notify s_issue

end

record ext_oracle =
  o_token :: "string list option \<Rightarrow> obj option \<Rightarrow> world \<Rightarrow> go_err + installation_token"
  o_status :: "commit_status_input \<Rightarrow> world \<Rightarrow> go_err + commit_status"
  o_aws :: "world \<Rightarrow> go_err + aws_object"
  o_grafana :: "world \<Rightarrow> go_err + grafana_credentials"
  o_search :: "string \<Rightarrow> string option \<Rightarrow> int option \<Rightarrow> world \<Rightarrow> go_err + search_result"
  o_document :: "ext_call \<Rightarrow> world \<Rightarrow> go_err + document_result"
  o_sessions :: "world \<Rightarrow> go_err + session list"
  o_read :: "string \<Rightarrow> int \<Rightarrow> world \<Rightarrow> go_err + read_session"
  o_write :: "string \<Rightarrow> string \<Rightarrow> world \<Rightarrow> go_err + write_session"
  o_create_session :: "create_session \<Rightarrow> world \<Rightarrow> go_err + session"
  o_delete_session :: "string \<Rightarrow> world \<Rightarrow> go_err + unit"
  o_notify :: "string \<Rightarrow> string \<Rightarrow> string \<Rightarrow> world \<Rightarrow> go_err + notify_result"
  o_issue :: "drop_request \<Rightarrow> world \<Rightarrow> go_err + drop_token"

text \<open>The live services over a kubernetes client.\<close>

definition live_services :: "world k8s_service \<Rightarrow> ext_oracle \<Rightarrow> services" where
  "live_services k x =
     \<lparr>sv_k8s = k,
      CreateInstallationToken = (\<lambda>r p. perform (ExtCall (XInstallationToken r p)) (o_token x r p)),
      CreateCommitStatus = (\<lambda>s. perform (ExtCall (XCommitStatus s)) (o_status x s)),
      GetConfig = perform (ExtCall XAwsConfig) (o_aws x),
      CreateToken = perform (ExtCall XGrafanaToken) (o_grafana x),
      Search = (\<lambda>q i n. perform (ExtCall (XSearch q i n)) (o_search x q i n)),
      PutDocument = (\<lambda>i d b. perform (ExtCall (XPutDocument i d b)) (o_document x (XPutDocument i d b))),
      DeleteDocument = (\<lambda>i d. perform (ExtCall (XDeleteDocument i d)) (o_document x (XDeleteDocument i d))),
      ListSessions = perform (ExtCall XListSessions) (o_sessions x),
      ReadSessionAt = (\<lambda>i n. perform (ExtCall (XReadSession i n)) (o_read x i n)),
      WriteSessionTo = (\<lambda>i p. perform (ExtCall (XWriteSession i p)) (o_write x i p)),
      CreateSession = (\<lambda>r. perform (ExtCall (XCreateSession r)) (o_create_session x r)),
      DeleteSession = (\<lambda>i. perform (ExtCall (XDeleteSession i)) (o_delete_session x i)),
      Notify = (\<lambda>t b r. perform (ExtCall (XNotify t b r)) (o_notify x t b r)),
      IssueToken = (\<lambda>q. perform (ExtCall (XIssueToken q)) (o_issue x q))\<rparr>"

lemma bounded_services_live:
  assumes "bounded_service k may"
  shows "bounded_services (live_services k x) may"
  using assms by (simp add: bounded_services_def bounded_services_axioms_def live_services_def)

interpretation live_sv: bounded_services "live_services (live_service or') x" "\<lambda>_. True"
  by (rule bounded_services_live) (rule live.bounded_service_axioms)

text \<open>The dispatcher replaces the client by a confined one and leaves the rest.\<close>

lemma bounded_services_confine:
  assumes "bounded_services sv may"
  shows "bounded_services (sv\<lparr>sv_k8s := confinedService am c (sv_k8s sv)\<rparr>) (\<lambda>k. may k \<and> permits am c k)"
proof -
  have "bounded_service (sv_k8s sv) may"
    using assms by (simp add: bounded_services_def)
  from bounded_service_confined [OF this, of am c] assms show ?thesis
    by (simp add: bounded_services_def bounded_services_axioms_def)
qed

section \<open>What one handler does to the world\<close>

text \<open>
  \<open>handler_steps may w r w'\<close>: a JSON-RPC error left the world as it was; otherwise at most one call
  of those allowed was made, and of the rest only the note's reason may have been set.
\<close>

definition allowed_effect :: "(k8s_call \<Rightarrow> bool) \<Rightarrow> effect \<Rightarrow> bool" where
  "allowed_effect may x = (case x of K8sCall c \<Rightarrow> may c | ExtCall _ \<Rightarrow> True | _ \<Rightarrow> False)"

definition handler_steps :: "(k8s_call \<Rightarrow> bool) \<Rightarrow> world \<Rightarrow> rpc_err + tool_result \<Rightarrow> world \<Rightarrow> bool" where
  "handler_steps may w r w' \<longleftrightarrow>
     (case r of
        Inl _ \<Rightarrow> w' = w
      | Inr res \<Rightarrow>
          (trace w' = trace w \<or> (\<exists>x. trace w' = trace w @ [x] \<and> allowed_effect may x)) \<and>
          n_gate (callnote w') = n_gate (callnote w) \<and> n_gateWait (callnote w') = n_gateWait (callnote w) \<and>
          spent w' = spent w \<and> next_cell w' = next_cell w \<and>
          (n_reason (callnote w') \<noteq> n_reason (callnote w) \<longrightarrow>
             isError res \<and> n_reason (callnote w') = Some ReasonUnconfigured))"

lemma handler_steps_refuse [simp]: "handler_steps may w (Inl e) w' \<longleftrightarrow> w' = w"
  by (simp add: handler_steps_def)

lemma handler_steps_pure [simp]: "handler_steps may w (Inr res) w"
  by (simp add: handler_steps_def)

lemma handler_steps_error:
  "toolError e w = (res, w') \<Longrightarrow> handler_steps may w (Inr res) w'"
  by (auto simp: handler_steps_def toolError_def noteError_def toolText_def)

text \<open>\<open>body_ok may b\<close>: whatever world it starts in, the body does that.\<close>

definition body_ok :: "(k8s_call \<Rightarrow> bool) \<Rightarrow> (world \<Rightarrow> tool_result outcome) \<Rightarrow> bool" where
  "body_ok may b \<longleftrightarrow> (\<forall>w r w'. b w = (r, w') \<longrightarrow> handler_steps may w r w')"

lemma body_ok_parsed: "(\<And>a. p = Inr a \<Longrightarrow> body_ok may (k a)) \<Longrightarrow> body_ok may (parsed p k)"
  by (cases p) (auto simp: body_ok_def parsed_def)

lemma body_ok_refuse: "body_ok may (\<lambda>w. (Inl e, w))"
  by (simp add: body_ok_def)

lemma body_ok_pure: "body_ok may (\<lambda>w. (Inr res, w))"
  by (simp add: body_ok_def)

lemma body_ok_error: "body_ok may (\<lambda>w. case toolError e w of (res, w') \<Rightarrow> (Inr res, w'))"
  by (auto simp: body_ok_def split: prod.splits intro: handler_steps_error)

lemma body_ok_bounded: "bounded_act may call act \<Longrightarrow> body_ok may (respond act k)"
  unfolding body_ok_def bounded_act_def
  by (fastforce simp: respond_def toolError_def noteError_def handler_steps_def toolText_def allowed_effect_def
      split: prod.splits sum.splits)

lemma body_ok_single: "single_act (ExtCall x) act \<Longrightarrow> body_ok may (respond act k)"
  unfolding body_ok_def single_act_def
  by (fastforce simp: respond_def toolError_def noteError_def handler_steps_def toolText_def allowed_effect_def
      split: prod.splits sum.splits)

end
