(* ===== verification/TokenCaps.thy ===== *)
theory TokenCaps
  imports Services
begin

text \<open>
  The limits a caller's rule puts on a GitHub token: \<open>applyTokenCaps\<close>, \<open>guardSelfWorkflows\<close> and
  their helpers in internal/mcp mcp.go. A nil slice or map is \<open>None\<close>; a Go map is ranged over in
  the order of the model's list, where the order decides which message a refusal carries, not
  whether there is one.
\<close>

type_synonym token_request = "string list option \<times> obj option"

definition permissionRank :: "string \<Rightarrow> nat" where
  "permissionRank level =
     (if level = ''read'' then 1 else if level = ''write'' then 2 else if level = ''admin'' then 3 else 0)"

definition permission_check :: "(string \<times> string) list \<Rightarrow> string \<times> json \<Rightarrow> rpc_err + unit" where
  "permission_check limits p =
     (case p of (name, v) \<Rightarrow>
      (case v of
        JStr level \<Rightarrow>
          (case map_of limits name of
             None \<Rightarrow> invalid_params (''permission '' @ name @ '' is outside this caller's token scope'')
           | Some limit \<Rightarrow>
               check (permissionRank level \<noteq> 0 \<and> permissionRank level \<le> permissionRank limit)
                 (''permission '' @ name @ '' exceeds this caller's limit''))
      | _ \<Rightarrow> invalid_params (''permission '' @ name @ '' must be a string level'')))"

definition capPermissions :: "token_cap \<Rightarrow> string list option \<Rightarrow> obj option \<Rightarrow> rpc_err + token_request" where
  "capPermissions cap repositories permissions =
     (case permissions of
        None \<Rightarrow> Inr (repositories, Some (map (\<lambda>(n, l). (n, JStr l)) (or_else (Permissions cap) [])))
      | Some ps \<Rightarrow>
          bind_sum (check (ps \<noteq> []) ''permissions must not be empty for this caller'') (\<lambda>_.
          bind_sum (map_sum_list (permission_check (or_else (Permissions cap) [])) ps) (\<lambda>_.
          Inr (repositories, permissions))))"

definition applyExcludeCap :: "token_cap \<Rightarrow> string list \<Rightarrow> string list option \<Rightarrow> obj option \<Rightarrow> rpc_err + token_request" where
  "applyExcludeCap cap excluded repositories permissions =
     bind_sum (check (or_else repositories [] \<noteq> []) ''repositories must be named for this caller'') (\<lambda>_.
     bind_sum (check (list_all (\<lambda>r. to_lower r \<notin> set excluded) (or_else repositories []))
                ''a repository is excluded from this caller's token scope'') (\<lambda>_.
     (case Permissions cap of
        None \<Rightarrow> Inr (repositories, permissions)
      | Some _ \<Rightarrow> capPermissions cap repositories permissions)))"

text \<open>Appending nothing to a nil slice leaves it nil.\<close>

definition applyTokenCap :: "token_cap option \<Rightarrow> string list option \<Rightarrow> obj option \<Rightarrow> rpc_err + token_request" where
  "applyTokenCap tokenCap repositories permissions =
     (case tokenCap of
        None \<Rightarrow> Inr (repositories, permissions)
      | Some cap \<Rightarrow>
          (case ExcludeRepositories cap of
             Some excluded \<Rightarrow> applyExcludeCap cap excluded repositories permissions
           | None \<Rightarrow>
               (case repositories of
                  None \<Rightarrow> capPermissions cap (if Repositories cap = [] then None else Some (Repositories cap)) permissions
                | Some rs \<Rightarrow>
                    bind_sum (check (rs \<noteq> []) ''repositories must not be empty for this caller'') (\<lambda>_.
                    bind_sum (check (list_all (\<lambda>r. to_lower r \<in> set (Repositories cap)) rs)
                               ''a repository is outside this caller's token scope'') (\<lambda>_.
                    capPermissions cap repositories permissions)))))"

definition describeTokenCap :: "token_cap \<Rightarrow> string" where
  "describeTokenCap c =
     (let repos = (case ExcludeRepositories c of
                     None \<Rightarrow> join '', '' (Repositories c)
                   | Some ex \<Rightarrow> ''every repository except '' @ join '', '' ex);
          perms = (case Permissions c of
                     None \<Rightarrow> ''any permission''
                   | Some ps \<Rightarrow> join '', '' (sort (map (\<lambda>(n, l). n @ ''='' @ l) ps)))
      in ''['' @ repos @ '': '' @ perms @ '']'')"

definition describeTokenCaps :: "token_cap list \<Rightarrow> string" where
  "describeTokenCaps caps = join '' '' (map describeTokenCap caps)"

definition fits :: "string list option \<Rightarrow> obj option \<Rightarrow> token_cap \<Rightarrow> bool" where
  "fits repositories permissions c =
     (case applyTokenCap (Some c) repositories permissions of Inl _ \<Rightarrow> False | Inr _ \<Rightarrow> True)"

definition applyTokenCaps :: "token_cap list \<Rightarrow> string list option \<Rightarrow> obj option \<Rightarrow> rpc_err + token_request" where
  "applyTokenCaps caps repositories permissions =
     (if length caps \<le> 1 then
        applyTokenCap (case caps of [] \<Rightarrow> None | c # _ \<Rightarrow> Some c) repositories permissions
      else let fitting = filter (fits repositories permissions) caps in
        if fitting = [] then
          invalid_params (''the request fits none of this caller's token scopes: '' @ describeTokenCaps caps)
        else if 1 < length fitting \<and> (repositories = None \<or> permissions = None) then
          invalid_params (''omitted repositories or permissions are ambiguous: '' @ describeTokenCaps fitting)
        else applyTokenCap (Some (hd fitting)) repositories permissions)"

definition guardSelfWorkflows :: "string \<Rightarrow> string list option \<Rightarrow> obj option \<Rightarrow> rpc_err + unit" where
  "guardSelfWorkflows self repositories permissions =
     (if self = [] then Inr ()
      else if (case permissions of None \<Rightarrow> False | Some ps \<Rightarrow> \<not> present ps ''workflows'') then Inr ()
      else if (case repositories of None \<Rightarrow> False | Some rs \<Rightarrow> \<not> list_ex (\<lambda>r. equal_fold r self) rs) then Inr ()
      else invalid_params (''a token with the workflows permission cannot include '' @ self))"

section \<open>What a capped token can be\<close>

text \<open>A level within a limit.\<close>

definition level_within :: "(string \<times> string) list \<Rightarrow> string \<Rightarrow> json \<Rightarrow> bool" where
  "level_within limits name v \<longleftrightarrow>
     (\<exists>level limit. v = JStr level \<and> map_of limits name = Some limit \<and>
        permissionRank level \<le> permissionRank limit)"

text \<open>
  The specification of a cap, apart from how the code checks it: the token names its repositories,
  each of them inside the cap, and its permissions stay at or below the cap's levels.
\<close>

definition within_cap :: "token_cap \<Rightarrow> token_request \<Rightarrow> bool" where
  "within_cap cap req \<longleftrightarrow>
     (case req of (repositories, permissions) \<Rightarrow>
        (\<exists>rs. repositories = Some rs \<and> rs \<noteq> [] \<and>
           (case ExcludeRepositories cap of
              None \<Rightarrow> to_lower ` set rs \<subseteq> to_lower ` set (Repositories cap)
            | Some ex \<Rightarrow> to_lower ` set rs \<inter> set ex = {})) \<and>
        (case Permissions cap of
           None \<Rightarrow> ExcludeRepositories cap \<noteq> None
         | Some limits \<Rightarrow> (\<exists>ps. permissions = Some ps \<and> list_all (\<lambda>(n, v). level_within limits n v) ps)))"

text \<open>What the rule parser guarantees of a cap: something to limit by, and unique permission names.\<close>

definition cap_ok :: "token_cap \<Rightarrow> bool" where
  "cap_ok cap \<longleftrightarrow>
     (ExcludeRepositories cap = None \<longrightarrow> Repositories cap \<noteq> [] \<and> Permissions cap \<noteq> None) \<and>
     distinct (map fst (or_else (Permissions cap) []))"

lemma permission_check_Inr:
  "permission_check limits (n, v) = Inr u \<Longrightarrow> level_within limits n v"
  by (auto simp: permission_check_def level_within_def split: json.splits option.splits)

lemma capPermissions_Inr:
  assumes "capPermissions cap rs ps = Inr (rs', ps')" and "cap_ok cap" and "Permissions cap = Some limits"
  shows "rs' = rs \<and> (\<exists>qs. ps' = Some qs \<and> list_all (\<lambda>(n, v). level_within limits n v) qs)"
proof (cases ps)
  case None
  have "level_within limits n (JStr l)" if "(n, l) \<in> set limits" for n l
    using that assms(2,3) by (auto simp: level_within_def cap_ok_def)
  with None assms(1,3) show ?thesis by (auto simp: capPermissions_def list_all_iff)
next
  case (Some qs)
  with assms obtain us where "rs' = rs" "ps' = Some qs" and "map_sum_list (permission_check limits) qs = Inr us"
    by (auto simp: capPermissions_def bind_sum_Inr_iff)
  then show ?thesis
    by (auto simp: list_all_iff dest!: map_sum_list_all permission_check_Inr)
qed

lemma applyTokenCap_within:
  assumes "applyTokenCap (Some cap) rs ps = Inr req" and "cap_ok cap"
  shows "within_cap cap req"
proof -
  obtain rs' ps' where req: "req = (rs', ps')" by fastforce
  show ?thesis
  proof (cases "ExcludeRepositories cap")
    case (Some ex)
    with assms req have r: "or_else rs [] \<noteq> []" "list_all (\<lambda>r. to_lower r \<notin> set ex) (or_else rs [])"
      and p: "case Permissions cap of None \<Rightarrow> rs' = rs \<and> ps' = ps | Some _ \<Rightarrow> capPermissions cap rs ps = Inr (rs', ps')"
      by (auto simp: applyTokenCap_def applyExcludeCap_def bind_sum_Inr_iff split: option.splits)
    from r obtain xs where xs: "rs = Some xs" "xs \<noteq> []" by (cases rs) auto
    have "to_lower ` set xs \<inter> set ex = {}" using r xs by (auto simp: list_all_iff)
    with p xs Some req assms(2) show ?thesis
      by (cases "Permissions cap") (auto simp: within_cap_def dest!: capPermissions_Inr)
  next
    case None
    with assms(2) obtain limits where l: "Permissions cap = Some limits" "Repositories cap \<noteq> []"
      by (auto simp: cap_ok_def)
    from assms(1) None req l(2) obtain xs where xs: "xs \<noteq> []" "to_lower ` set xs \<subseteq> to_lower ` set (Repositories cap)"
      and p: "capPermissions cap (Some xs) ps = Inr (rs', ps')"
    proof (cases rs)
      case (Some ys)
      with assms(1) None req have "ys \<noteq> []" "list_all (\<lambda>r. to_lower r \<in> set (Repositories cap)) ys"
        and "capPermissions cap (Some ys) ps = Inr (rs', ps')"
        by (auto simp: applyTokenCap_def bind_sum_Inr_iff)
      moreover from this have "to_lower ` set ys \<subseteq> to_lower ` set (Repositories cap)"
        by (auto simp: list_all_iff) (metis image_eqI to_lower_idem)
      ultimately show thesis using that by blast
    qed (auto simp: applyTokenCap_def)
    from capPermissions_Inr [OF p assms(2) l(1)] xs None l(1) req show ?thesis
      by (auto simp: within_cap_def)
  qed
qed

text \<open>Whatever is granted to a capped caller lies within one of its caps, whole.\<close>

lemma applyTokenCaps_within:
  assumes "applyTokenCaps caps rs ps = Inr req" and "caps \<noteq> []" and "list_all cap_ok caps"
  shows "\<exists>cap\<in>set caps. within_cap cap req"
proof (cases "length caps \<le> 1")
  case True
  with assms(2) obtain c where "caps = [c]" by (cases caps) auto
  with assms applyTokenCap_within show ?thesis by (auto simp: applyTokenCaps_def)
next
  case False
  let ?fit = "filter (fits rs ps) caps"
  from False assms(1) have "?fit \<noteq> []" and "applyTokenCap (Some (hd ?fit)) rs ps = Inr req"
    by (auto simp: applyTokenCaps_def Let_def split: if_splits)
  moreover from this have "hd ?fit \<in> set caps" by (metis hd_in_set filter_is_subset subsetD)
  moreover have "cap_ok (hd ?fit)" using calculation(3) assms(3) by (simp add: list_all_iff)
  ultimately show ?thesis using applyTokenCap_within by blast
qed

lemma guardSelfWorkflows_Inr:
  "guardSelfWorkflows self rs ps = Inr u \<longleftrightarrow>
     self = [] \<or> (\<exists>qs. ps = Some qs \<and> \<not> present qs ''workflows'') \<or>
     (\<exists>xs. rs = Some xs \<and> \<not> list_ex (\<lambda>r. equal_fold r self) xs)"
  by (auto simp: guardSelfWorkflows_def split: option.splits)

end
