(* ===== verification/ResourceHandlers.thy ===== *)
theory ResourceHandlers
  imports Services
begin

text \<open>
  The handlers of the resource tools: internal/mcp resource.go, create.go, delete_collection.go,
  exec.go, attach.go, port_forward.go, proxy.go and \<open>dearBabyResetUser\<close> of mcp.go. Each is a
  function of the services it is handed (its kubernetes client already confined), the call's
  context, the arguments and the world.
\<close>

type_synonym handler = "services \<Rightarrow> call_ctx \<Rightarrow> raw \<Rightarrow> world \<Rightarrow> tool_result outcome"

definition j_ns :: "string option \<Rightarrow> json" where "j_ns = j_opt JStr"
definition j_object :: "obj option \<Rightarrow> json" where "j_object = j_opt JObj"

definition ping :: handler where
  "ping sv ctx r w = (Inr (toolText ''pong'' False), w)"

definition api_resource_json :: "api_resource \<Rightarrow> json" where
  "api_resource_json a = JObj
     [(''group'', JStr (ar_Group a)), (''version'', JStr (ar_Version a)), (''kind'', JStr (ar_Kind a)),
      (''name'', JStr (ar_Name a)), (''namespaced'', JBool (ar_Namespaced a)),
      (''short_names'', j_strs (ar_ShortNames a)), (''verbs'', j_strs (ar_Verbs a))]"

definition apiResources :: handler where
  "apiResources sv ctx r =
     respond (APIResources (sv_k8s sv)) (\<lambda>items. successResult [(''items'', JArr (map api_resource_json items))])"

section \<open>Reads\<close>

definition parse_list :: "raw \<Rightarrow> rpc_err + coordinate \<times> int \<times> list_query" where
  "parse_list r =
     bind_sum (object_arg r) (\<lambda>o'.
     bind_sum (parseCoordinate o') (\<lambda>coord.
     bind_sum (int_arg o' ''limit'' (between ''limit'' 1 ListMaxLimit) 0) (\<lambda>limit.
     Inr (coord, limit,
       \<lparr>lq_APIVersion = co_apiVersion coord, lq_Kind = co_kind coord, lq_Namespace = co_namespace coord,
        lq_LabelSelector = optionalString o' ''labelSelector'', lq_FieldSelector = optionalString o' ''fieldSelector'',
        lq_Limit = limit, lq_Continue = string_or_empty o' ''continue''\<rparr>))))"

definition resourceList :: handler where
  "resourceList sv ctx r =
     parsed (parse_list r) (\<lambda>(coord, limit, query).
     respond (ListResources (sv_k8s sv) query) (\<lambda>result.
       let effectiveLimit = (if limit = 0 then ListDefaultLimit else limit) in
       structuredResult (renderTable result effectiveLimit)
         [(''apiVersion'', JStr (co_apiVersion coord)), (''kind'', JStr (co_kind coord)),
          (''resource'', JStr (lr_Resource result)), (''namespace'', j_ns (co_namespace coord)),
          (''limit'', j_int effectiveLimit),
          (''columns'', JArr (map (\<lambda>c. JObj [(''name'', JStr (lc_Name c)), (''type'', JStr (lc_Type c))]) (lr_Columns result))),
          (''rows'', JArr (map JArr (lr_Rows result))), (''truncated'', JBool (lr_Truncated result)),
          (''continue'', JStr (lr_Continue result)), (''remaining'', j_opt j_int (lr_Remaining result))] False))"

definition parse_watch :: "raw \<Rightarrow> rpc_err + coordinate \<times> int \<times> watch_query" where
  "parse_watch r =
     bind_sum (object_arg r) (\<lambda>o'.
     bind_sum (parseCoordinate o') (\<lambda>coord.
     bind_sum (int_arg o' ''watchSeconds'' (between ''watchSeconds'' 1 WatchMaxSeconds) WatchDefaultSeconds) (\<lambda>seconds.
     Inr (coord, seconds,
       \<lparr>wq_APIVersion = co_apiVersion coord, wq_Kind = co_kind coord, wq_Namespace = co_namespace coord,
        wq_LabelSelector = optionalString o' ''labelSelector'', wq_FieldSelector = optionalString o' ''fieldSelector'',
        wq_ResourceVersion = string_or_empty o' ''resourceVersion'', wq_Seconds = seconds\<rparr>))))"

definition watch_event_json :: "watch_event \<Rightarrow> json" where
  "watch_event_json e = JObj ((''type'', JStr (we_Type e))
     # (if we_Object e = [] then [] else [(''object'', JObj (we_Object e))]))"

definition resourceWatch :: handler where
  "resourceWatch sv ctx r =
     parsed (parse_watch r) (\<lambda>(coord, seconds, query).
     respond (WatchResources (sv_k8s sv) query) (\<lambda>result.
       structuredResult (renderWatch result seconds)
         [(''apiVersion'', JStr (co_apiVersion coord)), (''kind'', JStr (co_kind coord)),
          (''resource'', JStr (wr_Resource result)), (''namespace'', j_ns (co_namespace coord)),
          (''watchSeconds'', j_int seconds), (''events'', JArr (map watch_event_json (wr_Events result))),
          (''truncated'', JBool (wr_Truncated result))] False))"

definition logArgs :: "string list" where
  "logArgs = [''container'', ''tailLines'', ''previous'', ''timestamps'', ''sinceSeconds'']"

definition parse_get :: "raw \<Rightarrow> rpc_err + coordinate \<times> resource_ref" where
  "parse_get r =
     bind_sum (object_arg r) (\<lambda>o'.
     bind_sum (parseCoordinate o') (\<lambda>coord.
     bind_sum (required_string o' ''name'') (\<lambda>name.
     bind_sum (case optionalString o' ''subresource'' of
                 None \<Rightarrow> Inr []
               | Some s \<Rightarrow> bind_sum (check (s \<in> set getSubresources) ''subresource must be one of log, scale, status'') (\<lambda>_. Inr s))
     (\<lambda>sub.
     bind_sum (if sub \<noteq> ''log'' then
                 bind_sum (check (\<not> list_ex (present o') logArgs) ''this argument applies to subresource=log only'')
                   (\<lambda>_. Inr no_log_options)
               else parseLogOptions o') (\<lambda>logs.
     Inr (coord, \<lparr>rr_APIVersion = co_apiVersion coord, rr_Kind = co_kind coord, rr_Namespace = co_namespace coord,
                  rr_Name = name, rr_Subresource = sub, rr_Log = logs\<rparr>))))))"

definition resourceGet :: handler where
  "resourceGet sv ctx r =
     parsed (parse_get r) (\<lambda>(coord, ref).
     respond (GetResource (sv_k8s sv) ref) (\<lambda>result.
       let payload = [(''apiVersion'', JStr (co_apiVersion coord)), (''kind'', JStr (co_kind coord)),
             (''namespace'', j_ns (co_namespace coord)), (''name'', JStr (rr_Name ref)),
             (''resource'', JStr (rs_Resource result)), (''subresource'', JStr (rr_Subresource ref))] in
       case rs_Object result of
         Some ob \<Rightarrow> structuredResult (prettyJSON (JObj ob)) (payload @ [(''object'', JObj ob)]) False
       | None \<Rightarrow> structuredResult (if rs_Text result = [] then ''(no output)'' else rs_Text result)
                   (payload @ [(''text'', JStr (rs_Text result))]) False))"

section \<open>Writes\<close>

definition parse_update :: "call_ctx \<Rightarrow> raw \<Rightarrow> rpc_err + coordinate \<times> update_ref" where
  "parse_update ctx r =
     bind_sum (object_arg r) (\<lambda>o'.
     bind_sum (parseCoordinate o') (\<lambda>coord.
     bind_sum (required_string o' ''name'') (\<lambda>name.
     bind_sum (parseUpdateTarget o') (\<lambda>(sub, replicas).
     bind_sum (case cx_approved ctx of
                 None \<Rightarrow> Inl (errf (-32603) ''resource_update requires the approved target resourceVersion'')
               | Some a \<Rightarrow> bind_sum (ensure (ts_ResourceVersion a \<noteq> [])
                   (errf (-32603) ''resource_update requires the approved target resourceVersion'')) (\<lambda>_. Inr (ts_ResourceVersion a)))
     (\<lambda>rv.
     bind_sum (if sub = ScaleSubresource then Inr None
               else bind_sum (parseManifest o' coord name) (\<lambda>m. Inr (Some m))) (\<lambda>manifest.
     Inr (coord, \<lparr>ur_APIVersion = co_apiVersion coord, ur_Kind = co_kind coord, ur_Namespace = co_namespace coord,
                  ur_Name = name, ur_Subresource = sub, ur_Manifest = manifest,
                  ur_Replicas = (if sub = ScaleSubresource then Some replicas else None),
                  ur_ApprovedResourceVersion = rv\<rparr>)))))))"

definition resourceUpdate :: handler where
  "resourceUpdate sv ctx r =
     parsed (parse_update ctx r) (\<lambda>(coord, ref).
     respond (UpdateResource (sv_k8s sv) ref) (\<lambda>result.
       structuredResult (prettyJSON (j_object (rs_Object result)))
         [(''apiVersion'', JStr (co_apiVersion coord)), (''kind'', JStr (co_kind coord)),
          (''namespace'', j_ns (co_namespace coord)), (''name'', JStr (ur_Name ref)),
          (''resource'', JStr (rs_Resource result)), (''subresource'', JStr (ur_Subresource ref)),
          (''object'', j_object (rs_Object result))] False))"

definition parse_patch :: "call_ctx \<Rightarrow> raw \<Rightarrow> rpc_err + coordinate \<times> patch_ref" where
  "parse_patch ctx r =
     bind_sum (object_arg r) (\<lambda>o'.
     bind_sum (parseCoordinate o') (\<lambda>coord.
     bind_sum (required_string o' ''name'') (\<lambda>name.
     bind_sum (required_string o' ''patchType'') (\<lambda>patchType.
     bind_sum (check (IsPatchType patchType) ''patchType must be one of apply, json, merge, strategic'') (\<lambda>_.
     bind_sum (need (rawPatchBody r) ''patch is required'') (\<lambda>body.
     bind_sum (check (\<not> (patchType = ''apply'' \<and> optionalString o' ''fieldManager'' = None))
                ''fieldManager is required for patchType=apply'') (\<lambda>_.
     bind_sum (check (\<not> (patchType \<noteq> ''apply'' \<and> optionalString o' ''fieldManager'' \<noteq> None))
                ''fieldManager applies to patchType=apply only'') (\<lambda>_.
     bind_sum (case cx_approved ctx of
                 None \<Rightarrow> Inl (errf (-32603) ''refusing resource_patch: approved target version and identity are required'')
               | Some a \<Rightarrow> bind_sum (ensure (ts_ResourceVersion a \<noteq> [] \<and> ts_UID a \<noteq> [])
                   (errf (-32603) ''refusing resource_patch: approved target version and identity are required'')) (\<lambda>_. Inr a))
     (\<lambda>approved.
     Inr (coord, \<lparr>pr_APIVersion = co_apiVersion coord, pr_Kind = co_kind coord, pr_Namespace = co_namespace coord,
                  pr_Name = name, pr_PatchType = patchType, pr_Patch = body,
                  pr_FieldManager = or_else (optionalString o' ''fieldManager'') [],
                  pr_ApprovedResourceVersion = ts_ResourceVersion approved,
                  pr_ApprovedUID = ts_UID approved\<rparr>))))))))))"

definition resourcePatch :: handler where
  "resourcePatch sv ctx r =
     parsed (parse_patch ctx r) (\<lambda>(coord, ref).
     respond (PatchResource (sv_k8s sv) ref) (\<lambda>result.
       structuredResult (prettyJSON (j_object (rs_Object result)))
         [(''apiVersion'', JStr (co_apiVersion coord)), (''kind'', JStr (co_kind coord)),
          (''namespace'', j_ns (co_namespace coord)), (''name'', JStr (pr_Name ref)),
          (''resource'', JStr (rs_Resource result)), (''patchType'', JStr (pr_PatchType ref)),
          (''object'', j_object (rs_Object result))] False))"

definition parse_delete :: "raw \<Rightarrow> rpc_err + coordinate \<times> string \<times> int option" where
  "parse_delete r =
     bind_sum (object_arg r) (\<lambda>o'.
     bind_sum (parseCoordinate o') (\<lambda>coord.
     bind_sum (parseDeleteTarget o') (\<lambda>(name, grace). Inr (coord, name, grace))))"

definition grace_field :: "int option \<Rightarrow> obj" where
  "grace_field g = (case g of None \<Rightarrow> [] | Some n \<Rightarrow> [(''gracePeriodSeconds'', j_int n)])"

definition resourceDelete :: handler where
  "resourceDelete sv ctx r =
     parsed (parse_delete r) (\<lambda>(coord, name, grace).
     respond (DeleteResource (sv_k8s sv)
        \<lparr>dr_APIVersion = co_apiVersion coord, dr_Kind = co_kind coord, dr_Namespace = co_namespace coord,
         dr_Name = name, dr_GracePeriodSeconds = grace\<rparr>) (\<lambda>result.
       structuredResult (deletionText result name grace)
         ([(''apiVersion'', JStr (co_apiVersion coord)), (''kind'', JStr (co_kind coord)),
           (''namespace'', j_ns (co_namespace coord)), (''name'', JStr name),
           (''resource'', JStr (rs_Resource result)), (''accepted'', JBool True)] @ grace_field grace) False))"

definition parse_delete_collection :: "raw \<Rightarrow> rpc_err + coordinate \<times> collection_selection" where
  "parse_delete_collection r =
     bind_sum (object_arg r) (\<lambda>o'.
     bind_sum (parseCoordinate o') (\<lambda>coord.
     bind_sum (parseDeleteCollectionTarget o') (\<lambda>sel. Inr (coord, sel))))"

definition resourceDeleteCollection :: handler where
  "resourceDeleteCollection sv ctx r =
     parsed (parse_delete_collection r) (\<lambda>(coord, sel).
     respond (DeleteCollection (sv_k8s sv)
        \<lparr>dc_APIVersion = co_apiVersion coord, dc_Kind = co_kind coord, dc_Namespace = sel_namespace sel,
         dc_LabelSelector = sel_labelSelector sel, dc_FieldSelector = sel_fieldSelector sel,
         dc_GracePeriodSeconds = sel_grace sel\<rparr>) (\<lambda>result.
       structuredResult (collectionDeletionText result (sel_grace sel))
         ([(''apiVersion'', JStr (co_apiVersion coord)), (''kind'', JStr (co_kind coord)),
           (''namespace'', JStr (dcr_Namespace result)), (''labelSelector'', JStr (dcr_LabelSelector result)),
           (''fieldSelector'', JStr (dcr_FieldSelector result)), (''resource'', JStr (dcr_Resource result)),
           (''accepted'', JBool True)] @ grace_field (sel_grace sel)) False))"

definition parse_create :: "api_machinery \<Rightarrow> raw \<Rightarrow> rpc_err + create_ref" where
  "parse_create am r =
     bind_sum (parseCreateDocuments am r) (\<lambda>docs.
     bind_sum (ensure (length docs = 1) (errf (-32603) ''create execution requires exactly one approved document'')) (\<lambda>_.
     Inr (doc_ref (hd docs))))"

definition resourceCreate :: "api_machinery \<Rightarrow> handler" where
  "resourceCreate am sv ctx r =
     parsed (parse_create am r) (\<lambda>ref.
     respond (CreateResource (sv_k8s sv) ref) (\<lambda>_. successResult (createCoordinate ref)))"

section \<open>Streams\<close>

definition parse_exec :: "raw \<Rightarrow> rpc_err + exec_ref \<times> string list \<times> string option" where
  "parse_exec r = bind_sum (object_arg r) parseExecTarget"

definition pod_fields :: "pod_ref \<Rightarrow> obj" where
  "pod_fields ref = [(''apiVersion'', JStr (po_APIVersion ref)), (''kind'', JStr (po_Kind ref)),
     (''namespace'', j_ns (po_Namespace ref)), (''name'', JStr (po_Name ref))]"

definition resourceExec :: handler where
  "resourceExec sv ctx r =
     parsed (parse_exec r) (\<lambda>(ref, command, container).
     respond (ExecResource (sv_k8s sv) ref container command) (\<lambda>out.
       let payload = pod_fields ref @
         [(''container'', j_ns container), (''pod'', JStr (eo_Pod out)), (''command'', j_strs command),
          (''exitCode'', j_opt j_int (eo_ExitCode out)), (''stdout'', JStr (eo_Stdout out)),
          (''stderr'', JStr (eo_Stderr out)), (''success'', JBool (eo_Success out)),
          (''stdoutTruncated'', JBool (eo_StdoutTruncated out)), (''stderrTruncated'', JBool (eo_StderrTruncated out))]
         @ (if eo_TimeLimited out then [(''timeLimited'', JBool True)] else []) in
       structuredResult (prettyJSON (JObj payload)) payload (\<not> eo_Success out)))"

definition resourceAttach :: handler where
  "resourceAttach sv ctx r =
     parsed (bind_sum (object_arg r) parseAttachTarget) (\<lambda>a.
     respond (AttachResource (sv_k8s sv) (at_ref a) (at_container a) (at_stdin a) (at_readSeconds a)) (\<lambda>out.
       successResult (pod_fields (at_ref a) @
         [(''container'', j_ns (at_container a)), (''pod'', JStr (ao_Pod out)),
          (''readSeconds'', j_int (ao_ReadSeconds out)), (''stdinWritten'', JBool (ao_StdinWritten out)),
          (''stdout'', JStr (ao_Stdout out)), (''stderr'', JStr (ao_Stderr out)),
          (''stdoutTruncated'', JBool (ao_StdoutTruncated out)),
          (''stderrTruncated'', JBool (ao_StderrTruncated out))])))"

definition resourcePortForward :: handler where
  "resourcePortForward sv ctx r =
     parsed (bind_sum (object_arg r) parsePortForwardTarget) (\<lambda>a.
     respond (PortForwardResource (sv_k8s sv) (pa_ref a) (pa_port a) (pa_payload a) (pa_readSeconds a)) (\<lambda>out.
       successResult (pod_fields (pa_ref a) @
         [(''pod'', JStr (pf_Pod out)), (''port'', j_int (pf_Port out)), (''bytesSent'', j_int (pf_BytesSent out)),
          (''readSeconds'', j_int (pf_ReadSeconds out)), (''response'', JStr (pf_Response out)),
          (''responseEncoding'', JStr (pf_ResponseEncoding out)),
          (''responseTruncated'', JBool (pf_ResponseTruncated out)), (''tunnelClosed'', JBool (pf_TunnelClosed out))])))"

definition resourceProxy :: handler where
  "resourceProxy sv ctx r =
     parsed (bind_sum (object_arg r) parseProxyTarget) (\<lambda>a.
     respond (ProxyResource (sv_k8s sv) (xa_ref a) (xa_method a) (xa_path a) (xa_body a) (xa_contentType a) (xa_readSeconds a))
       (\<lambda>out. successResult
         [(''apiVersion'', JStr (px_APIVersion (xa_ref a))), (''kind'', JStr (px_Kind (xa_ref a))),
          (''namespace'', j_ns (px_Namespace (xa_ref a))), (''name'', JStr (px_Name (xa_ref a))),
          (''port'', j_ns (px_Port (xa_ref a))), (''method'', JStr (pxo_Method out)), (''verb'', JStr (pxo_Verb out)),
          (''path'', JStr (pxo_Path out)), (''status'', j_int (pxo_Status out)), (''body'', JStr (pxo_Body out)),
          (''bodyEncoding'', JStr (pxo_BodyEncoding out)), (''truncated'', JBool (pxo_Truncated out)),
          (''readSeconds'', j_int (pxo_ReadSeconds out))]))"

definition dearBabyDefaultSelector :: string where "dearBabyDefaultSelector = ''app=dear-baby''"
definition dearBabyDefaultContainer :: string where "dearBabyDefaultContainer = ''backend''"
definition dearBabyResetBin :: string where "dearBabyResetBin = ''/reset-user''"

definition parse_reset :: "raw \<Rightarrow> rpc_err + string \<times> string \<times> string \<times> string" where
  "parse_reset r =
     bind_sum (object_arg r) (\<lambda>o'.
     bind_sum (required_string o' ''namespace'') (\<lambda>ns.
     bind_sum (required_string o' ''email'') (\<lambda>email.
     Inr (ns, email, or_else (optionalString o' ''selector'') dearBabyDefaultSelector,
          or_else (optionalString o' ''container'') dearBabyDefaultContainer))))"

definition dearBabyResetUser :: handler where
  "dearBabyResetUser sv ctx r =
     parsed (parse_reset r) (\<lambda>(ns, email, selector, container).
     respond (ExecInPod (sv_k8s sv) ns selector (Some container) [dearBabyResetBin, email]) (\<lambda>out.
       let payload =
         [(''namespace'', JStr ns), (''email'', JStr email), (''selector'', JStr selector),
          (''container'', JStr container), (''pod'', JStr (eo_Pod out)),
          (''exitCode'', j_opt j_int (eo_ExitCode out)), (''stdout'', JStr (eo_Stdout out)),
          (''stderr'', JStr (eo_Stderr out)), (''success'', JBool (eo_Success out))] in
       structuredResult (prettyJSON (JObj payload)) payload (\<not> eo_Success out)))"

section \<open>Every handler makes at most one call\<close>

definition well_behaved :: "services \<Rightarrow> (k8s_call \<Rightarrow> bool) \<Rightarrow> handler \<Rightarrow> bool" where
  "well_behaved sv may f \<longleftrightarrow> (\<forall>ctx r. body_ok may (f sv ctx r))"

lemma well_behavedD: "well_behaved sv may f \<Longrightarrow> f sv ctx r w = (res, w') \<Longrightarrow> handler_steps may w res w'"
  by (simp add: well_behaved_def body_ok_def)

lemmas resource_handler_defs = apiResources_def resourceList_def resourceWatch_def resourceGet_def
  resourceUpdate_def resourcePatch_def resourceDelete_def resourceDeleteCollection_def resourceCreate_def
  resourceExec_def resourceAttach_def resourcePortForward_def resourceProxy_def dearBabyResetUser_def

context bounded_services
begin

lemma resource_handlers:
  "well_behaved sv may ping" "well_behaved sv may apiResources"
  "well_behaved sv may resourceList" "well_behaved sv may resourceWatch" "well_behaved sv may resourceGet"
  "well_behaved sv may resourceUpdate" "well_behaved sv may resourcePatch" "well_behaved sv may resourceDelete"
  "well_behaved sv may resourceDeleteCollection" "well_behaved sv may (resourceCreate am)"
  "well_behaved sv may resourceExec" "well_behaved sv may resourceAttach"
  "well_behaved sv may resourcePortForward" "well_behaved sv may resourceProxy"
  "well_behaved sv may dearBabyResetUser"
  unfolding well_behaved_def resource_handler_defs ping_def
  by (auto intro!: body_ok_parsed body_ok_pure split: prod.splits
      intro: body_ok_bounded [OF b_api] body_ok_bounded [OF b_list] body_ok_bounded [OF b_watch]
        body_ok_bounded [OF b_get] body_ok_bounded [OF b_update] body_ok_bounded [OF b_patch]
        body_ok_bounded [OF b_delete] body_ok_bounded [OF b_collection] body_ok_bounded [OF b_create]
        body_ok_bounded [OF b_exec] body_ok_bounded [OF b_attach] body_ok_bounded [OF b_port_forward]
        body_ok_bounded [OF b_proxy] body_ok_bounded [OF b_exec_in_pod])

end

end
