(* ===== verification/IntegrationHandlers.thy ===== *)
theory IntegrationHandlers
  imports TokenCaps ResourceHandlers
begin

text \<open>
  The handlers of the tools that reach no kubernetes resource: internal/mcp mcp.go,
  commit_status.go, pocket_aide.go, drop.go, with the argument rules of internal/drop and
  internal/pocketaide that the handlers run themselves.
\<close>

section \<open>Optional arguments\<close>

text \<open>An argument that is absent or \<open>null\<close> is its zero value; one of another type is refused.\<close>

definition string_field :: "obj \<Rightarrow> string \<Rightarrow> rpc_err + string" where
  "string_field o' k =
     (case lookup o' k of
        None \<Rightarrow> Inr []
      | Some JNull \<Rightarrow> Inr []
      | Some (JStr s) \<Rightarrow> Inr s
      | Some _ \<Rightarrow> invalid_params (k @ '' must be a string''))"

definition string_item :: "string \<Rightarrow> json \<Rightarrow> rpc_err + string" where
  "string_item what v = (case v of JStr s \<Rightarrow> Inr s | _ \<Rightarrow> invalid_params what)"

text \<open>\<open>decodeObject\<close> for a tool whose arguments may be left out.\<close>

definition optional_object :: "raw \<Rightarrow> rpc_err + obj" where
  "optional_object r =
     (case decodeObject r of
        Some o' \<Rightarrow> Inr o'
      | None \<Rightarrow> if isNullArg r then Inr [] else invalid_params ''arguments must be an object'')"

section \<open>GitHub\<close>

definition parse_token_request :: "raw \<Rightarrow> rpc_err + token_request" where
  "parse_token_request r =
     bind_sum (optional_object r) (\<lambda>o'.
     bind_sum (case lookup o' ''repositories'' of
                 None \<Rightarrow> Inr None
               | Some JNull \<Rightarrow> Inr None
               | Some (JArr items) \<Rightarrow>
                   bind_sum (map_sum_list (string_item ''repositories must be an array of strings'') items) (\<lambda>rs. Inr (Some rs))
               | Some _ \<Rightarrow> invalid_params ''repositories must be an array of strings'') (\<lambda>repositories.
     bind_sum (case lookup o' ''permissions'' of
                 None \<Rightarrow> Inr None
               | Some JNull \<Rightarrow> Inr None
               | Some (JObj m) \<Rightarrow> Inr (Some (canon_obj m))
               | Some _ \<Rightarrow> invalid_params ''permissions must be an object'') (\<lambda>permissions.
     Inr (repositories, permissions))))"

definition scoped_token_request :: "call_ctx \<Rightarrow> raw \<Rightarrow> rpc_err + token_request" where
  "scoped_token_request ctx r =
     bind_sum (parse_token_request r) (\<lambda>(repositories0, permissions0).
     bind_sum (applyTokenCaps (TokenCapsFrom ctx) repositories0 permissions0) (\<lambda>(repositories, permissions).
     bind_sum (guardSelfWorkflows (SelfRepository ctx) repositories permissions) (\<lambda>_.
     Inr (repositories, permissions))))"

definition installationTokenEnv :: "installation_token \<Rightarrow> string" where
  "installationTokenEnv t =
     ''# Expires at: '' @ tok_ExpiresAt t @ [CHR 0x0A]
     @ (if tok_RepositorySelection t \<noteq> [] then ''# Repository selection: '' @ tok_RepositorySelection t @ [CHR 0x0A] else [])
     @ (if tok_Permissions t \<noteq> [] then
          ''# Permissions: '' @ join '', '' (map (\<lambda>(k, v). k @ ''='' @ (case v of JStr s \<Rightarrow> s | _ \<Rightarrow> []))
            (canon_obj (tok_Permissions t))) @ [CHR 0x0A] else [])
     @ ''GITHUB_TOKEN='' @ tok_Token t @ [CHR 0x0A]"

definition githubAppInstallationToken :: handler where
  "githubAppInstallationToken sv ctx r =
     parsed (scoped_token_request ctx r) (\<lambda>(repositories, permissions).
     respond (CreateInstallationToken sv repositories permissions)
       (\<lambda>token. resourceResult ''file:///github-token.env'' (installationTokenEnv token)))"

definition parse_commit_status :: "raw \<Rightarrow> rpc_err + commit_status_input" where
  "parse_commit_status r =
     bind_sum (object_arg r) (\<lambda>o'.
     bind_sum (string_field o' ''repository'') (\<lambda>repo.
     bind_sum (string_field o' ''sha'') (\<lambda>sha.
     bind_sum (string_field o' ''state'') (\<lambda>state.
     bind_sum (string_field o' ''context'') (\<lambda>con.
     bind_sum (string_field o' ''description'') (\<lambda>desc.
     bind_sum (string_field o' ''target_url'') (\<lambda>url.
     Inr \<lparr>cs_Repository = repo, cs_SHA = sha, cs_State = state, cs_Context = con, cs_Description = desc,
          cs_TargetURL = url\<rparr>)))))))"

definition githubCommitStatusCreate :: handler where
  "githubCommitStatusCreate sv ctx r =
     parsed (parse_commit_status r) (\<lambda>input.
     respond (CreateCommitStatus sv input) (\<lambda>st. successResult
       [(''id'', j_int (st_ID st)), (''state'', JStr (st_State st)), (''context'', JStr (st_Context st)),
        (''sha'', JStr (st_SHA st)), (''description'', JStr (st_Description st)),
        (''target_url'', JStr (st_TargetURL st)), (''created_at'', JStr (st_CreatedAt st))]))"

section \<open>AWS, Grafana, OpenSearch\<close>

definition awsConfigGet :: handler where
  "awsConfigGet sv ctx r =
     respond (GetConfig sv) (\<lambda>ob.
       structuredResult (if aws_Content ob = [] then ''(empty object)'' else aws_Content ob)
         [(''bucket'', JStr (aws_Bucket ob)), (''key'', JStr (aws_Key ob)), (''content'', JStr (aws_Content ob)),
          (''contentType'', JStr (aws_ContentType ob)), (''etag'', JStr (aws_ETag ob)),
          (''lastModified'', JStr (aws_LastModified ob)), (''size'', j_int (aws_Size ob))] False)"

definition grafanaTokenEnv :: "grafana_credentials \<Rightarrow> string" where
  "grafanaTokenEnv c =
     (if gr_ExpiresAt c \<noteq> [] then ''# token expires '' @ gr_ExpiresAt c @ [CHR 0x0A] else [])
     @ ''GRAFANA_METRICS_URL='' @ gr_MetricsURL c @ [CHR 0x0A]
     @ ''GRAFANA_METRICS_USER='' @ gr_MetricsUser c @ [CHR 0x0A]
     @ ''GRAFANA_LOGS_URL='' @ gr_LogsURL c @ [CHR 0x0A]
     @ ''GRAFANA_LOGS_USER='' @ gr_LogsUser c @ [CHR 0x0A]
     @ ''# GRAFANA_TOKEN is the shared Basic-auth password for both *_USER values above'' @ [CHR 0x0A]
     @ ''GRAFANA_TOKEN='' @ gr_Token c @ [CHR 0x0A]"

definition grafanaToken :: handler where
  "grafanaToken sv ctx r =
     respond (CreateToken sv) (\<lambda>c. resourceResult ''file:///grafana-token.env'' (grafanaTokenEnv c))"

definition parse_search :: "raw \<Rightarrow> rpc_err + string \<times> string option \<times> int option" where
  "parse_search r =
     bind_sum (object_arg r) (\<lambda>o'.
     bind_sum (required_string o' ''query'') (\<lambda>q.
     bind_sum (case lookup o' ''size'' of
                 None \<Rightarrow> Inr None
               | Some v \<Rightarrow> bind_sum (need (intValue v) ''size must be an integer'') (\<lambda>n. Inr (Some n))) (\<lambda>size.
     Inr (q, optionalString o' ''index'', size))))"

definition search_hit_json :: "search_hit \<Rightarrow> json" where
  "search_hit_json h = JObj [(''index'', JStr (hit_Index h)), (''id'', JStr (hit_ID h)),
     (''score'', j_opt JNum (hit_Score h)), (''source'', hit_Source h)]"

definition opensearchSearch :: handler where
  "opensearchSearch sv ctx r =
     parsed (parse_search r) (\<lambda>(q, index, size).
     respond (Search sv q index size) (\<lambda>res. successResult
       [(''query'', JStr q), (''index'', j_ns index), (''total'', j_int (sr_Total res)),
        (''hits'', JArr (map search_hit_json (sr_Hits res)))]))"

definition document_fields :: "document_result \<Rightarrow> obj" where
  "document_fields d = [(''index'', JStr (do_Index d)), (''id'', JStr (do_ID d)), (''result'', JStr (do_Result d))]"

definition parse_put_document :: "raw \<Rightarrow> rpc_err + string \<times> string option \<times> obj" where
  "parse_put_document r =
     bind_sum (object_arg r) (\<lambda>o'.
     bind_sum (required_string o' ''index'') (\<lambda>index.
     bind_sum (need (lookup o' ''document'') ''document is required'') (\<lambda>dv.
     bind_sum (need (decodeObject dv) ''document must be an object'') (\<lambda>doc.
     Inr (index, optionalString o' ''id'', canon_obj doc)))))"

definition opensearchDocumentPut :: handler where
  "opensearchDocumentPut sv ctx r =
     parsed (parse_put_document r) (\<lambda>(index, did, doc).
     respond (PutDocument sv index did doc) (\<lambda>res. successResult (document_fields res)))"

definition parse_delete_document :: "raw \<Rightarrow> rpc_err + string \<times> string" where
  "parse_delete_document r =
     bind_sum (object_arg r) (\<lambda>o'.
     bind_sum (required_string o' ''index'') (\<lambda>index.
     bind_sum (required_string o' ''id'') (\<lambda>did. Inr (index, did))))"

definition opensearchDocumentDelete :: handler where
  "opensearchDocumentDelete sv ctx r =
     parsed (parse_delete_document r) (\<lambda>(index, did).
     respond (DeleteDocument sv index did) (\<lambda>res. successResult (document_fields res)))"

section \<open>Sessions\<close>

definition sessionFields :: "session \<Rightarrow> obj" where
  "sessionFields s =
     [(''id'', JStr (se_ID s)), (''name'', JStr (se_Name s)), (''workloadType'', JStr (se_WorkloadType s)),
      (''state'', JStr (se_State s)), (''createdAt'', JStr (se_CreatedAt s)), (''lastAccess'', JStr (se_LastAccess s))]
     @ (if se_Pod s \<noteq> [] then [(''pod'', JStr (se_Pod s))] else [])
     @ (if se_Plugins s \<noteq> [] then [(''plugins'', j_strs (se_Plugins s))] else [])"

definition sessionList :: handler where
  "sessionList sv ctx r =
     respond (ListSessions sv) (\<lambda>ss. successResult [(''sessions'', JArr (map (\<lambda>s. JObj (sessionFields s)) ss))])"

definition parse_session_read :: "raw \<Rightarrow> rpc_err + string \<times> int" where
  "parse_session_read r =
     bind_sum (object_arg r) (\<lambda>o'.
     bind_sum (required_string o' ''id'') (\<lambda>sid.
     bind_sum (case lookup o' ''offset'' of
                 None \<Rightarrow> Inr 0
               | Some JNull \<Rightarrow> Inr 0
               | Some v \<Rightarrow>
                   bind_sum (need (intValue v) ''offset must be an integer'') (\<lambda>n.
                   bind_sum (at_least ''offset'' 0 n) (\<lambda>_. Inr n))) (\<lambda>offset.
     Inr (sid, offset))))"

definition sessionRead :: handler where
  "sessionRead sv ctx r =
     parsed (parse_session_read r) (\<lambda>(sid, offset).
     respond (ReadSessionAt sv sid offset) (\<lambda>res. successResult
       [(''payload'', JStr (rd_Payload res)), (''nextOffset'', j_int (rd_NextOffset res)),
        (''path'', JStr (rd_Path res)), (''session'', JObj (sessionFields (rd_Session res)))]))"

definition parse_session_write :: "raw \<Rightarrow> rpc_err + string \<times> string" where
  "parse_session_write r =
     bind_sum (object_arg r) (\<lambda>o'.
     bind_sum (required_string o' ''id'') (\<lambda>sid.
     (case lookup o' ''payload'' of
        None \<Rightarrow> invalid_params ''payload is required''
      | Some JNull \<Rightarrow> invalid_params ''payload is required''
      | Some (JStr p) \<Rightarrow> Inr (sid, p)
      | Some _ \<Rightarrow> invalid_params ''payload must be a string'')))"

definition sessionWrite :: handler where
  "sessionWrite sv ctx r =
     parsed (parse_session_write r) (\<lambda>(sid, payload).
     respond (WriteSessionTo sv sid payload) (\<lambda>res. successResult
       [(''path'', JStr (ws_Path res)), (''session'', JObj (sessionFields (ws_Session res)))]))"

definition parse_session_create :: "raw \<Rightarrow> rpc_err + create_session" where
  "parse_session_create r =
     bind_sum (object_arg r) (\<lambda>o'.
     bind_sum (string_field o' ''name'') (\<lambda>name.
     bind_sum (string_field o' ''workloadType'') (\<lambda>wt.
     bind_sum (string_field o' ''model'') (\<lambda>model.
     bind_sum (check (trim_space name \<noteq> []) ''name is required and must contain a non-whitespace character'') (\<lambda>_.
     bind_sum (case lookup o' ''plugins'' of
                 None \<Rightarrow> Inr []
               | Some JNull \<Rightarrow> Inr []
               | Some (JArr items) \<Rightarrow>
                   bind_sum (check (items \<noteq> []) ''plugins must be a non-empty array of plugin names'') (\<lambda>_.
                   map_sum_list (string_item ''plugins must be a non-empty array of plugin names'') items)
               | Some _ \<Rightarrow> invalid_params ''plugins must be a non-empty array of plugin names'') (\<lambda>plugins.
     Inr \<lparr>sn_Name = name, sn_WorkloadType = wt, sn_Model = model, sn_Plugins = plugins\<rparr>))))))"

definition sessionCreate :: handler where
  "sessionCreate sv ctx r =
     parsed (parse_session_create r) (\<lambda>req.
     respond (CreateSession sv req) (\<lambda>s. successResult [(''session'', JObj (sessionFields s))]))"

definition sessionDelete :: handler where
  "sessionDelete sv ctx r =
     parsed (bind_sum (object_arg r) (\<lambda>o'. required_string o' ''id'')) (\<lambda>sid.
     respond (DeleteSession sv sid) (\<lambda>_. successResult [(''id'', JStr sid), (''deleted'', JBool True)]))"

section \<open>PocketAide and drop\<close>

definition MaxTitleRunes :: nat where "MaxTitleRunes = 120"
definition MaxRequesterRunes :: nat where "MaxRequesterRunes = 200"

definition invalid_notification :: "string \<Rightarrow> go_err" where
  "invalid_notification msg = ErrText (''invalid notification: '' @ msg)"

definition ValidateTitle :: "string \<Rightarrow> go_err + unit" where
  "ValidateTitle title =
     bind_sum (ensure (trim_space title \<noteq> []) (invalid_notification ''title is required'')) (\<lambda>_.
     ensure (rune_count (trim_space title) \<le> MaxTitleRunes) (invalid_notification ''title is too long''))"

definition ValidateRequester :: "string \<Rightarrow> go_err + unit" where
  "ValidateRequester requester =
     bind_sum (ensure (trim_space requester \<noteq> []) (invalid_notification ''requester is required'')) (\<lambda>_.
     ensure (rune_count (trim_space requester) \<le> MaxRequesterRunes) (invalid_notification ''requester is too long''))"

definition parse_notification :: "raw \<Rightarrow> rpc_err + string \<times> string \<times> string" where
  "parse_notification r =
     bind_sum (object_arg r) (\<lambda>o'.
     bind_sum (string_field o' ''title'') (\<lambda>title.
     bind_sum (string_field o' ''body'') (\<lambda>body.
     bind_sum (string_field o' ''requester'') (\<lambda>requester. Inr (title, body, requester)))))"

text \<open>A title or requester PocketAide would refuse is a tool error, not a JSON-RPC error.\<close>

definition pocketAideNotificationSend :: handler where
  "pocketAideNotificationSend sv ctx r =
     parsed (parse_notification r) (\<lambda>(title, body, requester).
     (case bind_sum (ValidateTitle title) (\<lambda>_. ValidateRequester requester) of
        Inl e \<Rightarrow> (\<lambda>w. case toolError e w of (res, w') \<Rightarrow> (Inr res, w'))
      | Inr _ \<Rightarrow>
          respond (Notify sv title body requester) (\<lambda>res.
            successResult [(''devices'', j_int (nt_Devices res)), (''sent'', j_int (nt_Sent res))])))"

definition MaxValidMinutes :: int where "MaxValidMinutes = 24 * 60"
definition MaxDays :: int where "MaxDays = 30"
definition MaxLabelRunes :: nat where "MaxLabelRunes = 40"
definition dropExampleDays :: int where "dropExampleDays = 7"

definition invalid_drop :: "string \<Rightarrow> go_err" where
  "invalid_drop msg = ErrText (''invalid drop token request: '' @ msg)"

definition Validate :: "drop_request \<Rightarrow> go_err + unit" where
  "Validate req =
     bind_sum (ensure (0 \<le> dq_ValidMinutes req \<and> dq_ValidMinutes req \<le> MaxValidMinutes)
                (invalid_drop ''valid_minutes is out of range'')) (\<lambda>_.
     bind_sum (ensure (0 \<le> dq_MaxDays req \<and> dq_MaxDays req \<le> MaxDays) (invalid_drop ''max_days is out of range'')) (\<lambda>_.
     ensure (rune_count (trim_space (dq_Label req)) \<le> MaxLabelRunes) (invalid_drop ''label is too long'')))"

definition dropTokenIssueArguments :: "string list" where
  "dropTokenIssueArguments = [''valid_minutes'', ''max_days'', ''label'']"

definition int_field :: "obj \<Rightarrow> string \<Rightarrow> int \<Rightarrow> rpc_err + int" where
  "int_field o' k hi =
     (case lookup o' k of
        None \<Rightarrow> Inr 0
      | Some JNull \<Rightarrow> Inr 0
      | Some v \<Rightarrow>
          bind_sum (need (intValue v) (k @ '' must be an integer'')) (\<lambda>n.
          bind_sum (check (1 \<le> n \<and> n \<le> hi) (k @ '' is out of range'')) (\<lambda>_. Inr n)))"

definition parse_drop_request :: "raw \<Rightarrow> rpc_err + drop_request" where
  "parse_drop_request r =
     bind_sum (optional_object r) (\<lambda>o'.
     bind_sum (let unknown = filter (\<lambda>k. k \<notin> set dropTokenIssueArguments) (map fst (dedup o')) in
               check (unknown = []) (''unknown argument(s): '' @ join '', '' (sort unknown))) (\<lambda>_.
     bind_sum (int_field o' ''valid_minutes'' MaxValidMinutes) (\<lambda>minutes.
     bind_sum (int_field o' ''max_days'' MaxDays) (\<lambda>days.
     bind_sum (string_field o' ''label'') (\<lambda>label.
     (let req = \<lparr>dq_ValidMinutes = minutes, dq_MaxDays = days, dq_Label = label\<rparr> in
      (case Validate req of Inl e \<Rightarrow> invalid_params (err_text e) | Inr _ \<Rightarrow> Inr req)))))))"

text \<open>The sample commands: the token's text appears in \<open>setup\<close> alone.\<close>

definition drop_auth :: string where
  "drop_auth = ''-H '' @ [CHR 0x22] @ ''Authorization: Bearer $DROP_TOKEN'' @ [CHR 0x22]"

definition dropUsage :: "drop_token \<Rightarrow> obj" where
  "dropUsage t =
     (let base = dt_BaseURL t;
          days = (if 0 < dt_MaxDays t \<and> dt_MaxDays t < dropExampleDays then dt_MaxDays t else dropExampleDays) in
      [(''setup'', JStr (''export DROP_TOKEN='' @ [CHR 0x27] @ dt_Token t @ [CHR 0x27])),
       (''upload'', JStr (''curl -fsS '' @ drop_auth @ '' -F days='' @ itoa days @ '' -F file=@./path/to/file '' @ base @ ''/api/v1/drops'')),
       (''upload_note'', JStr (''Repeat -F file=@... for more files; for large files use the chunked API: POST '' @ base
          @ ''/api/v1/uploads, PUT '' @ base @ ''/api/v1/uploads/<id>/<upload_key>/files/<n>, POST '' @ base
          @ ''/api/v1/uploads/<id>/<upload_key>/complete.'')),
       (''list'', JStr (''curl -fsS '' @ drop_auth @ '' '' @ base @ ''/api/v1/drops'')),
       (''delete'', JStr (''curl -fsS '' @ drop_auth @ '' -X DELETE '' @ base @ ''/api/v1/drops/<id>'')),
       (''download_list'', JStr (''curl -fsS -u <id>:<password> -H '' @ [CHR 0x27] @ ''Accept: application/json'' @ [CHR 0x27]
          @ '' '' @ base @ ''/get/<id>'')),
       (''download_file'', JStr (''curl -fsS -u <id>:<password> -o ./<name> '' @ base @ ''/get/<id>/f/<n>'')),
       (''download_zip'', JStr (''curl -fsS -u <id>:<password> -o drop-<id>.zip '' @ base @ ''/get/<id>/all.zip'')),
       (''note'', JStr ''Downloads need only id and password, not the token.'')])"

definition dropTokenIssue :: handler where
  "dropTokenIssue sv ctx r =
     parsed (parse_drop_request r) (\<lambda>req.
     respond (IssueToken sv req) (\<lambda>t. successResult
       [(''token'', JStr (dt_Token t)), (''expires_at'', JStr (dt_ExpiresAt t)), (''max_days'', j_int (dt_MaxDays t)),
        (''base_url'', JStr (dt_BaseURL t)), (''created_by'', JStr (dt_CreatedBy t)),
        (''usage'', JObj (dropUsage t))]))"

section \<open>Every handler makes at most one call\<close>

lemmas integration_handler_defs = githubAppInstallationToken_def githubCommitStatusCreate_def awsConfigGet_def
  grafanaToken_def opensearchSearch_def opensearchDocumentPut_def opensearchDocumentDelete_def sessionList_def
  sessionRead_def sessionWrite_def sessionCreate_def sessionDelete_def pocketAideNotificationSend_def
  dropTokenIssue_def

context bounded_services
begin

lemma integration_handlers:
  "well_behaved sv may githubAppInstallationToken" "well_behaved sv may githubCommitStatusCreate"
  "well_behaved sv may awsConfigGet" "well_behaved sv may grafanaToken"
  "well_behaved sv may opensearchSearch" "well_behaved sv may opensearchDocumentPut"
  "well_behaved sv may opensearchDocumentDelete" "well_behaved sv may sessionList"
  "well_behaved sv may sessionRead" "well_behaved sv may sessionWrite"
  "well_behaved sv may sessionCreate" "well_behaved sv may sessionDelete"
  "well_behaved sv may pocketAideNotificationSend" "well_behaved sv may dropTokenIssue"
  unfolding well_behaved_def integration_handler_defs
  by (auto intro!: body_ok_parsed body_ok_error split: prod.splits sum.splits
      intro: body_ok_single [OF s_token] body_ok_single [OF s_status] body_ok_single [OF s_aws]
        body_ok_single [OF s_grafana] body_ok_single [OF s_search] body_ok_single [OF s_put]
        body_ok_single [OF s_delete_doc] body_ok_single [OF s_sessions] body_ok_single [OF s_read]
        body_ok_single [OF s_write] body_ok_single [OF s_create] body_ok_single [OF s_delete_session]
        body_ok_single [OF s_notify] body_ok_single [OF s_issue])

end

section \<open>What the arguments of a sent call satisfy\<close>

lemma not_Inl_unit: "(\<forall>x. s \<noteq> Inl x) \<longleftrightarrow> s = Inr ()"
  by (cases s) auto

lemma parse_drop_request_Inr:
  assumes "parse_drop_request r = Inr req"
  shows "0 \<le> dq_ValidMinutes req \<and> dq_ValidMinutes req \<le> MaxValidMinutes"
    and "0 \<le> dq_MaxDays req \<and> dq_MaxDays req \<le> MaxDays"
    and "rune_count (trim_space (dq_Label req)) \<le> MaxLabelRunes"
proof -
  from assms have "Validate req = Inr ()"
    by (auto simp: parse_drop_request_def bind_sum_Inr_iff Let_def not_Inl_unit split: sum.splits if_splits)
  then show "0 \<le> dq_ValidMinutes req \<and> dq_ValidMinutes req \<le> MaxValidMinutes"
    and "0 \<le> dq_MaxDays req \<and> dq_MaxDays req \<le> MaxDays"
    and "rune_count (trim_space (dq_Label req)) \<le> MaxLabelRunes"
    by (auto simp: Validate_def bind_sum_Inr_iff)
qed

lemma scoped_token_request_Inr:
  assumes "scoped_token_request ctx r = Inr (rs, ps)" and "list_all cap_ok (ctx_caps ctx)"
  shows "ctx_caps ctx \<noteq> [] \<Longrightarrow> \<exists>cap\<in>set (ctx_caps ctx). within_cap cap (rs, ps)"
    and "guardSelfWorkflows (ctx_self ctx) rs ps = Inr ()"
  using assms
  by (auto simp: scoped_token_request_def bind_sum_Inr_iff TokenCapsFrom_def SelfRepository_def
      dest: applyTokenCaps_within)

end
