(* ===== verification/Registry.thy ===== *)
theory Registry
  imports IntegrationHandlers
begin

text \<open>
  The table that binds every tool to its declaration and its handler (\<open>toolRegistry\<close> of
  internal/mcp gate.go), and the dispatcher's state (\<open>Handler\<close> of mcp.go).
\<close>

definition toolHandlers :: "api_machinery \<Rightarrow> (string \<times> handler) list" where
  "toolHandlers am =
    [(''ping'', ping), (''api_resources'', apiResources), (''resource_list'', resourceList),
     (''resource_get'', resourceGet), (''resource_watch'', resourceWatch), (''resource_update'', resourceUpdate),
     (''resource_create'', resourceCreate am), (''resource_patch'', resourcePatch),
     (''resource_delete'', resourceDelete), (''resource_delete_collection'', resourceDeleteCollection),
     (''resource_exec'', resourceExec), (''resource_attach'', resourceAttach),
     (''resource_port_forward'', resourcePortForward), (''resource_proxy'', resourceProxy),
     (''dear_baby_reset_user'', dearBabyResetUser),
     (''github_app_installation_token'', githubAppInstallationToken),
     (''github_commit_status_create'', githubCommitStatusCreate),
     (''pocket_aide_notification_send'', pocketAideNotificationSend), (''drop_token_issue'', dropTokenIssue),
     (''opensearch_search'', opensearchSearch), (''opensearch_document_put'', opensearchDocumentPut),
     (''opensearch_document_delete'', opensearchDocumentDelete), (''session_create'', sessionCreate),
     (''session_delete'', sessionDelete), (''session_read'', sessionRead), (''session_write'', sessionWrite),
     (''aws_config_get'', awsConfigGet), (''grafana_token'', grafanaToken), (''session_list'', sessionList)]"

definition toolRegistry :: "api_machinery \<Rightarrow> (string \<times> handler tool_entry) list" where
  "toolRegistry am =
     map (\<lambda>(name, d, batch, coll).
           (name, \<lparr>decl = d, handle = map_of (toolHandlers am) name, createBatch = batch, collectionGate = coll\<rparr>))
       (declaredTools am)"

text \<open>
  tools/list (toolslist.go): the names in the order of the payload, with whether the tool's schema
  has a \<open>reason\<close> property and whether it lists it as required.
\<close>

definition advertisedReason :: "(string \<times> bool \<times> bool) list" where
  "advertisedReason =
    [(''ping'', False, False), (''api_resources'', False, False), (''resource_list'', False, False),
     (''resource_watch'', True, False), (''resource_get'', True, False),
     (''resource_create'', True, True), (''resource_update'', True, True),
     (''resource_patch'', True, True), (''resource_delete'', True, True),
     (''resource_delete_collection'', True, True), (''resource_exec'', True, True),
     (''resource_attach'', True, True), (''resource_port_forward'', True, True),
     (''resource_proxy'', True, True), (''dear_baby_reset_user'', False, False),
     (''github_app_installation_token'', False, False),
     (''github_commit_status_create'', False, False), (''aws_config_get'', False, False),
     (''opensearch_search'', False, False), (''opensearch_document_put'', False, False),
     (''opensearch_document_delete'', False, False), (''grafana_token'', False, False),
     (''session_create'', False, False), (''session_list'', False, False),
     (''session_read'', False, False), (''session_write'', False, False),
     (''session_delete'', False, False), (''pocket_aide_notification_send'', False, False),
     (''drop_token_issue'', False, False)]"

definition advertisedToolNames :: "string list" where
  "advertisedToolNames = map fst advertisedReason"

text \<open>The two questions \<open>validateReasonArgument\<close> asks of an advertised tool; the shape of the property is not modelled.\<close>

definition reason_problem :: "(string \<times> 'h tool_entry) list \<Rightarrow> string \<times> bool \<times> bool \<Rightarrow> bool" where
  "reason_problem registered t =
     (case t of (name, advertised, required) \<Rightarrow>
       (case map_of registered name of
          None \<Rightarrow> False
        | Some entry \<Rightarrow>
            (let need' = approvalNeed (decl entry) in
             if need' \<noteq> neverApproved \<and> \<not> advertised then True
             else if need' = neverApproved \<and> advertised then True
             else advertised \<and> required \<noteq> (need' = alwaysApproved))))"

definition validateReasonArgument :: "(string \<times> 'h tool_entry) list \<Rightarrow> (string \<times> bool \<times> bool) list \<Rightarrow> string option" where
  "validateReasonArgument registered tools =
     (let problems = map fst (filter (reason_problem registered) tools) in
      if problems = [] then None
      else Some (''tools/list disagrees with the declarations about reason: '' @ join ''; '' (sort problems)))"

lemma map_of_toolRegistry:
  assumes "map_of (toolRegistry am) name = Some entry"
  shows "is_declared am name (decl entry)" and "handle entry = map_of (toolHandlers am) name"
  using map_of_SomeD [OF assms] by (force simp: toolRegistry_def is_declared_def)+

lemma dom_toolRegistry: "fst ` set (toolRegistry am) = set advertisedToolNames"
proof -
  have names: "map fst (toolRegistry am) = map fst (toolHandlers am)"
    by (simp add: toolRegistry_def declared_defs toolHandlers_def)
  have "list_all (\<lambda>n. n \<in> set advertisedToolNames) (map fst (toolHandlers am))"
    by (simp add: toolHandlers_def advertisedToolNames_def advertisedReason_def)
  moreover have "list_all (\<lambda>n. n \<in> set (map fst (toolHandlers am))) advertisedToolNames"
    by (simp add: toolHandlers_def advertisedToolNames_def advertisedReason_def)
  ultimately show ?thesis
    unfolding set_map [symmetric] names by (auto simp only: list_all_iff)
qed

text \<open>What one handler may be handed does not matter to how it behaves.\<close>

definition sound_registry :: "(string \<times> handler tool_entry) list \<Rightarrow> bool" where
  "sound_registry registry \<longleftrightarrow>
     (\<forall>name entry f sv may. map_of registry name = Some entry \<longrightarrow> handle entry = Some f \<longrightarrow>
        bounded_services sv may \<longrightarrow> well_behaved sv may f)"

lemma toolHandlers_well_behaved:
  assumes "bounded_services sv may"
  shows "list_all (\<lambda>(name, f). well_behaved sv may f) (toolHandlers am)"
  unfolding toolHandlers_def
  by (simp add: bounded_services.resource_handlers [OF assms] bounded_services.integration_handlers [OF assms])

lemma sound_toolRegistry: "sound_registry (toolRegistry am)"
  unfolding sound_registry_def
proof (intro allI impI)
  fix name entry f sv may
  assume "map_of (toolRegistry am) name = Some entry" "handle entry = Some f" and b: "bounded_services sv may"
  then have "(name, f) \<in> set (toolHandlers am)" by (auto simp: map_of_toolRegistry dest: map_of_SomeD)
  with toolHandlers_well_behaved [OF b, of am] show "well_behaved sv may f" by (auto simp: list_all_iff)
qed

end
