(* ===== verification/Dispatch.thy ===== *)
theory Dispatch
  imports Registry
begin

text \<open>
  The dispatcher: internal/mcp mcp.go (\<open>ServeHTTP\<close>, \<open>dispatch\<close>, \<open>toolsCall\<close> and what they call),
  \<open>invoke\<close> of confine.go, \<open>callCreateBatch\<close> of create_gate.go and \<open>callDeleteCollection\<close> of
  delete_collection.go. The \<open>Handler\<close> struct is one record: the gate's side, the services and the
  registry.
\<close>

record mcp_handler = gate_side +
  h_am :: api_machinery
  h_services :: services
  h_registry :: "(string \<times> handler tool_entry) list"

section \<open>invoke\<close>

text \<open>An entry with no handler would be a nil call; \<open>Validate\<close> keeps such a registry from being served.\<close>

definition invoke :: "mcp_handler \<Rightarrow> call_ctx \<Rightarrow> string \<Rightarrow> handler tool_entry \<Rightarrow> raw \<Rightarrow> world \<Rightarrow> tool_result outcome" where
  "invoke h ctx name entry rawArgs w =
     (case confine name (decl entry) rawArgs of
        Inl e \<Rightarrow> (invalid_params e, w)
      | Inr c \<Rightarrow>
          (case handle entry of
             None \<Rightarrow> (Inl (errf (-32603) ''nil handler''), w)
           | Some f \<Rightarrow>
               f ((h_services h)\<lparr>sv_k8s := confinedService (h_am h) c (sv_k8s (h_services h))\<rparr>) ctx rawArgs w))"

section \<open>resource_create: one approval per document\<close>

definition describe_document ::
  "mcp_handler \<Rightarrow> string \<Rightarrow> rbac_pair list \<Rightarrow> create_document \<Rightarrow> (world, ctx_line list) act"
where
  "describe_document h name pairs doc w =
     (Inr (approvalContext name pairs (doc_raw doc) (h_sensitiveKinds h)
        (Some \<lparr>tr_APIVersion = cr_APIVersion (doc_ref doc), tr_Kind = cr_Kind (doc_ref doc),
               tr_Namespace = cr_Namespace (doc_ref doc), tr_Name = cr_Name (doc_ref doc),
               tr_Subresource = [], tr_MetadataOnly = False\<rparr>) None (clock w)), w)"

text \<open>The first loop: the decisions so far are the accumulator, whose ids are the two seen sets.\<close>

definition distinct_approval :: "decision list \<Rightarrow> decision \<Rightarrow> bool" where
  "distinct_approval acc d \<longleftrightarrow>
     d_RequestID d \<noteq> [] \<and> d_RequestID d \<notin> d_RequestID ` set acc \<and>
     (d_ExternalID d \<noteq> [] \<longrightarrow> d_ExternalID d \<notin> d_ExternalID ` set acc)"

fun approve_documents ::
  "mcp_handler \<Rightarrow> call_ctx \<Rightarrow> string \<Rightarrow> tool_declaration \<Rightarrow> create_document list \<Rightarrow> decision list \<Rightarrow>
   world \<Rightarrow> decision list outcome"
where
  "approve_documents h ctx name d [] acc w = (Inr acc, w)"
| "approve_documents h ctx name d (doc # docs) acc w =
     (case gatedPairs d (h_sensitiveKinds h) (doc_raw doc) of
        Inl _ \<Rightarrow> (Inl (errf (-32603) ''create must declare exactly its document's create permission''), w)
      | Inr pairs \<Rightarrow>
          if length pairs \<noteq> 1 \<or> hd pairs \<noteq> doc_pair doc \<or> Verb (hd pairs) \<noteq> ''create'' \<or> target d \<noteq> None then
            (Inl (errf (-32603) ''create must declare exactly its document's create permission''), w)
          else
            (case askGate h (gate_call_of ctx name (doc_pair doc) (describe_document h name pairs doc)) w of
               (Inl e, w1) \<Rightarrow> (Inl (gateRefusal e), w1)
             | (Inr dec, w1) \<Rightarrow>
                 if \<not> distinct_approval acc dec then
                   (Inl (errf (-32603) ''create requires a distinct approval for every document''), w1)
                 else approve_documents h ctx name d docs (acc @ [dec]) w1))"

text \<open>One document of the second loop: \<open>None\<close> when it was created, the failure's text otherwise.\<close>

definition content_text :: "tool_result \<Rightarrow> string" where
  "content_text res = (case content res of CText s # _ \<Rightarrow> s | _ \<Rightarrow> ''create failed'')"

definition execute_document ::
  "mcp_handler \<Rightarrow> call_ctx \<Rightarrow> string \<Rightarrow> handler tool_entry \<Rightarrow> create_document \<Rightarrow> decision \<Rightarrow> world \<Rightarrow>
   (string option \<times> bool) \<times> world"
where
  "execute_document h ctx name entry doc dec w =
     (if cx_cancelled ctx w then ((Some ''create execution cancelled before this document was attempted'', False), w)
      else (case Consume dec w of
              (Inl e, w1) \<Rightarrow> ((Some (err_text e), False), w1)
            | (Inr _, w1) \<Rightarrow>
                (case invoke h ctx name entry (doc_raw doc) (noteGate dec w1) of
                   (Inl e, w2) \<Rightarrow> ((Some (message e), True), w2)
                 | (Inr res, w2) \<Rightarrow> ((if isError res then Some (content_text res) else None, True), w2))))"

text \<open>The result of the second loop. A failure with the empty text does not stop the loop in the code; no error text is empty.\<close>

record batch_outcome =
  b_created :: "create_document list"
  b_failed :: "(create_document \<times> string) option"
  b_unattempted :: "create_document list"
  b_executed :: "decision list"

fun execute_documents ::
  "mcp_handler \<Rightarrow> call_ctx \<Rightarrow> string \<Rightarrow> handler tool_entry \<Rightarrow> (create_document \<times> decision) list \<Rightarrow> world \<Rightarrow>
   batch_outcome \<times> world"
where
  "execute_documents h ctx name entry [] w =
     (\<lparr>b_created = [], b_failed = None, b_unattempted = [], b_executed = []\<rparr>, w)"
| "execute_documents h ctx name entry ((doc, dec) # rest) w =
     (case execute_document h ctx name entry doc dec w of ((failure, attempted), w1) \<Rightarrow>
        (case failure of
           Some (c # msg) \<Rightarrow>
             (\<lparr>b_created = [], b_failed = Some (doc, c # msg), b_unattempted = map fst rest,
               b_executed = (if attempted then [dec] else [])\<rparr>, w1)
         | _ \<Rightarrow>
             (case execute_documents h ctx name entry rest w1 of (out, w2) \<Rightarrow>
                (out\<lparr>b_created := doc # b_created out, b_executed := (if attempted then [dec] else []) @ b_executed out\<rparr>, w2))))"

definition batch_result :: "batch_outcome \<Rightarrow> tool_result" where
  "batch_result out =
     (let coord = (\<lambda>doc. JObj (createCoordinate (doc_ref doc)));
          base = successResult
            [(''created'', JArr (map coord (b_created out))),
             (''failed'', case b_failed out of None \<Rightarrow> JNull
                | Some (doc, msg) \<Rightarrow> JObj (createCoordinate (doc_ref doc) @ [(''error'', JStr msg)])),
             (''unattempted'', JArr (map coord (b_unattempted out)))]
      in fold (\<lambda>dec res. annotateAutoApproval res (Some dec)) (b_executed out)
           (base\<lparr>isError := b_failed out \<noteq> None\<rparr>))"

definition callCreateBatch ::
  "mcp_handler \<Rightarrow> call_ctx \<Rightarrow> string \<Rightarrow> handler tool_entry \<Rightarrow> raw \<Rightarrow> world \<Rightarrow> tool_result outcome"
where
  "callCreateBatch h ctx name entry rawArgs w =
     (case parseCreateDocuments (h_am h) rawArgs of
        Inl e \<Rightarrow> (Inl e, w)
      | Inr docs \<Rightarrow>
          (case approve_documents h ctx name (decl entry) docs [] w of
             (Inl e, w1) \<Rightarrow> (Inl e, w1)
           | (Inr decisions, w1) \<Rightarrow>
               (case execute_documents h ctx name entry (zip docs decisions) w1 of (out, w2) \<Rightarrow>
                  (Inr (batch_result out), w2))))"

section \<open>resource_delete_collection\<close>

fun sameTargets :: "collection_target list \<Rightarrow> collection_target list \<Rightarrow> bool" where
  "sameTargets [] [] = True"
| "sameTargets (a # as) (b # bs) = (a = b \<and> sameTargets as bs)"
| "sameTargets _ _ = False"

lemma sameTargets_eq: "sameTargets as bs \<longleftrightarrow> as = bs"
  by (induction as bs rule: sameTargets.induct) auto

definition confirmCollectionUnchanged ::
  "mcp_handler \<Rightarrow> string \<Rightarrow> decision \<Rightarrow> collection_target_ref \<Rightarrow> collection_target_state \<Rightarrow> world \<Rightarrow>
   rpc_err option \<times> world"
where
  "confirmCollectionUnchanged h name dec ref approved w =
     (case h_gateCollectionReader h ref w of
        (Inl e, w1) \<Rightarrow>
          (Some (afterVerdict (errf (-32603) (''refusing '' @ name
             @ '': the approved selection could not be re-read before execution: '' @ err_text e)) dec), w1)
      | (Inr current, w1) \<Rightarrow>
          (if sameTargets (cs_Targets approved) (cs_Targets current) then (None, w1)
           else (Some (afterVerdict (errf (-32603) (''refusing '' @ name @ '': the selection changed after it was approved'')) dec), w1)))"

definition nothing_matched :: "collection_target_ref \<Rightarrow> tool_result" where
  "nothing_matched ref = successResult
     [(''apiVersion'', JStr (ct_APIVersion ref)), (''kind'', JStr (ct_Kind ref)),
      (''namespace'', JStr (ct_Namespace ref)), (''labelSelector'', JStr (ct_LabelSelector ref)),
      (''fieldSelector'', JStr (ct_FieldSelector ref)), (''targets'', j_int 0), (''accepted'', JBool False),
      (''detail'', JStr ''the selector matched no objects, so nothing was deleted and no approval was requested'')]"

definition describe_collection ::
  "mcp_handler \<Rightarrow> string \<Rightarrow> rbac_pair list \<Rightarrow> raw \<Rightarrow> collection_target_ref \<Rightarrow> collection_target_state \<Rightarrow>
   (world, ctx_line list) act"
where
  "describe_collection h name gated rawArgs ref approved w =
     (Inr (collectionApprovalContext name gated rawArgs (h_sensitiveKinds h) ref approved (clock w)), w)"

definition callDeleteCollection ::
  "mcp_handler \<Rightarrow> call_ctx \<Rightarrow> string \<Rightarrow> handler tool_entry \<Rightarrow> raw \<Rightarrow> world \<Rightarrow> tool_result outcome"
where
  "callDeleteCollection h ctx name entry rawArgs w =
     (case gatedPairs (decl entry) (h_sensitiveKinds h) rawArgs of
        Inl e \<Rightarrow> (invalid_params e, w)
      | Inr gated \<Rightarrow>
     (case collectionTarget (decl entry) of
        None \<Rightarrow> (Inl (errf (-32603) (''refusing '' @ name @ '': it declares no collection target'')), w)
      | Some f \<Rightarrow>
     if length gated \<noteq> 1 \<or> Verb (hd gated) \<noteq> ''deletecollection'' then
       (Inl (errf (-32603) (''refusing '' @ name @ '': a collection delete must resolve to exactly its permission'')), w)
     else
     (case f rawArgs of
        Inl e \<Rightarrow> (invalid_params e, w)
      | Inr ref \<Rightarrow>
     (case h_gateCollectionReader h ref w of
        (Inl e, w1) \<Rightarrow>
          (Inl (errf (-32603) (''refusing '' @ name @ '': the selection could not be read before approval: '' @ err_text e)), w1)
      | (Inr approved, w1) \<Rightarrow>
     if cs_Targets approved = [] then (Inr (nothing_matched ref), w1)
     else
     (case askGate h (gate_call_of ctx name (hd gated) (describe_collection h name gated rawArgs ref approved)) w1 of
        (Inl e, w2) \<Rightarrow> (Inl (gateRefusal e), w2)
      | (Inr dec, w2) \<Rightarrow>
     (case Consume dec w2 of
        (Inl e, w3) \<Rightarrow> (Inl (afterVerdict (errf (-32603) (err_text e)) dec), w3)
      | (Inr _, w3) \<Rightarrow>
     (case confirmCollectionUnchanged h name dec ref approved w3 of
        (Some e, w4) \<Rightarrow> (Inl e, w4)
      | (None, w4) \<Rightarrow>
     (case invoke h ctx name entry rawArgs (noteGate dec w4) of
        (Inl e, w5) \<Rightarrow> (Inl e, w5)
      | (Inr res, w5) \<Rightarrow> (Inr (annotateAutoApproval res (Some dec)), w5)))))))))"

section \<open>The outcome a call records\<close>

definition outcome :: "rpc_err + tool_result \<Rightarrow> call_note \<Rightarrow> result_kind \<times> reason option \<times> gate_info" where
  "outcome r note' =
     (case r of
        Inl e \<Rightarrow> (ResultRefused, Some (reasonOf e), if err_gate e = no_gate then n_gate note' else err_gate e)
      | Inr res \<Rightarrow>
          if isError res then
            (if n_reason note' \<noteq> None then (ResultRefused, n_reason note', n_gate note')
             else (ResultError, None, n_gate note'))
          else (ResultSuccess, None, n_gate note'))"

definition recordTarget :: "raw \<Rightarrow> log_target" where
  "recordTarget rawArgs =
     (case decodeObject rawArgs of
        None \<Rightarrow> no_target
      | Some o' \<Rightarrow> \<lparr>t_apiVersion = string_or_empty o' ''apiVersion'', t_kind = string_or_empty o' ''kind'',
                    t_namespace = string_or_empty o' ''namespace'', t_name = string_or_empty o' ''name''\<rparr>)"

definition extractArguments :: "raw \<Rightarrow> raw" where
  "extractArguments params = or_else (struct_field ''arguments'' params) JNull"

section \<open>toolsCall\<close>

text \<open>The gated paths, after the name, the scope and the reason.\<close>

definition run_entry :: "mcp_handler \<Rightarrow> call_ctx \<Rightarrow> string \<Rightarrow> handler tool_entry \<Rightarrow> raw \<Rightarrow> world \<Rightarrow> tool_result outcome" where
  "run_entry h ctx name entry rawArgs w =
     (if createBatch entry then callCreateBatch h ctx name entry rawArgs w
      else if collectionGate entry then callDeleteCollection h ctx name entry rawArgs w
      else
        (case authorize h ctx name (decl entry) rawArgs w of
           (Inl e, w1) \<Rightarrow> (Inl e, w1)
         | (Inr (dec, approved), w1) \<Rightarrow>
             (let w2 = (case dec of None \<Rightarrow> w1 | Some d \<Rightarrow> noteGate d w1);
                  ctx' = (case approved of None \<Rightarrow> ctx | Some st \<Rightarrow> ctx\<lparr>cx_approved := Some st\<rparr>) in
              case invoke h ctx' name entry rawArgs w2 of
                (Inl e, w3) \<Rightarrow> (Inl e, w3)
              | (Inr res, w3) \<Rightarrow> (Inr (annotateAutoApproval res dec), w3))))"

text \<open>The reason is taken off the arguments of a tool that may ask for approval, and required where it will.\<close>

definition take_reason ::
  "mcp_handler \<Rightarrow> call_ctx \<Rightarrow> string \<Rightarrow> tool_declaration \<Rightarrow> raw \<Rightarrow> rpc_err + call_ctx \<times> raw"
where
  "take_reason h ctx name d rawArgs =
     (if \<not> mayAskForApproval d then Inr (ctx, rawArgs)
      else bind_sum (splitReason rawArgs) (\<lambda>(stripped, reason').
        (let ctx' = withReason ctx reason' in
         case requireReason ctx' (h_sensitiveKinds h) name d stripped of
           Some e \<Rightarrow> Inl e
         | None \<Rightarrow> Inr (ctx', stripped))))"

definition call_target :: "tool_declaration \<Rightarrow> raw \<Rightarrow> log_target" where
  "call_target d rawArgs = (if resolve d \<noteq> None then recordTarget rawArgs else no_target)"

text \<open>
  The body of \<open>toolsCall\<close> gives, beside the result, the two fields of the record it has filled in
  by then: the tool's name and the target.
\<close>

definition call_body ::
  "mcp_handler \<Rightarrow> call_ctx \<Rightarrow> raw \<Rightarrow> world \<Rightarrow> (string \<times> log_target) \<times> tool_result outcome"
where
  "call_body h ctx params w =
     (case decodeObject params of
        None \<Rightarrow> (([], no_target), invalid_params ''missing tool name'', w)
      | Some o' \<Rightarrow>
     (case lookup o' ''name'' of
        Some (JStr name) \<Rightarrow>
          if \<not> Allows ctx name then ((name, no_target), invalid_params (''unknown tool: '' @ name), w)
          else
          (case map_of (h_registry h) name of
             None \<Rightarrow> ((name, no_target), invalid_params (''unknown tool: '' @ name), w)
           | Some entry \<Rightarrow>
          (case take_reason h ctx name (decl entry) (extractArguments params) of
             Inl e \<Rightarrow> ((name, no_target), Inl e, w)
           | Inr (ctx', rawArgs) \<Rightarrow>
               ((name, call_target (decl entry) rawArgs), run_entry h ctx' name entry rawArgs w)))
      | _ \<Rightarrow> (([], no_target), invalid_params ''missing tool name'', w)))"

definition call_record ::
  "call_ctx \<Rightarrow> string \<times> log_target \<Rightarrow> rpc_err + tool_result \<Rightarrow> nat \<Rightarrow> world \<Rightarrow> event_record"
where
  "call_record ctx named_target r start w =
     (case outcome r (callnote w) of (kind, reason', g) \<Rightarrow>
        \<lparr>Tool = fst named_target, Principal = cx_principal ctx, Target = snd named_target, Result = kind,
         Reason = reason', Gate = g, Duration = int (clock w - start) - n_gateWait (callnote w),
         GateWait = n_gateWait (callnote w)\<rparr>)"

definition toolsCall :: "mcp_handler \<Rightarrow> call_ctx \<Rightarrow> raw \<Rightarrow> world \<Rightarrow> tool_result outcome" where
  "toolsCall h ctx params w =
     (case call_body h ctx params (w\<lparr>callnote := fresh_note\<rparr>) of (nt, r, w1) \<Rightarrow>
        (r, log_effect (Emitted (call_record ctx nt r (clock w) w1)) w1))"

section \<open>The endpoint\<close>

datatype dispatch_result = RInitialize | RTools "(string \<times> raw) list" | RCall tool_result | REmpty

definition dispatch ::
  "mcp_handler \<Rightarrow> (string \<times> raw) list \<Rightarrow> call_ctx \<Rightarrow> string \<Rightarrow> raw \<Rightarrow> world \<Rightarrow> dispatch_result outcome"
where
  "dispatch h advertised ctx method params w =
     (if method = ''initialize'' then (Inr RInitialize, w)
      else if method = ''tools/list'' then (Inr (RTools (toolsList ctx advertised)), w)
      else if method = ''tools/call'' then
        (case toolsCall h ctx params w of (Inl e, w1) \<Rightarrow> (Inl e, w1) | (Inr res, w1) \<Rightarrow> (Inr (RCall res), w1))
      else if method = ''ping'' then (Inr REmpty, w)
      else (Inl (errf (-32601) (''method not found: '' @ method)), w))"

datatype rpc_response = RpcResult raw dispatch_result | RpcError raw int string

text \<open>\<open>rpcRequest\<close> decoded: a string member of another type is a decoding error.\<close>

definition request_string :: "raw \<Rightarrow> string \<Rightarrow> string option" where
  "request_string body k =
     (case struct_field k body of
        None \<Rightarrow> Some [] | Some JNull \<Rightarrow> Some [] | Some (JStr s) \<Rightarrow> Some s | Some _ \<Rightarrow> None)"

definition decode_request :: "raw option \<Rightarrow> (string \<times> raw \<times> string \<times> raw) option" where
  "decode_request body =
     (case body of
        None \<Rightarrow> None
      | Some b \<Rightarrow>
          if \<not> (b = JNull \<or> decodeObject b \<noteq> None) then None
          else (case (request_string b ''jsonrpc'', request_string b ''method'') of
                  (Some v, Some m) \<Rightarrow>
                    Some (v, or_else (struct_field ''id'' b) JNull, m, or_else (struct_field ''params'' b) JNull)
                | _ \<Rightarrow> None))"

definition ServeHTTP ::
  "mcp_handler \<Rightarrow> (string \<times> raw) list \<Rightarrow> call_ctx \<Rightarrow> string \<Rightarrow> raw option \<Rightarrow> world \<Rightarrow> rpc_response \<times> world"
where
  "ServeHTTP h advertised ctx sessionHeader body w =
     (case decode_request body of
        None \<Rightarrow> (RpcError JNull (-32700) ''parse error'', w)
      | Some (version, rid, method, params) \<Rightarrow>
          if version \<noteq> [] \<and> version \<noteq> ''2.0'' then (RpcError rid (-32600) ''invalid jsonrpc version'', w)
          else
            (case dispatch h advertised (withSessionID ctx sessionHeader) method params w of
               (Inl e, w1) \<Rightarrow> (RpcError rid (code e) (message e), w1)
             | (Inr res, w1) \<Rightarrow> (RpcResult rid res, w1)))"

end
