(* ===== verification/Metrics.thy ===== *)
theory Metrics
  imports EventLog
begin

text \<open>
  internal/metrics: the four metric families as a sink of records. A family is a partial map from
  label values to its value; \<open>None\<close> is a series that does not exist yet, which
  \<open>WithLabelValues\<close> creates. A counter is a number, a histogram the list of its observations.
  Registering the four fresh collectors on a fresh registry cannot fail and has no model.
\<close>

definition Unregistered :: string where
  "Unregistered = ''unregistered''"

record metrics =
  m_tools :: "string list"
  calls :: "string \<times> result_kind \<Rightarrow> nat option"
  refusals :: "string \<times> reason option \<Rightarrow> nat option"
  duration :: "string \<Rightarrow> int list option"
  gateWait :: "verdict \<Rightarrow> int list option"

text \<open>\<open>WithLabelValues\<close> alone, \<open>Inc\<close> and \<open>Observe\<close>.\<close>

definition touch :: "'v \<Rightarrow> 'k \<Rightarrow> ('k \<Rightarrow> 'v option) \<Rightarrow> ('k \<Rightarrow> 'v option)" where
  "touch z k m = (case m k of None \<Rightarrow> m(k \<mapsto> z) | Some _ \<Rightarrow> m)"

definition inc :: "'k \<Rightarrow> ('k \<Rightarrow> nat option) \<Rightarrow> ('k \<Rightarrow> nat option)" where
  "inc k m = m(k \<mapsto> Suc (or_else (m k) 0))"

definition observe :: "'k \<Rightarrow> int \<Rightarrow> ('k \<Rightarrow> int list option) \<Rightarrow> ('k \<Rightarrow> int list option)" where
  "observe k x m = m(k \<mapsto> or_else (m k) [] @ [x])"

definition new_metrics :: "string list \<Rightarrow> string + metrics" where
  "new_metrics tools =
     (if Unregistered \<in> set tools then Inl Unregistered
      else let labels = tools @ [Unregistered] in
        Inr \<lparr>m_tools = tools,
             calls = fold (touch 0) (List.product labels Results) Map.empty,
             refusals = fold (touch 0) (List.product labels (map Some Reasons)) Map.empty,
             duration = fold (touch []) labels Map.empty,
             gateWait = fold (touch []) Verdicts Map.empty\<rparr>)"

definition metrics_emit :: "event_record \<Rightarrow> metrics \<Rightarrow> metrics" where
  "metrics_emit r m =
     (let tool = (if Tool r \<in> set (m_tools m) then Tool r else Unregistered);
          m1 = m\<lparr>calls := inc (tool, Result r) (calls m)\<rparr>;
          m2 = (case Result r of
                  ResultRefused \<Rightarrow> m1\<lparr>refusals := inc (tool, Reason r) (refusals m1)\<rparr>
                | _ \<Rightarrow> m1\<lparr>duration := observe tool (Duration r) (duration m1)\<rparr>)
      in (case g_Decision (Gate r) of
            None \<Rightarrow> m2
          | Some v \<Rightarrow> m2\<lparr>gateWait := observe v (GateWait r) (gateWait m2)\<rparr>))"

lemma dom_touch [simp]: "dom (touch z k m) = insert k (dom m)"
  by (auto simp: touch_def split: option.splits)

lemma dom_inc [simp]: "dom (inc k m) = insert k (dom m)"
  by (auto simp: inc_def)

lemma dom_observe [simp]: "dom (observe k x m) = insert k (dom m)"
  by (auto simp: observe_def)

lemma dom_fold_touch: "dom (fold (touch z) ks m) = set ks \<union> dom m"
  by (induction ks arbitrary: m) auto

text \<open>The series that exist: the label sets the documentation closes.\<close>

definition closed_labels :: "metrics \<Rightarrow> bool" where
  "closed_labels m \<longleftrightarrow>
     (let labels = set (m_tools m @ [Unregistered]) in
      dom (calls m) = labels \<times> UNIV \<and>
      dom (refusals m) = labels \<times> range Some \<and>
      dom (duration m) = labels \<and>
      dom (gateWait m) = UNIV)"

lemma new_metrics_closed:
  assumes "new_metrics tools = Inr m"
  shows "closed_labels m"
proof -
  have m: "m_tools m = tools" "calls m = fold (touch 0) (List.product (tools @ [Unregistered]) Results) Map.empty"
    "refusals m = fold (touch 0) (List.product (tools @ [Unregistered]) (map Some Reasons)) Map.empty"
    "duration m = fold (touch []) (tools @ [Unregistered]) Map.empty"
    "gateWait m = fold (touch []) Verdicts Map.empty"
    using assms by (auto simp: new_metrics_def Let_def split: if_splits)
  show ?thesis
    unfolding closed_labels_def Let_def m dom_fold_touch set_product
    by (simp add: set_Results set_Reasons set_Verdicts)
qed

lemma metrics_emit_tools [simp]: "m_tools (metrics_emit r m) = m_tools m"
  by (simp add: metrics_emit_def Let_def split: result_kind.splits option.splits)

definition well_formed_record :: "event_record \<Rightarrow> bool" where
  "well_formed_record r \<longleftrightarrow> (Result r = ResultRefused \<longleftrightarrow> Reason r \<noteq> None)"

lemma metrics_emit_closed:
  assumes "closed_labels m" and "well_formed_record r"
  shows "closed_labels (metrics_emit r m)"
proof -
  let ?t = "if Tool r \<in> set (m_tools m) then Tool r else Unregistered"
  have "?t \<in> set (m_tools m @ [Unregistered])" by simp
  with assms show ?thesis
    by (auto simp: closed_labels_def metrics_emit_def Let_def well_formed_record_def
        split: result_kind.splits option.splits)
qed

text \<open>The number of calls of one tool label and result, over a run of records.\<close>

definition folded_tool :: "string list \<Rightarrow> string \<Rightarrow> string" where
  "folded_tool tools t = (if t \<in> set tools then t else Unregistered)"

lemma calls_metrics_emit:
  "or_else (calls (metrics_emit r m) (t, k)) 0 =
     or_else (calls m (t, k)) 0 + (if folded_tool (m_tools m) (Tool r) = t \<and> Result r = k then 1 else 0)"
  by (auto simp: metrics_emit_def folded_tool_def inc_def Let_def
      split: result_kind.splits option.splits)

lemma calls_fold_emit:
  "or_else (calls (fold metrics_emit rs m) (t, k)) 0 =
     or_else (calls m (t, k)) 0
     + length (filter (\<lambda>r. folded_tool (m_tools m) (Tool r) = t \<and> Result r = k) rs)"
proof (induction rs arbitrary: m)
  case (Cons r rs)
  show ?case using Cons [of "metrics_emit r m"] by (simp add: calls_metrics_emit)
qed simp

lemma fold_emit_closed:
  "closed_labels m \<Longrightarrow> list_all well_formed_record rs \<Longrightarrow> closed_labels (fold metrics_emit rs m)"
  by (induction rs arbitrary: m) (auto simp: metrics_emit_closed)

lemma fold_emit_tools [simp]: "m_tools (fold metrics_emit rs m) = m_tools m"
  by (induction rs arbitrary: m) auto

end
