(* ===== verification/DispatchProps.thy ===== *)
theory DispatchProps
  imports Dispatch Metrics
begin

text \<open>
  What holds of every call through the dispatcher, for any gate, readers and services that meet
  their contracts and any registry whose handlers are well behaved (locale \<open>dispatcher\<close>).
\<close>

locale dispatcher = gated_dispatch h evidence + bounded_services "h_services h" "\<lambda>_. True"
  for h :: mcp_handler and evidence +
  assumes sound: "sound_registry (h_registry h)"

section \<open>The effects of one call\<close>

text \<open>The kubernetes calls the confinement of one invocation lets through.\<close>

definition declared_call :: "mcp_handler \<Rightarrow> string \<Rightarrow> tool_declaration \<Rightarrow> raw \<Rightarrow> k8s_call \<Rightarrow> bool" where
  "declared_call h name d rawArgs k \<longleftrightarrow> (\<exists>c. confine name d rawArgs = Inr c \<and> permits (h_am h) c k)"

text \<open>
  The effects between two worlds: calls of the gate, and calls of the tool where \<open>may\<close> allows; no
  record is written in between. A JSON-RPC error means that the tool made no call at all.
\<close>

definition call_steps :: "(k8s_call \<Rightarrow> bool) \<Rightarrow> world \<Rightarrow> (rpc_err + 'a) \<Rightarrow> world \<Rightarrow> bool" where
  "call_steps may w r w' \<longleftrightarrow>
     (\<exists>es. trace w' = trace w @ es \<and>
        list_all (\<lambda>x. gate_effect x \<or> ((\<exists>a. r = Inr a) \<and> allowed_effect may x)) es)"

lemma call_steps_refl [simp]: "call_steps may w r w"
  by (simp add: call_steps_def)

lemma asked_gate_extends: "asked_gate w w' \<Longrightarrow> extends w w'"
  by (auto simp: asked_gate_def extends_def)

lemma call_steps_asked: "asked_gate w w' \<Longrightarrow> call_steps may w r w'"
  by (auto simp: call_steps_def asked_gate_def list_all_iff)

lemma call_steps_gate: "gate_steps w w' \<Longrightarrow> call_steps may w r w'"
  by (auto simp: call_steps_def gate_steps_def list_all_iff)

lemma call_steps_trans:
  assumes "call_steps may w r w1" and "call_steps may w1 r w2"
  shows "call_steps may w r w2"
proof -
  from assms obtain es fs where "trace w1 = trace w @ es" "trace w2 = trace w1 @ fs"
    and "list_all (\<lambda>x. gate_effect x \<or> ((\<exists>a. r = Inr a) \<and> allowed_effect may x)) es"
    and "list_all (\<lambda>x. gate_effect x \<or> ((\<exists>a. r = Inr a) \<and> allowed_effect may x)) fs"
    by (auto simp: call_steps_def)
  then show ?thesis unfolding call_steps_def by (intro exI [of _ "es @ fs"]) simp
qed

lemma call_steps_noteGate [simp]:
  "call_steps may (noteGate d w) r w' = call_steps may w r w'"
  "call_steps may w r (noteGate d w') = call_steps may w r w'"
  by (simp_all add: call_steps_def noteGate_def Let_def)

lemma call_steps_handler: "handler_steps may w r w' \<Longrightarrow> call_steps may w r w'"
  by (cases r) (auto simp: handler_steps_def call_steps_def)

lemma call_steps_Inr: "call_steps may w (Inr a) w' \<Longrightarrow> call_steps may w (Inr b) w'"
  by (simp add: call_steps_def)

lemma call_steps_mono:
  "call_steps may w r w' \<Longrightarrow> (\<And>k. may k \<Longrightarrow> may' k) \<Longrightarrow> call_steps may' w r w'"
  unfolding call_steps_def
  by (elim exE conjE, intro exI conjI, assumption)
     (auto simp: list_all_iff allowed_effect_def split: effect.splits)

lemma noteGate_simps [simp]:
  "trace (noteGate d w) = trace w" "spent (noteGate d w) = spent w" "clock (noteGate d w) = clock w"
  "captured (noteGate d w) = captured w" "next_cell (noteGate d w) = next_cell w"
  "extends (noteGate d w) w' = extends w w'" "extends w' (noteGate d w) = extends w' w"
  by (simp_all add: noteGate_def Let_def extends_def)

text \<open>The tool a \<open>tools/call\<close> names.\<close>

definition called_tool :: "raw \<Rightarrow> string" where
  "called_tool params =
     (case decodeObject params of None \<Rightarrow> [] | Some o' \<Rightarrow> string_or_empty o' ''name'')"

text \<open>The calls an entry may make over the whole of one call, its documents included.\<close>

definition entry_call :: "mcp_handler \<Rightarrow> string \<Rightarrow> handler tool_entry \<Rightarrow> raw \<Rightarrow> k8s_call \<Rightarrow> bool" where
  "entry_call h name entry rawArgs k \<longleftrightarrow>
     (if createBatch entry then
        (\<exists>docs doc. parseCreateDocuments (h_am h) rawArgs = Inr docs \<and> doc \<in> set docs \<and>
           declared_call h name (decl entry) (doc_raw doc) k)
      else declared_call h name (decl entry) rawArgs k)"

text \<open>
  A collection delete ends before the handler with nothing done by the tool, or it has an approval
  for the selection it read, with the same selection read again after it, and runs the handler.
\<close>

definition collection_authorized ::
  "mcp_handler \<Rightarrow> (gate_call \<Rightarrow> world \<Rightarrow> world \<Rightarrow> decision \<Rightarrow> bool) \<Rightarrow> call_ctx \<Rightarrow> string \<Rightarrow> tool_declaration \<Rightarrow> raw \<Rightarrow> world \<Rightarrow> world \<Rightarrow> decision \<Rightarrow> bool"
where
  "collection_authorized h evidence ctx name d rawArgs w w' dec \<longleftrightarrow>
     (\<exists>f ref p approved wa wb w0 w1 w2 current wc.
        collectionTarget d = Some f \<and> f rawArgs = Inr ref \<and>
        gatedPairs d (h_sensitiveKinds h) rawArgs = Inr [p] \<and> Verb p = ''deletecollection'' \<and>
        h_gateCollectionReader h ref wa = (Inr approved, wb) \<and> cs_Targets approved \<noteq> [] \<and>
        evidence (gate_call_of ctx name p (describe_collection h name [p] rawArgs ref approved)) w0 w1 dec \<and>
        extends w w0 \<and> extends w1 w' \<and>
        d_cell dec \<notin> set (spent w1) \<and> d_cell dec \<in> set (spent w') \<and>
        h_gateCollectionReader h ref w2 = (Inr current, wc) \<and> d_cell dec \<in> set (spent w2) \<and>
        cs_Targets current = cs_Targets approved)"

text \<open>A document and the approval asked for it, with evidence that it was given.\<close>

definition document_authorized ::
  "mcp_handler \<Rightarrow> (gate_call \<Rightarrow> world \<Rightarrow> world \<Rightarrow> decision \<Rightarrow> bool) \<Rightarrow> call_ctx \<Rightarrow> string \<Rightarrow> tool_declaration \<Rightarrow> world \<Rightarrow> world \<Rightarrow> create_document \<Rightarrow> decision \<Rightarrow> bool"
where
  "document_authorized h evidence ctx name d w w' doc dec \<longleftrightarrow>
     gatedPairs d (h_sensitiveKinds h) (doc_raw doc) = Inr [doc_pair doc] \<and>
     (\<exists>w0 w1. evidence (gate_call_of ctx name (doc_pair doc) (describe_document h name [doc_pair doc] doc)) w0 w1 dec \<and>
        extends w w0 \<and> extends w1 w')"

text \<open>An approval is spent on at most one call, and a call is made only on an approval just spent.\<close>

definition spends :: "world \<Rightarrow> decision list \<Rightarrow> world \<Rightarrow> bool" where
  "spends w executed w' \<longleftrightarrow>
     (\<exists>es. trace w' = trace w @ es \<and> length (filter tool_effect es) \<le> length executed) \<and>
     distinct (map d_cell executed) \<and> set (spent w) \<subseteq> set (spent w') \<and>
     (\<forall>dec\<in>set executed. d_cell dec \<notin> set (spent w) \<and> d_cell dec \<in> set (spent w'))"

context dispatcher
begin

lemma invoke_steps:
  assumes "map_of (h_registry h) name = Some entry" and "invoke h ctx name entry rawArgs w = (r, w')"
  shows "handler_steps (declared_call h name (decl entry) rawArgs) w r w'"
proof (cases "confine name (decl entry) rawArgs")
  case Inl
  with assms(2) show ?thesis by (auto simp: invoke_def)
next
  case c: (Inr c)
  show ?thesis
  proof (cases "handle entry")
    case None
    with c assms(2) show ?thesis by (auto simp: invoke_def)
  next
    case (Some f)
    let ?sv = "(h_services h)\<lparr>sv_k8s := confinedService (h_am h) c (sv_k8s (h_services h))\<rparr>"
    have "bounded_services ?sv (\<lambda>k. True \<and> permits (h_am h) c k)"
      by (rule bounded_services_confine) (rule bounded_services_axioms)
    then have "well_behaved ?sv (\<lambda>k. True \<and> permits (h_am h) c k) f"
      using sound assms(1) Some by (simp add: sound_registry_def)
    moreover have "f ?sv ctx rawArgs w = (r, w')" using c Some assms(2) by (simp add: invoke_def)
    moreover have "declared_call h name (decl entry) rawArgs = permits (h_am h) c"
      using c by (auto simp: declared_call_def fun_eq_iff)
    ultimately show ?thesis by (auto dest: well_behavedD)
  qed
qed

lemmas invoke_call_steps = call_steps_handler [OF invoke_steps]

lemma quiet_describe_document: "quiet_call (gate_call_of ctx name p (describe_document h name pairs doc))"
  by (auto simp: quiet_call_def gate_call_of_def describe_document_def)

lemma approve_documents_steps:
  "approve_documents h ctx name d docs acc w = (r, w') \<Longrightarrow> asked_gate w w'"
proof (induction docs arbitrary: acc w)
  case (Cons doc docs)
  show ?case
  proof (cases "gatedPairs d (h_sensitiveKinds h) (doc_raw doc)")
    case Inl
    with Cons.prems show ?thesis by simp
  next
    case (Inr pairs)
    obtain a w1 where ask: "askGate h (gate_call_of ctx name (doc_pair doc) (describe_document h name pairs doc)) w = (a, w1)"
      by fastforce
    note s1 = askGate_steps [OF ask quiet_describe_document]
    from Cons.prems Inr ask s1 Cons.IH show ?thesis
      by (auto split: if_splits sum.splits intro: asked_gate_trans)
  qed
qed auto

lemma execute_document_steps:
  assumes "map_of (h_registry h) name = Some entry"
    and "execute_document h ctx name entry doc dec w = ((failure, attempted), w')"
  shows "call_steps (\<lambda>k. attempted \<and> declared_call h name (decl entry) (doc_raw doc) k) w (Inr x) w'"
proof -
  obtain a w1 where c: "Consume dec w = (a, w1)" by fastforce
  note s1 = call_steps_asked [OF asked_gate_consume [OF c]]
  obtain b w2 where i: "invoke h ctx name entry (doc_raw doc) (noteGate dec w1) = (b, w2)" by fastforce
  have "call_steps (declared_call h name (decl entry) (doc_raw doc)) w1 (Inr x) w2"
    using invoke_call_steps [OF assms(1) i] by (cases b) (auto simp: call_steps_def list_all_iff)
  with assms(2) c s1 i show ?thesis
    by (auto simp: execute_document_def split: if_splits sum.splits intro: call_steps_trans)
qed

lemma execute_documents_steps:
  assumes reg: "map_of (h_registry h) name = Some entry"
  shows "execute_documents h ctx name entry ds w = (out, w') \<Longrightarrow>
     call_steps (\<lambda>k. \<exists>doc dec. (doc, dec) \<in> set ds \<and> dec \<in> set (b_executed out) \<and>
        declared_call h name (decl entry) (doc_raw doc) k) w (Inr x) w'"
proof (induction ds arbitrary: w out w')
  case (Cons p ds)
  obtain doc dec where p: "p = (doc, dec)" by fastforce
  let ?may = "\<lambda>k. \<exists>doc dec. (doc, dec) \<in> set (p # ds) \<and> dec \<in> set (b_executed out) \<and>
        declared_call h name (decl entry) (doc_raw doc) k"
  obtain failure attempted w1 where e: "execute_document h ctx name entry doc dec w = ((failure, attempted), w1)"
    by (metis prod.exhaust)
  obtain out' w2 where r: "execute_documents h ctx name entry ds w1 = (out', w2)" by fastforce
  have ex: "attempted \<Longrightarrow> dec \<in> set (b_executed out)"
    and out: "w' = w1 \<or> (w' = w2 \<and> set (b_executed out') \<subseteq> set (b_executed out))"
    using Cons.prems p e r by (auto split: option.splits list.splits)
  have s1: "call_steps ?may w (Inr x) w1"
    by (rule call_steps_mono [OF execute_document_steps [OF reg e]]) (use ex p in auto)
  from out show ?case
  proof
    assume "w' = w2 \<and> set (b_executed out') \<subseteq> set (b_executed out)"
    moreover from this have "call_steps ?may w1 (Inr x) w2"
      by (intro call_steps_mono [OF Cons.IH [OF r]]) auto
    ultimately show ?thesis using call_steps_trans [OF s1] by blast
  qed (use s1 in simp)
qed auto

lemma callCreateBatch_steps:
  assumes reg: "map_of (h_registry h) name = Some entry" and batch: "createBatch entry"
    and run: "callCreateBatch h ctx name entry rawArgs w = (r, w')"
  shows "call_steps (entry_call h name entry rawArgs) w r w'"
proof (cases "parseCreateDocuments (h_am h) rawArgs")
  case Inl
  with run show ?thesis by (simp add: callCreateBatch_def)
next
  case docs: (Inr docs)
  obtain a w1 where ap: "approve_documents h ctx name (decl entry) docs [] w = (a, w1)" by fastforce
  note s1 = call_steps_asked [OF approve_documents_steps [OF ap]]
  show ?thesis
  proof (cases a)
    case Inl
    with run docs ap s1 show ?thesis by (auto simp: callCreateBatch_def)
  next
    case (Inr decs)
    obtain out w2 where ex: "execute_documents h ctx name entry (zip docs decs) w1 = (out, w2)" by fastforce
    have "call_steps (entry_call h name entry rawArgs) w1 (Inr (batch_result out)) w2"
      by (rule call_steps_mono [OF execute_documents_steps [OF reg ex]])
        (use docs batch in \<open>auto simp: entry_call_def dest: set_zip_leftD\<close>)
    with run docs ap Inr ex s1 show ?thesis
      by (auto simp: callCreateBatch_def intro: call_steps_trans)
  qed
qed

lemma quiet_describe_collection:
  "quiet_call (gate_call_of ctx name p (describe_collection h name gated rawArgs ref approved))"
  by (auto simp: quiet_call_def gate_call_of_def describe_collection_def)

lemma askGate_InrD:
  "askGate h call w = (Inr dec, w1) \<Longrightarrow>
     \<exists>wg. h_gate h call w = (Inr dec, wg) \<and> trace w1 = trace wg \<and> spent w1 = spent wg"
  by (auto simp: askGate_def split: prod.splits)

lemma confirmCollection_steps:
  "confirmCollectionUnchanged h name dec ref approved w = (r, w') \<Longrightarrow> gate_steps w w'"
  by (auto simp: confirmCollectionUnchanged_def split: sum.splits prod.splits if_splits dest!: lists)

lemma callDeleteCollection_cases:
  assumes run: "callDeleteCollection h ctx name entry rawArgs w = (r, w')"
  shows "(asked_gate w w' \<and> (\<forall>a. r = Inr a \<longrightarrow> \<not> isError a)) \<or>
     (\<exists>dec w4 q. asked_gate w w4 \<and> collection_authorized h evidence ctx name (decl entry) rawArgs w w4 dec \<and>
        invoke h ctx name entry rawArgs (noteGate dec w4) = (q, w') \<and>
        r = (case q of Inl e \<Rightarrow> Inl e | Inr res \<Rightarrow> Inr (annotateAutoApproval res (Some dec))))"
proof -
  note defs = callDeleteCollection_def
  have early: ?thesis if "asked_gate w w'" and "\<forall>a. r = Inr a \<longrightarrow> \<not> isError a"
    using that by blast
  show ?thesis
  proof (cases "gatedPairs (decl entry) (h_sensitiveKinds h) rawArgs")
    case Inl
    with run show ?thesis by (intro early) (auto simp: defs)
  next
    case g: (Inr gated)
    show ?thesis
    proof (cases "collectionTarget (decl entry)")
      case None
      with run g show ?thesis by (intro early) (auto simp: defs)
    next
      case f: (Some f)
      show ?thesis
      proof (cases "length gated \<noteq> 1 \<or> Verb (hd gated) \<noteq> ''deletecollection''")
        case True
        with run g f show ?thesis by (intro early) (auto simp: defs)
      next
        case one: False
        then obtain p where gp: "gated = [p]" and p: "Verb p = ''deletecollection''"
          by (cases gated) auto
        note g = g [unfolded gp]
        show ?thesis
        proof (cases "f rawArgs")
          case Inl
          with run g f p show ?thesis by (intro early) (auto simp: defs)
        next
          case ref: (Inr ref)
          obtain a w1 where rd: "h_gateCollectionReader h ref w = (a, w1)" by fastforce
          have s1: "asked_gate w w1" using lists [OF rd] by (auto intro: asked_gate_steps)
          show ?thesis
          proof (cases "\<exists>approved. a = Inr approved \<and> cs_Targets approved \<noteq> []")
            case False
            with run g f p ref rd s1 show ?thesis
              by (intro early; cases a) (auto simp: defs nothing_matched_def successResult_def structuredResult_def)
          next
            case True
            then obtain approved where a: "a = Inr approved" "cs_Targets approved \<noteq> []" by blast
            let ?call = "gate_call_of ctx name p (describe_collection h name [p] rawArgs ref approved)"
            obtain b w2 where ask: "askGate h ?call w1 = (b, w2)" by fastforce
            have s2: "asked_gate w w2"
              using s1 askGate_steps [OF ask quiet_describe_collection] by (rule asked_gate_trans)
            show ?thesis
            proof (cases b)
              case Inl
              with run g f p ref rd a ask s2 show ?thesis by (intro early) (auto simp: defs)
            next
              case b: (Inr dec)
              obtain c w3 where con: "Consume dec w2 = (c, w3)" by fastforce
              have s3: "asked_gate w w3" using s2 asked_gate_consume [OF con] by (rule asked_gate_trans)
              obtain k w4 where conf: "confirmCollectionUnchanged h name dec ref approved w3 = (k, w4)" by fastforce
              have s4: "asked_gate w w4"
                using s3 asked_gate_steps [OF confirmCollection_steps [OF conf]] by (rule asked_gate_trans)
              show ?thesis
              proof (cases "c = Inr () \<and> k = None")
                case False
                with run g f p ref rd a ask b con conf s3 s4 show ?thesis
                  by (intro early; cases c; cases k) (auto simp: defs)
              next
                case True
                obtain q w5 where inv: "invoke h ctx name entry rawArgs (noteGate dec w4) = (q, w5)" by fastforce
                have "callDeleteCollection h ctx name entry rawArgs w =
                    (case q of Inl e \<Rightarrow> (Inl e, w5) | Inr res \<Rightarrow> (Inr (annotateAutoApproval res (Some dec)), w5))"
                  by (simp add: defs g f p ref rd a ask b con conf True inv)
                then have "w5 = w'"
                  and r: "r = (case q of Inl e \<Rightarrow> Inl e | Inr res \<Rightarrow> Inr (annotateAutoApproval res (Some dec)))"
                  unfolding run by (cases q; simp)+
                from askGate_InrD [OF ask [unfolded b]] obtain wg
                  where ag: "h_gate h ?call w1 = (Inr dec, wg)" "trace w2 = trace wg" "spent w2 = spent wg" by blast
                note cd = Consume_InrD [OF con [unfolded conjunct1 [OF True]]]
                from conf True obtain current where cur: "h_gateCollectionReader h ref w3 = (Inr current, w4)"
                  "cs_Targets current = cs_Targets approved"
                  by (auto simp: confirmCollectionUnchanged_def sameTargets_eq split: sum.splits prod.splits if_splits)
                have s: "spent w4 = spent w3" "extends w3 w4"
                  using confirmCollection_steps [OF conf] by (auto simp: gate_steps_def intro: gate_steps_extends)
                have sp: "extends w w1" "extends wg w4" "d_cell dec \<notin> set (spent wg)"
                  "d_cell dec \<in> set (spent w4)" "d_cell dec \<in> set (spent w3)"
                  using s cd ag asked_gate_extends [OF s1] by (auto simp: extends_def)
                have "collection_authorized h evidence ctx name (decl entry) rawArgs w w4 dec"
                  unfolding collection_authorized_def
                  using f ref g p rd [unfolded a(1)] a(2) approves [OF ag(1)] sp cur by blast
                with s4 inv r \<open>w5 = w'\<close> show ?thesis by blast
              qed
            qed
          qed
        qed
      qed
    qed
  qed
qed

lemma callDeleteCollection_steps:
  assumes reg: "map_of (h_registry h) name = Some entry"
    and run: "callDeleteCollection h ctx name entry rawArgs w = (r, w')"
  shows "call_steps (declared_call h name (decl entry) rawArgs) w r w'"
  using callDeleteCollection_cases [OF run]
proof (elim disjE exE conjE)
  fix dec w4 q
  assume s: "asked_gate w w4" and inv: "invoke h ctx name entry rawArgs (noteGate dec w4) = (q, w')"
    and r: "r = (case q of Inl e \<Rightarrow> Inl e | Inr res \<Rightarrow> Inr (annotateAutoApproval res (Some dec)))"
  have "call_steps (declared_call h name (decl entry) rawArgs) w4 r w'"
    using invoke_call_steps [OF reg inv] by (cases q) (simp_all add: r call_steps_def)
  with call_steps_asked [OF s] show ?thesis by (rule call_steps_trans)
qed (auto intro: call_steps_asked)

section \<open>One call from end to end\<close>

lemma run_entry_steps:
  assumes reg: "map_of (h_registry h) name = Some entry"
    and run: "run_entry h ctx name entry rawArgs w = (r, w')"
  shows "call_steps (entry_call h name entry rawArgs) w r w'"
proof (cases "createBatch entry \<or> collectionGate entry")
  case True
  have "declared_call h name (decl entry) rawArgs = entry_call h name entry rawArgs" if "\<not> createBatch entry"
    using that by (simp add: entry_call_def fun_eq_iff)
  with True reg run show ?thesis
    by (cases "createBatch entry")
       (auto simp: run_entry_def intro: callCreateBatch_steps dest: callDeleteCollection_steps)
next
  case False
  then have may: "declared_call h name (decl entry) rawArgs = entry_call h name entry rawArgs"
    by (simp add: entry_call_def fun_eq_iff)
  obtain a w1 where au: "Authorize.authorize h ctx name (decl entry) rawArgs w = (a, w1)" by fastforce
  note s1 = call_steps_asked [OF authorize_steps [OF au]]
  show ?thesis
  proof (cases a)
    case Inl
    with False run au s1 show ?thesis by (auto simp: run_entry_def)
  next
    case (Inr ds)
    obtain dec st where ds: "ds = (dec, st)" by fastforce
    define w2 where "w2 = (case dec of None \<Rightarrow> w1 | Some d \<Rightarrow> noteGate d w1)"
    define ctx' where "ctx' = (case st of None \<Rightarrow> ctx | Some st \<Rightarrow> ctx\<lparr>cx_approved := Some st\<rparr>)"
    obtain q w3 where inv: "invoke h ctx' name entry rawArgs w2 = (q, w3)" by fastforce
    have "run_entry h ctx name entry rawArgs w =
        (case q of Inl e \<Rightarrow> (Inl e, w3) | Inr res \<Rightarrow> (Inr (annotateAutoApproval res dec), w3))"
      using False inv [unfolded w2_def ctx'_def] by (simp add: run_entry_def au Inr ds)
    then have "w3 = w'"
      and r: "r = (case q of Inl e \<Rightarrow> Inl e | Inr res \<Rightarrow> Inr (annotateAutoApproval res dec))"
      unfolding run by (cases q; simp)+
    have "call_steps (entry_call h name entry rawArgs) w2 r w'"
      using invoke_call_steps [OF reg inv] \<open>w3 = w'\<close> unfolding may by (cases q) (simp_all add: r call_steps_def)
    moreover have "call_steps (entry_call h name entry rawArgs) w r w2"
      using s1 by (cases dec) (simp_all add: w2_def)
    ultimately show ?thesis by (rule call_steps_trans [rotated])
  qed
qed

section \<open>The create batch\<close>

lemma document_authorized_earlier:
  "document_authorized h evidence ctx name d w1 w' doc dec \<Longrightarrow> extends w w1 \<Longrightarrow> document_authorized h evidence ctx name d w w' doc dec"
  unfolding document_authorized_def by (meson extends_trans)

lemma approve_documents_Inr:
  "approve_documents h ctx name d docs acc w = (Inr decs, w') \<Longrightarrow>
     distinct (map d_RequestID acc) \<Longrightarrow>
     \<exists>ds. decs = acc @ ds \<and> list_all2 (document_authorized h evidence ctx name d w w') docs ds \<and>
          distinct (map d_RequestID decs)"
proof (induction docs arbitrary: acc w)
  case (Cons doc docs)
  from Cons.prems(1) obtain pairs where g: "gatedPairs d (h_sensitiveKinds h) (doc_raw doc) = Inr pairs"
    by (cases "gatedPairs d (h_sensitiveKinds h) (doc_raw doc)") auto
  with Cons.prems(1) have pairs: "pairs = [doc_pair doc]"
    by (cases pairs) (auto split: if_splits)
  let ?call = "gate_call_of ctx name (doc_pair doc) (describe_document h name pairs doc)"
  obtain a w1 where ask: "askGate h ?call w = (a, w1)" by fastforce
  with Cons.prems(1) g obtain dec where a: "a = Inr dec"
    by (cases a) (auto split: if_splits)
  from Cons.prems(1) g ask a have dist: "distinct_approval acc dec"
    and rest: "approve_documents h ctx name d docs (acc @ [dec]) w1 = (Inr decs, w')"
    by (auto split: if_splits)
  have "distinct (map d_RequestID (acc @ [dec]))"
    using Cons.prems(2) dist by (auto simp: distinct_approval_def)
  from Cons.IH [OF rest this] obtain ds where ds: "decs = (acc @ [dec]) @ ds"
    "list_all2 (document_authorized h evidence ctx name d w1 w') docs ds" "distinct (map d_RequestID decs)" by blast
  from askGate_InrD [OF ask [unfolded a]] obtain wg
    where ag: "h_gate h ?call w = (Inr dec, wg)" "trace w1 = trace wg" by blast
  have "extends wg w'"
    using asked_gate_extends [OF approve_documents_steps [OF rest]] ag(2) by (simp add: extends_def)
  with approves [OF ag(1)] g pairs have "document_authorized h evidence ctx name d w w' doc dec"
    unfolding document_authorized_def using extends_refl by blast
  moreover have "extends w w1"
    by (rule asked_gate_extends [OF askGate_steps [OF ask quiet_describe_document]])
  then have "list_all2 (document_authorized h evidence ctx name d w w') docs ds"
    by (intro list_all2_mono [OF ds(2)]) (rule document_authorized_earlier)
  ultimately show ?case using ds(1,3) by (intro exI [of _ "dec # ds"]) simp
qed simp

lemma spends_Nil: "trace w' = trace w \<Longrightarrow> spent w' = spent w \<Longrightarrow> spends w [] w'"
  by (simp add: spends_def)

lemma spends_append:
  assumes "spends w xs w1" and "spends w1 ys w2"
  shows "spends w (xs @ ys) w2"
proof -
  obtain es fs where e: "trace w1 = trace w @ es" "trace w2 = trace w1 @ fs"
    and l: "length (filter tool_effect es) \<le> length xs" "length (filter tool_effect fs) \<le> length ys"
    using assms by (auto simp: spends_def)
  have "\<exists>gs. trace w2 = trace w @ gs \<and> length (filter tool_effect gs) \<le> length (xs @ ys)"
    using e l by (intro exI [of _ "es @ fs"]) simp
  moreover have "distinct (map d_cell (xs @ ys))"
    using assms by (fastforce simp: spends_def)
  ultimately show ?thesis using assms by (auto simp: spends_def)
qed

lemma execute_document_spends:
  assumes reg: "map_of (h_registry h) name = Some entry"
    and run: "execute_document h ctx name entry doc dec w = ((failure, attempted), w')"
  shows "spends w (if attempted then [dec] else []) w'"
proof (cases "cx_cancelled ctx w")
  case True
  with run show ?thesis by (auto simp: execute_document_def spends_Nil)
next
  case False
  obtain a w1 where c: "Consume dec w = (a, w1)" by fastforce
  show ?thesis
  proof (cases a)
    case Inl
    with False c run have "w' = w" "\<not> attempted"
      by (auto simp: execute_document_def Consume_def split: if_splits)
    then show ?thesis by (simp add: spends_Nil)
  next
    case (Inr u)
    obtain b w2 where i: "invoke h ctx name entry (doc_raw doc) (noteGate dec w1) = (b, w2)" by fastforce
    have "w' = w2" "attempted" using False c Inr i run by (auto simp: execute_document_def split: sum.splits)
    have hs: "handler_steps (declared_call h name (decl entry) (doc_raw doc)) (noteGate dec w1) b w2"
      by (rule invoke_steps [OF reg i])
    have "(\<exists>es. trace w2 = trace w1 @ es \<and> length (filter tool_effect es) \<le> 1) \<and> spent w2 = spent w1"
      using hs by (cases b) (auto simp: handler_steps_def)
    moreover have "spent w1 = d_cell dec # spent w" "trace w1 = trace w" "d_cell dec \<notin> set (spent w)"
      using c Inr by (auto simp: Consume_def split: if_splits)
    ultimately show ?thesis using \<open>w' = w2\<close> \<open>attempted\<close> by (auto simp: spends_def)
  qed
qed

lemma execute_documents_spends:
  assumes reg: "map_of (h_registry h) name = Some entry"
  shows "execute_documents h ctx name entry ds w = (out, w') \<Longrightarrow>
     spends w (b_executed out) w' \<and> set (b_executed out) \<subseteq> snd ` set ds \<and>
     map fst ds = b_created out @ (case b_failed out of None \<Rightarrow> [] | Some (doc, _) \<Rightarrow> [doc]) @ b_unattempted out"
proof (induction ds arbitrary: w out w')
  case Nil
  then show ?case by (auto simp: spends_Nil)
next
  case (Cons p ds)
  obtain doc dec where p: "p = (doc, dec)" by fastforce
  obtain failure attempted w1 where e: "execute_document h ctx name entry doc dec w = ((failure, attempted), w1)"
    by (metis prod.exhaust)
  note s1 = execute_document_spends [OF reg e]
  obtain out' w2 where r: "execute_documents h ctx name entry ds w1 = (out', w2)" by fastforce
  note s2 = Cons.IH [OF r]
  show ?case
  proof (cases "\<exists>c msg. failure = Some (c # msg)")
    case True
    with Cons.prems p e s1 show ?thesis by (auto split: if_splits)
  next
    case False
    have "execute_documents h ctx name entry (p # ds) w =
        (out'\<lparr>b_created := doc # b_created out', b_executed := (if attempted then [dec] else []) @ b_executed out'\<rparr>, w2)"
      using False p e r by (auto split: option.splits list.splits)
    with Cons.prems have out: "w' = w2"
      "out = out'\<lparr>b_created := doc # b_created out', b_executed := (if attempted then [dec] else []) @ b_executed out'\<rparr>"
      by simp_all
    with s2 spends_append [OF s1 conjunct1 [OF s2]] p show ?thesis by (auto split: if_splits)
  qed
qed

section \<open>The paths of toolsCall\<close>

lemma invoke_grows:
  assumes "map_of (h_registry h) name = Some entry" and "invoke h ctx name entry rawArgs w = (q, w')"
  shows "spent w' = spent w \<and> extends w w'"
  using invoke_steps [OF assms] by (cases q) (auto simp: handler_steps_def extends_def)

lemma run_entry_single:
  assumes path: "\<not> createBatch entry" "\<not> collectionGate entry"
    and reg: "map_of (h_registry h) name = Some entry"
    and run: "run_entry h ctx name entry rawArgs w = (r, w')"
  shows "asked_gate w w' \<or> gatedPairs (decl entry) (h_sensitiveKinds h) rawArgs = Inr [] \<or>
     (\<exists>dec st w1. authorized h evidence ctx name (decl entry) rawArgs w w1 dec st \<and>
        d_cell dec \<in> set (spent w') \<and> extends w1 w' \<and> asked_gate w w1 \<and>
        (\<exists>q. invoke h (case st of None \<Rightarrow> ctx | Some st \<Rightarrow> ctx\<lparr>cx_approved := Some st\<rparr>) name entry rawArgs
           (noteGate dec w1) = (q, w')))"
proof -
  obtain a w1 where au: "Authorize.authorize h ctx name (decl entry) rawArgs w = (a, w1)" by fastforce
  show ?thesis
  proof (cases a)
    case Inl
    with path run au authorize_steps [OF au] show ?thesis by (auto simp: run_entry_def)
  next
    case (Inr ds)
    obtain decs st where ds: "ds = (decs, st)" by fastforce
    show ?thesis
    proof (cases decs)
      case None
      with au Inr ds authorize_ungated show ?thesis by blast
    next
      case (Some dec)
      obtain q w3 where inv: "invoke h (case st of None \<Rightarrow> ctx | Some st \<Rightarrow> ctx\<lparr>cx_approved := Some st\<rparr>) name entry
          rawArgs (noteGate dec w1) = (q, w3)" by fastforce
      have "run_entry h ctx name entry rawArgs w =
          (case q of Inl e \<Rightarrow> (Inl e, w3) | Inr res \<Rightarrow> (Inr (annotateAutoApproval res (Some dec)), w3))"
        using path inv by (simp add: run_entry_def au Inr ds Some)
      then have "w3 = w'" unfolding run by (cases q) simp_all
      have auth: "authorized h evidence ctx name (decl entry) rawArgs w w1 dec st"
        using au by (intro authorize_Inr) (simp add: Inr ds Some)
      then have "d_cell dec \<in> set (spent w1)" by (auto simp: authorized_def)
      with auth authorize_steps [OF au] invoke_grows [OF reg inv] inv \<open>w3 = w'\<close> show ?thesis by auto
    qed
  qed
qed

lemma callCreateBatch_cases:
  assumes reg: "map_of (h_registry h) name = Some entry"
    and run: "callCreateBatch h ctx name entry rawArgs w = (r, w')"
  shows "asked_gate w w' \<or>
     (\<exists>docs decs out w1.
        parseCreateDocuments (h_am h) rawArgs = Inr docs \<and> asked_gate w w1 \<and>
        list_all2 (document_authorized h evidence ctx name (decl entry) w w1) docs decs \<and>
        distinct (map d_RequestID decs) \<and>
        execute_documents h ctx name entry (zip docs decs) w1 = (out, w') \<and> r = Inr (batch_result out))"
proof (cases "parseCreateDocuments (h_am h) rawArgs")
  case Inl
  with run show ?thesis by (auto simp: callCreateBatch_def)
next
  case docs: (Inr docs)
  obtain a w1 where ap: "approve_documents h ctx name (decl entry) docs [] w = (a, w1)" by fastforce
  note s1 = approve_documents_steps [OF ap]
  show ?thesis
  proof (cases a)
    case Inl
    with run docs ap s1 show ?thesis by (auto simp: callCreateBatch_def)
  next
    case (Inr decs)
    obtain out w2 where ex: "execute_documents h ctx name entry (zip docs decs) w1 = (out, w2)" by fastforce
    from run docs ap Inr ex have "r = Inr (batch_result out)" "w2 = w'" by (simp_all add: callCreateBatch_def)
    with approve_documents_Inr [OF ap [unfolded Inr]] docs s1 ex show ?thesis by auto
  qed
qed

lemma call_body_cases:
  assumes "call_body h ctx params w = (nt, r, w')"
  shows "(w' = w \<and> (\<exists>e. r = Inl e)) \<or>
     (\<exists>entry ctx' rawArgs. Allows ctx (called_tool params) \<and>
        map_of (h_registry h) (called_tool params) = Some entry \<and>
        take_reason h ctx (called_tool params) (decl entry) (extractArguments params) = Inr (ctx', rawArgs) \<and>
        nt = (called_tool params, call_target (decl entry) rawArgs) \<and>
        run_entry h ctx' (called_tool params) entry rawArgs w = (r, w'))"
  using assms
  by (auto simp: call_body_def called_tool_def string_or_empty_def
      split: option.splits json.splits if_splits sum.splits prod.splits)

lemma call_body_runs:
  assumes "call_body h ctx params w = (nt, r, w')" and "w' \<noteq> w"
  obtains entry ctx' rawArgs where "Allows ctx (called_tool params)"
    and "map_of (h_registry h) (called_tool params) = Some entry"
    and "take_reason h ctx (called_tool params) (decl entry) (extractArguments params) = Inr (ctx', rawArgs)"
    and "run_entry h ctx' (called_tool params) entry rawArgs w = (r, w')"
  using call_body_cases [OF assms(1)] assms(2) that by auto

lemma call_body_steps:
  "call_body h ctx params w = (nt, r, w') \<Longrightarrow> \<exists>may. call_steps may w r w'"
  using call_body_cases run_entry_steps by (metis call_steps_refl)

text \<open>
  Every call leaves exactly one record, after all its effects. The record is well formed, and a
  JSON-RPC error is recorded as a refusal and comes without any call of the tool.
\<close>

lemma toolsCall_record:
  assumes "toolsCall h ctx params w = (r, w')"
  shows "\<exists>es record. trace w' = trace w @ es @ [Emitted record] \<and>
     list_all (\<lambda>x. \<forall>rec. x \<noteq> Emitted rec) es \<and> well_formed_record record \<and>
     Principal record = cx_principal ctx \<and>
     (\<forall>e. r = Inl e \<longrightarrow> Result record = ResultRefused \<and> list_all (\<lambda>x. \<not> tool_effect x) es)"
proof -
  obtain nt q w1 where b: "call_body h ctx params (w\<lparr>callnote := fresh_note\<rparr>) = (nt, q, w1)"
    by (metis prod.exhaust)
  with assms have r: "q = r" and w': "w' = log_effect (Emitted (call_record ctx nt r (clock w) w1)) w1"
    by (auto simp: toolsCall_def)
  from call_body_steps [OF b] obtain may where "call_steps may (w\<lparr>callnote := fresh_note\<rparr>) r w1"
    unfolding r by blast
  then obtain es where es: "trace w1 = trace w @ es"
    "list_all (\<lambda>x. gate_effect x \<or> ((\<exists>a. r = Inr a) \<and> allowed_effect may x)) es"
    by (auto simp: call_steps_def)
  have "list_all (\<lambda>x. \<forall>rec. x \<noteq> Emitted rec) es"
    using es(2) by (auto simp: list_all_iff allowed_effect_def)
  moreover have "r = Inl e \<Longrightarrow> list_all (\<lambda>x. \<not> tool_effect x) es" for e
    using es(2) by (auto simp: list_all_iff dest: gate_effect_not_tool)
  moreover have "well_formed_record (call_record ctx nt r (clock w) w1)"
    "Principal (call_record ctx nt r (clock w) w1) = cx_principal ctx"
    "r = Inl e \<Longrightarrow> Result (call_record ctx nt r (clock w) w1) = ResultRefused" for e
    by (auto simp: call_record_def outcome_def well_formed_record_def split: sum.splits)
  ultimately show ?thesis using w' es(1) by auto
qed

end

end
