(* ===== verification/RegistryProps.thy ===== *)
theory RegistryProps
  imports DispatchProps
begin

text \<open>
  The dispatcher over the registry the server ships: which pair each tool resolves, and that a call
  which needs approval is made only with one.
\<close>

section \<open>Each tool resolves one pair\<close>

definition single :: "(raw \<Rightarrow> string + rbac_pair list) \<Rightarrow> bool" where
  "single f \<longleftrightarrow> (\<forall>r ps. f r = Inr ps \<longrightarrow> (\<exists>p. ps = [p]))"

lemma single_genericPairs [simp]: "single (genericPairs am verb)"
  by (auto simp: single_def genericPairs_Inr)

lemma single_resolvers [simp]:
  "single (updatePairs am)" "single (deletePairs am)" "single (deleteCollectionPairs am)"
  "single (execPairs am)" "single (attachPairs am)" "single (portForwardPairs am)" "single (proxyPairs am)"
  by (auto simp: single_def resolver_defs checked_Inr genericPairs_Inr proxyPairs_Inr)

lemma declared_single:
  "is_declared am name d \<Longrightarrow> name \<noteq> ''resource_create'' \<Longrightarrow> resolve d = Some f \<Longrightarrow> single f"
  using is_declared_all [where P = "\<lambda>n d. n \<noteq> ''resource_create'' \<longrightarrow> (case resolve d of None \<Rightarrow> True | Some f \<Rightarrow> single f)"]
  by (force simp: declared_defs)

lemma declared_static:
  "is_declared am name d \<Longrightarrow> resolve d = None \<Longrightarrow> td_pairs d \<noteq> [] \<Longrightarrow> name = ''dear_baby_reset_user''"
  using is_declared_all [where P = "\<lambda>n d. resolve d = None \<longrightarrow> td_pairs d \<noteq> [] \<longrightarrow> n = ''dear_baby_reset_user''"]
  by (force simp: declared_defs)

lemma toolRegistry_flags:
  assumes "map_of (toolRegistry am) name = Some entry"
  shows "createBatch entry \<longleftrightarrow> name = ''resource_create''"
    and "collectionGate entry \<longleftrightarrow> name = ''resource_delete_collection''"
    and "name = ''resource_create'' \<Longrightarrow> resolve (decl entry) = Some (createPairs am)"
proof -
  let ?P = "\<lambda>(n, e). (createBatch e \<longleftrightarrow> n = ''resource_create'') \<and>
      (collectionGate e \<longleftrightarrow> n = ''resource_delete_collection'') \<and>
      (n = ''resource_create'' \<longrightarrow> resolve (decl e) = Some (createPairs am))"
  have "list_all ?P (toolRegistry am)"
    by (simp add: toolRegistry_def declared_defs)
  then have "?P (name, entry)"
    using map_of_SomeD [OF assms] unfolding list_all_iff by (rule bspec)
  then show "createBatch entry \<longleftrightarrow> name = ''resource_create''"
    and "collectionGate entry \<longleftrightarrow> name = ''resource_delete_collection''"
    and "name = ''resource_create'' \<Longrightarrow> resolve (decl entry) = Some (createPairs am)"
    unfolding prod.case by (blast+)
qed

section \<open>A permitted call exercises declared pairs\<close>

lemma declared_call_pairs:
  assumes "declared_call h name d rawArgs k" and "exercises (h_am h) k = Some ps"
  shows "\<exists>qs. callPairs d rawArgs = Inr qs \<and> set ps \<subseteq> set qs \<and> noResourcePermission d = None"
proof -
  from assms obtain c where c: "confine name d rawArgs = Inr c" "permits (h_am h) c k"
    by (auto simp: declared_call_def)
  have "ps \<noteq> []" using assms(2) by (cases k) (auto simp: named_def split: sum.splits)
  have "set ps \<subseteq> set (cf_allowed c)"
    using c(2) assms(2) by (cases k) (auto simp: permits_def)
  moreover from this \<open>ps \<noteq> []\<close> have "cf_allowed c \<noteq> []" by auto
  ultimately show ?thesis
    using c(1) by (auto simp: confine_def bind_sum_Inr_iff split: option.splits)
qed

text \<open>A call that is neither discovery nor unnamed exercises some pair.\<close>

lemma declared_call_discovery:
  assumes "declared_call h name d rawArgs k" and "exercises (h_am h) k = None"
  shows "k = CAPIResources \<and> (\<exists>m. noResourcePermission d = Some m \<and> np_kind m = discoveryOnly)"
proof -
  from assms obtain c where c: "confine name d rawArgs = Inr c" "permits (h_am h) c k"
    by (auto simp: declared_call_def)
  from c(2) assms(2) have "k = CAPIResources \<and> cf_discovery c" by (cases k) (auto simp: permits_def)
  with confine_Inr(2) [OF c(1)] show ?thesis by auto
qed

section \<open>Approval\<close>

lemma allowed_call: "list_all (\<lambda>x. gate_effect x \<or> allowed_effect may x) es \<Longrightarrow> K8sCall k \<in> set es \<Longrightarrow> may k"
  by (auto simp: list_all_iff allowed_effect_def dest!: bspec [where x = "K8sCall k"])

lemma asked_gate_no_call: "asked_gate w w' \<Longrightarrow> K8sCall k \<notin> set (new_effects w w')"
  by (auto simp: asked_gate_def new_effects_def list_all_iff dest!: bspec [where x = "K8sCall k"])

locale registry_dispatcher = gated_dispatch h evidence + bounded_services "h_services h" "\<lambda>_. True"
  for h :: mcp_handler and evidence +
  assumes registry: "h_registry h = toolRegistry (h_am h)"

sublocale registry_dispatcher \<subseteq> dispatcher
  by unfold_locales (simp add: registry sound_toolRegistry)

text \<open>
  In the course of \<open>w\<close> to \<open>w'\<close> the gate approved a call of the tool on the pair, and that approval is
  spent.
\<close>

definition approved_for ::
  "(gate_call \<Rightarrow> world \<Rightarrow> world \<Rightarrow> decision \<Rightarrow> bool) \<Rightarrow> string \<Rightarrow> rbac_pair \<Rightarrow> world \<Rightarrow> world \<Rightarrow> bool"
where
  "approved_for ev name p w w' \<longleftrightarrow>
     (\<exists>call w0 w1 dec. ev call w0 w1 dec \<and> gc_Tool call = name \<and> gc_Pair call = p \<and>
        extends w w0 \<and> extends w1 w' \<and> d_cell dec \<in> set (spent w'))"

lemma gate_call_of_simps [simp]:
  "gc_Tool (gate_call_of ctx name p f) = name" "gc_Pair (gate_call_of ctx name p f) = p"
  by (simp_all add: gate_call_of_def)

context registry_dispatcher
begin

lemma gated_pair:
  assumes "declared_call h name d rawArgs k" and "exercises (h_am h) k = Some ps" and "p \<in> set ps"
    and "pair_gated (h_sensitiveKinds h) p" and "outsideGate d = []"
    and "gatedPairs d (h_sensitiveKinds h) rawArgs = Inr gated"
  shows "p \<in> set gated"
  using declared_call_pairs [OF assms(1,2)] assms(3-6) gatedPairs_complete by blast

lemma run_entry_approved:
  assumes reg: "map_of (h_registry h) name = Some entry"
    and run: "run_entry h ctx name entry rawArgs w = (r, w')"
    and call: "K8sCall k \<in> set (new_effects w w')"
    and pair: "exercises (h_am h) k = Some ps" "p \<in> set ps" "pair_gated (h_sensitiveKinds h) p"
    and exempt: "name \<noteq> ''dear_baby_reset_user''"
  shows "approved_for evidence name p w w'"
proof -
  let ?d = "decl entry"
  note reg' = reg [unfolded registry]
  have decl: "is_declared (h_am h) name ?d" by (rule map_of_toolRegistry(1) [OF reg'])
  then have inside: "outsideGate ?d = []" using exempt by (simp add: declared_outsideGate)
  have busy: "\<not> asked_gate w w'"
    using asked_gate_no_call call by blast
  obtain es where es: "trace w' = trace w @ es"
    "list_all (\<lambda>x. gate_effect x \<or> ((\<exists>a. r = Inr a) \<and> allowed_effect (entry_call h name entry rawArgs) x)) es"
    using run_entry_steps [OF reg run] by (auto simp: call_steps_def)
  from call es have may: "entry_call h name entry rawArgs k"
    by (auto simp: new_effects_def list_all_iff allowed_effect_def)
  show ?thesis
  proof (cases "name = ''resource_create''")
    case True
    with toolRegistry_flags(1) [OF reg'] run have batch: "callCreateBatch h ctx name entry rawArgs w = (r, w')"
      by (simp add: run_entry_def)
    from callCreateBatch_cases [OF reg batch] busy obtain docs decs out w1 where s1: "asked_gate w w1"
      and docs: "list_all2 (document_authorized h evidence ctx name ?d w w1) docs decs"
      and ex: "execute_documents h ctx name entry (zip docs decs) w1 = (out, w')" by blast
    from execute_documents_steps [OF reg ex, of "()"] obtain fs where "trace w' = trace w1 @ fs"
      and fs: "list_all (\<lambda>x. gate_effect x \<or> allowed_effect (\<lambda>k. \<exists>doc dec. (doc, dec) \<in> set (zip docs decs) \<and>
        dec \<in> set (b_executed out) \<and> declared_call h name ?d (doc_raw doc) k) x) fs"
      by (auto simp: call_steps_def)
    moreover have "K8sCall k \<notin> set (drop (length (trace w)) (trace w1))"
      using asked_gate_no_call [OF s1] by (simp add: new_effects_def)
    ultimately have "K8sCall k \<in> set fs"
      using call s1 by (auto simp: new_effects_def asked_gate_def)
    with fs obtain doc dec where dd: "(doc, dec) \<in> set (zip docs decs)" "dec \<in> set (b_executed out)"
      "declared_call h name ?d (doc_raw doc) k"
      using allowed_call [OF fs] by blast
    from dd(1) docs have da: "document_authorized h evidence ctx name ?d w w1 doc dec"
      by (auto simp: set_zip list_all2_conv_all_nth)
    then have "p = doc_pair doc"
      using gated_pair [OF dd(3) pair inside] by (auto simp: document_authorized_def)
    moreover have "d_cell dec \<in> set (spent w')" "extends w1 w'"
      using execute_documents_spends [OF reg ex] dd(2) by (auto simp: spends_def extends_def)
    ultimately show ?thesis
      using da unfolding approved_for_def document_authorized_def
      by (meson extends_trans gate_call_of_simps)
  next
    case False
    with toolRegistry_flags(1) [OF reg'] have nb: "\<not> createBatch entry" by simp
    with may have dc: "declared_call h name ?d rawArgs k" by (simp add: entry_call_def)
    note gp = gated_pair [OF dc pair inside]
    show ?thesis
    proof (cases "collectionGate entry")
      case True
      with nb run have coll: "callDeleteCollection h ctx name entry rawArgs w = (r, w')"
        by (simp add: run_entry_def)
      from callDeleteCollection_cases [OF coll] busy obtain dec w4 q
        where ca: "collection_authorized h evidence ctx name ?d rawArgs w w4 dec"
          and inv: "invoke h ctx name entry rawArgs (noteGate dec w4) = (q, w')" by blast
      from invoke_grows [OF reg inv] have g: "spent w' = spent w4" "extends w4 w'" by simp_all
      from ca obtain p' f w0 w1 where "gatedPairs ?d (h_sensitiveKinds h) rawArgs = Inr [p']"
        and ev: "evidence (gate_call_of ctx name p' f) w0 w1 dec" "extends w w0" "extends w1 w4" "d_cell dec \<in> set (spent w4)"
        unfolding collection_authorized_def by blast
      with gp have "p' = p" by auto
      with ev g show ?thesis
        unfolding approved_for_def by (metis extends_trans gate_call_of_simps)
    next
      case nc: False
      have ne: "gatedPairs ?d (h_sensitiveKinds h) rawArgs \<noteq> Inr []" using gp by fastforce
      from run_entry_single [OF nb nc reg run] busy ne obtain dec st w1
        where au: "authorized h evidence ctx name ?d rawArgs w w1 dec st" and sp: "d_cell dec \<in> set (spent w')" "extends w1 w'"
        by blast
      from au obtain gated w0 wg where g: "gatedPairs ?d (h_sensitiveKinds h) rawArgs = Inr gated"
        and ev: "evidence (gate_call_of ctx name (hd gated) (describe_target h name ?d gated rawArgs)) w0 wg dec"
          "extends w w0" "extends wg w1"
        unfolding authorized_def by blast
      from declared_call_pairs [OF dc pair(1)] obtain qs where qs: "callPairs ?d rawArgs = Inr qs" by blast
      have "\<exists>q. qs = [q]"
      proof (cases "resolve ?d")
        case None
        have "qs \<noteq> []" using declared_call_pairs [OF dc pair(1)] qs pair(2) by fastforce
        with None qs have "td_pairs ?d \<noteq> []" by (auto simp: callPairs_def split: option.splits)
        with declared_static [OF decl None] exempt show ?thesis by blast
      next
        case (Some f)
        with declared_single [OF decl False Some] qs show ?thesis by (auto simp: single_def callPairs_def)
      qed
      with gatedPairs_subset [OF g qs] gp [OF g] have "hd gated = p"
        by (cases gated) auto
      with ev sp show ?thesis
        unfolding approved_for_def by (metis extends_trans gate_call_of_simps)
    qed
  qed
qed

text \<open>The same for the whole call: the name is the one the caller gave.\<close>

lemma toolsCall_approved:
  assumes run: "toolsCall h ctx params w = (r, w')"
    and call: "K8sCall k \<in> set (new_effects w w')"
    and pair: "exercises (h_am h) k = Some ps" "p \<in> set ps" "pair_gated (h_sensitiveKinds h) p"
  shows "Allows ctx (called_tool params) \<and>
    (called_tool params = ''dear_baby_reset_user'' \<or> approved_for evidence (called_tool params) p w w')"
proof -
  let ?w0 = "w\<lparr>callnote := fresh_note\<rparr>"
  obtain nt q w1 where b: "call_body h ctx params ?w0 = (nt, q, w1)" by (metis prod.exhaust)
  with run have w': "w' = log_effect (Emitted (call_record ctx nt r (clock w) w1)) w1"
    by (auto simp: toolsCall_def)
  obtain may where "call_steps may ?w0 q w1" using call_body_steps [OF b] by blast
  then obtain es where es: "trace w1 = trace w @ es" by (auto simp: call_steps_def)
  have call1: "K8sCall k \<in> set (new_effects ?w0 w1)"
    using call es by (simp add: w' new_effects_def)
  then have "w1 \<noteq> ?w0" by (auto simp: new_effects_def)
  with b obtain entry ctx' rawArgs where a: "Allows ctx (called_tool params)"
    and reg: "map_of (h_registry h) (called_tool params) = Some entry"
    and re: "run_entry h ctx' (called_tool params) entry rawArgs ?w0 = (q, w1)" by (rule call_body_runs)
  show ?thesis
  proof (cases "called_tool params = ''dear_baby_reset_user''")
    case False
    from run_entry_approved [OF reg re call1 pair False] have "approved_for evidence (called_tool params) p w w1"
      by (simp add: approved_for_def)
    then have "approved_for evidence (called_tool params) p w w'"
      unfolding approved_for_def w' log_effect_simps using extends_trans [OF _ extends_log] by blast
    with a show ?thesis by blast
  qed (use a in simp)
qed

text \<open>
  A call the entry lets through exercises pairs its declaration resolves for the arguments. For a
  batch, each document resolves one of the pairs of the whole.
\<close>

lemma entry_call_pairs:
  assumes reg: "map_of (h_registry h) name = Some entry"
    and may: "entry_call h name entry rawArgs k" and ex: "exercises (h_am h) k = Some ps"
  shows "\<exists>qs. callPairs (decl entry) rawArgs = Inr qs \<and> set ps \<subseteq> set qs"
proof (cases "createBatch entry")
  case False
  with may have "declared_call h name (decl entry) rawArgs k" by (simp add: entry_call_def)
  from declared_call_pairs [OF this ex] show ?thesis by blast
next
  case True
  note reg' = reg [unfolded registry]
  have res: "resolve (decl entry) = Some (createPairs (h_am h))"
    using toolRegistry_flags(1,3) [OF reg'] True by blast
  from True may obtain docs doc where docs: "parseCreateDocuments (h_am h) rawArgs = Inr docs" "doc \<in> set docs"
    and dc: "declared_call h name (decl entry) (doc_raw doc) k"
    by (auto simp: entry_call_def)
  have "callPairs (decl entry) (doc_raw doc) = Inr [doc_pair doc]"
    using parseCreateDocuments_single [OF docs] by (simp add: callPairs_def res createPairs_def)
  with declared_call_pairs [OF dc ex] have "set ps \<subseteq> {doc_pair doc}" by auto
  moreover have "callPairs (decl entry) rawArgs = Inr (map doc_pair docs)"
    using docs by (simp add: callPairs_def res createPairs_def)
  ultimately show ?thesis using docs(2) by auto
qed

text \<open>The same for the whole call, over the arguments without their reason.\<close>

lemma toolsCall_declared:
  assumes run: "toolsCall h ctx params w = (r, w')"
    and call: "K8sCall k \<in> set (new_effects w w')"
  shows "\<exists>entry ctx' rawArgs. map_of (h_registry h) (called_tool params) = Some entry \<and>
     take_reason h ctx (called_tool params) (decl entry) (extractArguments params) = Inr (ctx', rawArgs) \<and>
     entry_call h (called_tool params) entry rawArgs k"
proof -
  let ?w0 = "w\<lparr>callnote := fresh_note\<rparr>"
  obtain nt q w1 where b: "call_body h ctx params ?w0 = (nt, q, w1)" by (metis prod.exhaust)
  with run have w': "w' = log_effect (Emitted (call_record ctx nt r (clock w) w1)) w1"
    by (auto simp: toolsCall_def)
  obtain may where "call_steps may ?w0 q w1" using call_body_steps [OF b] by blast
  then obtain es where es: "trace w1 = trace w @ es" by (auto simp: call_steps_def)
  with call have call1: "K8sCall k \<in> set es" by (simp add: w' new_effects_def)
  then have "w1 \<noteq> ?w0" using es by auto
  with b obtain entry ctx' rawArgs where reg: "map_of (h_registry h) (called_tool params) = Some entry"
    and tr: "take_reason h ctx (called_tool params) (decl entry) (extractArguments params) = Inr (ctx', rawArgs)"
    and re: "run_entry h ctx' (called_tool params) entry rawArgs ?w0 = (q, w1)" by (rule call_body_runs)
  from run_entry_steps [OF reg re] es
  have "list_all (\<lambda>x. gate_effect x \<or> ((\<exists>a. q = Inr a) \<and> allowed_effect (entry_call h (called_tool params) entry rawArgs) x)) es"
    by (auto simp: call_steps_def)
  then have "list_all (\<lambda>x. gate_effect x \<or> allowed_effect (entry_call h (called_tool params) entry rawArgs) x) es"
    by (auto simp: list_all_iff)
  with allowed_call [OF _ call1] reg tr show ?thesis by blast
qed

end

end
