(* ===== verification/GoURL.thy ===== *)
theory GoURL
  imports GoBase
begin

text \<open>
  What the code uses of net/url: escaping of a path segment and of a query value, what the receiver
  makes of a segment, and the scheme and host of a text that \<open>url.Parse\<close> accepts. An IPv6 zone is
  read like the rest of its host.
\<close>

section \<open>Escaping\<close>

text \<open>
  \<open>url.PathEscape\<close> keeps the unreserved characters and those RFC 3986 lets stand in a segment;
  \<open>url.QueryEscape\<close> keeps the unreserved ones and writes a space as a plus.
\<close>

definition unreserved :: "char \<Rightarrow> bool" where
  "unreserved c \<longleftrightarrow>
     (let n = (of_char c :: nat) in
      97 \<le> n \<and> n \<le> 122 \<or> 65 \<le> n \<and> n \<le> 90 \<or> 48 \<le> n \<and> n \<le> 57 \<or> c \<in> set ''-_.~'')"

definition upper_hex :: "nat \<Rightarrow> char" where
  "upper_hex n = (if n < 10 then char_of (48 + n) else char_of (55 + n))"

definition percent :: "char \<Rightarrow> string" where
  "percent c = [CHR ''%'', upper_hex (of_char c div 16), upper_hex (of_char c mod 16)]"

definition path_char :: "char \<Rightarrow> string" where
  "path_char c = (if unreserved c \<or> c \<in> set ''$&+:=@'' then [c] else percent c)"

definition PathEscape :: "string \<Rightarrow> string" where
  "PathEscape s = concat (map path_char s)"

definition QueryEscape :: "string \<Rightarrow> string" where
  "QueryEscape s = concat (map (\<lambda>c. if c = CHR '' '' then ''+'' else if unreserved c then [c] else percent c) s)"

definition hex_of :: "char \<Rightarrow> nat option" where
  "hex_of c =
     (let n = (of_char c :: nat) in
      if 48 \<le> n \<and> n \<le> 57 then Some (n - 48)
      else if 65 \<le> n \<and> n \<le> 70 then Some (n - 55)
      else if 97 \<le> n \<and> n \<le> 102 then Some (n - 87) else None)"

text \<open>\<open>url.PathUnescape\<close>, what the receiver of a segment does.\<close>

fun PathUnescape :: "string \<Rightarrow> string option" where
  "PathUnescape [] = Some []"
| "PathUnescape (c # s) =
     (if c = CHR ''%'' then
        (case s of
           a # b # r \<Rightarrow>
             (case (hex_of a, hex_of b, PathUnescape r) of
                (Some x, Some y, Some t) \<Rightarrow> Some (char_of (16 * x + y) # t)
              | _ \<Rightarrow> None)
         | _ \<Rightarrow> None)
      else map_option (Cons c) (PathUnescape s))"

lemma hex_of_upper_hex: "n < 16 \<Longrightarrow> hex_of (upper_hex n) = Some n"
  by (auto simp: hex_of_def upper_hex_def Let_def)

lemma hex_halves: "(of_char c :: nat) div 16 < 16 \<and> (of_char c :: nat) mod 16 < 16"
proof -
  have "(of_char c :: nat) < 256" by (simp add: of_char_def)
  then show ?thesis by (simp add: less_mult_imp_div_less)
qed

lemma PathUnescape_percent: "PathUnescape (percent c @ s) = map_option (Cons c) (PathUnescape s)"
proof -
  have "hex_of (upper_hex (of_char c div 16)) = Some (of_char c div 16)"
    "hex_of (upper_hex (of_char c mod 16)) = Some (of_char c mod 16)" using hex_halves by (simp_all add: hex_of_upper_hex)
  moreover have "char_of (16 * (of_char c div 16) + of_char c mod 16 :: nat) = c" by simp
  ultimately show ?thesis by (auto simp: percent_def split: option.split)
qed

lemma PathUnescape_escape: "PathUnescape (PathEscape s) = Some s"
proof (induction s)
  case (Cons c s)
  have cons: "PathEscape (c # s) = path_char c @ PathEscape s" by (simp add: PathEscape_def)
  show ?case
  proof (cases "unreserved c \<or> c \<in> set ''$&+:=@''")
    case True
    then have "c \<noteq> CHR ''%''" by (auto simp: unreserved_def)
    with True Cons show ?thesis by (simp add: cons path_char_def)
  next
    case False
    then have "path_char c = percent c" by (simp add: path_char_def)
    then show ?thesis using Cons by (simp add: cons PathUnescape_percent)
  qed
qed (simp add: PathEscape_def)

lemma upper_hex_plain: "n < 16 \<Longrightarrow> upper_hex n \<notin> set ''/?#''"
proof -
  have "\<forall>n\<in>set [0..<16]. upper_hex n \<notin> set ''/?#''" by code_simp
  then show "n < 16 \<Longrightarrow> upper_hex n \<notin> set ''/?#''" by simp
qed

text \<open>An escaped text stays within its segment.\<close>

lemma PathEscape_segment: "set (PathEscape s) \<inter> set ''/?#'' = {}"
proof -
  have "set (path_char c) \<inter> set ''/?#'' = {}" for c
  proof -
    from upper_hex_plain [OF conjunct1 [OF hex_halves [of c]]] upper_hex_plain [OF conjunct2 [OF hex_halves [of c]]]
    show ?thesis by (auto simp: path_char_def percent_def unreserved_def)
  qed
  then show ?thesis by (simp only: PathEscape_def set_concat set_map) blast
qed

section \<open>Parsing\<close>

text \<open>
  The checks of \<open>unescape\<close>: every percent sign starts an escape; in a host, an escape stands for a byte
  that is not ASCII or for the percent sign, and other bytes are those a host may have.
\<close>

definition host_char :: "char \<Rightarrow> bool" where
  "host_char c \<longleftrightarrow> unreserved c \<or> c \<in> set ''!$&()*+,;=:[]<>'' \<or> c = CHR 0x27 \<or> c = CHR 0x22 \<or> 128 \<le> (of_char c :: nat)"

fun escapes_ok :: "bool \<Rightarrow> string \<Rightarrow> bool" where
  "escapes_ok host [] \<longleftrightarrow> True"
| "escapes_ok host (c # s) \<longleftrightarrow>
     (if c = CHR ''%'' then
        (case s of
           a # b # r \<Rightarrow>
             (case (hex_of a, hex_of b) of
                (Some x, Some y) \<Rightarrow> (host \<longrightarrow> 8 \<le> x \<or> x = 2 \<and> y = 5) \<and> escapes_ok host r
              | _ \<Rightarrow> False)
         | _ \<Rightarrow> False)
      else (host \<longrightarrow> host_char c) \<and> escapes_ok host s)"

text \<open>\<open>getScheme\<close>: the text before the first colon when it reads like a scheme.\<close>

definition letter :: "char \<Rightarrow> bool" where
  "letter c \<longleftrightarrow> (let n = (of_char c :: nat) in 97 \<le> n \<and> n \<le> 122 \<or> 65 \<le> n \<and> n \<le> 90)"

definition getScheme :: "string \<Rightarrow> (string \<times> string) option" where
  "getScheme s =
     (case cut (CHR '':'') s of
        None \<Rightarrow> Some ([], s)
      | Some (p, r) \<Rightarrow>
          if p = [] then None
          else if letter (hd p) \<and> list_all (\<lambda>c. letter c \<or> is_digit c \<or> c \<in> set ''+-.'') p then Some (p, r)
          else Some ([], s))"

definition valid_port :: "string \<Rightarrow> bool" where
  "valid_port s \<longleftrightarrow> s = [] \<or> hd s = CHR '':'' \<and> list_all is_digit (tl s)"

text \<open>\<open>parseHost\<close>.\<close>

definition host_ok :: "string \<Rightarrow> bool" where
  "host_ok h \<longleftrightarrow>
     (if has_prefix h ''['' then CHR '']'' \<in> set h \<and> valid_port (after_last (CHR '']'') h)
      else (CHR '':'' \<in> set h \<longrightarrow> valid_port (CHR '':'' # after_last (CHR '':'') h)))
     \<and> escapes_ok True h"

text \<open>\<open>parseAuthority\<close>: the host stands after the last at-sign.\<close>

definition userinfo_ok :: "string \<Rightarrow> bool" where
  "userinfo_ok u \<longleftrightarrow>
     list_all (\<lambda>c. letter c \<or> is_digit c \<or> c \<in> set ''-._:~!$&()*+,;=%@'' \<or> c = CHR 0x27) u \<and> escapes_ok False u"

definition parseAuthority :: "string \<Rightarrow> string option" where
  "parseAuthority a =
     (case before_last (CHR ''@'') a of
        None \<Rightarrow> if host_ok a then Some a else None
      | Some user \<Rightarrow>
          (let host = after_last (CHR ''@'') a in if host_ok host \<and> userinfo_ok user then Some host else None))"

definition before_char :: "char \<Rightarrow> string \<Rightarrow> string" where
  "before_char c s = (case cut c s of None \<Rightarrow> s | Some (p, _) \<Rightarrow> p)"

definition url_Parse :: "string \<Rightarrow> (string \<times> string) option" where
  "url_Parse raw =
     (let u = before_char (CHR ''#'') raw;
          fragment = (case cut (CHR ''#'') raw of None \<Rightarrow> [] | Some (_, f) \<Rightarrow> f) in
      if list_ex (\<lambda>c. (of_char c :: nat) < 32 \<or> (of_char c :: nat) = 127) u \<or> \<not> escapes_ok False fragment then None
      else if u = ''*'' then Some ([], [])
      else
        (case getScheme u of
           None \<Rightarrow> None
         | Some (scheme0, rest0) \<Rightarrow>
             (let scheme = to_lower scheme0; rest = before_char (CHR ''?'') rest0 in
              if \<not> has_prefix rest ''/'' \<and> scheme \<noteq> [] then Some (scheme, [])
              else if \<not> has_prefix rest ''/'' \<and> CHR '':'' \<in> set (before_char (CHR ''/'') rest) then None
              else if has_prefix rest ''//'' \<and> (scheme \<noteq> [] \<or> \<not> has_prefix rest ''///'') then
                (let authority = before_char (CHR ''/'') (drop 2 rest);
                     path = drop (2 + length authority) rest in
                 if escapes_ok False path then map_option (Pair scheme) (parseAuthority authority) else None)
              else if escapes_ok False rest then Some (scheme, []) else None)))"

definition absolute_http :: "string \<Rightarrow> bool" where
  "absolute_http raw \<longleftrightarrow>
     (case url_Parse raw of None \<Rightarrow> False | Some (scheme, host) \<Rightarrow> scheme = ''http'' \<or> scheme = ''https'')"

text \<open>\<open>err != nil || (u.Scheme != "http" && u.Scheme != "https") || u.Host == ""\<close> is the refusal.\<close>

definition http_base :: "string \<Rightarrow> bool" where
  "http_base raw \<longleftrightarrow>
     (case url_Parse raw of None \<Rightarrow> False | Some (scheme, host) \<Rightarrow> (scheme = ''http'' \<or> scheme = ''https'') \<and> host \<noteq> [])"

end
