(* ===== verification/Acts.thy ===== *)
theory Acts
  imports K8sTypes
begin

text \<open>
  Sequencing of acts: functions of a state that fail with an error or return a value (the type \<open>act\<close>).
  They are what a Go function with the results \<open>(T, error)\<close> is, where it returns early on an error;
  the state keeps what was done before. A state has a log, and \<open>emits\<close> bounds what an act adds to it.
\<close>

definition act_return :: "'a \<Rightarrow> ('w, 'a) act" where
  "act_return x w = (Inr x, w)"

definition act_fail :: "go_err \<Rightarrow> ('w, 'a) act" where
  "act_fail e w = (Inl e, w)"

definition act_bind :: "('w, 'a) act \<Rightarrow> ('a \<Rightarrow> ('w, 'b) act) \<Rightarrow> ('w, 'b) act" where
  "act_bind m f w = (case m w of (Inl e, w1) \<Rightarrow> (Inl e, w1) | (Inr x, w1) \<Rightarrow> f x w1)"

definition act_lift :: "go_err + 'a \<Rightarrow> ('w, 'a) act" where
  "act_lift r = (case r of Inl e \<Rightarrow> act_fail e | Inr x \<Rightarrow> act_return x)"

definition act_check :: "bool \<Rightarrow> go_err \<Rightarrow> ('w, unit) act" where
  "act_check b e = (if b then act_return () else act_fail e)"

text \<open>An error of an act that the caller handles is a value.\<close>

definition act_try :: "('w, 'a) act \<Rightarrow> ('w, go_err + 'a) act" where
  "act_try m w = (case m w of (r, w1) \<Rightarrow> (Inr r, w1))"

text \<open>What is observed of the state.\<close>

definition act_get :: "('w \<Rightarrow> 'a) \<Rightarrow> ('w, 'a) act" where
  "act_get f w = (Inr (f w), w)"

lemma act_bind_Inr:
  "act_bind m f w = (Inr y, w') \<longleftrightarrow> (\<exists>x w1. m w = (Inr x, w1) \<and> f x w1 = (Inr y, w'))"
  by (auto simp: act_bind_def split: prod.splits sum.splits)

lemma act_bind_return [simp]: "act_bind (act_return x) f = f x"
  and act_bind_fail [simp]: "act_bind (act_fail e) f = act_fail e"
  by (simp_all add: fun_eq_iff act_bind_def act_return_def act_fail_def)

lemma act_check_Inr [simp]: "act_check b e w = (Inr u, w') \<longleftrightarrow> b \<and> w' = w"
  by (auto simp: act_check_def act_return_def act_fail_def)

lemma act_lift_Inr [simp]: "act_lift r w = (Inr x, w') \<longleftrightarrow> r = Inr x \<and> w' = w"
  by (auto simp: act_lift_def act_return_def act_fail_def split: sum.splits)

lemma act_return_Inr [simp]: "act_return x w = (Inr y, w') \<longleftrightarrow> y = x \<and> w' = w"
  by (auto simp: act_return_def)

lemma act_fail_Inr [simp]: "act_fail e w = (Inr x, w') \<longleftrightarrow> False"
  by (simp add: act_fail_def)

lemma act_get_Inr [simp]: "act_get f w = (Inr x, w') \<longleftrightarrow> x = f w \<and> w' = w"
  by (auto simp: act_get_def)

lemma act_try_Inr [simp]: "act_try m w = (Inr r, w') \<longleftrightarrow> m w = (r, w')"
  by (auto simp: act_try_def split: prod.splits)

section \<open>What an act adds to a log\<close>

definition emits :: "('w \<Rightarrow> 'e list) \<Rightarrow> ('e \<Rightarrow> bool) \<Rightarrow> ('w, 'a) act \<Rightarrow> bool" where
  "emits log P m \<longleftrightarrow> (\<forall>w r w'. m w = (r, w') \<longrightarrow> (\<exists>es. log w' = log w @ es \<and> list_all P es))"

named_theorems emits_intros \<open>introduction rules for what an act adds to a log\<close>

lemma emits_return [emits_intros]: "emits log P (act_return x)"
  by (simp add: emits_def act_return_def)

lemma emits_fail [emits_intros]: "emits log P (act_fail e)"
  by (simp add: emits_def act_fail_def)

lemma emits_lift [emits_intros]: "emits log P (act_lift r)"
  by (simp add: act_lift_def emits_return emits_fail split: sum.split)

lemma emits_get [emits_intros]: "emits log P (act_get f)"
  by (simp add: emits_def act_get_def)

lemma emits_try [emits_intros]: "emits log P m \<Longrightarrow> emits log P (act_try m)"
  by (auto simp: emits_def act_try_def split: prod.splits)

text \<open>A check is known to hold in what follows, and so is what an earlier step returned.\<close>

lemma emits_check: "(b \<Longrightarrow> emits log P (f ())) \<Longrightarrow> emits log P (act_bind (act_check b e) f)"
  by (cases b) (simp_all add: act_check_def emits_fail)

lemma emits_lift_bind: "(\<And>x. r = Inr x \<Longrightarrow> emits log P (f x)) \<Longrightarrow> emits log P (act_bind (act_lift r) f)"
  by (cases r) (simp_all add: act_lift_def emits_fail)

lemma emits_bind_result:
  assumes "emits log P m" and "\<And>x w w1. m w = (Inr x, w1) \<Longrightarrow> emits log P (f x)"
  shows "emits log P (act_bind m f)"
  unfolding emits_def
proof (intro allI impI)
  fix w r w' assume run: "act_bind m f w = (r, w')"
  obtain q w1 where m: "m w = (q, w1)" by (cases "m w")
  with assms(1) obtain es where es: "log w1 = log w @ es" "list_all P es" unfolding emits_def by blast
  show "\<exists>es. log w' = log w @ es \<and> list_all P es"
  proof (cases q)
    case Inl
    with run m es show ?thesis by (auto simp: act_bind_def)
  next
    case (Inr x)
    with run m have "f x w1 = (r, w')" by (simp add: act_bind_def)
    with assms(2) m Inr obtain es' where "log w' = log w1 @ es'" "list_all P es'" unfolding emits_def by blast
    with es show ?thesis by auto
  qed
qed

lemma emits_bind: "emits log P m \<Longrightarrow> (\<And>x. emits log P (f x)) \<Longrightarrow> emits log P (act_bind m f)"
  by (rule emits_bind_result)

lemma emits_mono: "emits log P m \<Longrightarrow> (\<And>e. P e \<Longrightarrow> Q e) \<Longrightarrow> emits log Q m"
  unfolding emits_def by (metis list.pred_mono_strong)

lemma emitsD:
  assumes "emits log P m" and "m w = (r, w')"
  obtains es where "log w' = log w @ es" and "list_all P es"
  using assms unfolding emits_def by blast

end
