(* ===== verification/Decode.thy ===== *)
theory Decode
  imports Json "HOL-Library.AList"
begin

text \<open>
  Reading a JSON value into a Go struct, as encoding/json does it. A reader takes the value and what
  the destination held, since \<open>null\<close> leaves a string, a number or a struct as it was. A member goes
  to the field of its exact name, or else of its name up to case; members are read in the order of
  the text, so the last of several wins. A value of the wrong type makes the whole decoding fail,
  and so does an unknown member when the decoder is strict. Two corners are left out: a repeated
  member of slice type whose later value has \<open>null\<close> elements, and invalid UTF-8.
\<close>

type_synonym 'a reader = "json \<Rightarrow> 'a \<Rightarrow> string + 'a"

fun fold_sum :: "('s \<Rightarrow> 'x \<Rightarrow> 'e + 's) \<Rightarrow> 's \<Rightarrow> 'x list \<Rightarrow> 'e + 's" where
  "fold_sum f s [] = Inr s"
| "fold_sum f s (x # xs) = bind_sum (f s x) (\<lambda>s'. fold_sum f s' xs)"

definition read_string :: "string reader" where
  "read_string v old =
     (case v of JNull \<Rightarrow> Inr old | JStr s \<Rightarrow> Inr s | _ \<Rightarrow> Inl ''cannot unmarshal into a string'')"

definition read_int :: "int reader" where
  "read_int v old =
     (case v of
        JNull \<Rightarrow> Inr old
      | JNum s \<Rightarrow> (case parse_int64 s of Some n \<Rightarrow> Inr n | None \<Rightarrow> Inl ''cannot unmarshal number into an int'')
      | _ \<Rightarrow> Inl ''cannot unmarshal into an int'')"

definition read_bool :: "bool reader" where
  "read_bool v old =
     (case v of JNull \<Rightarrow> Inr old | JBool b \<Rightarrow> Inr b | _ \<Rightarrow> Inl ''cannot unmarshal into a bool'')"

text \<open>A slice: nil is \<open>None\<close>, and \<open>null\<close> makes it nil.\<close>

definition read_slice :: "'a reader \<Rightarrow> 'a \<Rightarrow> 'a list option reader" where
  "read_slice r zero v old =
     (case v of
        JNull \<Rightarrow> Inr None
      | JArr xs \<Rightarrow> bind_sum (map_sum_list (\<lambda>x. r x zero) xs) (\<lambda>ys. Inr (Some ys))
      | _ \<Rightarrow> Inl ''cannot unmarshal into a slice'')"

definition read_strings :: "string list option reader" where
  "read_strings = read_slice read_string []"

text \<open>A \<open>map[string]string\<close>: a later member with the same key replaces the value.\<close>

definition read_string_map :: "(string \<times> string) list option reader" where
  "read_string_map v old =
     (case v of
        JNull \<Rightarrow> Inr None
      | JObj kvs \<Rightarrow>
          bind_sum (fold_sum (\<lambda>m (k, x). bind_sum (read_string x []) (\<lambda>s. Inr (AList.update k s m))) (or_else old []) kvs)
            (\<lambda>m. Inr (Some m))
      | _ \<Rightarrow> Inl ''cannot unmarshal into a map'')"

definition match_field :: "string list \<Rightarrow> string \<Rightarrow> string option" where
  "match_field fields k = (if k \<in> set fields then Some k else find (equal_fold k) fields)"

definition read_struct :: "bool \<Rightarrow> (string \<times> 's reader) list \<Rightarrow> 's reader" where
  "read_struct strict fields v s =
     (case v of
        JNull \<Rightarrow> Inr s
      | JObj kvs \<Rightarrow>
          fold_sum (\<lambda>s (k, x).
            case match_field (map fst fields) k of
              None \<Rightarrow> (if strict then Inl (''unknown field '' @ k) else Inr s)
            | Some f \<Rightarrow> (case map_of fields f of None \<Rightarrow> Inr s | Some r \<Rightarrow> r x s)) s kvs
      | _ \<Rightarrow> Inl ''cannot unmarshal into a struct'')"

lemma fold_sum_invariant:
  assumes "fold_sum f s xs = Inr s'" and "P s" and "\<And>s x s'. f s x = Inr s' \<Longrightarrow> P s \<Longrightarrow> P s'"
  shows "P s'"
  using assms(1,2) by (induction xs arbitrary: s) (auto simp: bind_sum_Inr_iff intro: assms(3))

text \<open>An invariant of the fields is an invariant of the struct.\<close>

lemma read_struct_invariant:
  assumes "read_struct strict fields v s = Inr s'" and "P s"
    and "\<And>f r x s s'. (f, r) \<in> set fields \<Longrightarrow> r x s = Inr s' \<Longrightarrow> P s \<Longrightarrow> P s'"
  shows "P s'"
proof (cases v)
  case (JObj kvs)
  then have "fold_sum (\<lambda>s (k, x).
            case match_field (map fst fields) k of
              None \<Rightarrow> (if strict then Inl (''unknown field '' @ k) else Inr s)
            | Some f \<Rightarrow> (case map_of fields f of None \<Rightarrow> Inr s | Some r \<Rightarrow> r x s)) s kvs = Inr s'"
    using assms(1) by (simp add: read_struct_def)
  then show ?thesis
    by (rule fold_sum_invariant [where P = P, OF _ assms(2)])
       (auto split: prod.splits option.splits if_splits dest: map_of_SomeD intro: assms(3))
qed (use assms in \<open>auto simp: read_struct_def\<close>)

lemma read_string_map_distinct:
  assumes "read_string_map v old = Inr m" and "distinct (map fst (or_else old []))"
  shows "distinct (map fst (or_else m []))"
proof (cases v)
  case (JObj kvs)
  with assms(1) obtain m' where m: "m = Some m'"
    and f: "fold_sum (\<lambda>m (k, x). bind_sum (read_string x []) (\<lambda>s. Inr (AList.update k s m))) (or_else old []) kvs = Inr m'"
    by (auto simp: read_string_map_def bind_sum_Inr_iff)
  from f assms(2) have "distinct (map fst m')"
    by (rule fold_sum_invariant [where P = "\<lambda>m. distinct (map fst m)"]) (auto simp: bind_sum_Inr_iff distinct_update split: prod.splits)
  with m show ?thesis by simp
qed (use assms in \<open>auto simp: read_string_map_def\<close>)

lemma read_slice_Inr:
  "read_slice r zero v old = Inr (Some ys) \<Longrightarrow> \<exists>xs. v = JArr xs \<and> list_all2 (\<lambda>x y. r x zero = Inr y) xs ys"
  by (auto simp: read_slice_def bind_sum_Inr_iff map_sum_list_Inr_iff split: json.splits)

end
