(* ===== verification/HttpClient.thy ===== *)
theory HttpClient
  imports GoURL Acts Decode Results
begin

text \<open>
  What the clients of the integrations share of net/http, net/url and os. The state of such a client
  is the trace of the requests it has sent. What the other side answers, what a file holds and what the
  clock shows are functions of that trace, so they may change between any two requests. A request
  that follows redirects is one here; a body is the text that was read of it (all of it
  unless \<open>ha_ReadErr\<close> says why not), \<open>he_json\<close> the JSON value it is, if it is one, and \<open>he_first\<close> the
  value it starts with. The address of a request is taken to parse: \<open>http.NewRequest\<close> does not fail.
\<close>

record http_call =
  hc_Method :: string
  hc_URL :: string
  hc_Headers :: "(string \<times> string) list"
  hc_Body :: "raw option"

type_synonym trace = "http_call list"

record http_response =
  ha_StatusCode :: int
  ha_Status :: string
  ha_Body :: string
  ha_ReadErr :: "string option"

record http_env =
  he_answer :: "http_call \<Rightarrow> trace \<Rightarrow> string + http_response"
  he_json :: "string \<Rightarrow> raw option"
  he_first :: "string \<Rightarrow> raw option"
  he_file :: "string \<Rightarrow> trace \<Rightarrow> string + string"
  he_now :: "trace \<Rightarrow> int"

type_synonym 'a http = "(trace, 'a) act"

definition http_do :: "http_env \<Rightarrow> http_call \<Rightarrow> (string + http_response) http" where
  "http_do env call tr = (Inr (he_answer env call tr), tr @ [call])"

definition header_of :: "http_call \<Rightarrow> string \<Rightarrow> string option" where
  "header_of call name = map_of (hc_Headers call) name"

text \<open>\<open>resp.StatusCode < 200 || resp.StatusCode >= 300\<close> is the refusal.\<close>

definition success :: "int \<Rightarrow> bool" where
  "success n \<longleftrightarrow> 200 \<le> n \<and> n < 300"

text \<open>\<open>json.Unmarshal\<close> of a body into a struct with the given fields.\<close>

definition unmarshal :: "http_env \<Rightarrow> (string \<times> 's reader) list \<Rightarrow> 's \<Rightarrow> string \<Rightarrow> string + 's" where
  "unmarshal env fs zero body =
     (case he_json env body of None \<Rightarrow> Inl ''invalid JSON'' | Some v \<Rightarrow> read_struct False fs v zero)"

text \<open>\<open>json.NewDecoder(body).Decode\<close>: what follows the first value is not read.\<close>

definition decode_first :: "http_env \<Rightarrow> (string \<times> 's reader) list \<Rightarrow> 's \<Rightarrow> string \<Rightarrow> string + 's" where
  "decode_first env fs zero body =
     (case he_first env body of None \<Rightarrow> Inl ''invalid JSON'' | Some v \<Rightarrow> read_struct False fs v zero)"

text \<open>\<open>readToken\<close>, which three of the clients have: a projected token, read anew for every request.\<close>

definition read_token :: "http_env \<Rightarrow> string \<Rightarrow> string \<Rightarrow> trace \<Rightarrow> string + string" where
  "read_token env what path tr =
     (case he_file env path tr of
        Inl e \<Rightarrow> Inl (what @ '': '' @ e)
      | Inr raw \<Rightarrow>
          (let token = trim_space raw in if token = [] then Inl (what @ '' '' @ path @ '' is empty'') else Inr token))"

lemma read_token_Inr: "read_token env what path tr = Inr t \<Longrightarrow> t \<noteq> [] \<and> (\<exists>raw. he_file env path tr = Inr raw \<and> t = trim_space raw)"
  by (auto simp: read_token_def Let_def split: sum.splits if_splits)

text \<open>\<open>snippet\<close>: at most 300 bytes of a body.\<close>

definition snippet :: "string \<Rightarrow> string" where
  "snippet data = (let s = trim_space data in if length s > 300 then take 300 s @ ''...'' else s)"

definition read_string_field :: "('s \<Rightarrow> string) \<Rightarrow> ((string \<Rightarrow> string) \<Rightarrow> 's \<Rightarrow> 's) \<Rightarrow> 's reader" where
  "read_string_field get upd v s = bind_sum (read_string v (get s)) (\<lambda>x. Inr (upd (\<lambda>_. x) s))"

definition read_int_field :: "('s \<Rightarrow> int) \<Rightarrow> ((int \<Rightarrow> int) \<Rightarrow> 's \<Rightarrow> 's) \<Rightarrow> 's reader" where
  "read_int_field get upd v s = bind_sum (read_int v (get s)) (\<lambda>x. Inr (upd (\<lambda>_. x) s))"

lemma read_struct_single: "read_struct False [(k, r)] (JObj [(k, v)]) s = r v s"
  by (cases "r v s") (simp_all add: read_struct_def match_field_def)

text \<open>A \<open>map[string]any\<close>: \<open>null\<close> makes it nil, an object is added to what was there.\<close>

definition read_object :: "obj option reader" where
  "read_object v old =
     (case v of
        JNull \<Rightarrow> Inr None
      | JObj kvs \<Rightarrow> Inr (Some (dedup (or_else old [] @ map (\<lambda>(k, x). (k, decode_any x)) kvs)))
      | _ \<Rightarrow> Inl ''cannot unmarshal into a map'')"

section \<open>What a client sends\<close>

text \<open>
  Every request with what had been sent before it: the log in which a client's requests are bounded
  by what the other side, the files and the clock were at the time.
\<close>

definition history :: "trace \<Rightarrow> (trace \<times> http_call) list" where
  "history tr = map (\<lambda>i. (take i tr, tr ! i)) [0..<length tr]"

lemma history_snoc: "history (tr @ [call]) = history tr @ [(tr, call)]"
  by (simp add: history_def nth_append)

text \<open>\<open>requests P m\<close>: every request of the act is one of \<open>P\<close>.\<close>

definition requests :: "(trace \<Rightarrow> http_call \<Rightarrow> bool) \<Rightarrow> 'a http \<Rightarrow> bool" where
  "requests P m \<longleftrightarrow> emits history (\<lambda>(before, call). P before call) m"

named_theorems requests_intros \<open>introduction rules for the requests of an act\<close>

lemma requests_do [requests_intros]: "(\<And>before. P before call) \<Longrightarrow> requests P (http_do env call)"
  by (auto simp: requests_def emits_def http_do_def history_snoc)

lemma requests_basic [requests_intros]:
  "requests P (act_return x)" "requests P (act_fail e)" "requests P (act_lift r)" "requests P (act_get f)"
  by (simp_all add: requests_def emits_return emits_fail emits_lift emits_get)

lemma requests_try [requests_intros]: "requests P m \<Longrightarrow> requests P (act_try m)"
  by (simp add: requests_def emits_try)

lemma requests_bind [requests_intros]:
  "requests P m \<Longrightarrow> (\<And>x. requests P (f x)) \<Longrightarrow> requests P (act_bind m f)"
  unfolding requests_def by (rule emits_bind)

lemma requests_bind_result:
  "requests P m \<Longrightarrow> (\<And>x w w1. m w = (Inr x, w1) \<Longrightarrow> requests P (f x)) \<Longrightarrow> requests P (act_bind m f)"
  unfolding requests_def by (rule emits_bind_result)

lemma requests_check: "(b \<Longrightarrow> requests P (f ())) \<Longrightarrow> requests P (act_bind (act_check b e) f)"
  unfolding requests_def by (rule emits_check)

lemma requests_lift_bind: "(\<And>x. r = Inr x \<Longrightarrow> requests P (f x)) \<Longrightarrow> requests P (act_bind (act_lift r) f)"
  unfolding requests_def by (rule emits_lift_bind)

lemma requests_mono: "requests P m \<Longrightarrow> (\<And>before call. P before call \<Longrightarrow> Q before call) \<Longrightarrow> requests Q m"
  unfolding requests_def by (erule emits_mono) auto

text \<open>A request is right for the moment it is sent when what it was made of was read at that moment.\<close>

lemma requests_quiet_do:
  assumes quiet: "\<And>w r w1. m w = (r, w1) \<Longrightarrow> w1 = w" and right: "\<And>w x w1. m w = (Inr x, w1) \<Longrightarrow> P w (call x)"
    and rest: "\<And>x y. requests P (h x y)"
  shows "requests P (act_bind m (\<lambda>x. act_bind (http_do env (call x)) (h x)))"
  unfolding requests_def emits_def
proof (intro allI impI)
  fix tr r tr' assume run: "act_bind m (\<lambda>x. act_bind (http_do env (call x)) (h x)) tr = (r, tr')"
  obtain q w1 where m: "m tr = (q, w1)" by (cases "m tr")
  with quiet have w1: "w1 = tr" by blast
  show "\<exists>es. history tr' = history tr @ es \<and> list_all (\<lambda>(before, call). P before call) es"
  proof (cases q)
    case Inl
    with run m w1 show ?thesis by (simp add: act_bind_def)
  next
    case (Inr x)
    with run m w1 have "h x (he_answer env (call x) tr) (tr @ [call x]) = (r, tr')" by (simp add: act_bind_def http_do_def)
    with rest [unfolded requests_def emits_def] obtain es
      where "history tr' = history (tr @ [call x]) @ es" "list_all (\<lambda>(before, call). P before call) es" by blast
    moreover from right m Inr w1 have "P tr (call x)" by blast
    ultimately show ?thesis by (simp add: history_snoc)
  qed
qed

text \<open>What the requests of a run are.\<close>

lemma requestsD:
  assumes "requests P m" and "m tr = (r, tr')"
  obtains calls where "tr' = tr @ calls" and "\<And>i. i < length calls \<Longrightarrow> P (tr @ take i calls) (calls ! i)"
proof -
  from assms obtain es where es: "history tr' = history tr @ es" "list_all (\<lambda>(before, call). P before call) es"
    unfolding requests_def by (rule emitsD)
  have len: "length tr' = length tr + length es" using arg_cong [OF es(1), of length] by (simp add: history_def)
  have snds: "map snd (history t) = t" for t by (simp add: history_def comp_def map_nth)
  have tr': "tr' = tr @ map snd es" using arg_cong [OF es(1), of "map snd"] by (simp add: snds)
  have "P (tr @ take i (map snd es)) (map snd es ! i)" if i: "i < length es" for i
  proof -
    have "es ! i = history tr' ! (length tr + i)" using es(1) by (simp add: nth_append history_def)
    also have "\<dots> = (take (length tr + i) tr', tr' ! (length tr + i))" using i len by (simp add: history_def del: take_append)
    also have "\<dots> = (tr @ take i (map snd es), map snd es ! i)" using i by (simp add: tr' nth_append)
    finally show ?thesis using es(2) i by (metis (mono_tags, lifting) case_prodD list_all_length)
  qed
  with tr' show thesis by (intro that [of "map snd es"]) simp_all
qed

end
