(* ===== verification/PocketAideClient.thy ===== *)
theory PocketAideClient
  imports HttpClient IntegrationHandlers ApprovalGate
begin

text \<open>internal/pocketaide: push notifications through the approval gate's server.\<close>

definition pocketaide_api :: "string \<Rightarrow> go_err" where "pocketaide_api msg = ErrText (''pocket-aide error: '' @ msg)"
definition pocketaide_unavailable :: "string \<Rightarrow> go_err" where
  "pocketaide_unavailable msg = ErrUnavailable (''pocket-aide unavailable: '' @ msg)"

text \<open>\<open>NewUnavailable\<close>: the error with which every operation of the service fails.\<close>

definition pocketaide_NewUnavailable :: "string \<Rightarrow> go_err" where
  "pocketaide_NewUnavailable reason =
     pocketaide_unavailable (if reason = [] then ''PocketAide is not configured (APPROVAL_GATE_URL)'' else reason)"

record pocketaide_client =
  pa_baseURL :: string
  pa_tokenFile :: string

definition pocketaide_New :: "string \<Rightarrow> string \<Rightarrow> pocketaide_client" where
  "pocketaide_New baseURL tokenFile = \<lparr>pa_baseURL = trim_right (CHR ''/'') baseURL, pa_tokenFile = tokenFile\<rparr>"

definition pocketaide_readToken :: "http_env \<Rightarrow> string \<Rightarrow> trace \<Rightarrow> string + string" where
  "pocketaide_readToken env path tr = read_token env ''pocket-aide service account token'' path tr"

definition pocketaide_FromEnv :: "http_env \<Rightarrow> (string \<Rightarrow> string) \<Rightarrow> string + pocketaide_client option" where
  "pocketaide_FromEnv env getenv =
     (let base = trim_space (getenv ''APPROVAL_GATE_URL'') in
      if base = [] then Inr None
      else
        (let configured = trim_space (getenv ''APPROVAL_GATE_TOKEN_FILE'');
             tokenFile = (if configured = [] then DefaultTokenFile else configured) in
         bind_sum (pocketaide_readToken env tokenFile []) (\<lambda>_. Inr (Some (pocketaide_New base tokenFile)))))"

definition pocketaide_serverMessage :: "http_env \<Rightarrow> string \<Rightarrow> string" where
  "pocketaide_serverMessage env body =
     (case decode_first env [(''error'', read_string)] [] (take 4096 body) of
        Inr m \<Rightarrow> if m = [] then ''no reason given'' else m
      | Inl _ \<Rightarrow> ''no reason given'')"

record notify_json =
  nj_Devices :: int
  nj_Sent :: int

definition notify_fields :: "(string \<times> notify_json reader) list" where
  "notify_fields = [(''devices'', read_int_field nj_Devices nj_Devices_update), (''sent'', read_int_field nj_Sent nj_Sent_update)]"

definition notify_answer :: "http_env \<Rightarrow> string + http_response \<Rightarrow> go_err + notify_result" where
  "notify_answer env answer =
     (case answer of
        Inl e \<Rightarrow> Inl (pocketaide_api (''request failed: '' @ e))
      | Inr resp \<Rightarrow>
          if ha_StatusCode resp = 200 then
            (case decode_first env notify_fields \<lparr>nj_Devices = 0, nj_Sent = 0\<rparr> (ha_Body resp) of
               Inl e \<Rightarrow> Inl (pocketaide_api (''unreadable response: '' @ e))
             | Inr r \<Rightarrow> Inr (NotifyResult (nj_Devices r) (nj_Sent r)))
          else Inl (pocketaide_api
            (if ha_StatusCode resp = 401 then ''PocketAide did not accept this server's service account (401)''
             else if ha_StatusCode resp = 503 then ''PocketAide cannot send push notifications right now (503)''
             else if ha_StatusCode resp = 400 then
               ''PocketAide rejected the notification (400): '' @ pocketaide_serverMessage env (ha_Body resp)
             else ''PocketAide returned '' @ itoa (ha_StatusCode resp))))"

definition notify_body :: "string \<Rightarrow> string \<Rightarrow> string \<Rightarrow> raw" where
  "notify_body title body requester =
     JObj ([(''title'', JStr (trim_space title))]
       @ (if trim_space body = [] then [] else [(''body'', JStr (trim_space body))])
       @ [(''requester'', JStr (trim_space requester))])"

definition client_Notify :: "http_env \<Rightarrow> pocketaide_client \<Rightarrow> string \<Rightarrow> string \<Rightarrow> string \<Rightarrow> notify_result http" where
  "client_Notify env c title body requester =
     act_bind (act_lift (ValidateTitle title)) (\<lambda>_.
     act_bind (act_lift (ValidateRequester requester)) (\<lambda>_.
     act_bind (act_get (pocketaide_readToken env (pa_tokenFile c))) (\<lambda>sa.
     case sa of
       Inl e \<Rightarrow> act_fail (pocketaide_api e)
     | Inr token \<Rightarrow>
         act_bind (http_do env
           \<lparr>hc_Method = ''POST'', hc_URL = pa_baseURL c @ ''/api/external/notifications'',
            hc_Headers = [(''Content-Type'', ''application/json''), (''Authorization'', ''Bearer '' @ token)],
            hc_Body = Some (notify_body title body requester)\<rparr>) (\<lambda>answer.
         act_lift (notify_answer env answer)))))"

end
