(* ===== verification/DropClient.thy ===== *)
theory DropClient
  imports HttpClient IntegrationHandlers
begin

text \<open>internal/drop: the exchange of this server's service account token for one of drop.\<close>

definition drop_api :: "string \<Rightarrow> go_err" where "drop_api msg = ErrText (''drop error: '' @ msg)"
definition drop_unavailable :: "string \<Rightarrow> go_err" where "drop_unavailable msg = ErrUnavailable (''drop unavailable: '' @ msg)"

text \<open>\<open>NewUnavailable\<close>: the error with which every operation of the service fails.\<close>

definition drop_NewUnavailable :: "string \<Rightarrow> go_err" where
  "drop_NewUnavailable reason =
     drop_unavailable (if reason = [] then ''drop is not configured (DROP_URL)'' else reason)"

definition drop_DefaultTokenFile :: string where "drop_DefaultTokenFile = ''/var/run/secrets/drop/token''"
definition DefaultValidMinutes :: int where "DefaultValidMinutes = 60"

record drop_client =
  dc_baseURL :: string
  dc_tokenFile :: string

definition drop_New :: "string \<Rightarrow> string \<Rightarrow> drop_client" where
  "drop_New baseURL tokenFile = \<lparr>dc_baseURL = trim_right (CHR ''/'') baseURL, dc_tokenFile = tokenFile\<rparr>"

definition drop_readToken :: "http_env \<Rightarrow> string \<Rightarrow> trace \<Rightarrow> string + string" where
  "drop_readToken env path tr = read_token env ''drop service account token'' path tr"

definition drop_FromEnv :: "http_env \<Rightarrow> (string \<Rightarrow> string) \<Rightarrow> string + drop_client option" where
  "drop_FromEnv env getenv =
     (let base = trim_right (CHR ''/'') (trim_space (getenv ''DROP_URL'')) in
      if base = [] then Inr None
      else if \<not> http_base base then Inl (''DROP_URL must be an absolute http(s) URL, got '' @ base)
      else
        (let configured = trim_space (getenv ''DROP_TOKEN_FILE'');
             tokenFile = (if configured = [] then drop_DefaultTokenFile else configured) in
         bind_sum (drop_readToken env tokenFile []) (\<lambda>_. Inr (Some (drop_New base tokenFile)))))"

text \<open>The snippet of an empty body says so; an error the server explains is its own text.\<close>

definition drop_snippet :: "string \<Rightarrow> string" where
  "drop_snippet data = (if trim_space data = [] then ''no reason given'' else snippet data)"

definition drop_serverMessage :: "http_env \<Rightarrow> string \<Rightarrow> string" where
  "drop_serverMessage env body =
     (case unmarshal env [(''error'', read_string)] [] body of
        Inr m \<Rightarrow> if m = [] then drop_snippet body else m
      | Inl _ \<Rightarrow> drop_snippet body)"

definition drop_refusals :: "(int \<times> string) list" where
  "drop_refusals =
     [(400, ''drop rejected the request (400): ''),
      (401, ''drop did not accept this server's service account token (401): ''),
      (403, ''drop does not allow this server's service account (403): ''),
      (502, ''drop could not verify the service account (502): ''),
      (503, ''drop has no service account exchange configured (503): '')]"

definition issue_body :: "drop_request \<Rightarrow> raw" where
  "issue_body req =
     (let label = trim_space (dq_Label req) in
      JObj ([(''valid_minutes'', JNum (itoa (dq_ValidMinutes req)))]
        @ (if dq_MaxDays req = 0 then [] else [(''max_days'', JNum (itoa (dq_MaxDays req)))])
        @ (if label = [] then [] else [(''label'', JStr label)])))"

definition with_default_minutes :: "drop_request \<Rightarrow> drop_request" where
  "with_default_minutes req =
     (if dq_ValidMinutes req = 0 then req\<lparr>dq_ValidMinutes := DefaultValidMinutes\<rparr> else req)"

record drop_json =
  dj_Token :: string
  dj_ExpiresAt :: string
  dj_MaxDays :: int
  dj_CreatedBy :: string
  dj_BaseURL :: string

definition drop_fields :: "(string \<times> drop_json reader) list" where
  "drop_fields =
     [(''token'', read_string_field dj_Token dj_Token_update),
      (''expires_at'', read_string_field dj_ExpiresAt dj_ExpiresAt_update),
      (''max_days'', read_int_field dj_MaxDays dj_MaxDays_update),
      (''created_by'', read_string_field dj_CreatedBy dj_CreatedBy_update),
      (''base_url'', read_string_field dj_BaseURL dj_BaseURL_update)]"

definition drop_token_of :: "drop_client \<Rightarrow> drop_json \<Rightarrow> drop_token" where
  "drop_token_of c t = DropToken (dj_Token t) (dj_ExpiresAt t) (dj_MaxDays t) (dj_CreatedBy t)
     (trim_right (CHR ''/'') (if dj_BaseURL t = [] then dc_baseURL c else dj_BaseURL t))"

text \<open>The answer to an issue request.\<close>

definition drop_answer :: "http_env \<Rightarrow> drop_client \<Rightarrow> string + http_response \<Rightarrow> go_err + drop_token" where
  "drop_answer env c answer =
     (case answer of
        Inl e \<Rightarrow> Inl (drop_api (''request failed: '' @ e))
      | Inr resp \<Rightarrow>
          (let body = take 65536 (ha_Body resp) in
           case ha_ReadErr resp of
             Some e \<Rightarrow> Inl (drop_api (''read response: '' @ e))
           | None \<Rightarrow>
               if ha_StatusCode resp \<noteq> 201 then
                 Inl (drop_api (case map_of drop_refusals (ha_StatusCode resp) of
                     Some why \<Rightarrow> why @ drop_serverMessage env body
                   | None \<Rightarrow> ''drop returned '' @ itoa (ha_StatusCode resp) @ '': '' @ drop_snippet body))
               else (case unmarshal env drop_fields \<lparr>dj_Token = [], dj_ExpiresAt = [], dj_MaxDays = 0, dj_CreatedBy = [], dj_BaseURL = []\<rparr> body of
                   Inl e \<Rightarrow> Inl (drop_api (''unreadable response: '' @ e))
                 | Inr t \<Rightarrow>
                     if dj_Token t = [] then Inl (drop_api (''drop answered 201 without a token: '' @ drop_snippet body))
                     else Inr (drop_token_of c t))))"

definition client_IssueToken :: "http_env \<Rightarrow> drop_client \<Rightarrow> drop_request \<Rightarrow> drop_token http" where
  "client_IssueToken env c req =
     act_bind (act_lift (Validate req)) (\<lambda>_.
     act_bind (act_get (drop_readToken env (dc_tokenFile c))) (\<lambda>sa.
     case sa of
       Inl e \<Rightarrow> act_fail (drop_api e)
     | Inr token \<Rightarrow>
         act_bind (http_do env
           \<lparr>hc_Method = ''POST'', hc_URL = dc_baseURL c @ ''/api/v1/sa/token'',
            hc_Headers = [(''Content-Type'', ''application/json''), (''Authorization'', ''Bearer '' @ token)],
            hc_Body = Some (issue_body (with_default_minutes req))\<rparr>) (\<lambda>answer.
         act_lift (drop_answer env c answer))))"

end
