(* ===== verification/Serve.thy ===== *)
theory Serve
  imports RegistryProps PocketAideClient DropClient
begin

text \<open>
  How the process is put together and checked before it listens: \<open>Validate\<close> of internal/mcp,
  \<open>NewHandler\<close> with its options, and \<open>buildGate\<close> and \<open>main\<close> of main.go. The handler that \<open>main\<close>
  serves is the instance on which the dispatcher's contract is discharged.
\<close>

section \<open>The checks before the server listens\<close>

definition validate_startup :: "api_machinery \<Rightarrow> string option" where
  "validate_startup am =
     (case validateRegistry (toolRegistry am) advertisedToolNames of
        Some e \<Rightarrow> Some e
      | None \<Rightarrow> validateReasonArgument (toolRegistry am) advertisedReason)"

lemma toolRegistry_all:
  "list_all (\<lambda>(n, d, b, c). P n \<lparr>decl = d, handle = map_of (toolHandlers am) n, createBatch = b, collectionGate = c\<rparr>)
     (declaredTools am) \<Longrightarrow> list_all (\<lambda>(n, e). P n e) (toolRegistry am)"
  by (simp add: toolRegistry_def list.pred_map comp_def split_def)

lemma toolRegistry_ready: "list_all (\<lambda>(n, e). handle e \<noteq> None \<and> well_declared (decl e)) (toolRegistry am)"
  by (rule toolRegistry_all) (simp add: declared_defs toolHandlers_def well_declared_def)

lemma registry_consistent: "validateRegistry (toolRegistry am) advertisedToolNames = None"
  using toolRegistry_ready [of am] unfolding validateRegistry_None dom_toolRegistry by simp

text \<open>A tool whose every resolution has a gated verb asks at any arguments.\<close>

definition always_gated_verb :: "(raw \<Rightarrow> string + rbac_pair list) \<Rightarrow> bool" where
  "always_gated_verb f \<longleftrightarrow> (\<forall>r ps. f r = Inr ps \<longrightarrow> ps \<noteq> [] \<and> (\<forall>p\<in>set ps. Verb p \<in> set gatedVerbs))"

lemma always_gated_verbs:
  "always_gated_verb (updatePairs am)" "always_gated_verb (deletePairs am)"
  "always_gated_verb (deleteCollectionPairs am)" "always_gated_verb (execPairs am)"
  "always_gated_verb (attachPairs am)" "always_gated_verb (portForwardPairs am)"
  "always_gated_verb (genericPairs am ''patch'')"
  by (auto simp: always_gated_verb_def resolver_defs checked_Inr genericPairs_Inr gatedVerbs_def)

lemma always_gated_create: "always_gated_verb (createPairs am)"
  unfolding always_gated_verb_def
proof (intro allI impI conjI ballI)
  fix r ps assume "createPairs am r = Inr ps"
  then show "ps \<noteq> []"
    by (auto simp: createPairs_def list_all2_Cons1 neq_Nil_conv split: sum.splits elim!: parseCreateDocuments_Inr)
qed (simp add: createPairs_verb gatedVerbs_def)

lemma always_asks:
  "always_gated_verb f \<Longrightarrow> resolve d = Some f \<Longrightarrow> outsideGate d = [] \<Longrightarrow> approvalNeed d = alwaysApproved"
  by (cases "f ordinaryProbe")
    (auto simp: approvalNeed_def asks_def gatedPairs_def callPairs_def always_gated_verb_def pair_gated_def
      filter_empty_conv neq_Nil_conv)

lemma probe_pairs:
  assumes "core_names am"
  shows "genericPairs am verb ordinaryProbe = Inr [mk_pair verb ''configmaps'']"
    and "genericPairs am verb sensitiveProbe = Inr [mk_pair verb ''secrets'']"
  using assms
  by (simp_all add: genericPairs_def ordinaryProbe_def sensitiveProbe_def probe_def string_or_empty_def
      optionalString_def lookup_Cons resourceName_def core_names_def Let_def)

lemma probe_sensitivity:
  "\<not> resourceIsSensitive (mk_pair verb ''configmaps'') [defaultSensitiveKind]"
  "resourceIsSensitive (mk_pair verb ''secrets'') [defaultSensitiveKind]"
  unfolding atomize_conj by code_simp

lemma read_need:
  assumes "core_names am" and "verb \<in> {''get'', ''watch''}"
    and "resolve d = Some (genericPairs am verb)" and "outsideGate d = []" "alwaysGated d = []"
  shows "approvalNeed d = approvedForSensitiveKinds"
  using assms(2-)
  by (auto simp: approvalNeed_def asks_def gatedPairs_def callPairs_def probe_pairs [OF assms(1)]
      pair_gated_def readIsSensitive_def probe_sensitivity gatedVerbs_def)

text \<open>What the advertised schema says of a tool's need.\<close>

definition advertised_need :: "string \<Rightarrow> approval_need" where
  "advertised_need name =
     (case map_of advertisedReason name of
        Some (True, required) \<Rightarrow> if required then alwaysApproved else approvedForSensitiveKinds
      | _ \<Rightarrow> neverApproved)"

lemma need_cases:
  "outsideGate d \<noteq> [] \<Longrightarrow> approvalNeed d = neverApproved"
  "outsideGate d = [] \<Longrightarrow> alwaysGated d \<noteq> [] \<Longrightarrow> approvalNeed d = alwaysApproved"
  "alwaysGated d = [] \<Longrightarrow> resolve d = None \<Longrightarrow> td_pairs d = [] \<Longrightarrow> approvalNeed d = neverApproved"
  by (simp_all add: approvalNeed_def)

lemma list_need:
  assumes "core_names am" and "resolve d = Some (genericPairs am ''list'')" and "alwaysGated d = []"
  shows "approvalNeed d = neverApproved"
  using assms(2-)
  by (auto simp: approvalNeed_def asks_def gatedPairs_def callPairs_def probe_pairs [OF assms(1)]
      pair_gated_def readIsSensitive_def gatedVerbs_def)

lemmas tool_needs = need_cases always_gated_verbs [THEN always_asks] always_gated_create [THEN always_asks]
  read_need [where verb = "''get''"] read_need [where verb = "''watch''"] list_need

lemma declared_needs:
  assumes "core_names am"
  shows "list_all (\<lambda>(n, d, b, c). approvalNeed d = advertised_need n) (declaredTools am)"
  using assms by (simp add: declared_defs advertised_need_def advertisedReason_def tool_needs
    exemptAcceptedByOwner_def gatedEveryMethodByAC15_def)

lemma advertised_needs:
  "list_all (\<lambda>(n, adv, req). advertised_need n =
       (if \<not> adv then neverApproved else if req then alwaysApproved else approvedForSensitiveKinds) \<and> (req \<longrightarrow> adv))
     advertisedReason"
  by (simp add: advertisedReason_def advertised_need_def)

lemma reason_consistent:
  assumes "core_names am"
  shows "validateReasonArgument (toolRegistry am) advertisedReason = None"
proof -
  have needs: "list_all (\<lambda>(n, e). approvalNeed (decl e) = advertised_need n) (toolRegistry am)"
    by (rule toolRegistry_all) (use declared_needs [OF assms] in simp)
  have "\<not> reason_problem (toolRegistry am) t" if t: "t \<in> set advertisedReason" for t
  proof -
    obtain n adv req where nt: "t = (n, adv, req)" by (metis prod.exhaust)
    with advertised_needs t have a: "advertised_need n =
        (if \<not> adv then neverApproved else if req then alwaysApproved else approvedForSensitiveKinds)"
      and r: "req \<longrightarrow> adv"
      by (auto simp: list_all_iff)
    show ?thesis
    proof (cases "map_of (toolRegistry am) n")
      case None
      with nt show ?thesis by (simp add: reason_problem_def)
    next
      case (Some e)
      with needs have "approvalNeed (decl e) = advertised_need n"
        by (auto simp: list_all_iff dest: map_of_SomeD)
      with Some nt a r show ?thesis by (simp add: reason_problem_def Let_def)
    qed
  qed
  then have "filter (reason_problem (toolRegistry am)) advertisedReason = []"
    by (simp add: filter_empty_conv)
  then show ?thesis by (simp add: validateReasonArgument_def)
qed

text \<open>
  A tool that some call of it can put before an operator is one that may ask, so its reason is taken
  off the arguments and required. A call with no reason reaches the gate only where none is asked.
\<close>

lemma asking_tools:
  assumes "core_names am" and "is_declared am name d"
    and "gatedPairs d ks r = Inr g" and "g \<noteq> []"
  shows "mayAskForApproval d"
proof (rule ccontr)
  assume "\<not> mayAskForApproval d"
  then have never: "approvalNeed d = neverApproved" by (simp add: mayAskForApproval_def)
  have quiet: "list_all (\<lambda>(n, d, b, c). advertised_need n = neverApproved \<longrightarrow>
      outsideGate d \<noteq> [] \<or> (resolve d = None \<and> td_pairs d = []) \<or>
      (resolve d = Some (genericPairs am ''list'') \<and> alwaysGated d = [])) (declaredTools am)"
    by (simp add: declared_defs advertised_need_def advertisedReason_def exemptAcceptedByOwner_def)
  obtain b c where mem: "(name, d, b, c) \<in> set (declaredTools am)" using assms(2) by (auto simp: is_declared_def)
  with declared_needs [OF assms(1)] never have "advertised_need name = neverApproved"
    by (auto simp: list_all_iff)
  with quiet mem have "outsideGate d \<noteq> [] \<or> (resolve d = None \<and> td_pairs d = []) \<or>
      (resolve d = Some (genericPairs am ''list'') \<and> alwaysGated d = [])"
    by (auto simp: list_all_iff)
  moreover have "\<not> pair_gated ks (mk_pair ''list'' x)" for x
    by (simp add: pair_gated_def readIsSensitive_def gatedVerbs_def)
  ultimately show False
    using assms(3,4) by (auto simp: gatedPairs_Inr callPairs_def genericPairs_Inr split: if_splits)
qed

lemma take_reason_given:
  assumes "core_names (h_am h)" and "is_declared (h_am h) name d" and "cx_reason ctx = []"
    and take': "take_reason h ctx name d rawArgs = Inr (ctx', kept)"
    and "gatedPairs d (h_sensitiveKinds h) kept = Inr g" and "g \<noteq> []"
  shows "cx_reason ctx' \<noteq> []"
proof -
  have may: "mayAskForApproval d" using asking_tools [OF assms(1,2,5,6)] .
  from take' may obtain s where "requireReason (withReason ctx s) (h_sensitiveKinds h) name d kept = None"
    and "ctx' = withReason ctx s"
    by (auto simp: take_reason_def bind_sum_Inr_iff Let_def split: option.splits)
  with assms(5,6) show ?thesis by (auto simp: requireReason_def split: if_splits)
qed

section \<open>NewHandler and its options\<close>

definition ErrNotConfigured :: go_err where
  "ErrNotConfigured = ErrText ''approval gate is not configured (APPROVAL_GATE_URL): refusing''"

text \<open>
  The integrations that came later are options: without them a handler has the unavailable ones. The
  first argument is what the registry of the package is made with, the second has the services that
  are arguments of the constructor.
\<close>

definition NewHandler :: "api_machinery \<Rightarrow> services \<Rightarrow> mcp_handler" where
  "NewHandler am sv =
     \<lparr>h_gate = unavailable_gate ErrNotConfigured,
      h_gateReader = unavailable_reader ''the approval gate has no kubernetes client to read a target with'',
      h_gateCollectionReader = unavailable_reader ''the approval gate has no kubernetes client to read a selection with'',
      h_sensitiveKinds = [defaultSensitiveKind],
      h_am = am,
      h_services = sv\<lparr>Notify := (\<lambda>_ _ _. Pair (Inl (pocketaide_NewUnavailable []))),
        IssueToken := (\<lambda>_. Pair (Inl (drop_NewUnavailable [])))\<rparr>,
      h_registry = toolRegistry am\<rparr>"

text \<open>The options. A nil argument leaves the field as it was; an empty list of kinds too.\<close>

definition WithGate :: "gate option \<Rightarrow> string list \<Rightarrow> mcp_handler \<Rightarrow> mcp_handler" where
  "WithGate g kinds h =
     h\<lparr>h_gate := (case g of None \<Rightarrow> h_gate h | Some g' \<Rightarrow> g'),
       h_sensitiveKinds := (if kinds = [] then h_sensitiveKinds h else kinds)\<rparr>"

definition WithGateReader :: "(target_ref \<Rightarrow> (world, target_state) act) option \<Rightarrow> mcp_handler \<Rightarrow> mcp_handler" where
  "WithGateReader reader h = (case reader of None \<Rightarrow> h | Some rd \<Rightarrow> h\<lparr>h_gateReader := rd\<rparr>)"

definition WithGateCollectionReader ::
  "(collection_target_ref \<Rightarrow> (world, collection_target_state) act) option \<Rightarrow> mcp_handler \<Rightarrow> mcp_handler"
where
  "WithGateCollectionReader reader h =
     (case reader of None \<Rightarrow> h | Some rd \<Rightarrow> h\<lparr>h_gateCollectionReader := rd\<rparr>)"

definition WithPocketAide ::
  "(string \<Rightarrow> string \<Rightarrow> string \<Rightarrow> (world, notify_result) act) option \<Rightarrow> mcp_handler \<Rightarrow> mcp_handler"
where
  "WithPocketAide svc h =
     (case svc of None \<Rightarrow> h | Some s \<Rightarrow> h\<lparr>h_services := (h_services h)\<lparr>Notify := s\<rparr>\<rparr>)"

definition WithDrop :: "(drop_request \<Rightarrow> (world, drop_token) act) option \<Rightarrow> mcp_handler \<Rightarrow> mcp_handler" where
  "WithDrop svc h =
     (case svc of None \<Rightarrow> h | Some s \<Rightarrow> h\<lparr>h_services := (h_services h)\<lparr>IssueToken := s\<rparr>\<rparr>)"

lemmas handler_options = WithGate_def WithGateReader_def WithGateCollectionReader_def WithPocketAide_def WithDrop_def

text \<open>
  Whatever options it is built with, a handler dispatches over the registry of the package.
\<close>

lemma options_keep_the_registry [simp]:
  "h_registry (WithGate g ks h) = h_registry h" "h_am (WithGate g ks h) = h_am h"
  "h_registry (WithGateReader rd h) = h_registry h" "h_am (WithGateReader rd h) = h_am h"
  "h_registry (WithGateCollectionReader cr h) = h_registry h" "h_am (WithGateCollectionReader cr h) = h_am h"
  "h_registry (WithPocketAide pa h) = h_registry h" "h_am (WithPocketAide pa h) = h_am h"
  "h_registry (WithDrop dr h) = h_registry h" "h_am (WithDrop dr h) = h_am h"
  by (simp_all add: handler_options split: option.split)

section \<open>What main builds\<close>

text \<open>
  The process from its environment: variables, files, the approval backend, the cluster client
  (\<open>k8s.New\<close>, which may fail) and the other integrations.
\<close>

record deployment =
  dp_getenv :: "string \<Rightarrow> string"
  dp_files :: "string \<Rightarrow> string option"
  dp_backend :: gate_env
  dp_cluster :: "string + k8s_oracle \<times> read_oracle"
  dp_integrations :: ext_oracle
  dp_am :: api_machinery

definition version_Name :: string where "version_Name = ''homelab-k3s-mcp''"

definition buildK8sService :: "deployment \<Rightarrow> world k8s_service" where
  "buildK8sService dp =
     (let disabled = dp_getenv dp ''MCP_K8S_DISABLED'' in
      if disabled = ''1'' \<or> disabled = ''true'' then unavailable_service ''kubernetes integration is disabled''
      else (case dp_cluster dp of Inl why \<Rightarrow> unavailable_service why | Inr (k, _) \<Rightarrow> live_service k))"

text \<open>The client is the reader too: it is missing when the service is the unavailable one.\<close>

definition cluster_reader :: "deployment \<Rightarrow> read_oracle option" where
  "cluster_reader dp =
     (let disabled = dp_getenv dp ''MCP_K8S_DISABLED'' in
      if disabled = ''1'' \<or> disabled = ''true'' then None
      else (case dp_cluster dp of Inl _ \<Rightarrow> None | Inr (_, o') \<Rightarrow> Some o'))"

definition buildGateReader :: "deployment \<Rightarrow> target_ref \<Rightarrow> (world, target_state) act" where
  "buildGateReader dp =
     (case cluster_reader dp of
        None \<Rightarrow> unavailable_reader ''kubernetes integration is unavailable'' | Some o' \<Rightarrow> live_reader o')"

definition buildGateCollectionReader :: "deployment \<Rightarrow> collection_target_ref \<Rightarrow> (world, collection_target_state) act" where
  "buildGateCollectionReader dp =
     (case cluster_reader dp of
        None \<Rightarrow> unavailable_reader ''kubernetes integration is unavailable'' | Some o' \<Rightarrow> live_lister o')"

definition buildGate :: "deployment \<Rightarrow> gate \<times> string list" where
  "buildGate dp =
     (case FromEnv (dp_getenv dp) (dp_files dp) of
        Inl e \<Rightarrow> (unavailable_gate e, [])
      | Inr None \<Rightarrow> (unavailable_gate ErrNotConfigured, [])
      | Inr (Some cfg) \<Rightarrow> (authorize_client (dp_backend dp) (New cfg version_Name), GatedKinds cfg))"

definition served :: "deployment \<Rightarrow> mcp_handler" where
  "served dp =
     (let sv = live_services (buildK8sService dp) (dp_integrations dp) in
      WithDrop (Some (IssueToken sv)) (WithPocketAide (Some (Notify sv))
        (WithGateCollectionReader (Some (buildGateCollectionReader dp))
          (WithGateReader (Some (buildGateReader dp))
            (WithGate (Some (fst (buildGate dp))) (snd (buildGate dp)) (NewHandler (dp_am dp) sv))))))"

text \<open>The evidence a decision of the built gate has: none of an unavailable gate, since it gives none.\<close>

definition built_evidence :: "deployment \<Rightarrow> gate_call \<Rightarrow> world \<Rightarrow> world \<Rightarrow> decision \<Rightarrow> bool" where
  "built_evidence dp call w w' d \<longleftrightarrow>
     (\<exists>cfg. FromEnv (dp_getenv dp) (dp_files dp) = Inr (Some cfg) \<and>
        approval_evidence (dp_backend dp) (New cfg version_Name) call w w' d)"

lemma built_gate: "approval_gate (fst (buildGate dp)) (built_evidence dp)"
proof (cases "\<exists>cfg. FromEnv (dp_getenv dp) (dp_files dp) = Inr (Some cfg)")
  case True
  then obtain cfg where cfg: "FromEnv (dp_getenv dp) (dp_files dp) = Inr (Some cfg)" by blast
  have "built_evidence dp = approval_evidence (dp_backend dp) (New cfg version_Name)"
    by (simp add: fun_eq_iff built_evidence_def cfg)
  then show ?thesis using client.approval_gate_axioms by (simp add: buildGate_def cfg)
next
  case False
  then have "\<exists>e. fst (buildGate dp) = unavailable_gate e"
    by (auto simp: buildGate_def split: sum.split option.split)
  then obtain e where "fst (buildGate dp) = unavailable_gate e" by blast
  moreover have "built_evidence dp = (\<lambda>call w w' d. False)" using False by (simp add: fun_eq_iff built_evidence_def)
  ultimately show ?thesis using unavailable.approval_gate_axioms by simp
qed

lemma built_readers: "gate_readers (buildGateReader dp) (buildGateCollectionReader dp)"
  using live_readers.gate_readers_axioms no_readers.gate_readers_axioms
  by (cases "cluster_reader dp") (simp_all add: buildGateReader_def buildGateCollectionReader_def)

lemma bounded_act_mono: "bounded_act may call act \<Longrightarrow> (\<And>k. may k \<Longrightarrow> may' k) \<Longrightarrow> bounded_act may' call act"
  unfolding bounded_act_def by blast

lemma bounded_service_mono:
  assumes "bounded_service svc may" and "\<And>k. may k \<Longrightarrow> may' k"
  shows "bounded_service svc may'"
  by (rule bounded_service.intro;
      rule bounded_act_mono [where may = may], rule bounded_service.bounded_acts [OF assms(1)], erule assms(2))

lemma built_services: "bounded_service (buildK8sService dp) (\<lambda>_. True)"
  using live.bounded_service_axioms unavailable_k8s.bounded_service_axioms
  by (auto simp: buildK8sService_def Let_def split: sum.splits intro: bounded_service_mono)

lemma served_simps [simp]:
  "h_gate (served dp) = fst (buildGate dp)" "h_gateReader (served dp) = buildGateReader dp"
  "h_gateCollectionReader (served dp) = buildGateCollectionReader dp"
  "h_sensitiveKinds (served dp) = (if snd (buildGate dp) = [] then [defaultSensitiveKind] else snd (buildGate dp))"
  "h_am (served dp) = dp_am dp" "h_registry (served dp) = toolRegistry (dp_am dp)"
  "h_services (served dp) = live_services (buildK8sService dp) (dp_integrations dp)"
  by (simp_all add: served_def NewHandler_def handler_options live_services_def Let_def)

lemma served_dispatcher: "registry_dispatcher (served dp) (built_evidence dp)"
  by (simp add: registry_dispatcher_def registry_dispatcher_axioms_def gated_dispatch_def
      built_gate built_readers bounded_services_live [OF built_services])

interpretation srv: registry_dispatcher "served dp" "built_evidence dp"
  by (rule served_dispatcher)

end
