(* ===== verification/HandlerProps.thy ===== *)
theory HandlerProps
  imports Serve
begin

text \<open>
  Which call each handler makes, told from its arguments: the object it acts on is the object the
  gate reads and shows (\<open>genericTarget\<close>, \<open>genericCollectionTarget\<close>), with the version that was
  approved where the request carries one.
\<close>

section \<open>The calls of a handler's body\<close>

definition calls_only :: "(k8s_call \<Rightarrow> bool) \<Rightarrow> (world \<Rightarrow> tool_result outcome) \<Rightarrow> bool" where
  "calls_only P b \<longleftrightarrow> (\<forall>w r w' k. b w = (r, w') \<longrightarrow> K8sCall k \<in> set (new_effects w w') \<longrightarrow> P k)"

lemma calls_onlyD: "calls_only P b \<Longrightarrow> b w = (r, w') \<Longrightarrow> K8sCall k \<in> set (new_effects w w') \<Longrightarrow> P k"
  unfolding calls_only_def by blast

lemma calls_only_parsed: "(\<And>a. p = Inr a \<Longrightarrow> calls_only P (f a)) \<Longrightarrow> calls_only P (parsed p f)"
  by (cases p) (auto simp: calls_only_def parsed_def new_effects_def)

lemma toolError_trace: "toolError e w = (res, w') \<Longrightarrow> trace w' = trace w"
  by (auto simp: toolError_def noteError_def toolText_def)

lemma calls_only_respond:
  assumes "bounded_act may call act" and "P call"
  shows "calls_only P (respond act k)"
  unfolding calls_only_def
proof (intro allI impI)
  fix w r w' c
  assume run: "respond act k w = (r, w')" and c: "K8sCall c \<in> set (new_effects w w')"
  obtain q w1 where act: "act w = (q, w1)" by fastforce
  then have w1: "w1 = w \<or> w1 = log_effect (K8sCall call) w"
    using assms(1) unfolding bounded_act_def by blast
  have "trace w' = trace w1"
    using run act by (auto simp: respond_def split: sum.splits prod.splits dest: toolError_trace)
  with w1 c have "c = call" by (auto simp: new_effects_def)
  with assms(2) show "P c" by simp
qed

section \<open>Coordinates\<close>

type_synonym object_key = "string \<times> string \<times> string option \<times> string"

fun object_of :: "k8s_call \<Rightarrow> object_key option" where
  "object_of (CGet r) = Some (rr_APIVersion r, rr_Kind r, rr_Namespace r, rr_Name r)"
| "object_of (CUpdate r) = Some (ur_APIVersion r, ur_Kind r, ur_Namespace r, ur_Name r)"
| "object_of (CPatch r) = Some (pr_APIVersion r, pr_Kind r, pr_Namespace r, pr_Name r)"
| "object_of (CDelete r) = Some (dr_APIVersion r, dr_Kind r, dr_Namespace r, dr_Name r)"
| "object_of (CExec r c cmd) = Some (po_APIVersion r, po_Kind r, po_Namespace r, po_Name r)"
| "object_of (CAttach r c i n) = Some (po_APIVersion r, po_Kind r, po_Namespace r, po_Name r)"
| "object_of (CPortForward r p b n) = Some (po_APIVersion r, po_Kind r, po_Namespace r, po_Name r)"
| "object_of (CProxy r m p b t n) = Some (px_APIVersion r, px_Kind r, px_Namespace r, px_Name r)"
| "object_of _ = None"

definition target_key :: "target_ref \<Rightarrow> object_key" where
  "target_key ref = (tr_APIVersion ref, tr_Kind ref, tr_Namespace ref, tr_Name ref)"

definition argument_key :: "obj \<Rightarrow> object_key" where
  "argument_key o' = (string_or_empty o' ''apiVersion'', string_or_empty o' ''kind'',
     optionalString o' ''namespace'', string_or_empty o' ''name'')"

lemma genericTarget_key: "genericTarget (JObj o') = Inr ref \<Longrightarrow> target_key ref = argument_key o'"
  by (auto simp: genericTarget_def target_key_def argument_key_def Let_def split: if_splits)

lemma parseCoordinate_Inr:
  "parseCoordinate o' = Inr c \<Longrightarrow>
     co_apiVersion c = string_or_empty o' ''apiVersion'' \<and> co_kind c = string_or_empty o' ''kind'' \<and>
     co_namespace c = optionalString o' ''namespace''"
  by (auto simp: parseCoordinate_def parse_simps optionalString_iff)

text \<open>
  A call on the object its arguments name. An update carries the resource version the gate approved,
  a patch the version and the identity.
\<close>

definition acts_on :: "call_ctx \<Rightarrow> raw \<Rightarrow> k8s_call \<Rightarrow> bool" where
  "acts_on ctx r k \<longleftrightarrow>
     (\<exists>o'. r = JObj o' \<and> object_of k = Some (argument_key o')) \<and>
     (case k of
        CUpdate u \<Rightarrow> (\<exists>a. cx_approved ctx = Some a \<and> ur_ApprovedResourceVersion u = ts_ResourceVersion a \<and>
          ts_ResourceVersion a \<noteq> [])
      | CPatch p \<Rightarrow> (\<exists>a. cx_approved ctx = Some a \<and> pr_ApprovedResourceVersion p = ts_ResourceVersion a \<and>
          pr_ApprovedUID p = ts_UID a \<and> ts_ResourceVersion a \<noteq> [] \<and> ts_UID a \<noteq> [])
      | _ \<Rightarrow> True)"

lemmas object_parsers = object_arg_def parse_simps optionalString_iff argument_key_def

lemma parse_get_acts:
  "parse_get r = Inr (coord, ref) \<Longrightarrow> acts_on ctx r (CGet ref)"
  by (auto simp: parse_get_def acts_on_def object_parsers dest!: parseCoordinate_Inr)

lemma parse_update_acts:
  "parse_update ctx r = Inr (coord, ref) \<Longrightarrow> acts_on ctx r (CUpdate ref)"
  by (auto simp: parse_update_def acts_on_def object_parsers split: option.splits dest!: parseCoordinate_Inr)

lemma parse_patch_acts:
  "parse_patch ctx r = Inr (coord, ref) \<Longrightarrow> acts_on ctx r (CPatch ref)"
  by (auto simp: parse_patch_def acts_on_def object_parsers split: option.splits dest!: parseCoordinate_Inr)

lemma parse_delete_acts:
  "parse_delete r = Inr (coord, name, grace) \<Longrightarrow>
     acts_on ctx r (CDelete \<lparr>dr_APIVersion = co_apiVersion coord, dr_Kind = co_kind coord,
       dr_Namespace = co_namespace coord, dr_Name = name, dr_GracePeriodSeconds = g\<rparr>)"
  by (auto simp: parse_delete_def parseDeleteTarget_def acts_on_def object_parsers dest!: parseCoordinate_Inr)

lemma parse_exec_acts: "parse_exec r = Inr (ref, cmd, c) \<Longrightarrow> acts_on ctx r (CExec ref c cmd)"
  by (auto simp: parse_exec_def parseExecTarget_def acts_on_def object_parsers parse_pod_ref_Inr)

lemma parse_attach_acts:
  "bind_sum (object_arg r) parseAttachTarget = Inr a \<Longrightarrow>
     acts_on ctx r (CAttach (at_ref a) (at_container a) (at_stdin a) (at_readSeconds a))"
  by (auto simp: parseAttachTarget_def acts_on_def object_parsers parse_pod_ref_Inr)

lemma parse_forward_acts:
  "bind_sum (object_arg r) parsePortForwardTarget = Inr a \<Longrightarrow>
     acts_on ctx r (CPortForward (pa_ref a) (pa_port a) (pa_payload a) (pa_readSeconds a))"
  by (auto simp: parsePortForwardTarget_def acts_on_def object_parsers parse_pod_ref_Inr)

lemma parse_proxy_acts:
  "bind_sum (object_arg r) parseProxyTarget = Inr a \<Longrightarrow>
     acts_on ctx r (CProxy (xa_ref a) (xa_method a) (xa_path a) (xa_body a) (xa_contentType a) (xa_readSeconds a))"
  by (auto simp: parseProxyTarget_def acts_on_def object_parsers)

text \<open>A collection delete carries the selection the gate listed.\<close>

definition deletes_selection :: "raw \<Rightarrow> k8s_call \<Rightarrow> bool" where
  "deletes_selection r k \<longleftrightarrow>
     (\<exists>dc ref. k = CDeleteCollection dc \<and> genericCollectionTarget r = Inr ref \<and>
        (dc_APIVersion dc, dc_Kind dc, dc_Namespace dc, dc_LabelSelector dc, dc_FieldSelector dc) =
        (ct_APIVersion ref, ct_Kind ref, ct_Namespace ref, ct_LabelSelector ref, ct_FieldSelector ref))"

lemma parse_collection_acts:
  "parse_delete_collection r = Inr (coord, sel) \<Longrightarrow>
     deletes_selection r (CDeleteCollection \<lparr>dc_APIVersion = co_apiVersion coord, dc_Kind = co_kind coord,
       dc_Namespace = sel_namespace sel, dc_LabelSelector = sel_labelSelector sel,
       dc_FieldSelector = sel_fieldSelector sel, dc_GracePeriodSeconds = sel_grace sel\<rparr>)"
  by (auto simp: parse_delete_collection_def deletes_selection_def object_arg_def bind_sum_Inr_iff
      genericCollectionTarget_def parseCoordinate_def required_string_Inr optionalString_iff)

section \<open>The handlers\<close>

definition acting_tools :: "string list" where
  "acting_tools = [''resource_get'', ''resource_update'', ''resource_patch'', ''resource_delete'',
     ''resource_exec'', ''resource_attach'', ''resource_port_forward'', ''resource_proxy'']"

context bounded_services
begin

lemma acting_handlers:
  "calls_only (acts_on ctx r) (resourceGet sv ctx r)" "calls_only (acts_on ctx r) (resourceUpdate sv ctx r)"
  "calls_only (acts_on ctx r) (resourcePatch sv ctx r)" "calls_only (acts_on ctx r) (resourceDelete sv ctx r)"
  "calls_only (acts_on ctx r) (resourceExec sv ctx r)" "calls_only (acts_on ctx r) (resourceAttach sv ctx r)"
  "calls_only (acts_on ctx r) (resourcePortForward sv ctx r)" "calls_only (acts_on ctx r) (resourceProxy sv ctx r)"
  unfolding resource_handler_defs
  by (auto intro!: calls_only_parsed split: prod.splits
      intro: calls_only_respond [OF b_get] calls_only_respond [OF b_update] calls_only_respond [OF b_patch]
        calls_only_respond [OF b_delete] calls_only_respond [OF b_exec] calls_only_respond [OF b_attach]
        calls_only_respond [OF b_port_forward] calls_only_respond [OF b_proxy]
        parse_get_acts parse_update_acts parse_patch_acts parse_delete_acts parse_exec_acts parse_attach_acts
        parse_forward_acts parse_proxy_acts)

lemma collection_handler: "calls_only (deletes_selection r) (resourceDeleteCollection sv ctx r)"
  unfolding resourceDeleteCollection_def
  by (auto intro!: calls_only_parsed split: prod.splits
      intro: calls_only_respond [OF b_collection] parse_collection_acts)

end

text \<open>The token handler asks for what the caller's limits leave of the request.\<close>

lemma token_request_made:
  assumes "githubAppInstallationToken (live_services k x) ctx r w = (res, w')"
    and "ExtCall (XInstallationToken rs ps) \<in> set (new_effects w w')"
  shows "scoped_token_request ctx r = Inr (rs, ps)"
  using assms
  by (auto simp: githubAppInstallationToken_def parsed_def respond_def live_services_def perform_def new_effects_def
      split: sum.splits prod.splits dest!: toolError_trace)

lemma acting_toolHandlers:
  assumes "bounded_services sv may"
  shows "list_all (\<lambda>(n, f). n \<in> set acting_tools \<longrightarrow> (\<forall>ctx r. calls_only (acts_on ctx r) (f sv ctx r))) (toolHandlers am)"
  unfolding toolHandlers_def
  by (simp add: acting_tools_def bounded_services.acting_handlers [OF assms])

lemma acting_declared:
  assumes "is_declared am name d" and "name \<in> set acting_tools"
  shows "target d = Some genericTarget"
proof -
  have "list_all (\<lambda>(n, d, _). n \<in> set acting_tools \<longrightarrow> target d = Some genericTarget) (declaredTools am)"
    by (simp add: declared_defs acting_tools_def)
  from is_declared_all [OF this assms(1)] assms(2) show ?thesis by blast
qed

lemma acting_names: "name \<in> set acting_tools \<Longrightarrow>
    name \<noteq> ''resource_create'' \<and> name \<noteq> ''resource_delete_collection'' \<and> name \<noteq> ''dear_baby_reset_user''"
  by (auto simp: acting_tools_def)

context registry_dispatcher
begin

lemma invoke_acts_on:
  assumes reg: "map_of (h_registry h) name = Some entry" and acting: "name \<in> set acting_tools"
    and run: "invoke h ctx name entry rawArgs w = (r, w')" and call: "K8sCall k \<in> set (new_effects w w')"
  shows "acts_on ctx rawArgs k"
proof -
  have "w' \<noteq> w" using call by (auto simp: new_effects_def)
  with run obtain c f where c: "confine name (decl entry) rawArgs = Inr c" and f: "handle entry = Some f"
    by (auto simp: invoke_def split: sum.splits option.splits)
  let ?sv = "(h_services h)\<lparr>sv_k8s := confinedService (h_am h) c (sv_k8s (h_services h))\<rparr>"
  have b: "bounded_services ?sv (\<lambda>k. True \<and> permits (h_am h) c k)"
    by (rule bounded_services_confine) (rule bounded_services_axioms)
  have "(name, f) \<in> set (toolHandlers (h_am h))"
    using map_of_toolRegistry(2) [OF reg [unfolded registry]] f by (simp add: map_of_SomeD)
  with acting_toolHandlers [OF b, of "h_am h"] acting have "calls_only (acts_on ctx rawArgs) (f ?sv ctx rawArgs)"
    by (auto simp: list_all_iff)
  moreover have "f ?sv ctx rawArgs w = (r, w')" using run c f by (simp add: invoke_def)
  ultimately show ?thesis using call by (rule calls_onlyD)
qed

text \<open>
  A gated request of one of these tools acts on the object the gate read for it, and which the
  operator was shown; the state that was read is the one an update or a patch is conditional on.
\<close>

lemma run_entry_acts_on_approved:
  assumes reg: "map_of (h_registry h) name = Some entry" and acting: "name \<in> set acting_tools"
    and run: "run_entry h ctx name entry rawArgs w = (r, w')"
    and call: "K8sCall k \<in> set (new_effects w w')"
    and pair: "exercises (h_am h) k = Some ps" "p \<in> set ps" "pair_gated (h_sensitiveKinds h) p"
  shows "\<exists>dec st w1 ref. authorized h evidence ctx name (decl entry) rawArgs w w1 dec (Some st) \<and>
     genericTarget rawArgs = Inr ref \<and> object_of k = Some (target_key ref) \<and>
     acts_on (ctx\<lparr>cx_approved := Some st\<rparr>) rawArgs k"
proof -
  note reg' = reg [unfolded registry] and names = acting_names [OF acting]
  have decl: "is_declared (h_am h) name (decl entry)" by (rule map_of_toolRegistry(1) [OF reg'])
  then have tgt: "target (decl entry) = Some genericTarget" and inside: "outsideGate (decl entry) = []"
    using acting acting_declared names by (auto simp: declared_outsideGate)
  have nb: "\<not> createBatch entry" "\<not> collectionGate entry" using toolRegistry_flags(1,2) [OF reg'] names by auto
  obtain es where es: "trace w' = trace w @ es"
    "list_all (\<lambda>x. gate_effect x \<or> ((\<exists>a. r = Inr a) \<and> allowed_effect (entry_call h name entry rawArgs) x)) es"
    using run_entry_steps [OF reg run] by (auto simp: call_steps_def)
  then have "list_all (\<lambda>x. gate_effect x \<or> allowed_effect (entry_call h name entry rawArgs) x) es"
    by (auto simp: list_all_iff)
  from allowed_call [OF this] call es(1) nb have "declared_call h name (decl entry) rawArgs k"
    by (simp add: new_effects_def entry_call_def)
  from gated_pair [OF this pair inside] have "gatedPairs (decl entry) (h_sensitiveKinds h) rawArgs \<noteq> Inr []"
    by fastforce
  with run_entry_single [OF nb reg run] asked_gate_no_call call obtain dec st w1 q
    where au: "authorized h evidence ctx name (decl entry) rawArgs w w1 dec st"
      and inv: "invoke h (case st of None \<Rightarrow> ctx | Some st \<Rightarrow> ctx\<lparr>cx_approved := Some st\<rparr>) name entry rawArgs
           (noteGate dec w1) = (q, w')" and s1: "asked_gate w w1" by blast
  from au tgt obtain a ref where st: "st = Some a" and ref: "genericTarget rawArgs = Inr ref"
    by (auto simp: authorized_def)
  obtain fs where fs: "trace w1 = trace w @ fs" "K8sCall k \<notin> set fs"
    using s1 asked_gate_no_call [OF s1] by (auto simp: asked_gate_def new_effects_def)
  have "extends w1 w'" using invoke_grows [OF reg inv] by simp
  with fs call have "K8sCall k \<in> set (new_effects (noteGate dec w1) w')"
    by (auto simp: new_effects_def extends_def)
  from invoke_acts_on [OF reg acting inv this] have acts: "acts_on (ctx\<lparr>cx_approved := Some a\<rparr>) rawArgs k"
    by (simp add: st)
  then obtain o' where "rawArgs = JObj o'" "object_of k = Some (argument_key o')" by (auto simp: acts_on_def)
  with genericTarget_key [of o' ref] ref have "object_of k = Some (target_key ref)" by simp
  with au acts ref show ?thesis unfolding st by blast
qed

text \<open>
  A collection delete is made only on an approval for the selection the gate listed, listed again
  after the approval with the same objects, and it carries that selection.
\<close>

lemma run_entry_collection:
  assumes reg: "map_of (h_registry h) ''resource_delete_collection'' = Some entry"
    and run: "run_entry h ctx ''resource_delete_collection'' entry rawArgs w = (r, w')"
    and call: "K8sCall k \<in> set (new_effects w w')"
  shows "deletes_selection rawArgs k \<and>
     (\<exists>dec w4. collection_authorized h evidence ctx ''resource_delete_collection'' (decl entry) rawArgs w w4 dec \<and>
        extends w4 w' \<and> spent w' = spent w4)"
proof -
  let ?name = "''resource_delete_collection''"
  note reg' = reg [unfolded registry]
  have "callDeleteCollection h ctx ?name entry rawArgs w = (r, w')"
    using run toolRegistry_flags(1,2) [OF reg'] by (simp add: run_entry_def)
  from callDeleteCollection_cases [OF this] asked_gate_no_call call obtain dec w4 q
    where s1: "asked_gate w w4" and ca: "collection_authorized h evidence ctx ?name (decl entry) rawArgs w w4 dec"
      and inv: "invoke h ctx ?name entry rawArgs (noteGate dec w4) = (q, w')" by blast
  have g: "spent w' = spent w4" "extends w4 w'" using invoke_grows [OF reg inv] by simp_all
  obtain fs where fs: "trace w4 = trace w @ fs" "K8sCall k \<notin> set fs"
    using s1 asked_gate_no_call [OF s1] by (auto simp: asked_gate_def new_effects_def)
  with g call have new: "K8sCall k \<in> set (new_effects (noteGate dec w4) w')"
    by (auto simp: new_effects_def extends_def)
  then have "w' \<noteq> noteGate dec w4" by (auto simp: new_effects_def)
  with inv obtain c f where c: "confine ?name (decl entry) rawArgs = Inr c" and f: "handle entry = Some f"
    by (auto simp: invoke_def split: sum.splits option.splits)
  let ?sv = "(h_services h)\<lparr>sv_k8s := confinedService (h_am h) c (sv_k8s (h_services h))\<rparr>"
  have b: "bounded_services ?sv (\<lambda>k. True \<and> permits (h_am h) c k)"
    by (rule bounded_services_confine) (rule bounded_services_axioms)
  have "f = resourceDeleteCollection"
    using map_of_toolRegistry(2) [OF reg'] f by (simp add: toolHandlers_def)
  moreover have "f ?sv ctx rawArgs (noteGate dec w4) = (q, w')" using inv c f by (simp add: invoke_def)
  ultimately have "deletes_selection rawArgs k"
    using bounded_services.collection_handler [OF b] new calls_onlyD by blast
  with ca g show ?thesis by blast
qed

end

end
