(* ===== verification/Sample.thy ===== *)
theory Sample
  imports HandlerProps
begin

text \<open>
  A concrete deployment on which the properties are exercised: a cluster that answers every call, a
  backend that approves (at once, or after one poll) and the names of three kinds.
\<close>

definition sample_am :: api_machinery where
  "sample_am =
     \<lparr>ParseGroupVersion = (\<lambda>s. if s = ''v1'' then Some ([], ''v1'') else None),
      guessPlural = (\<lambda>gv kind. to_lower kind @ ''s''),
      readYAML = (\<lambda>s. ([s], True)),
      YAMLToJSON = (\<lambda>s. None)\<rparr>"

definition sample_env :: "string \<Rightarrow> string" where
  "sample_env key =
     (if key = ''APPROVAL_GATE_URL'' then ''https://gate''
      else if key = ''APPROVAL_GATE_TOKEN_FILE'' then ''/token'' else [])"

definition sample_files :: "string \<Rightarrow> string option" where
  "sample_files path = (if path = ''/token'' then Some ''secret'' else None)"

text \<open>Ids are numbered by the trace, so that every request and every answer is a new one.\<close>

definition sample_backend :: "string \<Rightarrow> gate_env" where
  "sample_backend status =
     \<lparr>ge_token = (\<lambda>w. Inr ''secret''), ge_newID = (\<lambda>w. Inr (''ext'' @ itoa (int (length (trace w))))),
      ge_newRequest = (\<lambda>w. Inr ()),
      ge_post = (\<lambda>q w. Response 201 (Some (''req'' @ itoa (int (length (trace w))), status))),
      ge_get = (\<lambda>rid w. Response 200 (Some (rid, StatusApproved))),
      ge_elapsed = (\<lambda>w. 5), ge_ctxDone = None, ge_pick = (\<lambda>w. 0)\<rparr>"

definition sample_object :: resource_result where
  "sample_object = \<lparr>rs_Resource = ''configmaps'', rs_Namespace = ''default'', rs_Object = Some [(''kind'', JStr ''ConfigMap'')], rs_Text = []\<rparr>"

definition sample_cluster :: k8s_oracle where
  "sample_cluster =
     \<lparr>o_APIResources = (\<lambda>w. Inr []),
      o_List = (\<lambda>q w. Inl (ErrText ''no list'')), o_Watch = (\<lambda>q w. Inl (ErrText ''no watch'')),
      o_Object = (\<lambda>k w. Inr sample_object),
      o_DeleteCollection = (\<lambda>r w. Inl (ErrText ''no collection'')),
      o_Exec = (\<lambda>k w. Inl (ErrText ''no exec'')), o_Attach = (\<lambda>k w. Inl (ErrText ''no attach'')),
      o_PortForward = (\<lambda>k w. Inl (ErrText ''no forward'')), o_Proxy = (\<lambda>k w. Inl (ErrText ''no proxy''))\<rparr>"

definition sample_state :: target_state where
  "sample_state = \<lparr>ts_ResourceVersion = ''7'', ts_UID = ''u1'', ts_Replicas = None\<rparr>"

definition sample_reader :: read_oracle where
  "sample_reader =
     \<lparr>o_ReadTarget = (\<lambda>ref w. Inr sample_state),
      o_ListTargets = (\<lambda>ref w. Inr \<lparr>cs_ResourceVersion = ''9'',
         cs_Targets = [\<lparr>cg_Name = ''a'', cg_Namespace = ''default'', cg_UID = ''u1'', cg_ResourceVersion = ''3''\<rparr>]\<rparr>)\<rparr>"

definition sample_integrations :: ext_oracle where
  "sample_integrations =
     \<lparr>o_token = (\<lambda>r p w. Inl (ErrText ''no token'')), o_status = (\<lambda>s w. Inl (ErrText ''no status'')),
      o_aws = (\<lambda>w. Inl (ErrText ''no aws'')), o_grafana = (\<lambda>w. Inl (ErrText ''no grafana'')),
      o_search = (\<lambda>q i n w. Inl (ErrText ''no search'')), o_document = (\<lambda>k w. Inl (ErrText ''no document'')),
      o_sessions = (\<lambda>w. Inr []), o_read = (\<lambda>i n w. Inl (ErrText ''no session'')),
      o_write = (\<lambda>i p w. Inl (ErrText ''no session'')), o_create_session = (\<lambda>r w. Inl (ErrText ''no session'')),
      o_delete_session = (\<lambda>i w. Inr ()), o_notify = (\<lambda>t b r w. Inl (ErrText ''no push'')),
      o_issue = (\<lambda>q w. Inl (ErrText ''no drop''))\<rparr>"

definition sample_deployment :: "string \<Rightarrow> deployment" where
  "sample_deployment status =
     \<lparr>dp_getenv = sample_env, dp_files = sample_files, dp_backend = sample_backend status,
      dp_cluster = Inr (sample_cluster, sample_reader), dp_integrations = sample_integrations,
      dp_am = sample_am\<rparr>"

definition sample_ctx :: call_ctx where
  "sample_ctx = \<lparr>ctx_tools = None, ctx_caps = [], ctx_self = [], cx_sessionID = [], cx_reason = [],
     cx_approved = None, cx_principal = Anonymous, cx_cancelled = (\<lambda>w. False)\<rparr>"

definition call_params :: "string \<Rightarrow> obj \<Rightarrow> raw" where
  "call_params name args = JObj [(''name'', JStr name), (''arguments'', JObj args)]"

definition sample_coordinate :: obj where
  "sample_coordinate = [(''apiVersion'', JStr ''v1''), (''kind'', JStr ''ConfigMap''),
     (''namespace'', JStr ''default''), (''name'', JStr ''a''), (''reason'', JStr ''cleanup'')]"

definition sample_delete :: raw where
  "sample_delete = call_params ''resource_delete'' sample_coordinate"

definition sample_delete_ref :: delete_ref where
  "sample_delete_ref = \<lparr>dr_APIVersion = ''v1'', dr_Kind = ''ConfigMap'', dr_Namespace = Some ''default'',
     dr_Name = ''a'', dr_GracePeriodSeconds = None\<rparr>"

definition sample_run :: "string \<Rightarrow> raw \<Rightarrow> tool_result outcome" where
  "sample_run status params = toolsCall (served (sample_deployment status)) sample_ctx params init_world"

lemma sample_run_eq:
  "toolsCall (served (sample_deployment status)) sample_ctx params init_world =
     (fst (sample_run status params), snd (sample_run status params))"
  by (simp add: sample_run_def)

text \<open>One entry of the registry, run below \<open>toolsCall\<close>.\<close>

definition sample_entry :: "string \<Rightarrow> handler tool_entry" where
  "sample_entry name = the (map_of (toolRegistry sample_am) name)"

definition registered :: "string \<Rightarrow> bool" where
  "registered name \<longleftrightarrow> (case map_of (toolRegistry sample_am) name of None \<Rightarrow> False | Some _ \<Rightarrow> True)"

lemma sample_entry_registered:
  "registered name \<Longrightarrow> map_of (toolRegistry (dp_am (sample_deployment status))) name = Some (sample_entry name)"
  by (auto simp: registered_def sample_entry_def sample_deployment_def split: option.splits)

definition sample_entry_run :: "string \<Rightarrow> string \<Rightarrow> obj \<Rightarrow> tool_result outcome" where
  "sample_entry_run status name args =
     run_entry (served (sample_deployment status)) sample_ctx name (sample_entry name) (JObj args) init_world"

lemma sample_entry_run_eq:
  "run_entry (served (sample_deployment status)) sample_ctx name (sample_entry name) (JObj args) init_world =
     (fst (sample_entry_run status name args), snd (sample_entry_run status name args))"
  by (simp add: sample_entry_run_def)

definition sample_selection :: obj where
  "sample_selection = [(''apiVersion'', JStr ''v1''), (''kind'', JStr ''ConfigMap''),
     (''namespace'', JStr ''default''), (''labelSelector'', JStr ''app=a'')]"

definition sample_collection_ref :: delete_collection_ref where
  "sample_collection_ref = \<lparr>dc_APIVersion = ''v1'', dc_Kind = ''ConfigMap'', dc_Namespace = ''default'',
     dc_LabelSelector = ''app=a'', dc_FieldSelector = [], dc_GracePeriodSeconds = None\<rparr>"

section \<open>What the sample calls come to\<close>

text \<open>
  The evaluations that the instances of several properties share, each made once; the names of tools
  and the permissions follow from the lemmas of the registry.
\<close>

lemma sample_am_simps [simp]: "dp_am (sample_deployment status) = sample_am"
  by (simp add: sample_deployment_def)

lemma sample_core: "core_names sample_am"
  by code_simp

lemma advertised_registered: "name \<in> set advertisedToolNames \<Longrightarrow> registered name"
  using dom_toolRegistry [of sample_am]
  by (auto simp: registered_def map_of_eq_None_iff split: option.split)

lemma sample_registered:
  "registered ''api_resources''" "registered ''resource_create''" "registered ''resource_delete''"
  "registered ''resource_delete_collection''"
  by (rule advertised_registered, simp add: advertisedToolNames_def advertisedReason_def)+

lemma delete_is_gated: "pair_gated ks (mk_pair ''delete'' resource)"
  by (simp add: pair_gated_def gatedVerbs_def)

lemma sample_delete_exercises:
  "exercises sample_am (CDelete sample_delete_ref) = Some [mk_pair ''delete'' ''configmaps'']"
  by code_simp

lemma sample_delete_tool: "called_tool sample_delete = ''resource_delete''"
  by code_simp

lemma sample_runs:
  shows sample_delete_calls: "K8sCall (CDelete sample_delete_ref)
      \<in> set (new_effects init_world (snd (sample_run ''APPROVED'' sample_delete)))"
    and sample_discovery_calls: "K8sCall CAPIResources
      \<in> set (new_effects init_world (snd (sample_run [] (call_params ''api_resources'' []))))"
    and sample_unknown_fails: "isl (fst (sample_run [] (call_params ''no_such_tool'' [])))"
    and sample_entry_calls: "K8sCall (CDelete sample_delete_ref)
      \<in> set (new_effects init_world (snd (sample_entry_run ''APPROVED'' ''resource_delete'' sample_coordinate)))"
    and sample_collection_calls: "K8sCall (CDeleteCollection sample_collection_ref)
      \<in> set (new_effects init_world
          (snd (sample_entry_run ''APPROVED'' ''resource_delete_collection'' sample_selection)))"
  unfolding atomize_conj by code_simp

end
