(* ===== verification/GateProperties.thy ===== *)
theory GateProperties
  imports Sample
begin

text \<open>
  Properties of the approval gate, its configuration and the two gated loops (theories
  \<open>ApprovalGate\<close>, \<open>Authorize\<close>, \<open>Dispatch\<close>), each with an instance on the sample deployment.
\<close>

section \<open>The gate itself\<close>

text \<open>
  C10. An approval of the live gate is never made up: the backend answered \<open>APPROVED\<close> to the very
  request this call posted, either at once or when polled for that request's id, and what was posted
  is the screen this call described.
\<close>

theorem approval_has_evidence:
  assumes "authorize_client e c call w = (Inr d, w')"
  shows "approval_evidence e c call w w' d"
  using authorize_client_InrD(1) [OF assms] .

definition sample_gate_call :: gate_call where
  "sample_gate_call = \<lparr>gc_Tool = ''t'', gc_Pair = mk_pair ''delete'' ''pods'', gc_SessionID = [], gc_Reason = ''why'',
     gc_Describe = Some (\<lambda>w. (Inr [LTool ''t''], w))\<rparr>"

definition sample_config :: gate_config where
  "sample_config = \<lparr>BaseURL = ''u'', TokenFile = ''f'', Timeout = 10 * second, PollInterval = second, GatedKinds = []\<rparr>"

theorem approval_has_evidence_witness:
  "\<exists>d. approval_evidence (sample_backend ''APPROVED'') (New sample_config ''r'') sample_gate_call init_world
     (snd (authorize_client (sample_backend ''APPROVED'') (New sample_config ''r'') sample_gate_call init_world)) d"
proof -
  let ?run = "authorize_client (sample_backend ''APPROVED'') (New sample_config ''r'') sample_gate_call init_world"
  have "case fst ?run of Inl _ \<Rightarrow> False | Inr _ \<Rightarrow> True" by code_simp
  then obtain d where "?run = (Inr d, snd ?run)" by (cases ?run) (auto split: sum.splits)
  from approval_has_evidence [OF this] show ?thesis by blast
qed

text \<open>
  C29. The gate stops asking. However the backend answers and however the timers interleave, one
  authorization polls at most once more than the intervals that fit in the timeout. The loop is a
  total function: it returns.
\<close>

theorem polls_are_bounded:
  assumes "describe call w = (t, wd)" and "authorize_client e (New cfg requester) call w = (r, w')"
  shows "poll_count w' \<le> poll_count wd +
     Suc (nat (Timeout (cl_cfg (New cfg requester))) div nat (PollInterval (cl_cfg (New cfg requester))))"
  using authorize_client_polls [OF assms] .

theorem polls_are_bounded_witness:
  "poll_count (snd (authorize_client (sample_backend ''APPROVED'') (New sample_config ''r'') sample_gate_call init_world)) \<le> 11"
proof -
  have d: "describe sample_gate_call init_world = (Inr [LTool ''t''], init_world)"
    by (simp add: describe_def sample_gate_call_def)
  have "Suc (nat (Timeout (cl_cfg (New sample_config ''r''))) div nat (PollInterval (cl_cfg (New sample_config ''r'')))) = 11"
    by (simp add: New_def sample_config_def second_def Let_def)
  moreover have "poll_count init_world = 0" by (simp add: poll_count_def init_world_def)
  ultimately show ?thesis
    using polls_are_bounded [OF d prod.collapse [symmetric], of "sample_backend ''APPROVED''" sample_config "''r''"] by simp
qed

text \<open>
  C13. A batch of creations is approved document by document: when every approval was given, each
  document has one of its own, for its own permission and with its own screen, and no two share a
  request.
\<close>

theorem batch_approvals_are_distinct:
  assumes "approve_documents (served dp) ctx name d docs [] w = (Inr decs, w')"
  shows "list_all2 (document_authorized (served dp) (built_evidence dp) ctx name d w w') docs decs \<and>
     distinct (map d_RequestID decs)"
  using srv.approve_documents_Inr [OF assms] by simp

definition sample_manifest :: raw where
  "sample_manifest = JObj [(''manifest'', JObj [(''apiVersion'', JStr ''v1''), (''kind'', JStr ''ConfigMap''),
     (''metadata'', JObj [(''name'', JStr ''a''), (''namespace'', JStr ''default'')])])]"

definition sample_documents :: "create_document list" where
  "sample_documents = projr (parseCreateDocuments sample_am sample_manifest)"

definition sample_approvals :: "create_document list \<Rightarrow> decision list outcome" where
  "sample_approvals docs = approve_documents (served (sample_deployment ''APPROVED'')) sample_ctx ''resource_create''
     (decl (sample_entry ''resource_create'')) docs [] init_world"

theorem batch_approvals_are_distinct_witness:
  "distinct (map d_RequestID (projr (fst (sample_approvals (sample_documents @ sample_documents))))) \<and>
   length (projr (fst (sample_approvals (sample_documents @ sample_documents)))) = 2"
proof -
  let ?run = "sample_approvals (sample_documents @ sample_documents)"
  have "case fst ?run of Inl _ \<Rightarrow> False | Inr ds \<Rightarrow> length ds = 2" by code_simp
  then obtain ds where ds: "fst ?run = Inr ds" "length ds = 2" by (auto split: sum.splits)
  then have "?run = (Inr ds, snd ?run)" by (cases ?run) simp
  from batch_approvals_are_distinct [OF this [unfolded sample_approvals_def]] ds show ?thesis by simp
qed

text \<open>
  C12. Executing an approved batch spends an approval per attempt. No approval is used twice or was
  used before, the tool makes at most one request per approval it spent, and the documents fall, in
  order, into those created, at most one that failed, and those never attempted.
\<close>

theorem batch_spends_each_approval_once:
  assumes "map_of (toolRegistry (dp_am dp)) name = Some entry"
    and "execute_documents (served dp) ctx name entry ds w = (out, w')"
  shows "spends w (b_executed out) w' \<and> set (b_executed out) \<subseteq> snd ` set ds \<and>
     map fst ds = b_created out @ (case b_failed out of None \<Rightarrow> [] | Some (doc, _) \<Rightarrow> [doc]) @ b_unattempted out"
  using srv.execute_documents_spends [of dp name entry ctx ds w out w'] assms by simp

definition sample_decision :: decision where
  "sample_decision = \<lparr>d_RequestID = ''r'', d_ExternalID = ''e'', d_AutoApproved = False, d_cell = 0\<rparr>"

definition sample_execution :: "batch_outcome \<times> world" where
  "sample_execution = execute_documents (served (sample_deployment [])) sample_ctx ''resource_create''
     (sample_entry ''resource_create'') (map (\<lambda>doc. (doc, sample_decision)) (sample_documents @ sample_documents)) init_world"

text \<open>The second document is refused: its approval is the one the first has spent.\<close>

theorem batch_spends_each_approval_once_witness:
  "map doc_ref (b_created (fst sample_execution)) = map doc_ref sample_documents \<and>
   spends init_world (b_executed (fst sample_execution)) (snd sample_execution)"
proof -
  have c: "map doc_ref (b_created (fst sample_execution)) = map doc_ref sample_documents" by code_simp
  from batch_spends_each_approval_once [OF sample_entry_registered [OF sample_registered(2), of "[]"]
      prod.collapse [of sample_execution, unfolded sample_execution_def, symmetric]] c
  show ?thesis by (simp add: sample_execution_def)
qed

section \<open>Configuration\<close>

text \<open>
  A configuration read from the environment is usable: a non-empty address without a trailing
  slash, a readable token file with something in it, and a list of gated kinds that is not empty and
  has no blank entry.
\<close>

theorem configuration_is_usable:
  assumes "FromEnv getenv files = Inr (Some cfg)"
  shows "BaseURL cfg \<noteq> [] \<and> last (BaseURL cfg) \<noteq> CHR ''/'' \<and>
     (\<exists>content. files (TokenFile cfg) = Some content \<and> trim_space content \<noteq> []) \<and>
     GatedKinds cfg \<noteq> [] \<and> list_all (\<lambda>k. k \<noteq> [] \<and> trim_space k = k) (GatedKinds cfg)"
  using assms gatedKindsFromEnv_ok [of getenv] trim_right_last
  by (auto simp: FromEnv_def Let_def bind_sum_Inr_iff readToken_def split: if_splits option.splits)

theorem configuration_is_usable_witness:
  "GatedKinds (the (projr (FromEnv sample_env sample_files))) \<noteq> []"
proof -
  have "case FromEnv sample_env sample_files of Inr (Some _) \<Rightarrow> True | _ \<Rightarrow> False" by code_simp
  then obtain cfg where "FromEnv sample_env sample_files = Inr (Some cfg)" by (auto split: sum.splits option.splits)
  with configuration_is_usable [OF this] show ?thesis by simp
qed

text \<open>
  A number of seconds in the environment is the duration it says, as long as it fits: up to
  9223372036 the result is exactly that many seconds, in nanoseconds, and positive.
\<close>

theorem durations_that_fit_are_exact:
  assumes "durationFromEnv getenv key fallback = Inr d"
    and "parse_int64 (trim_space (getenv key)) = Some n" and "n \<le> 9223372036"
  shows "d = n * second \<and> 0 < d"
proof -
  have "trim_space (getenv key) \<noteq> []" using assms(2) by (auto simp: parse_int64_def)
  with assms(1,2) have n: "0 < n" and d: "d = wrap64 (n * second)"
    by (auto simp: durationFromEnv_def Let_def split: if_splits)
  have "in_int64 (n * second)" using n assms(3) by (simp add: in_int64_def max_int64_def second_def)
  with n d show ?thesis by (simp add: wrap64_id second_def)
qed

theorem durations_that_fit_are_exact_witness:
  "projr (durationFromEnv (\<lambda>_. ''30'') ''K'' 0) = 30 * second"
proof -
  have p: "parse_int64 (trim_space ''30'') = Some 30" by code_simp
  have "case durationFromEnv (\<lambda>_. ''30'') ''K'' 0 of Inl _ \<Rightarrow> False | Inr _ \<Rightarrow> True" by code_simp
  then obtain d where "durationFromEnv (\<lambda>_. ''30'') ''K'' 0 = Inr d" by (auto split: sum.splits)
  with durations_that_fit_are_exact [OF this p] show ?thesis by simp
qed

text \<open>
  Past that the product wraps around: 9223372037 seconds are accepted and become a negative
  duration, which the client then replaces by its default of five minutes.
\<close>

theorem durations_overflow:
  "durationFromEnv (\<lambda>_. ''9223372037'') key fallback = Inr (- 9223372036709551616) \<and>
   Timeout (cl_cfg (New \<lparr>BaseURL = u, TokenFile = f, Timeout = - 9223372036709551616, PollInterval = p, GatedKinds = ks\<rparr> r))
     = defaultTimeout"
proof -
  have "parse_int64 (trim_space ''9223372037'') = Some 9223372037" by code_simp
  moreover have "wrap64 (9223372037 * second) = - 9223372036709551616" by code_simp
  moreover have "trim_space ''9223372037'' \<noteq> []" by code_simp
  ultimately show ?thesis by (simp add: durationFromEnv_def New_def Let_def)
qed

end
