(* ===== verification/GateLiveness.thy ===== *)
theory GateLiveness
  imports GateProperties
begin

text \<open>
  What an operator can rely on (\<open>Client.poll\<close> of internal/approvalgate): a decision that is made in
  time reaches the call, whatever it is, and silence ends as a timeout. The bounds on the clock are
  those of the loop: an exchange that takes at most \<open>L\<close>, one interval between two polls, and the
  deadline that was set when the polling began.
\<close>

text \<open>
  The backend as it is described in the API of the approval service: it answers each poll, within
  \<open>L\<close>, that the request is pending before the operator decides at \<open>T\<close>, and with the decision
  afterwards.
\<close>

definition decides_at :: "gate_env \<Rightarrow> string \<Rightarrow> nat \<Rightarrow> nat \<Rightarrow> string \<Rightarrow> bool" where
  "decides_at e rid L T status \<longleftrightarrow>
     (\<forall>w. (\<exists>token. ge_token e w = Inr token) \<and> ge_newRequest e w = Inr () \<and> ge_elapsed e w \<le> L \<and>
          ge_get e rid w = Response 200 (Some (rid, if clock w < T then StatusPending else status)))"

definition operator_verdict :: "string \<Rightarrow> verdict" where
  "operator_verdict status =
     (if status = StatusApproved then VerdictApproved
      else if status = StatusRejected then VerdictRejected else VerdictExpired)"

definition verdict_reaches :: "string \<Rightarrow> verdict \<Rightarrow> gate_err + decision \<Rightarrow> bool" where
  "verdict_reaches rid v out =
     (case out of
        Inr d \<Rightarrow> v = VerdictApproved \<and> d_RequestID d = rid \<and> \<not> d_AutoApproved d
      | Inl (Refusal v' rid' _) \<Rightarrow> v \<noteq> VerdictApproved \<and> v' = Some v \<and> rid' = rid
      | Inl (Untyped _) \<Rightarrow> False)"

lemma get_request_decides:
  assumes "decides_at e rid L T status"
  obtains w1 where "get_request e rid w = (Inr (if clock w < T then StatusPending else status), w1)"
    and "clock w1 \<le> clock w + L"
proof -
  from assms obtain token where "ge_token e w = Inr token" "ge_newRequest e w = Inr ()" "ge_elapsed e w \<le> L"
    "ge_get e rid w = Response 200 (Some (rid, if clock w < T then StatusPending else status))"
    unfolding decides_at_def by blast
  then have "get_request e rid w = (Inr (if clock w < T then StatusPending else status),
      (log_effect (GatePoll rid) w)\<lparr>clock := clock w + ge_elapsed e w\<rparr>)"
    by (simp add: get_request_def exchange_def)
  then show thesis by (rule that) (simp add: \<open>ge_elapsed e w \<le> L\<close>)
qed

text \<open>A round that begins in time ends with the interval timer, as no other channel has fired.\<close>

lemma select_in_time:
  assumes "ge_ctxDone e = None" and "clock w + tick_interval c < dl"
  shows "select e dl (clock w + tick_interval c) w = (Tick, w\<lparr>clock := clock w + tick_interval c\<rparr>)"
  using assms by (simp add: select_def resume_at_def ready_channels_def fires_by_def)

lemma poll_pending:
  assumes "get_request e rid w = (Inr StatusPending, w1)"
  shows "poll e c tool rid ext dl w =
    (case select e dl (clock w1 + tick_interval c) w1 of
       (CtxDone, w2) \<Rightarrow>
         (Inl (Refusal (Some VerdictTimeout) rid (ErrText (''refusing '' @ tool @ '': context done''))), w2)
     | (DeadlineFired, w2) \<Rightarrow>
         (Inl (Refusal (Some VerdictTimeout) rid (ErrText (''refusing '' @ tool @ '': no approval in time''))), w2)
     | (Tick, w2) \<Rightarrow> poll e c tool rid ext dl w2)"
  using assms by (simp add: poll.simps [of e c tool rid ext dl w] status_defs)

lemma poll_decided:
  assumes "get_request e rid w = (Inr status, w1)"
    and "status \<in> {StatusApproved, StatusRejected, StatusExpired}"
  shows "verdict_reaches rid (operator_verdict status) (fst (poll e c tool rid ext dl w))"
  using assms
  by (auto simp: poll.simps [of e c tool rid ext dl w] verdict_reaches_def operator_verdict_def
      new_decision_def status_defs)

lemma poll_in_time:
  assumes resp: "decides_at e rid L T status" and known: "status \<in> {StatusApproved, StatusRejected, StatusExpired}"
    and stays: "ge_ctxDone e = None" and time: "T + L + tick_interval c < dl"
  shows "verdict_reaches rid (operator_verdict status) (fst (poll e c tool rid ext dl w))"
proof (induction w rule: poll_rounds_induct [where e = e and rid = rid and dl = dl and c = c])
  case (1 w)
  obtain w1 where g: "get_request e rid w = (Inr (if clock w < T then StatusPending else status), w1)"
    and late: "clock w1 \<le> clock w + L" by (rule get_request_decides [OF resp])
  show ?case
  proof (cases "clock w < T")
    case False
    with g known show ?thesis by (intro poll_decided) simp_all
  next
    case True
    with late time have "clock w1 + tick_interval c < dl" by linarith
    note sel = select_in_time [OF stays this]
    from g True have "get_request e rid w = (Inr StatusPending, w1)" by simp
    with 1 [OF this sel] sel show ?thesis by (simp add: poll_pending)
  qed
qed

lemma poll_silent:
  assumes resp: "decides_at e rid L T status" and late: "dl < T"
  shows "clock w \<le> dl \<Longrightarrow> verdict_reaches rid VerdictTimeout (fst (poll e c tool rid ext dl w))"
proof (induction w rule: poll_rounds_induct [where e = e and rid = rid and dl = dl and c = c])
  case (1 w)
  from 1(2) late have "clock w < T" by simp
  then obtain w1 where g: "get_request e rid w = (Inr StatusPending, w1)"
    using get_request_decides [OF resp, of w] by auto
  obtain x w2 where sel: "select e dl (clock w1 + tick_interval c) w1 = (x, w2)" by fastforce
  show ?case
  proof (cases x)
    case Tick
    with sel have "clock w2 \<le> dl" using select_Tick_progress by blast
    with 1(1) g sel Tick show ?thesis by (simp add: poll_pending)
  qed (use g sel in \<open>simp_all add: poll_pending verdict_reaches_def\<close>)
qed

text \<open>
  C11. The operator is heard. On a backend that answers its polls, for a caller who stays, a decision
  made in time, so early that an exchange and one interval still fit before the deadline, is what the
  call gets, whether it is an approval, a rejection or an expiry; without a decision until the
  deadline the call is refused as timed out.
\<close>

theorem operator_decisions_arrive:
  assumes "describe call w = (Inr text', w1)" and "ge_newID e w1 = Inr ext"
    and "create_request e (New cfg requester) call text' ext w1 = (Inr (rid, StatusPending), w2)"
    and "decides_at e rid L T status" and "status \<in> {StatusApproved, StatusRejected, StatusExpired}"
    and "ge_ctxDone e = None"
    and "deadline = clock w2 + nat (Timeout (cl_cfg (New cfg requester)))"
  shows "(T + L + nat (PollInterval (cl_cfg (New cfg requester))) < deadline \<longrightarrow>
            verdict_reaches rid (operator_verdict status) (fst (authorize_client e (New cfg requester) call w))) \<and>
         (deadline < T \<longrightarrow>
            verdict_reaches rid VerdictTimeout (fst (authorize_client e (New cfg requester) call w)))"
proof -
  let ?c = "New cfg requester"
  have "authorize_client e ?c call w = poll e ?c (gc_Tool call) rid ext deadline w2"
    using assms(1-3,7) by (simp add: authorize_client_def status_defs)
  moreover have "clock w2 \<le> deadline" using assms(7) by simp
  ultimately show ?thesis
    using poll_in_time [OF assms(4-6), of ?c deadline] poll_silent [OF assms(4)]
    by (simp add: tick_interval_New)
qed

definition deciding_backend :: "nat \<Rightarrow> string \<Rightarrow> gate_env" where
  "deciding_backend T status =
     (sample_backend StatusPending)\<lparr>ge_get := \<lambda>rid w. Response 200 (Some (rid, if clock w < T then StatusPending else status))\<rparr>"

theorem operator_decisions_arrive_witness:
  "verdict_reaches ''req0'' VerdictRejected
     (fst (authorize_client (deciding_backend 4000000000 StatusRejected) (New sample_config ''r'') sample_gate_call init_world)) \<and>
   verdict_reaches ''req0'' VerdictTimeout
     (fst (authorize_client (deciding_backend 90000000000 StatusRejected) (New sample_config ''r'') sample_gate_call init_world))"
proof -
  have d: "describe sample_gate_call init_world = (Inr [LTool ''t''], init_world)"
    by (simp add: describe_def sample_gate_call_def)
  have b: "decides_at (deciding_backend T StatusRejected) ''req0'' 5 T StatusRejected" for T
    by (simp add: decides_at_def deciding_backend_def sample_backend_def)
  have zero: "itoa 0 = ''0''" by code_simp
  have n: "ge_newID (deciding_backend T StatusRejected) init_world = Inr ''ext0''" for T
    by (simp add: deciding_backend_def sample_backend_def init_world_def zero)
  have s: "create_request (deciding_backend T StatusRejected) (New sample_config ''r'') sample_gate_call [LTool ''t''] ''ext0'' init_world
      = (Inr (''req0'', StatusPending), snd (create_request (deciding_backend T StatusRejected) (New sample_config ''r'')
          sample_gate_call [LTool ''t''] ''ext0'' init_world))"
    and k: "clock (snd (create_request (deciding_backend T StatusRejected) (New sample_config ''r'')
          sample_gate_call [LTool ''t''] ''ext0'' init_world)) = 5" for T
    by (simp_all add: create_request_def exchange_def Let_def deciding_backend_def sample_backend_def init_world_def zero)
  have "nat (Timeout (cl_cfg (New sample_config ''r''))) = 10000000000"
    "nat (PollInterval (cl_cfg (New sample_config ''r''))) = 1000000000"
    by (simp_all add: New_def sample_config_def second_def Let_def)
  with operator_decisions_arrive [OF d n s b _ _ refl, of 4000000000]
    operator_decisions_arrive [OF d n s b _ _ refl, of 90000000000] k
  show ?thesis by (simp add: operator_verdict_def status_defs deciding_backend_def sample_backend_def)
qed

end
