(* ===== verification/CallProperties.thy ===== *)
theory CallProperties
  imports Sample
begin

text \<open>
  Properties of what surrounds the gate in one call: its scope, its reason, the screen, the
  arguments, and the limits on a token.
\<close>

section \<open>Scope and declaration\<close>

text \<open>
  C25. A tool outside the caller's scope does not exist for the caller: naming it is answered as an
  unknown tool, with no effect but the record.
\<close>

theorem scope_is_enforced:
  assumes "\<not> Allows ctx (called_tool params)" and "toolsCall (served dp) ctx params w = (r, w')"
  shows "\<exists>e record. r = Inl e \<and> code e = -32602 \<and> trace w' = trace w @ [Emitted record]"
proof -
  let ?w0 = "w\<lparr>callnote := fresh_note\<rparr>"
  obtain nt q w1 where b: "call_body (served dp) ctx params ?w0 = (nt, q, w1)" by (metis prod.exhaust)
  with srv.call_body_cases [OF b] assms(1) have "w1 = ?w0" and "\<exists>e. q = Inl e" by auto
  moreover have "q = Inl e \<Longrightarrow> code e = -32602" for e
    using b assms(1) by (auto simp: call_body_def called_tool_def string_or_empty_def errf_def
        split: option.splits json.splits if_splits)
  ultimately show ?thesis using assms(2) b by (auto simp: toolsCall_def)
qed

theorem scope_is_enforced_witness:
  "\<exists>e record. fst (toolsCall (served (sample_deployment [])) (With sample_ctx [''ping'']) sample_delete init_world) = Inl e \<and>
     code e = -32602 \<and>
     trace (snd (toolsCall (served (sample_deployment [])) (With sample_ctx [''ping'']) sample_delete init_world))
       = trace init_world @ [Emitted record]"
proof -
  have "\<not> Allows (With sample_ctx [''ping'']) (called_tool sample_delete)" by code_simp
  from scope_is_enforced [OF this prod.collapse [symmetric]] show ?thesis by blast
qed

text \<open>
  What is listed is what can be called: a tool is in the list a caller gets exactly if it is
  advertised and in the caller's scope.
\<close>

theorem listed_tools_are_callable:
  "(name, schema) \<in> set (toolsList ctx advertised) \<longleftrightarrow> (name, schema) \<in> set advertised \<and> Allows ctx name"
  by (auto simp: toolsList_filter)

text \<open>
  C9. The cluster sees only what was declared: whatever request a call makes, the permissions it
  exercises are among those its tool's declaration resolves for the arguments given, the batch of a
  creation included.
\<close>

theorem requests_stay_within_the_declaration:
  assumes "toolsCall (served dp) ctx params w = (r, w')" and "K8sCall k \<in> set (new_effects w w')"
    and "exercises (dp_am dp) k = Some ps"
  shows "\<exists>entry ctx' rawArgs qs. map_of (toolRegistry (dp_am dp)) (called_tool params) = Some entry \<and>
     take_reason (served dp) ctx (called_tool params) (decl entry) (extractArguments params) = Inr (ctx', rawArgs) \<and>
     callPairs (decl entry) rawArgs = Inr qs \<and> set ps \<subseteq> set qs"
proof -
  from srv.toolsCall_declared [OF assms(1,2)] obtain entry ctx' rawArgs
    where reg: "map_of (toolRegistry (dp_am dp)) (called_tool params) = Some entry"
      and tr: "take_reason (served dp) ctx (called_tool params) (decl entry) (extractArguments params) = Inr (ctx', rawArgs)"
      and ec: "entry_call (served dp) (called_tool params) entry rawArgs k" by auto
  from srv.entry_call_pairs [of dp "called_tool params" entry rawArgs k ps] reg ec assms(3)
  have "\<exists>qs. callPairs (decl entry) rawArgs = Inr qs \<and> set ps \<subseteq> set qs" by simp
  with reg tr show ?thesis by blast
qed

theorem requests_stay_within_the_declaration_witness:
  "\<exists>entry rawArgs qs. map_of (toolRegistry sample_am) ''resource_delete'' = Some entry \<and>
     callPairs (decl entry) rawArgs = Inr qs \<and> mk_pair ''delete'' ''configmaps'' \<in> set qs"
proof -
  have ex: "exercises (dp_am (sample_deployment ''APPROVED'')) (CDelete sample_delete_ref)
      = Some [mk_pair ''delete'' ''configmaps'']"
    using sample_delete_exercises by simp
  from requests_stay_within_the_declaration [OF sample_run_eq sample_delete_calls ex]
  show ?thesis by (auto simp: sample_delete_tool)
qed

text \<open>
  A tool that claims no permission in the cluster makes no request there, but for the discovery
  of the API when that is what it claims.
\<close>

theorem unpermitted_tools_stay_out:
  assumes "map_of (toolRegistry (dp_am dp)) (called_tool params) = Some entry"
    and "noResourcePermission (decl entry) = Some marker"
    and "toolsCall (served dp) ctx params w = (r, w')" and "K8sCall k \<in> set (new_effects w w')"
  shows "k = CAPIResources \<and> np_kind marker = discoveryOnly"
proof -
  from srv.toolsCall_declared [OF assms(3,4)] assms(1) obtain rawArgs
    where ec: "entry_call (served dp) (called_tool params) entry rawArgs k" by auto
  then obtain r' where dc: "declared_call (served dp) (called_tool params) (decl entry) r' k"
    by (auto simp: entry_call_def split: if_splits)
  then obtain c where c: "confine (called_tool params) (decl entry) r' = Inr c" "permits (dp_am dp) c k"
    by (auto simp: declared_call_def)
  have k: "k = CAPIResources" using confine_no_permission [OF c(1) _ c(2)] assms(2) by simp
  with c have "cf_discovery c" by (simp add: permits_def)
  with confine_Inr(2) [OF c(1)] assms(2) k show ?thesis by auto
qed

theorem unpermitted_tools_stay_out_witness:
  "\<exists>marker. noResourcePermission (decl (sample_entry ''api_resources'')) = Some marker \<and> np_kind marker = discoveryOnly"
proof -
  let ?params = "call_params ''api_resources'' []"
  have name: "called_tool ?params = ''api_resources''"
    and m: "noResourcePermission (decl (sample_entry ''api_resources'')) \<noteq> None"
    unfolding atomize_conj by code_simp
  from m obtain marker where m: "noResourcePermission (decl (sample_entry ''api_resources'')) = Some marker" by blast
  have e: "map_of (toolRegistry (dp_am (sample_deployment []))) (called_tool ?params) = Some (sample_entry ''api_resources'')"
    unfolding name by (rule sample_entry_registered [OF sample_registered(1)])
  from unpermitted_tools_stay_out [OF e m sample_run_eq sample_discovery_calls] m show ?thesis by blast
qed

section \<open>Start-up\<close>

text \<open>
  The registry the server ships passes its own checks, so the server starts: every advertised
  tool is registered with a handler and a consistent declaration and the other way round, and each
  tool's schema asks for a reason exactly as its declaration needs one. Assumed of apimachinery:
  the names of three core resources.
\<close>

theorem shipped_registry_is_consistent:
  assumes "core_names am"
  shows "validate_startup am = None"
  by (simp add: validate_startup_def registry_consistent reason_consistent [OF assms])

theorem shipped_registry_is_consistent_witness: "validate_startup sample_am = None"
  using sample_core by (rule shipped_registry_is_consistent)

section \<open>The reason\<close>

text \<open>
  C28. A call that will be put before an operator carries a reason: once the reason is taken off the
  arguments of a registered tool, a call with a gated permission has a non-empty one. Whatever kinds
  the deployment gates, a tool that can ask is known as one that may ask.
\<close>

theorem asking_calls_have_a_reason:
  assumes "core_names (dp_am dp)" and "map_of (toolRegistry (dp_am dp)) name = Some entry"
    and "cx_reason ctx = []"
    and "take_reason (served dp) ctx name (decl entry) rawArgs = Inr (ctx', kept)"
    and "gatedPairs (decl entry) (h_sensitiveKinds (served dp)) kept = Inr g" and "g \<noteq> []"
  shows "cx_reason ctx' \<noteq> []"
proof (rule take_reason_given)
  show "core_names (h_am (served dp))" using assms(1) by simp
  show "is_declared (h_am (served dp)) name (decl entry)" using map_of_toolRegistry(1) [OF assms(2)] by simp
qed (rule assms)+

theorem asking_calls_have_a_reason_witness:
  "\<exists>ctx'. take_reason (served (sample_deployment [])) sample_ctx ''resource_delete''
     (decl (sample_entry ''resource_delete'')) (JObj sample_coordinate)
       = Inr (ctx', JObj (filter (\<lambda>p. fst p \<noteq> ''reason'') sample_coordinate)) \<and> cx_reason ctx' \<noteq> []"
proof -
  let ?dp = "sample_deployment []" and ?kept = "JObj (filter (\<lambda>p. fst p \<noteq> ''reason'') sample_coordinate)"
  let ?t = "take_reason (served ?dp) sample_ctx ''resource_delete'' (decl (sample_entry ''resource_delete'')) (JObj sample_coordinate)"
  have core: "core_names (dp_am ?dp)" and none: "cx_reason sample_ctx = []"
    by (simp_all add: sample_core sample_ctx_def)
  have t: "case ?t of Inl _ \<Rightarrow> False | Inr (_, kept) \<Rightarrow> kept = ?kept"
    and g: "gatedPairs (decl (sample_entry ''resource_delete'')) (h_sensitiveKinds (served ?dp)) ?kept
      = Inr [mk_pair ''delete'' ''configmaps'']"
    unfolding atomize_conj by code_simp
  from t obtain ctx' where t: "?t = Inr (ctx', ?kept)" by (auto split: sum.splits prod.splits)
  from asking_calls_have_a_reason [OF core sample_entry_registered [OF sample_registered(3)] none t g] t show ?thesis by blast
qed

text \<open>
  C30. Taking the reason off changes nothing else: the arguments keep their other members, in order,
  and the reason is a trimmed string of at most 2000 characters, the one that was given.
\<close>

theorem reason_is_split_off_exactly:
  assumes "splitReason r = Inr (kept, s)"
  shows "decodeObject kept = map_option (filter (\<lambda>p. fst p \<noteq> ''reason'')) (decodeObject r) \<and>
     rune_count s \<le> maxReasonRunes \<and> s = trim_space s \<and>
     (s \<noteq> [] \<longrightarrow> (\<exists>kvs v. r = JObj kvs \<and> lookup kvs ''reason'' = Some (JStr v) \<and> s = trim_space v))"
  using splitReason_Inr [OF assms] by blast

theorem reason_is_split_off_exactly_witness:
  "decodeObject (fst (projr (splitReason (JObj [(''a'', JNull), (''reason'', JStr '' why '')])))) = Some [(''a'', JNull)]"
proof -
  let ?r = "JObj [(''a'', JNull), (''reason'', JStr '' why '')]"
  have "splitReason ?r = Inr (JObj [(''a'', JNull)], ''why'')" by code_simp
  from reason_is_split_off_exactly [OF this] this show ?thesis by simp
qed

text \<open>
  The session id a request carries in its header is trusted for display only within limits: the
  context gets it trimmed, valid and at most 128 characters long, or is left as it was.
\<close>

theorem session_id_is_bounded:
  "withSessionID ctx header = ctx \<or>
   (withSessionID ctx header = ctx\<lparr>cx_sessionID := trim_space header\<rparr> \<and> trim_space header \<noteq> [] \<and>
    valid_utf8 (trim_space header) \<and> rune_count (trim_space header) \<le> 128)"
  by (auto simp: withSessionID_def Let_def maxSessionIDRunes_def)

section \<open>The screen\<close>



text \<open>
  The same for a JSON patch, whose credentials hide under paths: every operation shown that
  addresses \<open>/data\<close> or \<open>/stringData\<close>, or a member of them, carries masks only, and no operation is
  left out.
\<close>

theorem json_patches_are_masked:
  assumes "string_or_empty kvs ''patchType'' = ''json''" and "lookup kvs ''patch'' = Some (JArr ops)"
  shows "\<exists>shown ops'. maskCredentialValues (JObj kvs) = LArgsMasked (JObj shown) \<and>
     lookup shown ''patch'' = Some (JArr ops') \<and> length ops' = length ops \<and> list_all op_masked ops'"
  using maskCredentialValues_patch [OF assms] .

definition sample_patch :: "string \<Rightarrow> obj" where
  "sample_patch key = [(''patchType'', JStr ''json''),
     (key, JArr [JObj [(''op'', JStr ''add''), (''path'', JStr ''/data/p''), (''value'', JStr ''c2VjcmV0'')]])]"

theorem json_patches_are_masked_witness:
  "\<exists>shown ops'. maskCredentialValues (JObj (sample_patch ''patch'')) = LArgsMasked (JObj shown) \<and>
     lookup shown ''patch'' = Some (JArr ops') \<and> list_all op_masked ops'"
proof -
  have "string_or_empty (sample_patch ''patch'') ''patchType'' = ''json''" by code_simp
  moreover have "lookup (sample_patch ''patch'') ''patch'' =
      Some (JArr [JObj [(''op'', JStr ''add''), (''path'', JStr ''/data/p''), (''value'', JStr ''c2VjcmV0'')]])"
    by code_simp
  ultimately show ?thesis using json_patches_are_masked by blast
qed

text \<open>
  But the body of a patch is read through a struct, which finds its member under any spelling of
  the name, and the mask looks for the exact one: with the member spelled \<open>Patch\<close> the operation is
  executed all the same, and the operator's screen shows the secret it carries.
\<close>

theorem misspelled_patch_is_shown:
  "rawPatchBody (JObj (sample_patch ''Patch'')) =
     Some (JArr [JObj [(''op'', JStr ''add''), (''path'', JStr ''/data/p''), (''value'', JStr ''c2VjcmV0'')]]) \<and>
   maskCredentialValues (JObj (sample_patch ''Patch'')) = LArgsMasked (JObj
     [(''Patch'', JArr [JObj [(''op'', JStr ''add''), (''path'', JStr ''/data/p''), (''value'', JStr ''c2VjcmV0'')]]),
      (''patchType'', JStr ''json'')])"
  by code_simp

section \<open>Tokens\<close>

text \<open>
  A caller whose rule caps its GitHub tokens is handed none outside the caps: whatever it asks
  for, the token the tool requests lies, repositories and permissions, within one of them.
\<close>

theorem requested_tokens_are_within_a_cap:
  assumes "githubAppInstallationToken (live_services k x) ctx r w = (res, w')"
    and "ExtCall (XInstallationToken rs ps) \<in> set (new_effects w w')"
    and "ctx_caps ctx \<noteq> []" and "list_all cap_ok (ctx_caps ctx)"
  shows "\<exists>cap\<in>set (ctx_caps ctx). within_cap cap (rs, ps)"
  using scoped_token_request_Inr(1) [OF token_request_made [OF assms(1,2)] assms(4,3)] .

definition sample_cap :: token_cap where
  "sample_cap = \<lparr>Repositories = [''o/a''], ExcludeRepositories = None,
    Permissions = Some [(''contents'', ''write'')]\<rparr>"

definition sample_token_run :: "tool_result outcome" where
  "sample_token_run = githubAppInstallationToken (live_services (live_service sample_cluster) sample_integrations)
     (sample_ctx\<lparr>ctx_caps := [sample_cap], ctx_self := ''o/self''\<rparr>)
     (JObj [(''permissions'', JObj [(''contents'', JStr ''read'')])]) init_world"

theorem requested_tokens_are_within_a_cap_witness:
  "within_cap sample_cap (Some [''o/a''], Some [(''contents'', JStr ''read'')])"
proof -
  have c: "ExtCall (XInstallationToken (Some [''o/a'']) (Some [(''contents'', JStr ''read'')]))
      \<in> set (new_effects init_world (snd sample_token_run))" by code_simp
  have ok: "list_all cap_ok (ctx_caps (sample_ctx\<lparr>ctx_caps := [sample_cap], ctx_self := ''o/self''\<rparr>))"
    by (simp add: cap_ok_def sample_cap_def)
  from requested_tokens_are_within_a_cap [OF prod.collapse [symmetric] c [unfolded sample_token_run_def] _ ok]
  show ?thesis by simp
qed

text \<open>
  C31. A workflow of this very repository cannot mint itself a token that may rewrite workflows: a
  request of such a caller with the \<open>workflows\<close> permission, named or left out, has a list of
  repositories, and this one is not in it.
\<close>

theorem no_workflow_token_for_itself:
  assumes "githubAppInstallationToken (live_services k x) ctx r w = (res, w')"
    and "ExtCall (XInstallationToken rs ps) \<in> set (new_effects w w')"
    and "ctx_self ctx \<noteq> []" and "case ps of None \<Rightarrow> True | Some qs \<Rightarrow> present qs ''workflows''"
  shows "\<exists>xs. rs = Some xs \<and> \<not> list_ex (\<lambda>r. equal_fold r (ctx_self ctx)) xs"
proof -
  have "guardSelfWorkflows (ctx_self ctx) rs ps = Inr ()"
    using token_request_made [OF assms(1,2)]
    by (auto simp: scoped_token_request_def bind_sum_Inr_iff SelfRepository_def)
  with assms(3,4) show ?thesis by (auto simp: guardSelfWorkflows_Inr)
qed

definition sample_workflow_run :: "tool_result outcome" where
  "sample_workflow_run = githubAppInstallationToken (live_services (live_service sample_cluster) sample_integrations)
     (sample_ctx\<lparr>ctx_self := ''o/self''\<rparr>) (JObj [(''repositories'', JArr [JStr ''o/a''])]) init_world"

theorem no_workflow_token_for_itself_witness:
  "\<not> list_ex (\<lambda>r. equal_fold r ''o/self'') [''o/a'']"
proof -
  have c: "ExtCall (XInstallationToken (Some [''o/a'']) None) \<in> set (new_effects init_world (snd sample_workflow_run))"
    by code_simp
  from no_workflow_token_for_itself [OF prod.collapse [symmetric] c [unfolded sample_workflow_run_def]]
  show ?thesis by simp
qed

section \<open>Arguments\<close>

text \<open>
  A document of a manifest is approved and created alone: parsing the arguments made for it
  gives back that one document, with its reference and its permission.
\<close>

theorem documents_parse_alone:
  assumes "parseCreateDocuments am rawArgs = Inr docs" and "d \<in> set docs"
  shows "parseCreateDocuments am (doc_raw d) = Inr [d] \<and> createPairs am (doc_raw d) = Inr [doc_pair d]"
  using parseCreateDocuments_single [OF assms] by (simp add: createPairs_def)

definition two_names :: "string \<Rightarrow> raw" where
  "two_names name = JObj [(''manifest'', JObj [(''apiVersion'', JStr ''v1''), (''kind'', JStr ''ConfigMap''),
     (''metadata'', JObj [(''name'', JStr name)])])]"

theorem documents_parse_alone_witness:
  "\<exists>d. parseCreateDocuments sample_am (two_names ''a'') = Inr [d] \<and> parseCreateDocuments sample_am (doc_raw d) = Inr [d]"
proof -
  have "case parseCreateDocuments sample_am (two_names ''a'') of Inr [d] \<Rightarrow> True | _ \<Rightarrow> False" by code_simp
  then obtain d where d: "parseCreateDocuments sample_am (two_names ''a'') = Inr [d]"
    by (auto split: sum.splits list.splits)
  with documents_parse_alone [OF d] show ?thesis by auto
qed

text \<open>
  Bytes given in base64 are the bytes that are sent: the payload of a port forward, and the body
  of a proxied request, decode to what was encoded.
\<close>

theorem base64_arguments_round_trip:
  "parsePortForwardPayload [(''payloadBase64'', JStr (b64_encode s))] = Inr s \<and>
   parseProxyBody [(''bodyBase64'', JStr (b64_encode s))] = Inr s"
  by (simp add: parsePortForwardPayload_def parseProxyBody_def parse_bytes_def lookup_Cons)

text \<open>
  What is proxied is bounded and unambiguous: an accepted \<open>resource_proxy\<close> has an absolute path,
  a method with a permission of its own, a name that carries no port or scheme, and waits between one
  second and the maximum.
\<close>

theorem proxied_requests_are_bounded:
  assumes "parseProxyTarget o' = Inr a"
  shows "has_prefix (xa_path a) ''/'' \<and> ProxyVerbForMethod (xa_method a) \<noteq> [] \<and> CHR '':'' \<notin> set (px_Name (xa_ref a)) \<and>
     1 \<le> xa_readSeconds a \<and> xa_readSeconds a \<le> ProxyMaxReadSeconds"
  using parseProxyTarget_fields [OF assms] by blast

definition sample_proxy :: obj where
  "sample_proxy = [(''apiVersion'', JStr ''v1''), (''kind'', JStr ''Service''), (''name'', JStr ''web''),
     (''port'', JNum ''80''), (''method'', JStr ''get''), (''path'', JStr ''/x'')]"

theorem proxied_requests_are_bounded_witness:
  "xa_method (projr (parseProxyTarget sample_proxy)) = ''GET'' \<and> has_prefix (xa_path (projr (parseProxyTarget sample_proxy))) ''/''"
proof -
  have "case parseProxyTarget sample_proxy of Inl _ \<Rightarrow> False | Inr a \<Rightarrow> xa_method a = ''GET''" by code_simp
  then obtain a where "parseProxyTarget sample_proxy = Inr a" "xa_method a = ''GET''" by (auto split: sum.splits)
  with proxied_requests_are_bounded [OF this(1)] show ?thesis by simp
qed

text \<open>
  A kind is recognised as sensitive only if its plural is itself or itself with an \<open>s\<close>. Where
  apimachinery forms the plural otherwise, as \<open>ingresses\<close> of \<open>Ingress\<close>, reading it is never gated,
  although the deployment lists the kind.
\<close>

theorem irregular_plurals_are_not_gated:
  "\<not> pair_gated [''networking.k8s.io/v1/Ingress''] (mk_pair ''get'' ''ingresses'') \<and>
   pair_gated [''v1/Secret''] (mk_pair ''get'' ''secrets'')"
  by code_simp

section \<open>Metrics\<close>

text \<open>
  The series of the metrics are fixed when the server starts: no run of well-formed records, of
  whatever tools, adds one or removes one.
\<close>

theorem metric_series_are_closed:
  assumes "new_metrics tools = Inr m" and "list_all well_formed_record rs"
  shows "closed_labels (fold metrics_emit rs m)"
  using new_metrics_closed [OF assms(1)] assms(2) by (rule fold_emit_closed)

definition sample_record :: event_record where
  "sample_record = \<lparr>Tool = ''x'', Principal = Anonymous, Target = no_target, Result = ResultRefused,
     Reason = Some ReasonInvalidInput, Gate = no_gate, Duration = 1, GateWait = 0\<rparr>"

theorem metric_series_are_closed_witness:
  "closed_labels (metrics_emit sample_record (projr (new_metrics [''ping''])))"
proof -
  have "case new_metrics [''ping''] of Inl _ \<Rightarrow> False | Inr _ \<Rightarrow> True" by (simp add: new_metrics_def Unregistered_def Let_def)
  then obtain m where m: "new_metrics [''ping''] = Inr m" by (auto split: sum.splits)
  have "list_all well_formed_record [sample_record]" by (simp add: well_formed_record_def sample_record_def)
  from metric_series_are_closed [OF m this] m show ?thesis by simp
qed

text \<open>
  The call counter counts: after any run of records, the series of a tool and a result has grown
  by the number of records of that tool, unknown names together, and that result.
\<close>

theorem calls_are_counted:
  "or_else (calls (fold metrics_emit rs m) (t, k)) 0 =
     or_else (calls m (t, k)) 0 + length (filter (\<lambda>r. folded_tool (m_tools m) (Tool r) = t \<and> Result r = k) rs)"
  by (rule calls_fold_emit)

end
