(* ===== verification/GithubRules.thy ===== *)
theory GithubRules
  imports Decode TokenCaps "HOL-Library.List_Lexorder" "HOL-Library.Char_ord"
begin

text \<open>
  The rules that admit GitHub Actions workflows (internal/auth github_oidc.go): which environment
  variables hold them, how a variable is parsed and checked, and which tools and token caps a
  workflow is granted. Reading JSON text is the parameter \<open>read_json\<close>: the first value of the text,
  as \<open>Decoder.Decode\<close> reads it, or \<open>None\<close> for a syntax error.
\<close>

definition defaultGitHubOIDCIssuer :: string where
  "defaultGitHubOIDCIssuer = ''https://token.actions.githubusercontent.com''"

definition githubOIDCMethod :: string where "githubOIDCMethod = ''github_oidc''"
definition installationTokenTool :: string where "installationTokenTool = ''github_app_installation_token''"
definition githubRulesEnv :: string where "githubRulesEnv = ''MCP_GITHUB_OIDC_RULES''"

record rule_source =
  rs_Name :: string
  rs_Raw :: string

record github_rule =
  gr_repository :: string
  gr_workflow :: string
  gr_tools :: "string list"
  gr_tokens :: "token_cap list"

record token_cap_json =
  tj_Repositories :: "string list option"
  tj_ExcludeRepositories :: "string list option"
  tj_Permissions :: "(string \<times> string) list option"

text \<open>The anonymous struct \<open>parseRuleSource\<close> decodes into; an absent \<open>githubToken\<close> is \<open>null\<close>.\<close>

record rule_json =
  rj_Repository :: string
  rj_Workflow :: string
  rj_Tools :: "string list option"
  rj_GitHubToken :: raw

section \<open>Where rules come from\<close>

definition rule_variable :: "string \<Rightarrow> rule_source option" where
  "rule_variable kv =
     (case cut (CHR ''='') kv of
        None \<Rightarrow> None
      | Some (name, value) \<Rightarrow> if value = [] then None else Some \<lparr>rs_Name = name, rs_Raw = value\<rparr>)"

definition GitHubRuleSources :: "string list \<Rightarrow> rule_source list" where
  "GitHubRuleSources environ =
     (let vars = List.map_filter rule_variable environ in
      filter (\<lambda>s. rs_Name s = githubRulesEnv) vars @
      sort_key rs_Name (filter (\<lambda>s. rs_Name s \<noteq> githubRulesEnv \<and> has_prefix (rs_Name s) (githubRulesEnv @ ''_'')) vars))"

section \<open>Parsing one variable\<close>

definition isJSONArray :: "raw \<Rightarrow> bool" where
  "isJSONArray r = (case r of JArr _ \<Rightarrow> True | _ \<Rightarrow> False)"

definition zero_cap_json :: token_cap_json where
  "zero_cap_json = \<lparr>tj_Repositories = None, tj_ExcludeRepositories = None, tj_Permissions = None\<rparr>"

definition cap_fields :: "(string \<times> token_cap_json reader) list" where
  "cap_fields =
     [(''repositories'', \<lambda>v s. bind_sum (read_strings v (tj_Repositories s)) (\<lambda>x. Inr (s\<lparr>tj_Repositories := x\<rparr>))),
      (''excludeRepositories'', \<lambda>v s. bind_sum (read_strings v (tj_ExcludeRepositories s))
         (\<lambda>x. Inr (s\<lparr>tj_ExcludeRepositories := x\<rparr>))),
      (''permissions'', \<lambda>v s. bind_sum (read_string_map v (tj_Permissions s)) (\<lambda>x. Inr (s\<lparr>tj_Permissions := x\<rparr>)))]"

definition decodeTokenCaps :: "string \<Rightarrow> raw \<Rightarrow> string + token_cap_json list" where
  "decodeTokenCaps where' r =
     (if r = JNull then Inr []
      else if \<not> isJSONArray r then
        bind_sum (read_struct True cap_fields r zero_cap_json) (\<lambda>one. Inr [one])
      else
        bind_sum (read_slice (read_struct True cap_fields) zero_cap_json r None) (\<lambda>many.
        if or_else many [] = [] then Inl (where' @ '': githubToken lists no cap'') else Inr (or_else many [])))"

definition bareRepositoryNames :: "string \<Rightarrow> string list \<Rightarrow> string + string list" where
  "bareRepositoryNames where' repositories =
     map_sum_list (\<lambda>repo.
       if repo = [] \<or> contains_any repo (CHR 0x09 # ''/ '') then Inl (where' @ '': githubToken repository is not a bare repository name'')
       else Inr (to_lower repo)) repositories"

definition capGrantsWorkflowsOn :: "token_cap \<Rightarrow> string \<Rightarrow> bool" where
  "capGrantsWorkflowsOn cap own \<longleftrightarrow>
     (case Permissions cap of None \<Rightarrow> True | Some ps \<Rightarrow> ''workflows'' \<in> fst ` set ps) \<and>
     (case ExcludeRepositories cap of
        Some ex \<Rightarrow> own \<notin> set ex
      | None \<Rightarrow> own \<in> set (Repositories cap))"

definition cap_permission :: "string \<Rightarrow> string \<times> string \<Rightarrow> string + string \<times> string" where
  "cap_permission where' p =
     (case p of (name, level) \<Rightarrow>
        if trim_space name = [] then Inl (where' @ '': githubToken names an empty permission'')
        else if permissionRank level = 0 then
          Inl (where' @ '': githubToken permission '' @ name @ '' is not read, write or admin'')
        else Inr (name, level))"

definition parseTokenCap :: "string \<Rightarrow> string list \<Rightarrow> token_cap_json \<Rightarrow> string + token_cap" where
  "parseTokenCap where' tools c =
     (if installationTokenTool \<notin> set tools then
        Inl (where' @ '': githubToken is set but tools does not grant '' @ installationTokenTool)
      else
        bind_sum
          (case (tj_Repositories c, tj_ExcludeRepositories c) of
             (Some _, Some _) \<Rightarrow> Inl (where' @ '': githubToken sets both repositories and excludeRepositories'')
           | (None, Some ex) \<Rightarrow>
               (if ex = [] then Inl (where' @ '': githubToken excludeRepositories is empty'')
                else bind_sum (bareRepositoryNames where' ex) (\<lambda>names.
                  Inr \<lparr>Repositories = [], ExcludeRepositories = Some names, Permissions = None\<rparr>))
           | (rs, None) \<Rightarrow>
               (if or_else rs [] = [] then Inl (where' @ '': githubToken lists no repository'')
                else if or_else (tj_Permissions c) [] = [] then Inl (where' @ '': githubToken lists no permission'')
                else bind_sum (bareRepositoryNames where' (or_else rs [])) (\<lambda>names.
                  Inr \<lparr>Repositories = names, ExcludeRepositories = None, Permissions = None\<rparr>)))
          (\<lambda>cap.
             case tj_Permissions c of
               None \<Rightarrow> Inr cap
             | Some ps \<Rightarrow>
                 if ps = [] then Inl (where' @ '': githubToken lists no permission'')
                 else bind_sum (map_sum_list (cap_permission where') ps) (\<lambda>qs. Inr (cap\<lparr>Permissions := Some qs\<rparr>))))"

definition rule_label :: "github_rule \<Rightarrow> string" where
  "rule_label r = (if gr_workflow r = [] then gr_repository r else gr_repository r @ ''/'' @ gr_workflow r)"

definition zero_rule_json :: rule_json where
  "zero_rule_json = \<lparr>rj_Repository = [], rj_Workflow = [], rj_Tools = None, rj_GitHubToken = JNull\<rparr>"

definition rule_fields :: "(string \<times> rule_json reader) list" where
  "rule_fields =
     [(''repository'', \<lambda>v s. bind_sum (read_string v (rj_Repository s)) (\<lambda>x. Inr (s\<lparr>rj_Repository := x\<rparr>))),
      (''workflow'', \<lambda>v s. bind_sum (read_string v (rj_Workflow s)) (\<lambda>x. Inr (s\<lparr>rj_Workflow := x\<rparr>))),
      (''tools'', \<lambda>v s. bind_sum (read_strings v (rj_Tools s)) (\<lambda>x. Inr (s\<lparr>rj_Tools := x\<rparr>))),
      (''githubToken'', \<lambda>v s. Inr (s\<lparr>rj_GitHubToken := v\<rparr>))]"

text \<open>The repository's bare name, when the repository is \<open>owner/name\<close>.\<close>

definition split_repository :: "string \<Rightarrow> string option" where
  "split_repository repository =
     (case cut (CHR ''/'') repository of
        None \<Rightarrow> None
      | Some (owner, name) \<Rightarrow>
          if owner = [] \<or> name = [] \<or> CHR ''/'' \<in> set name \<or> contains_any repository [CHR 0x09, CHR '' ''] then None else Some name)"

definition workflow_ok :: "string \<Rightarrow> bool" where
  "workflow_ok workflow \<longleftrightarrow>
     has_prefix workflow ''.github/workflows/'' \<and>
     (has_suffix workflow ''.yml'' \<or> has_suffix workflow ''.yaml'') \<and> \<not> contains_any workflow (CHR 0x09 # ''@ '')"

text \<open>The body of the loop of \<open>parseRuleSource\<close>, and its inner loop over the caps.\<close>

definition rule_cap :: "string \<Rightarrow> string list \<Rightarrow> string \<Rightarrow> token_cap_json \<Rightarrow> string + token_cap" where
  "rule_cap where' tools own c =
     bind_sum (parseTokenCap where' tools c) (\<lambda>cap.
       if capGrantsWorkflowsOn cap own then
         Inl (where' @ '': githubToken grants workflows on '' @ own @ '', the rule's own repository'')
       else Inr cap)"

definition parse_rule :: "string \<Rightarrow> rule_json \<Rightarrow> string + github_rule" where
  "parse_rule where' d =
     (case split_repository (rj_Repository d) of
        None \<Rightarrow> Inl (where' @ '': repository is not owner/name'')
      | Some name \<Rightarrow>
     if rj_Workflow d \<noteq> [] \<and> \<not> workflow_ok (rj_Workflow d) then
       Inl (where' @ '': workflow is not a path like .github/workflows/<file>.yml'')
     else if or_else (rj_Tools d) [] = [] then Inl (where' @ '' lists no tool'')
     else if list_ex (\<lambda>t. trim_space t = []) (or_else (rj_Tools d) []) then Inl (where' @ '' lists an empty tool name'')
     else
       bind_sum (decodeTokenCaps where' (rj_GitHubToken d)) (\<lambda>cs.
       bind_sum (map_sum_list (rule_cap where' (or_else (rj_Tools d) []) (to_lower name)) cs) (\<lambda>caps.
       Inr \<lparr>gr_repository = to_lower (rj_Repository d), gr_workflow = rj_Workflow d,
            gr_tools = or_else (rj_Tools d) [], gr_tokens = caps\<rparr>)))"

definition parseRuleSource :: "(string \<Rightarrow> json option) \<Rightarrow> rule_source \<Rightarrow> string + github_rule list" where
  "parseRuleSource read_json src =
     (if trim_space (rs_Raw src) = [] then Inl (rs_Name src @ '' is empty'')
      else
        (case read_json (rs_Raw src) of
           None \<Rightarrow> Inl (rs_Name src @ '' must be a JSON array'')
         | Some v \<Rightarrow>
             bind_sum (read_slice (read_struct True rule_fields) zero_rule_json v None) (\<lambda>decoded.
               if or_else decoded [] = [] then Inl (rs_Name src @ '' lists no rule'')
               else map_sum_list (parse_rule (rs_Name src)) (or_else decoded []))))"

text \<open>The loop over the variables: \<open>seen\<close> holds the labels of the rules so far.\<close>

fun check_labels :: "string set \<Rightarrow> github_rule list \<Rightarrow> string + string set" where
  "check_labels seen [] = Inr seen"
| "check_labels seen (r # rs) =
     (if rule_label r \<in> seen then Inl (''a rule repeats '' @ rule_label r)
      else check_labels (insert (rule_label r) seen) rs)"

fun parse_sources :: "(string \<Rightarrow> json option) \<Rightarrow> string set \<Rightarrow> github_rule list \<Rightarrow> rule_source list \<Rightarrow> string + github_rule list" where
  "parse_sources read_json seen rules [] = Inr rules"
| "parse_sources read_json seen rules (src # srcs) =
     bind_sum (parseRuleSource read_json src) (\<lambda>parsed.
     bind_sum (check_labels seen parsed) (\<lambda>seen'.
     parse_sources read_json seen' (rules @ parsed) srcs))"

definition parseGitHubRuleSources :: "(string \<Rightarrow> json option) \<Rightarrow> rule_source list \<Rightarrow> string + github_rule list" where
  "parseGitHubRuleSources read_json sources =
     bind_sum (parse_sources read_json {} [] sources) (\<lambda>rules.
       if rules = [] then Inl (githubRulesEnv @ '' is required when GitHub OIDC is enabled'') else Inr rules)"

definition parseGitHubRules :: "(string \<Rightarrow> json option) \<Rightarrow> string \<Rightarrow> string + github_rule list" where
  "parseGitHubRules read_json text = parseGitHubRuleSources read_json [\<lparr>rs_Name = githubRulesEnv, rs_Raw = text\<rparr>]"

section \<open>What a workflow is granted\<close>

definition workflowPath :: "string \<Rightarrow> string \<Rightarrow> string" where
  "workflowPath repository workflowRef =
     (case before_last (CHR ''@'') workflowRef of
        None \<Rightarrow> []
      | Some p \<Rightarrow>
          (let n = length (repository @ ''/'') in
           if length p \<le> n \<or> \<not> equal_fold (take n p) (repository @ ''/'') then [] else drop n p))"

definition rule_matches :: "string \<Rightarrow> string \<Rightarrow> github_rule \<Rightarrow> bool" where
  "rule_matches repo workflow r \<longleftrightarrow> gr_repository r = repo \<and> (gr_workflow r = [] \<or> gr_workflow r = workflow)"

text \<open>The state of the loops of \<open>grantsFor\<close>: the tools (which are also the set \<open>have\<close>), the caps, \<open>unbounded\<close>.\<close>

fun grant_tools ::
  "token_cap list \<Rightarrow> string list \<Rightarrow> string list \<times> token_cap list \<times> bool \<Rightarrow> string list \<times> token_cap list \<times> bool"
where
  "grant_tools tokens [] st = st"
| "grant_tools tokens (t # ts) (tools, caps, unbounded) =
     (let tools' = (if t \<in> set tools then tools else tools @ [t]) in
      grant_tools tokens ts
        (if t \<noteq> installationTokenTool then (tools', caps, unbounded)
         else if tokens = [] then (tools', caps, True)
         else (tools', caps @ tokens, unbounded)))"

definition grantsFor :: "github_rule list \<Rightarrow> string \<Rightarrow> string \<Rightarrow> string list \<times> token_cap list" where
  "grantsFor rules repository workflow =
     (case fold (\<lambda>r st. if rule_matches (to_lower repository) workflow r then grant_tools (gr_tokens r) (gr_tools r) st else st)
             rules ([], [], False) of
        (tools, caps, unbounded) \<Rightarrow> (tools, if unbounded then [] else caps))"

definition unknown_grants :: "string list \<Rightarrow> github_rule list \<Rightarrow> string list" where
  "unknown_grants known rules =
     concat (map (\<lambda>r. map (\<lambda>t. rule_label r @ '': '' @ t) (filter (\<lambda>t. t \<notin> set known) (gr_tools r))) rules)"

definition CheckToolScopes :: "github_rule list option \<Rightarrow> string list \<Rightarrow> string option" where
  "CheckToolScopes rules known =
     (case rules of
        None \<Rightarrow> None
      | Some rs \<Rightarrow>
          (let problems = unknown_grants known rs in
           if problems = [] then None
           else Some (''MCP_GITHUB_OIDC_RULES grants tools this server does not have: '' @ join '', '' (sort problems))))"

section \<open>What the parser guarantees of a rule\<close>

lemma cap_fields_distinct:
  assumes "read_struct True cap_fields v zero_cap_json = Inr c"
  shows "distinct (map fst (or_else (tj_Permissions c) []))"
  by (rule read_struct_invariant [where P = "\<lambda>c. distinct (map fst (or_else (tj_Permissions c) []))", OF assms])
     (auto simp: zero_cap_json_def cap_fields_def bind_sum_Inr_iff, erule (1) read_string_map_distinct)

lemma decodeTokenCaps_distinct:
  assumes "decodeTokenCaps where' r = Inr cs" and "c \<in> set cs"
  shows "distinct (map fst (or_else (tj_Permissions c) []))"
proof -
  from assms have "\<exists>v. read_struct True cap_fields v zero_cap_json = Inr c"
    by (auto simp: decodeTokenCaps_def bind_sum_Inr_iff read_slice_def map_sum_list_Inr_iff
        split: if_splits json.splits dest: list_all2_member)
  then show ?thesis by (auto dest: cap_fields_distinct)
qed

lemma bareRepositoryNames_Inr:
  assumes "bareRepositoryNames where' repos = Inr names"
  shows "names = map to_lower repos"
  using assms unfolding bareRepositoryNames_def map_sum_list_Inr_iff
  by (induction rule: list_all2_induct) (auto split: if_splits)

lemma cap_permissions_Inr:
  assumes "map_sum_list (cap_permission where') ps = Inr qs"
  shows "qs = ps \<and> (\<forall>(n, l)\<in>set qs. permissionRank l \<noteq> 0)"
  using assms unfolding map_sum_list_Inr_iff
  by (induction rule: list_all2_induct) (auto simp: cap_permission_def split: prod.splits if_splits)

text \<open>
  A parsed cap, apart from how it was written: it is one the token tool understands, its levels are
  levels, and there is a tool to use it with.
\<close>

lemma parseTokenCap_Inr:
  assumes "parseTokenCap where' tools c = Inr cap" and "distinct (map fst (or_else (tj_Permissions c) []))"
  shows "cap_ok cap \<and> installationTokenTool \<in> set tools \<and>
     (\<forall>(n, l)\<in>set (or_else (Permissions cap) []). permissionRank l \<noteq> 0)"
  using assms
  by (cases "tj_Permissions c"; cases "tj_Repositories c"; cases "tj_ExcludeRepositories c")
     (auto simp: parseTokenCap_def cap_ok_def bind_sum_Inr_iff dest!: cap_permissions_Inr bareRepositoryNames_Inr
        split: if_splits)

definition rule_ok :: "github_rule \<Rightarrow> bool" where
  "rule_ok r \<longleftrightarrow>
     (\<exists>owner name. gr_repository r = owner @ ''/'' @ name \<and> owner \<noteq> [] \<and> name \<noteq> [] \<and>
        CHR ''/'' \<notin> set (owner @ name) \<and> list_all (\<lambda>cap. cap_ok cap \<and> \<not> capGrantsWorkflowsOn cap name) (gr_tokens r)) \<and>
     to_lower (gr_repository r) = gr_repository r \<and>
     (gr_workflow r \<noteq> [] \<longrightarrow> workflow_ok (gr_workflow r)) \<and> gr_tools r \<noteq> [] \<and>
     (gr_tokens r \<noteq> [] \<longrightarrow> installationTokenTool \<in> set (gr_tools r))"

lemma rule_cap_Inr:
  assumes "rule_cap where' tools own c = Inr cap" and "distinct (map fst (or_else (tj_Permissions c) []))"
  shows "cap_ok cap \<and> \<not> capGrantsWorkflowsOn cap own \<and> installationTokenTool \<in> set tools"
  using assms parseTokenCap_Inr [OF _ assms(2)] by (auto simp: rule_cap_def bind_sum_Inr_iff split: if_splits)

lemma lower_char_fixed:
  assumes "\<not> (65 \<le> (of_char d :: nat) \<and> (of_char d :: nat) \<le> 90)" and "\<not> (97 \<le> (of_char d :: nat) \<and> (of_char d :: nat) \<le> 122)"
  shows "lower_char c = d \<longleftrightarrow> c = d"
proof (cases "65 \<le> (of_char c :: nat) \<and> (of_char c :: nat) \<le> 90")
  case True
  then have "(of_char (lower_char c) :: nat) = of_char c + 32" by (auto simp: lower_char_def)
  with True assms show ?thesis by auto
qed (auto simp: lower_char_def)

lemma lower_char_slash [simp]: "lower_char c = CHR ''/'' \<longleftrightarrow> c = CHR ''/''"
  by (rule lower_char_fixed) simp_all

lemma split_repository_Some:
  assumes "split_repository repository = Some name"
  shows "\<exists>owner. repository = owner @ ''/'' @ name \<and> owner \<noteq> [] \<and> name \<noteq> [] \<and> CHR ''/'' \<notin> set (owner @ name)"
  using assms by (auto simp: split_repository_def split: option.splits if_splits dest!: cut_SomeD)

lemma parse_rule_ok:
  assumes "parse_rule where' d = Inr r"
  shows "rule_ok r"
proof -
  from assms obtain name cs caps where
    name: "split_repository (rj_Repository d) = Some name"
    and cs: "decodeTokenCaps where' (rj_GitHubToken d) = Inr cs"
    and caps: "map_sum_list (rule_cap where' (or_else (rj_Tools d) []) (to_lower name)) cs = Inr caps"
    and rest: "or_else (rj_Tools d) [] \<noteq> []" "rj_Workflow d \<noteq> [] \<longrightarrow> workflow_ok (rj_Workflow d)"
    and r: "r = \<lparr>gr_repository = to_lower (rj_Repository d), gr_workflow = rj_Workflow d,
            gr_tools = or_else (rj_Tools d) [], gr_tokens = caps\<rparr>"
    by (auto simp: parse_rule_def bind_sum_Inr_iff split: option.splits if_splits)
  from split_repository_Some [OF name] obtain owner where
    o: "rj_Repository d = owner @ ''/'' @ name" "owner \<noteq> []" "name \<noteq> []" "CHR ''/'' \<notin> set (owner @ name)" by auto
  have c: "cap_ok cap \<and> \<not> capGrantsWorkflowsOn cap (to_lower name) \<and> installationTokenTool \<in> set (or_else (rj_Tools d) [])"
    if "cap \<in> set caps" for cap
    using that caps rule_cap_Inr decodeTokenCaps_distinct [OF cs]
    by (auto simp: map_sum_list_Inr_iff dest!: list_all2_member)
  have slash: "CHR ''/'' \<notin> set (to_lower s)" if "CHR ''/'' \<notin> set s" for s
    using that by (metis image_iff lower_char_slash to_lower_def list.set_map)
  have "gr_repository r = to_lower owner @ ''/'' @ to_lower name"
    by (simp add: r o to_lower_def lower_char_def)
  moreover have "gr_tokens r \<noteq> [] \<longrightarrow> installationTokenTool \<in> set (gr_tools r)"
    using c by (cases caps) (auto simp: r)
  ultimately show ?thesis
    using o c rest slash unfolding rule_ok_def
    by (intro conjI exI [of _ "to_lower owner"] exI [of _ "to_lower name"])
       (auto simp: r list_all_iff to_lower_def)
qed

lemma parseRuleSource_ok:
  assumes "parseRuleSource read_json src = Inr rules"
  shows "list_all rule_ok rules"
proof -
  from assms obtain ds where "map_sum_list (parse_rule (rs_Name src)) ds = Inr rules"
    by (auto simp: parseRuleSource_def bind_sum_Inr_iff split: if_splits option.splits)
  then show ?thesis by (auto simp: map_sum_list_Inr_iff list_all_iff dest!: list_all2_member parse_rule_ok)
qed

lemma check_labels_Inr:
  "check_labels seen rs = Inr seen' \<Longrightarrow>
     seen' = seen \<union> rule_label ` set rs \<and> distinct (map rule_label rs) \<and> rule_label ` set rs \<inter> seen = {}"
  by (induction rs arbitrary: seen) (auto split: if_splits)

lemma parse_sources_ok:
  assumes "parse_sources read_json seen rules srcs = Inr rs" and "seen = rule_label ` set rules"
    and "list_all rule_ok rules" and "distinct (map rule_label rules)"
  shows "list_all rule_ok rs \<and> distinct (map rule_label rs)"
  using assms
proof (induction srcs arbitrary: seen rules)
  case (Cons src srcs)
  from Cons.prems(1) obtain parsed seen' where
    p: "parseRuleSource read_json src = Inr parsed" and l: "check_labels seen parsed = Inr seen'"
    and rest: "parse_sources read_json seen' (rules @ parsed) srcs = Inr rs"
    by (auto simp: bind_sum_Inr_iff)
  from check_labels_Inr [OF l] parseRuleSource_ok [OF p] Cons.prems(2-4)
  show ?case by (intro Cons.IH [OF rest]) auto
qed auto

lemma parseGitHubRuleSources_ok:
  assumes "parseGitHubRuleSources read_json sources = Inr rules"
  shows "rules \<noteq> [] \<and> list_all rule_ok rules \<and> distinct (map rule_label rules)"
  using assms parse_sources_ok [where seen = "{}" and rules = "[]"]
  by (auto simp: parseGitHubRuleSources_def bind_sum_Inr_iff split: if_splits)

section \<open>What the grants are\<close>

text \<open>The specification: all tools of the rules that match, and the caps of those that give the token tool.\<close>

definition matching :: "github_rule list \<Rightarrow> string \<Rightarrow> string \<Rightarrow> github_rule list" where
  "matching rules repository workflow = filter (rule_matches (to_lower repository) workflow) rules"

lemma grant_tools_result:
  assumes "grant_tools tokens ts (tools, caps, ub) = (tools', caps', ub')" and "distinct tools"
  shows "distinct tools' \<and> set tools' = set tools \<union> set ts \<and>
     set caps' = set caps \<union> (if installationTokenTool \<in> set ts then set tokens else {}) \<and>
     (ub' \<longleftrightarrow> ub \<or> installationTokenTool \<in> set ts \<and> tokens = [])"
  using assms
proof (induction ts arbitrary: tools caps ub)
  case (Cons t ts)
  let ?tools = "if t \<in> set tools then tools else tools @ [t]"
  let ?caps = "if t = installationTokenTool then caps @ tokens else caps"
  let ?ub = "ub \<or> t = installationTokenTool \<and> tokens = []"
  have "grant_tools tokens ts (?tools, ?caps, ?ub) = (tools', caps', ub')" and "distinct ?tools"
    using Cons.prems by (auto simp: Let_def split: if_splits)
  from Cons.IH [OF this] show ?case by auto
qed auto

lemma grantsFor_fold:
  assumes "fold (\<lambda>r st. if rule_matches repo wfl r then grant_tools (gr_tokens r) (gr_tools r) st else st) rules
      (tools, caps, ub) = (tools', caps', ub')" and "distinct tools"
  shows "distinct tools' \<and> set tools' = set tools \<union> (\<Union>r\<in>set (filter (rule_matches repo wfl) rules). set (gr_tools r)) \<and>
     set caps' = set caps \<union>
       (\<Union>r\<in>set (filter (\<lambda>r. rule_matches repo wfl r \<and> installationTokenTool \<in> set (gr_tools r)) rules). set (gr_tokens r)) \<and>
     (ub' \<longleftrightarrow> ub \<or> (\<exists>r\<in>set rules. rule_matches repo wfl r \<and> installationTokenTool \<in> set (gr_tools r) \<and> gr_tokens r = []))"
  using assms
proof (induction rules arbitrary: tools caps ub)
  case (Cons r rules)
  show ?case
  proof (cases "rule_matches repo wfl r")
    case True
    obtain t1 c1 u1 where g: "grant_tools (gr_tokens r) (gr_tools r) (tools, caps, ub) = (t1, c1, u1)"
      by (metis prod_cases3)
    from grant_tools_result [OF g Cons.prems(2)] have "distinct t1" by simp
    with Cons.prems(1) True g
    have "fold (\<lambda>r st. if rule_matches repo wfl r then grant_tools (gr_tokens r) (gr_tools r) st else st) rules
      (t1, c1, u1) = (tools', caps', ub')" by simp
    from Cons.IH [OF this \<open>distinct t1\<close>] grant_tools_result [OF g Cons.prems(2)] True
    show ?thesis by auto
  next
    case False
    with Cons.prems have "fold (\<lambda>r st. if rule_matches repo wfl r then grant_tools (gr_tokens r) (gr_tools r) st else st) rules
      (tools, caps, ub) = (tools', caps', ub')" by simp
    from Cons.IH [OF this Cons.prems(2)] False show ?thesis by auto
  qed
qed auto

lemma grantsFor_result:
  assumes "grantsFor rules repository workflow = (tools, caps)"
  shows "distinct tools" and "set tools = (\<Union>r\<in>set (matching rules repository workflow). set (gr_tools r))"
    and "set caps = (let rs = filter (\<lambda>r. installationTokenTool \<in> set (gr_tools r)) (matching rules repository workflow)
       in if \<exists>r\<in>set rs. gr_tokens r = [] then {} else \<Union>r\<in>set rs. set (gr_tokens r))"
proof -
  obtain t c u where f: "fold (\<lambda>r st. if rule_matches (to_lower repository) workflow r
      then grant_tools (gr_tokens r) (gr_tools r) st else st) rules ([], [], False) = (t, c, u)"
    by (rule prod_cases3)
  have r: "tools = t" "caps = (if u then [] else c)" using assms by (auto simp: grantsFor_def f)
  note g = grantsFor_fold [OF f distinct.simps(1) [THEN iffD2, OF TrueI]]
  from g r show "distinct tools" and "set tools = (\<Union>r\<in>set (matching rules repository workflow). set (gr_tools r))"
    by (simp_all add: matching_def)
  from g r show "set caps = (let rs = filter (\<lambda>r. installationTokenTool \<in> set (gr_tools r)) (matching rules repository workflow)
       in if \<exists>r\<in>set rs. gr_tokens r = [] then {} else \<Union>r\<in>set rs. set (gr_tokens r))"
    by (cases u) (auto simp: matching_def Let_def)
qed

lemma grantsFor_caps_ok:
  assumes "grantsFor rules repository workflow = (tools, caps)" and "list_all rule_ok rules"
  shows "list_all cap_ok caps"
proof -
  have "cap_ok cap" if r: "r \<in> set rules" and cap: "cap \<in> set (gr_tokens r)" for r cap
  proof -
    from r assms(2) have "rule_ok r" by (auto simp: list_all_iff)
    with cap show ?thesis unfolding rule_ok_def list_all_iff by blast
  qed
  then show ?thesis
    using grantsFor_result(3) [OF assms(1)] by (auto simp: matching_def list_all_iff Let_def split: if_splits)
qed

section \<open>The workflow a token names\<close>

lemma before_last_Some:
  assumes "before_last c s = Some p"
  shows "\<exists>q. s = p @ c # q \<and> c \<notin> set q"
proof -
  from assms have c: "c \<in> set (rev s)" and p: "p = rev (drop 1 (dropWhile (\<lambda>x. x \<noteq> c) (rev s)))"
    by (auto simp: before_last_def split: if_splits)
  let ?q = "takeWhile (\<lambda>x. x \<noteq> c) (rev s)"
  have "dropWhile (\<lambda>x. x \<noteq> c) (rev s) \<noteq> []" using c by auto
  moreover from hd_dropWhile [OF this] have "hd (dropWhile (\<lambda>x. x \<noteq> c) (rev s)) = c" by simp
  ultimately obtain d where "dropWhile (\<lambda>x. x \<noteq> c) (rev s) = c # d" by (metis list.collapse)
  moreover have "rev s = ?q @ dropWhile (\<lambda>x. x \<noteq> c) (rev s)" by simp
  ultimately have "rev s = ?q @ c # rev p" using p by simp
  then have "s = p @ c # rev ?q" by (metis rev_append rev_rev_ident rev.simps(2) append.assoc append_Cons append_Nil)
  moreover have "c \<notin> set (rev ?q)" by (auto dest: set_takeWhileD)
  ultimately show ?thesis by blast
qed

lemma before_last_append: "c \<notin> set q \<Longrightarrow> before_last c (p @ c # q) = Some p"
  by (simp add: before_last_def dropWhile_append)

lemma workflowPath_SomeD:
  assumes "workflowPath repository workflowRef = path" and "path \<noteq> []"
  shows "\<exists>repo ref. workflowRef = repo @ ''/'' @ path @ ''@'' @ ref \<and> equal_fold repo repository \<and> CHR ''@'' \<notin> set ref"
proof -
  let ?n = "length (repository @ ''/'')"
  from assms obtain p where b: "before_last (CHR ''@'') workflowRef = Some p"
    and l: "?n < length p" and e: "equal_fold (take ?n p) (repository @ ''/'')" and path: "path = drop ?n p"
    by (auto simp: workflowPath_def Let_def split: option.splits if_splits)
  from before_last_Some [OF b] obtain ref where r: "workflowRef = p @ ''@'' @ ref" "CHR ''@'' \<notin> set ref" by auto
  let ?repo = "take (length repository) p"
  have len: "length ?repo = length repository" using l by simp
  have t: "take ?n p = ?repo @ [p ! length repository]"
    using l by (simp add: take_Suc_conv_app_nth)
  with e len have "equal_fold ?repo repository" and "lower_char (p ! length repository) = lower_char (CHR ''/'')"
    by (auto simp: equal_fold_def to_lower_def)
  then have "p ! length repository = CHR ''/''" by (simp add: lower_char_def [of "CHR ''/''"])
  with t path have "p = ?repo @ ''/'' @ path" by (metis append.assoc append_take_drop_id)
  with r \<open>equal_fold ?repo repository\<close> show ?thesis by (metis append.assoc)
qed

lemma workflowPath_of:
  assumes "equal_fold repo repository" and "path \<noteq> []" and "CHR ''@'' \<notin> set ref"
  shows "workflowPath repository (repo @ ''/'' @ path @ ''@'' @ ref) = path"
proof -
  have len: "length repo = length repository"
    using assms(1) by (metis equal_fold_def length_map to_lower_def)
  have "before_last (CHR ''@'') (repo @ ''/'' @ path @ ''@'' @ ref) = Some (repo @ ''/'' @ path)"
    using before_last_append [OF assms(3), of "repo @ ''/'' @ path"] by simp
  then show ?thesis
    using assms(1,2) len by (auto simp: workflowPath_def Let_def equal_fold_def to_lower_def)
qed

end
