(* ===== verification/Auth.thy ===== *)
theory Auth
  imports GithubRules Dispatch
begin

text \<open>
  The bearer layer in front of the endpoint: internal/auth auth.go and the verifying half of
  github_oidc.go. The two key caches (maps a lock guards, replaced as a whole) are the state, with
  the URLs fetched so far; what a URL answers is a function of that state, a parameter. The JWT
  library is a parameter as well, through the three things the code takes from it: the issuer of an
  unverified token, the key id the key function is called with (\<open>None\<close> where the token is refused
  before that: malformed, or not of the accepted method), and the claims of a token that verifies
  under a key and the options given.
\<close>

section \<open>Keys\<close>

record rsa_key =
  rk_N :: nat
  rk_E :: int

type_synonym key_set = "string \<rightharpoonup> rsa_key"

datatype fetch_answer =
    FetchFailed string
  | Fetched int "raw option"

record auth_state =
  st_keys :: key_set
  st_github_keys :: key_set
  st_fetched :: "string list"

record jwk =
  Kid :: string
  Kty :: string
  jwk_N :: string
  jwk_E :: string

text \<open>Base64 in the URL alphabet without padding (\<open>base64.RawURLEncoding\<close>).\<close>

definition b64url_val :: "char \<Rightarrow> nat option" where
  "b64url_val c =
     (if c = CHR ''-'' then Some 62 else if c = CHR ''_'' then Some 63
      else if c = CHR ''+'' \<or> c = CHR ''/'' then None else b64_val c)"

fun b64url_groups :: "string \<Rightarrow> nat list option" where
  "b64url_groups [] = Some []"
| "b64url_groups [a] = None"
| "b64url_groups [a, b] =
     (case (b64url_val a, b64url_val b) of
        (Some x, Some y) \<Rightarrow> Some [x * 4 + y div 16] | _ \<Rightarrow> None)"
| "b64url_groups [a, b, c] =
     (case (b64url_val a, b64url_val b, b64url_val c) of
        (Some x, Some y, Some z) \<Rightarrow> Some [x * 4 + y div 16, y mod 16 * 16 + z div 4] | _ \<Rightarrow> None)"
| "b64url_groups (a # b # c # d # r) =
     (case (b64url_val a, b64url_val b, b64url_val c, b64url_val d, b64url_groups r) of
        (Some x, Some y, Some z, Some u, Some bs) \<Rightarrow>
          Some ((x * 4 + y div 16) # (y mod 16 * 16 + z div 4) # (z mod 4 * 64 + u) # bs)
      | _ \<Rightarrow> None)"

definition b64url_decode :: "string \<Rightarrow> nat list option" where
  "b64url_decode s = b64url_groups (filter (\<lambda>c. c \<noteq> CHR 0x0A \<and> c \<noteq> CHR 0x0D) s)"

definition big_endian :: "nat list \<Rightarrow> nat" where
  "big_endian bs = fold (\<lambda>b n. n * 256 + b) bs 0"

text \<open>
  \<open>rsaPublicKey\<close>: the exponent is copied into the last places of eight bytes. A longer one makes the
  slice expression \<open>padded[8-len(eBytes):]\<close> panic. The conversion to \<open>int\<close> wraps around.
\<close>

datatype key_result = KeyRefused | KeyPanics | KeyOf rsa_key

definition rsaPublicKey :: "string \<Rightarrow> string \<Rightarrow> key_result" where
  "rsaPublicKey nStr eStr =
     (case (b64url_decode nStr, b64url_decode eStr) of
        (Some nBytes, Some eBytes) \<Rightarrow>
          if 8 < length eBytes then KeyPanics
          else KeyOf \<lparr>rk_N = big_endian nBytes, rk_E = wrap64 (int (big_endian (replicate (8 - length eBytes) 0 @ eBytes)))\<rparr>
      | _ \<Rightarrow> KeyRefused)"

text \<open>An error of a fetch, or a panic on the way.\<close>

datatype fetch_error = FetchError string | FetchPanics

type_synonym fetcher = "string \<Rightarrow> auth_state \<Rightarrow> fetch_answer"

definition getJSON :: "fetcher \<Rightarrow> string \<Rightarrow> auth_state \<Rightarrow> (string + raw) \<times> auth_state" where
  "getJSON get url st =
     (case get url st of
        FetchFailed e \<Rightarrow> (Inl e, st\<lparr>st_fetched := st_fetched st @ [url]\<rparr>)
      | Fetched status body \<Rightarrow>
          (if status < 200 \<or> 300 \<le> status then Inl (''status '' @ itoa status)
           else (case body of None \<Rightarrow> Inl ''invalid JSON'' | Some v \<Rightarrow> Inr v),
           st\<lparr>st_fetched := st_fetched st @ [url]\<rparr>))"

definition zero_jwk :: jwk where
  "zero_jwk = \<lparr>Kid = [], Kty = [], jwk_N = [], jwk_E = []\<rparr>"

definition jwk_fields :: "(string \<times> jwk reader) list" where
  "jwk_fields =
     [(''kid'', \<lambda>v s. bind_sum (read_string v (Kid s)) (\<lambda>x. Inr (s\<lparr>Kid := x\<rparr>))),
      (''kty'', \<lambda>v s. bind_sum (read_string v (Kty s)) (\<lambda>x. Inr (s\<lparr>Kty := x\<rparr>))),
      (''n'', \<lambda>v s. bind_sum (read_string v (jwk_N s)) (\<lambda>x. Inr (s\<lparr>jwk_N := x\<rparr>))),
      (''e'', \<lambda>v s. bind_sum (read_string v (jwk_E s)) (\<lambda>x. Inr (s\<lparr>jwk_E := x\<rparr>)))]"

definition jwks_fields :: "(string \<times> jwk list option reader) list" where
  "jwks_fields = [(''keys'', read_slice (read_struct False jwk_fields) zero_jwk)]"

text \<open>The loop over the entries; \<open>None\<close> is the panic.\<close>

fun usable_keys :: "jwk list \<Rightarrow> key_set \<Rightarrow> key_set option" where
  "usable_keys [] keys = Some keys"
| "usable_keys (k # ks) keys =
     (if Kty k \<noteq> ''RSA'' \<or> jwk_N k = [] \<or> jwk_E k = [] then usable_keys ks keys
      else (case rsaPublicKey (jwk_N k) (jwk_E k) of
              KeyRefused \<Rightarrow> usable_keys ks keys
            | KeyPanics \<Rightarrow> None
            | KeyOf key \<Rightarrow> usable_keys ks (keys(Kid k \<mapsto> key))))"

definition usable :: "jwk \<Rightarrow> bool" where
  "usable k \<longleftrightarrow> Kty k = ''RSA'' \<and> jwk_N k \<noteq> [] \<and> jwk_E k \<noteq> [] \<and>
     (case rsaPublicKey (jwk_N k) (jwk_E k) of KeyOf _ \<Rightarrow> True | _ \<Rightarrow> False)"

definition fetchRSAKeys :: "fetcher \<Rightarrow> string \<Rightarrow> auth_state \<Rightarrow> (fetch_error + key_set) \<times> auth_state" where
  "fetchRSAKeys get jwksURI st =
     (case getJSON get jwksURI st of
        (Inl e, st1) \<Rightarrow> (Inl (FetchError (''fetch '' @ jwksURI @ '': '' @ e)), st1)
      | (Inr v, st1) \<Rightarrow>
          ((case read_struct False jwks_fields v None of
              Inl e \<Rightarrow> Inl (FetchError (''fetch '' @ jwksURI @ '': '' @ e))
            | Inr ks \<Rightarrow>
                (case usable_keys (or_else ks []) Map.empty of
                   None \<Rightarrow> Inl FetchPanics
                 | Some keys \<Rightarrow>
                     if list_ex usable (or_else ks []) then Inr keys
                     else Inl (FetchError ''jwks contains no usable RSA keys''))), st1))"

section \<open>Configuration\<close>

record github_oidc =
  go_issuer :: string
  go_audience :: string
  go_jwksURI :: string
  go_rules :: "github_rule list"

record auth_config =
  ac_Issuer :: string
  ac_Audience :: string
  ac_Resource :: string
  ac_jwksURI :: string
  ac_apiKeys :: "string list"
  ac_github :: "github_oidc option"

definition OAuthConfigured :: "auth_config \<Rightarrow> bool" where
  "OAuthConfigured c \<longleftrightarrow> ac_Issuer c \<noteq> []"

definition APIKeyCount :: "auth_config \<Rightarrow> nat" where
  "APIKeyCount c = length (ac_apiKeys c)"

definition GitHubOIDCRuleCount :: "auth_config \<Rightarrow> nat" where
  "GitHubOIDCRuleCount c = (case ac_github c of None \<Rightarrow> 0 | Some g \<Rightarrow> length (go_rules g))"

definition parseAPIKeys :: "string \<Rightarrow> string list" where
  "parseAPIKeys text = filter (\<lambda>k. k \<noteq> []) (map trim_space (split_on (CHR '','') text))"

text \<open>\<open>providerMetadata\<close>: the one member the code reads of a provider's document.\<close>

definition read_metadata :: "raw \<Rightarrow> string + string" where
  "read_metadata v = read_struct False [(''jwks_uri'', read_string)] v []"

definition refreshKeys :: "fetcher \<Rightarrow> auth_config \<Rightarrow> auth_state \<Rightarrow> (fetch_error + unit) \<times> auth_state" where
  "refreshKeys get c st =
     (case fetchRSAKeys get (ac_jwksURI c) st of
        (Inl e, st1) \<Rightarrow> (Inl e, st1)
      | (Inr keys, st1) \<Rightarrow> (Inr (), st1\<lparr>st_keys := keys\<rparr>))"

definition github_refreshKeys :: "fetcher \<Rightarrow> github_oidc \<Rightarrow> auth_state \<Rightarrow> (fetch_error + unit) \<times> auth_state" where
  "github_refreshKeys get g st =
     (case fetchRSAKeys get (go_jwksURI g) st of
        (Inl e, st1) \<Rightarrow> (Inl e, st1)
      | (Inr keys, st1) \<Rightarrow> (Inr (), st1\<lparr>st_github_keys := keys\<rparr>))"

definition wellKnown :: string where "wellKnown = ''/.well-known/openid-configuration''"

definition configureOAuth ::
  "fetcher \<Rightarrow> auth_config \<Rightarrow> string \<Rightarrow> string \<Rightarrow> string \<Rightarrow> auth_state \<Rightarrow> (fetch_error + auth_config) \<times> auth_state"
where
  "configureOAuth get c issuer audience resource st =
     (if issuer = [] then (Inl (FetchError ''MCP_OAUTH_ISSUER is required when OAuth is enabled''), st)
      else if audience = [] then (Inl (FetchError ''MCP_OAUTH_AUDIENCE is required when OAuth is enabled''), st)
      else
        (case getJSON get (trim_right (CHR ''/'') issuer @ wellKnown) st of
           (Inl e, st1) \<Rightarrow> (Inl (FetchError e), st1)
         | (Inr v, st1) \<Rightarrow>
             (case read_metadata v of
                Inl e \<Rightarrow> (Inl (FetchError e), st1)
              | Inr uri \<Rightarrow>
                  if uri = [] then (Inl (FetchError ''openid-configuration has no jwks_uri''), st1)
                  else
                    (let c' = c\<lparr>ac_Issuer := issuer, ac_Audience := audience,
                           ac_Resource := (if resource = [] then audience else resource), ac_jwksURI := uri\<rparr> in
                     (case refreshKeys get c' st1 of
                        (Inl e, st2) \<Rightarrow> (Inl e, st2)
                      | (Inr _, st2) \<Rightarrow> (Inr c', st2))))))"

definition newGitHubOIDC ::
  "(string \<Rightarrow> json option) \<Rightarrow> fetcher \<Rightarrow> string \<Rightarrow> string \<Rightarrow> rule_source list \<Rightarrow> auth_state \<Rightarrow>
   (fetch_error + github_oidc) \<times> auth_state"
where
  "newGitHubOIDC read_json get issuer audience sources st =
     (let issuer' = trim_right (CHR ''/'') (if issuer = [] then defaultGitHubOIDCIssuer else issuer) in
      if audience = [] then (Inl (FetchError ''MCP_GITHUB_OIDC_AUDIENCE is required when GitHub OIDC is enabled''), st)
      else
        (case parseGitHubRuleSources read_json sources of
           Inl e \<Rightarrow> (Inl (FetchError e), st)
         | Inr rules \<Rightarrow>
        (case getJSON get (issuer' @ wellKnown) st of
           (Inl e, st1) \<Rightarrow> (Inl (FetchError e), st1)
         | (Inr v, st1) \<Rightarrow>
        (case read_metadata v of
           Inl e \<Rightarrow> (Inl (FetchError e), st1)
         | Inr uri \<Rightarrow>
             if uri = [] then (Inl (FetchError (issuer' @ '' has no jwks_uri'')), st1)
             else
               (let g = \<lparr>go_issuer = issuer', go_audience = audience, go_jwksURI = uri, go_rules = rules\<rparr> in
                (case github_refreshKeys get g st1 of
                   (Inl e, st2) \<Rightarrow> (Inl e, st2)
                 | (Inr _, st2) \<Rightarrow> (Inr g, st2)))))))"

definition no_keys :: auth_state where
  "no_keys = \<lparr>st_keys = Map.empty, st_github_keys = Map.empty, st_fetched = []\<rparr>"

text \<open>
  \<open>FromEnv\<close> of package auth: nothing when authentication is disabled. The environment is given both
  ways it is read, by name and as a list of assignments.
\<close>

definition auth_FromEnv ::
  "(string \<Rightarrow> json option) \<Rightarrow> fetcher \<Rightarrow> (string \<Rightarrow> string) \<Rightarrow> string list \<Rightarrow>
   (fetch_error + auth_config option) \<times> auth_state"
where
  "auth_FromEnv read_json get getenv environ =
     (let disabled = getenv ''MCP_AUTH_DISABLED'' in
      if disabled = ''1'' \<or> disabled = ''true'' then (Inr None, no_keys)
      else
        (let apiKeys = parseAPIKeys (getenv ''MCP_API_KEYS'');
             issuer = getenv ''MCP_OAUTH_ISSUER''; audience = getenv ''MCP_OAUTH_AUDIENCE'';
             resource = getenv ''MCP_OAUTH_RESOURCE'';
             oauthRequested = (issuer \<noteq> [] \<or> audience \<noteq> [] \<or> resource \<noteq> []);
             ghIssuer = getenv ''MCP_GITHUB_OIDC_ISSUER''; ghAudience = getenv ''MCP_GITHUB_OIDC_AUDIENCE'';
             ghRules = GitHubRuleSources environ;
             githubRequested = (ghIssuer \<noteq> [] \<or> ghAudience \<noteq> [] \<or> ghRules \<noteq> []);
             base = \<lparr>ac_Issuer = [], ac_Audience = [], ac_Resource = [], ac_jwksURI = [],
                     ac_apiKeys = apiKeys, ac_github = None\<rparr>
         in
         if apiKeys = [] \<and> \<not> oauthRequested \<and> \<not> githubRequested then
           (Inl (FetchError ''no authentication configured''), no_keys)
         else
           (case (if oauthRequested then configureOAuth get base issuer audience resource no_keys else (Inr base, no_keys)) of
              (Inl e, st1) \<Rightarrow> (Inl e, st1)
            | (Inr cfg, st1) \<Rightarrow>
                if \<not> githubRequested then (Inr (Some cfg), st1)
                else
                  (case newGitHubOIDC read_json get ghIssuer ghAudience ghRules st1 of
                     (Inl e, st2) \<Rightarrow> (Inl e, st2)
                   | (Inr gh, st2) \<Rightarrow>
                       if OAuthConfigured cfg \<and> trim_right (CHR ''/'') (ac_Issuer cfg) = go_issuer gh then
                         (Inl (FetchError ''MCP_OAUTH_ISSUER and the GitHub OIDC issuer are the same''), st2)
                       else (Inr (Some (cfg\<lparr>ac_github := Some gh\<rparr>)), st2)))))"

end
