(* ===== verification/Bearer.thy ===== *)
theory Bearer
  imports Auth
begin

text \<open>
  \<open>RequireBearer\<close> and what it decides with (internal/auth auth.go and github_oidc.go): which of the
  three credentials a request presents, what the handler behind is told of the caller, and the record
  a refused tool call leaves. A panic on the way ends the request without an answer.
\<close>

section \<open>Requests\<close>

text \<open>
  A body is read in two ways: whole, by the record of a refusal, and up to the end of its first JSON
  value, by the dispatcher. \<open>None\<close> is a body that is no JSON in that reading.
\<close>

record http_body =
  bd_size :: int
  bd_first :: "raw option"
  bd_whole :: "raw option"

record http_request =
  rq_method :: string
  rq_path :: string
  rq_authorization :: string
  rq_session :: string
  rq_body :: "http_body option"

definition maxRecordedBody :: int where "maxRecordedBody = 1048576"

definition extractBearer :: "http_request \<Rightarrow> string + string" where
  "extractBearer r =
     (let header = rq_authorization r in
      if header = [] then Inl ''missing_token''
      else
        (case (case cut_prefix header ''Bearer '' of Some rest \<Rightarrow> Some rest | None \<Rightarrow> cut_prefix header ''bearer '') of
           None \<Rightarrow> Inl ''invalid_request''
         | Some rest \<Rightarrow> if rest = [] then Inl ''invalid_request'' else Inr rest))"

record refused_call =
  rf_Method :: string
  rf_Name :: string

definition refused_params :: "refused_call reader" where
  "refused_params =
     read_struct False [(''name'', \<lambda>v s. bind_sum (read_string v (rf_Name s)) (\<lambda>x. Inr (s\<lparr>rf_Name := x\<rparr>)))]"

definition refusedToolName :: "http_body option \<Rightarrow> string option" where
  "refusedToolName body =
     (case body of
        None \<Rightarrow> None
      | Some b \<Rightarrow>
          if maxRecordedBody < bd_size b then None
          else
            (case bd_whole b of
               None \<Rightarrow> None
             | Some v \<Rightarrow>
                 (case read_struct False
                    [(''method'', \<lambda>v s. bind_sum (read_string v (rf_Method s)) (\<lambda>x. Inr (s\<lparr>rf_Method := x\<rparr>))),
                     (''params'', refused_params)] v \<lparr>rf_Method = [], rf_Name = []\<rparr> of
                    Inl _ \<Rightarrow> None
                  | Inr req \<Rightarrow> if rf_Method req \<noteq> ''tools/call'' then None else Some (rf_Name req))))"

section \<open>Static keys\<close>

text \<open>\<open>ConstantTimeSelect(ConstantTimeCompare(raw, key), i+1, index)\<close>: the last match wins.\<close>

fun key_index_from :: "nat \<Rightarrow> string list \<Rightarrow> string \<Rightarrow> nat \<Rightarrow> nat" where
  "key_index_from i [] presented index = index"
| "key_index_from i (key # keys) presented index =
     key_index_from (Suc i) keys presented (if presented = key then i + 1 else index)"

definition apiKeyIndex :: "auth_config \<Rightarrow> string \<Rightarrow> nat" where
  "apiKeyIndex c presented = key_index_from 0 (ac_apiKeys c) presented 0"

definition matchAPIKey :: "auth_config \<Rightarrow> string \<Rightarrow> bool" where
  "matchAPIKey c presented \<longleftrightarrow> apiKeyIndex c presented \<noteq> 0"

section \<open>Signed tokens\<close>

record jwt_claims =
  jc_Subject :: string
  jc_Repository :: string
  jc_WorkflowRef :: string

record jwt_options =
  jo_Methods :: "string list"
  jo_Audience :: string
  jo_Issuer :: string
  jo_ExpirationRequired :: bool

record jwt_lib =
  jl_issuer :: "string \<Rightarrow> string option"
  jl_kid :: "jwt_options \<Rightarrow> string \<Rightarrow> string option"
  jl_claims :: "jwt_options \<Rightarrow> string \<Rightarrow> rsa_key \<Rightarrow> (string + jwt_claims)"

text \<open>An answer, an error, or a panic, while the key caches change.\<close>

datatype 'a verified = Verified 'a | Rejected | VerifyPanics

definition keyForKid :: "fetcher \<Rightarrow> auth_config \<Rightarrow> string \<Rightarrow> auth_state \<Rightarrow> rsa_key verified \<times> auth_state" where
  "keyForKid get c kid st =
     (case st_keys st kid of
        Some key \<Rightarrow> (Verified key, st)
      | None \<Rightarrow>
          (case refreshKeys get c st of
             (Inl FetchPanics, st1) \<Rightarrow> (VerifyPanics, st1)
           | (Inl (FetchError e), st1) \<Rightarrow> (Rejected, st1)
           | (Inr _, st1) \<Rightarrow> (case st_keys st1 kid of None \<Rightarrow> (Rejected, st1) | Some key \<Rightarrow> (Verified key, st1))))"

definition github_keyForKid :: "fetcher \<Rightarrow> github_oidc \<Rightarrow> string \<Rightarrow> auth_state \<Rightarrow> rsa_key verified \<times> auth_state" where
  "github_keyForKid get g kid st =
     (case st_github_keys st kid of
        Some key \<Rightarrow> (Verified key, st)
      | None \<Rightarrow>
          (case github_refreshKeys get g st of
             (Inl FetchPanics, st1) \<Rightarrow> (VerifyPanics, st1)
           | (Inl (FetchError e), st1) \<Rightarrow> (Rejected, st1)
           | (Inr _, st1) \<Rightarrow> (case st_github_keys st1 kid of None \<Rightarrow> (Rejected, st1) | Some key \<Rightarrow> (Verified key, st1))))"

text \<open>\<open>ParseWithClaims\<close> with a key function that looks the key id up.\<close>

definition parse_with_claims ::
  "jwt_lib \<Rightarrow> jwt_options \<Rightarrow> (string \<Rightarrow> auth_state \<Rightarrow> rsa_key verified \<times> auth_state) \<Rightarrow> string \<Rightarrow> auth_state \<Rightarrow>
   jwt_claims verified \<times> auth_state"
where
  "parse_with_claims jwt opts keyFor token st =
     (case jl_kid jwt opts token of
        None \<Rightarrow> (Rejected, st)
      | Some kid \<Rightarrow>
          if kid = [] then (Rejected, st)
          else
            (case keyFor kid st of
               (Verified key, st1) \<Rightarrow>
                 (case jl_claims jwt opts token key of Inl _ \<Rightarrow> (Rejected, st1) | Inr cl \<Rightarrow> (Verified cl, st1))
             | (Rejected, st1) \<Rightarrow> (Rejected, st1)
             | (VerifyPanics, st1) \<Rightarrow> (VerifyPanics, st1)))"

definition verify_options :: "auth_config \<Rightarrow> jwt_options" where
  "verify_options c =
     \<lparr>jo_Methods = [''RS256''], jo_Audience = ac_Audience c, jo_Issuer = ac_Issuer c, jo_ExpirationRequired = True\<rparr>"

definition verify_jwt :: "jwt_lib \<Rightarrow> fetcher \<Rightarrow> auth_config \<Rightarrow> string \<Rightarrow> auth_state \<Rightarrow> string verified \<times> auth_state" where
  "verify_jwt jwt get c token st =
     (if \<not> OAuthConfigured c then (Rejected, st)
      else
        (case parse_with_claims jwt (verify_options c) (keyForKid get c) token st of
           (Verified cl, st1) \<Rightarrow> (Verified (jc_Subject cl), st1)
         | (Rejected, st1) \<Rightarrow> (Rejected, st1)
         | (VerifyPanics, st1) \<Rightarrow> (VerifyPanics, st1)))"

definition issues :: "jwt_lib \<Rightarrow> github_oidc \<Rightarrow> string \<Rightarrow> bool" where
  "issues jwt g token \<longleftrightarrow>
     (case jl_issuer jwt token of None \<Rightarrow> False | Some issuer \<Rightarrow> trim_right (CHR ''/'') issuer = go_issuer g)"

record github_grant =
  gg_caller :: string
  gg_tools :: "string list"
  gg_tokenCaps :: "token_cap list"
  gg_self :: string

definition github_options :: "github_oidc \<Rightarrow> jwt_options" where
  "github_options g =
     \<lparr>jo_Methods = [''RS256''], jo_Audience = go_audience g, jo_Issuer = go_issuer g, jo_ExpirationRequired = True\<rparr>"

text \<open>The grant of verified claims.\<close>

definition grant_of :: "github_rule list \<Rightarrow> jwt_claims \<Rightarrow> github_grant option" where
  "grant_of rules cl =
     (let repository = jc_Repository cl in
      if repository = [] then None
      else
        (let workflow = workflowPath repository (jc_WorkflowRef cl) in
         case grantsFor rules repository workflow of
           (tools, tokenCaps) \<Rightarrow>
             if tools = [] then None
             else Some \<lparr>gg_caller = (if workflow = [] then repository else repository @ ''/'' @ workflow),
                        gg_tools = tools, gg_tokenCaps = tokenCaps,
                        gg_self = to_lower (case cut (CHR ''/'') repository of None \<Rightarrow> [] | Some (_, self) \<Rightarrow> self)\<rparr>))"

definition github_verify :: "jwt_lib \<Rightarrow> fetcher \<Rightarrow> github_oidc \<Rightarrow> string \<Rightarrow> auth_state \<Rightarrow> github_grant verified \<times> auth_state" where
  "github_verify jwt get g token st =
     (case parse_with_claims jwt (github_options g) (github_keyForKid get g) token st of
        (Verified cl, st1) \<Rightarrow>
          (case grant_of (go_rules g) cl of None \<Rightarrow> (Rejected, st1) | Some grant \<Rightarrow> (Verified grant, st1))
      | (Rejected, st1) \<Rightarrow> (Rejected, st1)
      | (VerifyPanics, st1) \<Rightarrow> (VerifyPanics, st1))"

section \<open>RequireBearer\<close>

definition withPrincipal :: "call_ctx \<Rightarrow> string \<Rightarrow> string \<Rightarrow> call_ctx" where
  "withPrincipal ctx m i = ctx\<lparr>cx_principal := \<lparr>Method = m, ID = i\<rparr>\<rparr>"

definition grant_ctx :: "call_ctx \<Rightarrow> github_grant \<Rightarrow> call_ctx" where
  "grant_ctx ctx grant =
     WithSelfRepository (WithTokenCaps (With (withPrincipal ctx githubOIDCMethod (gg_caller grant)) (gg_tools grant))
       (gg_tokenCaps grant)) (gg_self grant)"

definition recordRefusal :: "http_request \<Rightarrow> world \<Rightarrow> world" where
  "recordRefusal r w =
     (case refusedToolName (rq_body r) of
        None \<Rightarrow> w
      | Some tool \<Rightarrow>
          log_effect (Emitted \<lparr>Tool = tool, Principal = Unauthenticated, Target = no_target, Result = ResultRefused,
             Reason = Some ReasonAuthFailed, Gate = no_gate, Duration = 0, GateWait = 0\<rparr>) w)"

definition challenge :: "auth_config \<Rightarrow> string \<Rightarrow> string" where
  "challenge c authErr =
     (if OAuthConfigured c then
        ''Bearer realm='' @ quote (ac_Resource c) @ '', error='' @ quote authErr @ '', resource_metadata=''
          @ quote (ac_Resource c @ ''/.well-known/oauth-protected-resource'')
      else ''Bearer error='' @ quote authErr)"

datatype 'r bearer_answer = Unauthorized string string | Answered 'r | Aborted

definition unauthorized :: "auth_config \<Rightarrow> http_request \<Rightarrow> string \<Rightarrow> world \<Rightarrow> 'r bearer_answer \<times> world" where
  "unauthorized c r authErr w = (Unauthorized (challenge c authErr) authErr, recordRefusal r w)"

text \<open>What a credential says of the caller: the context for the handler behind, if it is one.\<close>

definition authenticate ::
  "jwt_lib \<Rightarrow> fetcher \<Rightarrow> auth_config \<Rightarrow> call_ctx \<Rightarrow> string \<Rightarrow> auth_state \<Rightarrow> call_ctx verified \<times> auth_state"
where
  "authenticate jwt get c ctx token st =
     (if apiKeyIndex c token \<noteq> 0 then
        (Verified (withPrincipal ctx ''api_key'' (itoa (int (apiKeyIndex c token)))), st)
      else
        (case ac_github c of
           Some g \<Rightarrow>
             if issues jwt g token then
               (case github_verify jwt get g token st of
                  (Verified grant, st1) \<Rightarrow> (Verified (grant_ctx ctx grant), st1)
                | (Rejected, st1) \<Rightarrow> (Rejected, st1)
                | (VerifyPanics, st1) \<Rightarrow> (VerifyPanics, st1))
             else
               (case verify_jwt jwt get c token st of
                  (Verified subject, st1) \<Rightarrow> (Verified (withPrincipal ctx ''jwt'' subject), st1)
                | (Rejected, st1) \<Rightarrow> (Rejected, st1)
                | (VerifyPanics, st1) \<Rightarrow> (VerifyPanics, st1))
         | None \<Rightarrow>
             (case verify_jwt jwt get c token st of
                (Verified subject, st1) \<Rightarrow> (Verified (withPrincipal ctx ''jwt'' subject), st1)
              | (Rejected, st1) \<Rightarrow> (Rejected, st1)
              | (VerifyPanics, st1) \<Rightarrow> (VerifyPanics, st1))))"

definition RequireBearer ::
  "jwt_lib \<Rightarrow> fetcher \<Rightarrow> auth_config \<Rightarrow> (call_ctx \<Rightarrow> http_request \<Rightarrow> world \<Rightarrow> 'r \<times> world) \<Rightarrow>
   call_ctx \<Rightarrow> http_request \<Rightarrow> auth_state \<Rightarrow> world \<Rightarrow> 'r bearer_answer \<times> auth_state \<times> world"
where
  "RequireBearer jwt get c next' ctx r st w =
     (case extractBearer r of
        Inl authErr \<Rightarrow> (case unauthorized c r authErr w of (a, w1) \<Rightarrow> (a, st, w1))
      | Inr token \<Rightarrow>
          (case authenticate jwt get c ctx token st of
             (Verified ctx', st1) \<Rightarrow> (case next' ctx' r w of (a, w1) \<Rightarrow> (Answered a, st1, w1))
           | (Rejected, st1) \<Rightarrow> (case unauthorized c r ''invalid_token'' w of (a, w1) \<Rightarrow> (a, st1, w1))
           | (VerifyPanics, st1) \<Rightarrow> (Aborted, st1, w)))"

section \<open>What they decide\<close>

lemma extractBearer_Inr:
  "extractBearer r = Inr token \<Longrightarrow> token \<noteq> [] \<and> rq_authorization r \<in> {''Bearer '' @ token, ''bearer '' @ token}"
  by (auto simp: extractBearer_def Let_def split: option.splits if_splits dest!: cut_prefix_SomeD)


text \<open>The specification of the index: the last position of the key presented, from one, or zero.\<close>

definition last_position :: "string list \<Rightarrow> string \<Rightarrow> nat" where
  "last_position keys presented = length (dropWhile (\<lambda>k. k \<noteq> presented) (rev keys))"

lemma key_index_from_last:
  "key_index_from i keys presented index =
     (if last_position keys presented = 0 then index else i + last_position keys presented)"
proof (induction keys arbitrary: i index)
  case (Cons key keys)
  show ?case
    by (cases "presented \<in> set keys")
       (auto simp: Cons.IH last_position_def dropWhile_append)
qed (simp add: last_position_def)

lemma last_position_zero: "last_position keys presented = 0 \<longleftrightarrow> presented \<notin> set keys"
  by (auto simp: last_position_def dropWhile_eq_Nil_conv)

lemma apiKeyIndex_last: "apiKeyIndex c presented = last_position (ac_apiKeys c) presented"
  by (simp add: apiKeyIndex_def key_index_from_last)

lemma last_position_nth:
  assumes "presented \<in> set keys"
  shows "last_position keys presented \<le> length keys" "keys ! (last_position keys presented - 1) = presented"
  using assms
proof (induction keys rule: rev_induct)
  case (snoc key keys)
  { case 1 then show ?case by (simp add: last_position_def le_trans [OF length_dropWhile_le]) }
  { case 2
    show ?case
    proof (cases "key = presented")
      case False
      with 2 have p: "presented \<in> set keys" by simp
      with snoc have "last_position keys presented \<le> length keys" "keys ! (last_position keys presented - 1) = presented"
        by auto
      moreover have "last_position keys presented - 1 < length keys"
        using calculation(1) length_pos_if_in_set [OF p] by linarith
      ultimately show ?thesis using False by (simp add: last_position_def nth_append)
    qed (simp add: last_position_def nth_append) }
qed simp_all

text \<open>A token that verifies does so under a key the issuer published, when or after the server asked.\<close>

definition signed_by ::
  "jwt_lib \<Rightarrow> jwt_options \<Rightarrow> key_set \<Rightarrow> string \<Rightarrow> jwt_claims \<Rightarrow> bool"
where
  "signed_by jwt opts keys token cl \<longleftrightarrow>
     (\<exists>kid key. jl_kid jwt opts token = Some kid \<and> kid \<noteq> [] \<and> keys kid = Some key \<and> jl_claims jwt opts token key = Inr cl)"

lemma keyForKid_Verified:
  "keyForKid get c kid st = (Verified key, st') \<Longrightarrow> st_keys st' kid = Some key"
  by (auto simp: keyForKid_def split: option.splits sum.splits prod.splits fetch_error.splits)

lemma github_keyForKid_Verified:
  "github_keyForKid get g kid st = (Verified key, st') \<Longrightarrow> st_github_keys st' kid = Some key"
  by (auto simp: github_keyForKid_def split: option.splits sum.splits prod.splits fetch_error.splits)

lemma verify_jwt_Verified:
  assumes "verify_jwt jwt get c token st = (Verified subject, st')"
  shows "OAuthConfigured c \<and> (\<exists>cl. signed_by jwt (verify_options c) (st_keys st') token cl \<and> subject = jc_Subject cl)"
  using assms
  by (auto simp: verify_jwt_def parse_with_claims_def signed_by_def
      split: if_splits prod.splits verified.splits option.splits sum.splits dest!: keyForKid_Verified)

lemma github_verify_Verified:
  assumes "github_verify jwt get g token st = (Verified grant, st')"
  shows "\<exists>cl. signed_by jwt (github_options g) (st_github_keys st') token cl \<and> grant_of (go_rules g) cl = Some grant"
  using assms
  by (auto simp: github_verify_def parse_with_claims_def signed_by_def
      split: if_splits prod.splits verified.splits option.splits sum.splits dest!: github_keyForKid_Verified)

text \<open>The three ways to be let in, and what the handler behind is told in each.\<close>

definition admitted :: "jwt_lib \<Rightarrow> auth_config \<Rightarrow> auth_state \<Rightarrow> string \<Rightarrow> call_ctx \<Rightarrow> call_ctx \<Rightarrow> bool" where
  "admitted jwt c st token ctx ctx' \<longleftrightarrow>
     (token \<in> set (ac_apiKeys c) \<and>
        ctx' = withPrincipal ctx ''api_key'' (itoa (int (last_position (ac_apiKeys c) token)))) \<or>
     (\<exists>g cl grant. ac_github c = Some g \<and> issues jwt g token \<and>
        signed_by jwt (github_options g) (st_github_keys st) token cl \<and>
        grant_of (go_rules g) cl = Some grant \<and> ctx' = grant_ctx ctx grant) \<or>
     (OAuthConfigured c \<and> (\<forall>g. ac_github c = Some g \<longrightarrow> \<not> issues jwt g token) \<and>
        (\<exists>cl. signed_by jwt (verify_options c) (st_keys st) token cl \<and> ctx' = withPrincipal ctx ''jwt'' (jc_Subject cl)))"

lemma authenticate_Verified:
  assumes "authenticate jwt get c ctx token st = (Verified ctx', st')"
  shows "admitted jwt c st' token ctx ctx'"
proof (cases "apiKeyIndex c token = 0")
  case False
  with assms show ?thesis
    by (auto simp: authenticate_def admitted_def apiKeyIndex_last last_position_zero)
next
  case True
  show ?thesis
  proof (cases "\<exists>g. ac_github c = Some g \<and> issues jwt g token")
    case True
    then obtain g where g: "ac_github c = Some g" "issues jwt g token" by blast
    with assms \<open>apiKeyIndex c token = 0\<close> obtain grant where
      "github_verify jwt get g token st = (Verified grant, st')" "ctx' = grant_ctx ctx grant"
      by (auto simp: authenticate_def split: prod.splits verified.splits)
    with g github_verify_Verified [OF this(1)] show ?thesis by (auto simp: admitted_def)
  next
    case False
    with assms True obtain subject where
      "verify_jwt jwt get c token st = (Verified subject, st')" "ctx' = withPrincipal ctx ''jwt'' subject"
      by (auto simp: authenticate_def split: prod.splits verified.splits option.splits if_splits)
    with False verify_jwt_Verified [OF this(1)] show ?thesis by (auto simp: admitted_def)
  qed
qed

text \<open>The only effect of a refusal is its record.\<close>

definition auth_refusal :: "string \<Rightarrow> event_record" where
  "auth_refusal tool =
     \<lparr>Tool = tool, Principal = Unauthenticated, Target = no_target, Result = ResultRefused,
      Reason = Some ReasonAuthFailed, Gate = no_gate, Duration = 0, GateWait = 0\<rparr>"

lemma recordRefusal_log:
  "recordRefusal r w =
     (case refusedToolName (rq_body r) of None \<Rightarrow> w | Some tool \<Rightarrow> log_effect (Emitted (auth_refusal tool)) w)"
  by (simp add: recordRefusal_def auth_refusal_def split: option.split)

lemma RequireBearer_cases:
  assumes "RequireBearer jwt get c next' ctx r st w = (a, st', w')"
  obtains (refused) ch e where "a = Unauthorized ch e" "w' = recordRefusal r w"
  | (answered) token ctx' x where "extractBearer r = Inr token" "admitted jwt c st' token ctx ctx'"
      "next' ctx' r w = (x, w')" "a = Answered x"
  | (aborted) "a = Aborted" "w' = w"
proof (cases "extractBearer r")
  case (Inl e)
  with assms show ?thesis by (auto simp: RequireBearer_def unauthorized_def intro: refused)
next
  case (Inr token)
  obtain v st1 where v: "authenticate jwt get c ctx token st = (v, st1)" by (cases "authenticate jwt get c ctx token st")
  show ?thesis
  proof (cases v)
    case (Verified ctx')
    obtain x w1 where x: "next' ctx' r w = (x, w1)" by (cases "next' ctx' r w")
    with assms Inr v Verified have "a = Answered x" "st' = st1" "w' = w1" by (simp_all add: RequireBearer_def)
    with Inr x authenticate_Verified [OF v [unfolded Verified]] show ?thesis by (intro answered) auto
  next
    case Rejected
    with assms Inr v show ?thesis by (auto simp: RequireBearer_def unauthorized_def intro: refused)
  next
    case VerifyPanics
    with assms Inr v show ?thesis by (auto simp: RequireBearer_def intro: aborted)
  qed
qed

section \<open>What a GitHub grant allows\<close>

lemma Allows_grant_ctx [simp]: "Allows (grant_ctx ctx grant) tool \<longleftrightarrow> tool \<in> set (gg_tools grant)"
  by (simp add: grant_ctx_def)

lemma grant_of_Some:
  assumes "grant_of rules cl = Some grant"
  shows "gg_tools grant \<noteq> [] \<and>
     grantsFor rules (jc_Repository cl) (workflowPath (jc_Repository cl) (jc_WorkflowRef cl)) = (gg_tools grant, gg_tokenCaps grant)"
  using assms by (auto simp: grant_of_def Let_def split: if_splits prod.splits)

lemma granted_tool:
  assumes "grant_of rules cl = Some grant" and "tool \<in> set (gg_tools grant)"
  shows "\<exists>r\<in>set rules. tool \<in> set (gr_tools r) \<and>
     rule_matches (to_lower (jc_Repository cl)) (workflowPath (jc_Repository cl) (jc_WorkflowRef cl)) r"
  using assms(2) grantsFor_result(2) [OF conjunct2 [OF grant_of_Some [OF assms(1)]]] by (auto simp: matching_def)

end
