(* ===== verification/Server.thy ===== *)
theory Server
  imports Bearer Serve Metrics
begin

text \<open>
  The routes of the service (internal/server server.go) and the start of the process (\<open>main\<close> of
  main.go, up to the listener). A request for a path the service does not have is answered by the
  multiplexer. The request's own context starts anonymous and unrestricted.
\<close>

section \<open>Routes\<close>

datatype http_reply =
    TextReply string
  | HealthReply string string
  | MetadataReply string string
  | McpReply rpc_response
  | UnauthorizedReply string string
  | NotFoundReply
  | MethodNotAllowedReply
  | NoReply

definition server_version :: string where "server_version = ''0.1.0''"

definition root :: http_reply where "root = TextReply version_Name"
definition healthz :: http_reply where "healthz = HealthReply ''ok'' server_version"
definition readyz :: http_reply where "readyz = HealthReply ''ready'' server_version"

definition MetadataHandler :: "auth_config \<Rightarrow> http_reply" where
  "MetadataHandler c = MetadataReply (ac_Resource c) (ac_Issuer c)"

definition request_ctx :: "(world \<Rightarrow> bool) \<Rightarrow> call_ctx" where
  "request_ctx cancelled =
     \<lparr>ctx_tools = None, ctx_caps = [], ctx_self = [], cx_sessionID = [], cx_reason = [],
      cx_approved = None, cx_principal = Anonymous, cx_cancelled = cancelled\<rparr>"

definition mcp_endpoint ::
  "mcp_handler \<Rightarrow> (string \<times> raw) list \<Rightarrow> call_ctx \<Rightarrow> http_request \<Rightarrow> world \<Rightarrow> rpc_response \<times> world"
where
  "mcp_endpoint h advertised ctx r w =
     ServeHTTP h advertised ctx (rq_session r) (case rq_body r of None \<Rightarrow> None | Some b \<Rightarrow> bd_first b) w"

text \<open>A pattern with the method \<open>GET\<close> also serves \<open>HEAD\<close>.\<close>

definition get_route :: "http_request \<Rightarrow> http_reply \<Rightarrow> http_reply" where
  "get_route r reply = (if rq_method r = ''GET'' \<or> rq_method r = ''HEAD'' then reply else MethodNotAllowedReply)"

definition App ::
  "jwt_lib \<Rightarrow> fetcher \<Rightarrow> auth_config option \<Rightarrow> mcp_handler \<Rightarrow> (string \<times> raw) list \<Rightarrow> (world \<Rightarrow> bool) \<Rightarrow>
   http_request \<Rightarrow> auth_state \<Rightarrow> world \<Rightarrow> http_reply \<times> auth_state \<times> world"
where
  "App jwt get authCfg h advertised cancelled r st w =
     (if rq_path r = ''/'' then (get_route r root, st, w)
      else if rq_path r = ''/healthz'' then (get_route r healthz, st, w)
      else if rq_path r = ''/readyz'' then (get_route r readyz, st, w)
      else if rq_path r = ''/.well-known/oauth-protected-resource'' then
        (case authCfg of
           None \<Rightarrow> (NotFoundReply, st, w)
         | Some c \<Rightarrow> if OAuthConfigured c then (get_route r (MetadataHandler c), st, w) else (NotFoundReply, st, w))
      else if rq_path r = ''/mcp'' then
        (if rq_method r \<noteq> ''POST'' then (MethodNotAllowedReply, st, w)
         else
           (case authCfg of
              None \<Rightarrow>
                (case mcp_endpoint h advertised (request_ctx cancelled) r w of (a, w1) \<Rightarrow> (McpReply a, st, w1))
            | Some c \<Rightarrow>
                (case RequireBearer jwt get c (mcp_endpoint h advertised) (request_ctx cancelled) r st w of
                   (a, st1, w1) \<Rightarrow>
                     (case a of Unauthorized ch e \<Rightarrow> UnauthorizedReply ch e | Answered x \<Rightarrow> McpReply x | Aborted \<Rightarrow> NoReply,
                      st1, w1))))
      else (NotFoundReply, st, w))"

section \<open>Start\<close>

text \<open>
  \<open>main\<close> up to the listener: the checks in their order, each ending the process with a message, and
  what is served when they pass: the authentication, the key caches it starts with, the handler and
  the metrics. A panic while the keys are fetched ends the process as well.
\<close>

record running =
  rn_auth :: "auth_config option"
  rn_keys :: auth_state
  rn_handler :: mcp_handler
  rn_metrics :: metrics

definition fetch_error_text :: "fetch_error \<Rightarrow> string" where
  "fetch_error_text e = (case e of FetchError s \<Rightarrow> s | FetchPanics \<Rightarrow> ''panic'')"

definition server_main ::
  "(string \<Rightarrow> json option) \<Rightarrow> fetcher \<Rightarrow> string list \<Rightarrow> deployment \<Rightarrow> string + running"
where
  "server_main read_json get environ dp =
     (case auth_FromEnv read_json get (dp_getenv dp) environ of
        (Inl e, st) \<Rightarrow> Inl (''invalid auth config: '' @ fetch_error_text e)
      | (Inr authCfg, st) \<Rightarrow>
     (case (case authCfg of None \<Rightarrow> None
            | Some c \<Rightarrow> CheckToolScopes (map_option go_rules (ac_github c)) (map fst (toolRegistry (dp_am dp)))) of
        Some e \<Rightarrow> Inl (''invalid auth config: '' @ e)
      | None \<Rightarrow>
     (case validate_startup (dp_am dp) of
        Some e \<Rightarrow> Inl (''refusing to start: '' @ e)
      | None \<Rightarrow>
     (case new_metrics (map fst (toolRegistry (dp_am dp))) of
        Inl e \<Rightarrow> Inl (''refusing to start: '' @ e)
      | Inr m \<Rightarrow> Inr \<lparr>rn_auth = authCfg, rn_keys = st, rn_handler = served dp, rn_metrics = m\<rparr>))))"

lemma auth_FromEnv_disabled:
  "auth_FromEnv read_json get getenv environ = (Inr None, st) \<Longrightarrow> getenv ''MCP_AUTH_DISABLED'' \<in> {''1'', ''true''}"
  by (auto simp: auth_FromEnv_def Let_def split: if_splits prod.splits sum.splits)

lemma configureOAuth_Inr:
  "configureOAuth get c issuer audience resource st = (Inr c', st') \<Longrightarrow> OAuthConfigured c' \<and> ac_github c' = ac_github c"
  by (auto simp: configureOAuth_def OAuthConfigured_def Let_def split: if_splits prod.splits sum.splits)

lemma newGitHubOIDC_Inr:
  "newGitHubOIDC read_json get issuer audience sources st = (Inr g, st') \<Longrightarrow>
     parseGitHubRuleSources read_json sources = Inr (go_rules g)"
  by (auto simp: newGitHubOIDC_def Let_def split: if_splits prod.splits sum.splits)

lemma auth_FromEnv_enabled:
  assumes "auth_FromEnv read_json get getenv environ = (Inr (Some c), st)"
  shows "APIKeyCount c \<noteq> 0 \<or> OAuthConfigured c \<or> GitHubOIDCRuleCount c \<noteq> 0"
    and "ac_github c = Some g \<Longrightarrow> parseGitHubRuleSources read_json (GitHubRuleSources environ) = Inr (go_rules g)"
  using assms
  by (auto simp: auth_FromEnv_def Let_def APIKeyCount_def GitHubOIDCRuleCount_def
      split: if_splits prod.splits sum.splits dest!: configureOAuth_Inr newGitHubOIDC_Inr dest: parseGitHubRuleSources_ok)

lemma CheckToolScopes_None:
  "CheckToolScopes (Some rules) known = None \<Longrightarrow> rule \<in> set rules \<Longrightarrow> tool \<in> set (gr_tools rule) \<Longrightarrow> tool \<in> set known"
  by (auto simp: CheckToolScopes_def unknown_grants_def Let_def filter_empty_conv split: if_splits)

section \<open>What reaches the tools\<close>

lemma ServeHTTP_cases:
  assumes "ServeHTTP h advertised ctx sessionHeader body w = (a, w')"
  obtains (quiet) "w' = w"
  | (call) params r where "toolsCall h (withSessionID ctx sessionHeader) params w = (r, w')"
proof -
  have "w' = w \<or> (\<exists>params r. toolsCall h (withSessionID ctx sessionHeader) params w = (r, w'))"
    using assms
    by (auto simp: ServeHTTP_def dispatch_def split: option.splits prod.splits sum.splits if_splits)
  with that show thesis by blast
qed

lemma withSessionID_scope [simp]:
  "Allows (withSessionID ctx header) tool = Allows ctx tool" "ctx_caps (withSessionID ctx header) = ctx_caps ctx"
  "ctx_self (withSessionID ctx header) = ctx_self ctx" "cx_principal (withSessionID ctx header) = cx_principal ctx"
  by (simp_all add: withSessionID_def Let_def Allows_def)

text \<open>Every effect of the service comes from the endpoint: by an admitted caller, or as the record of a refusal.\<close>

lemma App_cases:
  assumes "App jwt get authCfg h advertised cancelled r st w = (a, st', w')"
  obtains (quiet) "w' = w"
  | (refused) c where "authCfg = Some c" "w' = recordRefusal r w"
  | (call) ctx params x where "toolsCall h (withSessionID ctx (rq_session r)) params w = (x, w')"
      "case authCfg of None \<Rightarrow> ctx = request_ctx cancelled
       | Some c \<Rightarrow> \<exists>token. extractBearer r = Inr token \<and> admitted jwt c st' token (request_ctx cancelled) ctx"
proof (cases "rq_path r = ''/mcp'' \<and> rq_method r = ''POST''")
  case False
  with assms show ?thesis by (intro quiet) (auto simp: App_def split: if_splits option.splits)
next
  case True
  show ?thesis
  proof (cases authCfg)
    case None
    with True assms obtain x where "mcp_endpoint h advertised (request_ctx cancelled) r w = (x, w')"
      by (auto simp: App_def split: prod.splits)
    then show ?thesis unfolding mcp_endpoint_def
      by (rule ServeHTTP_cases) (use None in \<open>auto intro: quiet call\<close>)
  next
    case (Some c)
    with True assms obtain b where
      b: "RequireBearer jwt get c (mcp_endpoint h advertised) (request_ctx cancelled) r st w = (b, st', w')"
      by (auto simp: App_def split: prod.splits)
    then show ?thesis
    proof (cases rule: RequireBearer_cases)
      case (refused ch e)
      with Some that(2) show ?thesis by blast
    next
      case (answered token ctx' x)
      from answered(3) show ?thesis unfolding mcp_endpoint_def
      proof (cases rule: ServeHTTP_cases)
        case (call params q)
        with Some answered(1,2) that(3) [OF call] show ?thesis by auto
      qed (use that(1) in blast)
    next
      case aborted
      with that(1) show ?thesis by blast
    qed
  qed
qed

end
