(* ===== verification/AccessProperties.thy ===== *)
theory AccessProperties
  imports Sample Server
begin

text \<open>
  Properties of the way in: the endpoint, the three credentials, the rules for workflows and the
  start of the process, each with an instance on the sample deployment.
\<close>

section \<open>The endpoint\<close>

lemma tool_effect_allowed:
  assumes "toolsCall (served dp) ctx params w = (r, w')" and "e \<in> set (new_effects w w')" and "tool_effect e"
  shows "Allows ctx (called_tool params)"
proof -
  let ?w0 = "w\<lparr>callnote := fresh_note\<rparr>"
  obtain nt q w1 where b: "call_body (served dp) ctx params ?w0 = (nt, q, w1)" by (metis prod.exhaust)
  have "w1 \<noteq> ?w0"
  proof
    assume "w1 = ?w0"
    with assms(1) b have "new_effects w w' = [Emitted (call_record ctx nt q (clock w) ?w0)]"
      by (auto simp: toolsCall_def new_effects_def)
    with assms(2,3) show False by simp
  qed
  with srv.call_body_cases [OF b] show ?thesis by blast
qed

text \<open>
  C2. Whatever reaches the cluster or an integration through a service with authentication does so
  for a caller who presented a bearer credential that was accepted, in a call of a tool this
  caller's scope has.
\<close>

theorem tools_need_a_credential:
  assumes "App jwt get (Some c) (served dp) advertised cancelled r st w = (a, st', w')"
    and "e \<in> set (new_effects w w')" and "tool_effect e"
  shows "\<exists>token ctx params x. extractBearer r = Inr token \<and> admitted jwt c st' token (request_ctx cancelled) ctx \<and>
     toolsCall (served dp) (withSessionID ctx (rq_session r)) params w = (x, w') \<and> Allows ctx (called_tool params)"
  using assms(1)
proof (cases rule: App_cases)
  case quiet
  with assms(2) show ?thesis by (simp add: new_effects_def)
next
  case (refused c')
  with assms(2,3) show ?thesis by (auto simp: recordRefusal_log new_effects_def split: option.splits)
next
  case (call ctx params x)
  with tool_effect_allowed [OF call(1) assms(2,3)] show ?thesis by auto
qed

definition sample_jwt :: "string \<Rightarrow> string \<Rightarrow> jwt_lib" where
  "sample_jwt repository workflowRef =
     \<lparr>jl_issuer = (\<lambda>t. if t = ''gh'' then Some defaultGitHubOIDCIssuer else None),
      jl_kid = (\<lambda>o' t. Some ''1''),
      jl_claims = (\<lambda>o' t k. if t = ''gh'' then Inr \<lparr>jc_Subject = ''s'', jc_Repository = repository, jc_WorkflowRef = workflowRef\<rparr>
         else Inl ''bad signature'')\<rparr>"

definition sample_get :: fetcher where
  "sample_get url st =
     (if url = ''jwks'' then Fetched 200 (Some (JObj [(''keys'', JArr [JObj [(''kty'', JStr ''RSA''), (''kid'', JStr ''1''),
        (''n'', JStr ''AQAB''), (''e'', JStr ''AQAB'')]])]))
      else Fetched 200 (Some (JObj [(''jwks_uri'', JStr ''jwks'')])))"

definition sample_rules_json :: json where
  "sample_rules_json =
     JArr [JObj [(''repository'', JStr ''Own/Repo''), (''workflow'', JStr ''.github/workflows/a.yml''),
       (''tools'', JArr [JStr ''ping'', JStr ''github_app_installation_token'']),
       (''githubToken'', JObj [(''repositories'', JArr [JStr ''Other'']),
          (''permissions'', JObj [(''contents'', JStr ''write'')])])]]"

definition sample_rules :: "github_rule list" where
  "sample_rules = projr (parseGitHubRules (\<lambda>_. Some sample_rules_json) ''[]'')"

definition sample_auth :: auth_config where
  "sample_auth =
     \<lparr>ac_Issuer = [], ac_Audience = [], ac_Resource = [], ac_jwksURI = [], ac_apiKeys = [''k1'', ''k2''],
      ac_github = Some \<lparr>go_issuer = defaultGitHubOIDCIssuer, go_audience = ''aud'', go_jwksURI = ''jwks'', go_rules = sample_rules\<rparr>\<rparr>"

definition sample_workflow :: jwt_lib where
  "sample_workflow = sample_jwt ''Own/Repo'' ''Own/Repo/.github/workflows/a.yml@refs/heads/main''"

definition sample_keys :: auth_state where
  "sample_keys = no_keys\<lparr>st_github_keys := [''1'' \<mapsto> \<lparr>rk_N = 15, rk_E = 3\<rparr>]\<rparr>"

definition sample_request :: "string \<Rightarrow> raw \<Rightarrow> http_request" where
  "sample_request authorization params =
     (let body = JObj [(''method'', JStr ''tools/call''), (''params'', params)] in
      \<lparr>rq_method = ''POST'', rq_path = ''/mcp'', rq_authorization = authorization, rq_session = [],
       rq_body = Some \<lparr>bd_size = 100, bd_first = Some body, bd_whole = Some body\<rparr>\<rparr>)"

definition sample_serve :: "http_request \<Rightarrow> http_reply \<times> auth_state \<times> world" where
  "sample_serve r = App sample_workflow sample_get (Some sample_auth) (served (sample_deployment ''APPROVED'')) []
     (\<lambda>_. False) r no_keys init_world"

lemma sample_serve_eq:
  "App sample_workflow sample_get (Some sample_auth) (served (sample_deployment ''APPROVED'')) [] (\<lambda>_. False) r no_keys init_world
     = (fst (sample_serve r), fst (snd (sample_serve r)), snd (snd (sample_serve r)))"
  by (simp add: sample_serve_def)

theorem tools_need_a_credential_witness:
  "\<exists>ctx. admitted sample_workflow sample_auth (fst (snd (sample_serve (sample_request ''Bearer k2'' sample_delete))))
     ''k2'' (request_ctx (\<lambda>_. False)) ctx \<and> cx_principal ctx = \<lparr>Method = ''api_key'', ID = ''2''\<rparr>"
proof -
  have call: "K8sCall (CDelete sample_delete_ref) \<in>
      set (new_effects init_world (snd (snd (sample_serve (sample_request ''Bearer k2'' sample_delete)))))"
    and t: "extractBearer (sample_request ''Bearer k2'' sample_delete) = Inr ''k2''"
    and quiet: "\<not> issues sample_workflow (the (ac_github sample_auth)) ''k2''" "\<not> OAuthConfigured sample_auth"
      "last_position (ac_apiKeys sample_auth) ''k2'' = 2" "itoa (int 2) = ''2''"
    unfolding atomize_conj by code_simp
  from tools_need_a_credential [OF sample_serve_eq call] obtain ctx where
    adm: "admitted sample_workflow sample_auth (fst (snd (sample_serve (sample_request ''Bearer k2'' sample_delete))))
     ''k2'' (request_ctx (\<lambda>_. False)) ctx" by (auto simp: t)
  with quiet have "cx_principal ctx = \<lparr>Method = ''api_key'', ID = ''2''\<rparr>"
    unfolding admitted_def by (auto simp: withPrincipal_def)
  with adm show ?thesis by blast
qed

text \<open>
  C26. A refused caller gets nothing done: the only trace of the request is, if its body is a
  \<open>tools/call\<close> that can be read, the record of a refusal with the tool it named and a principal that
  says nothing of what was presented.
\<close>

theorem refused_callers_only_leave_a_record:
  assumes "App jwt get authCfg h advertised cancelled r st w = (UnauthorizedReply ch e, st', w')"
  shows "w' = (case refusedToolName (rq_body r) of
     None \<Rightarrow> w | Some tool \<Rightarrow> w\<lparr>trace := trace w @ [Emitted (auth_refusal tool)]\<rparr>)"
proof -
  from assms obtain c where
    "RequireBearer jwt get c (mcp_endpoint h advertised) (request_ctx cancelled) r st w = (Unauthorized ch e, st', w')"
    by (auto simp: App_def get_route_def root_def healthz_def readyz_def MetadataHandler_def
        split: if_splits option.splits prod.splits bearer_answer.splits)
  then have "w' = recordRefusal r w" by (cases rule: RequireBearer_cases) auto
  then show ?thesis by (simp add: recordRefusal_log log_effect_def split: option.split)
qed

theorem refused_callers_only_leave_a_record_witness:
  "trace (snd (snd (sample_serve (sample_request ''Bearer k3'' sample_delete)))) =
     trace init_world @ [Emitted (auth_refusal ''resource_delete'')]"
proof -
  let ?r = "sample_request ''Bearer k3'' sample_delete"
  have "case fst (sample_serve ?r) of UnauthorizedReply _ _ \<Rightarrow> True | _ \<Rightarrow> False" by code_simp
  then obtain ch e where "fst (sample_serve ?r) = UnauthorizedReply ch e" by (auto split: http_reply.splits)
  note run = sample_serve_eq [of ?r, unfolded this]
  have "refusedToolName (rq_body ?r) = Some ''resource_delete''" by code_simp
  with refused_callers_only_leave_a_record [OF run] show ?thesis by simp
qed

section \<open>Workflows\<close>

text \<open>
  C7. A workflow is held to its rules. A caller whose token GitHub issued, and who holds no static
  key, is admitted only on claims that verify under a key of GitHub's, and then has exactly the
  tools that the rules of its repository and workflow list; its token caps are those of the rules
  that grant the token tool, and none only if one of these sets none.
\<close>

theorem workflows_get_their_rules:
  assumes "admitted jwt c st token ctx ctx'" and "ac_github c = Some g" and "issues jwt g token"
    and "token \<notin> set (ac_apiKeys c)" and "ctx_caps ctx = []"
  shows "\<exists>cl. signed_by jwt (github_options g) (st_github_keys st) token cl \<and>
     (let rs = matching (go_rules g) (jc_Repository cl) (workflowPath (jc_Repository cl) (jc_WorkflowRef cl));
          minting = filter (\<lambda>r. installationTokenTool \<in> set (gr_tools r)) rs in
      (\<forall>tool. Allows ctx' tool \<longleftrightarrow> (\<exists>r\<in>set rs. tool \<in> set (gr_tools r))) \<and>
      set (ctx_caps ctx') = (if \<exists>r\<in>set minting. gr_tokens r = [] then {} else \<Union>r\<in>set minting. set (gr_tokens r)))"
proof -
  from assms(1-4) obtain cl grant where s: "signed_by jwt (github_options g) (st_github_keys st) token cl"
    and gr: "grant_of (go_rules g) cl = Some grant" and ctx': "ctx' = grant_ctx ctx grant"
    by (auto simp: admitted_def)
  note g = grantsFor_result [OF conjunct2 [OF grant_of_Some [OF gr]]]
  have "ctx_caps ctx' = gg_tokenCaps grant"
    by (simp add: ctx' grant_ctx_def WithSelfRepository_def WithTokenCaps_def With_def withPrincipal_def assms(5))
  with s g(2,3) show ?thesis by (auto simp: ctx' Let_def)
qed

theorem workflows_get_their_rules_witness:
  "\<exists>ctx :: call_ctx. Allows ctx ''ping'' \<and> \<not> Allows ctx ''resource_delete'' \<and>
     set (ctx_caps ctx) = (\<Union>r\<in>set sample_rules. set (gr_tokens r))"
proof -
  let ?a = "authenticate sample_workflow sample_get sample_auth (request_ctx (\<lambda>_. False)) ''gh'' sample_keys"
  have "case fst ?a of Verified _ \<Rightarrow> True | _ \<Rightarrow> False" by code_simp
  then obtain ctx st where a: "?a = (Verified ctx, st)" by (cases ?a) (auto split: verified.splits)
  obtain g where g: "ac_github sample_auth = Some g" "go_rules g = sample_rules" by (simp add: sample_auth_def)
  have i: "issues sample_workflow (the (ac_github sample_auth)) ''gh''" and k: "''gh'' \<notin> set (ac_apiKeys sample_auth)"
    and c: "ctx_caps (request_ctx (\<lambda>_. False)) = []"
    unfolding atomize_conj by code_simp
  from workflows_get_their_rules [OF authenticate_Verified [OF a] g(1) _ k c] i g obtain cl where
    s: "signed_by sample_workflow (github_options g) (st_github_keys st) ''gh'' cl"
    and r: "let rs = matching sample_rules (jc_Repository cl) (workflowPath (jc_Repository cl) (jc_WorkflowRef cl));
          minting = filter (\<lambda>r. installationTokenTool \<in> set (gr_tools r)) rs in
      (\<forall>tool. Allows ctx tool \<longleftrightarrow> (\<exists>r\<in>set rs. tool \<in> set (gr_tools r))) \<and>
      set (ctx_caps ctx) = (if \<exists>r\<in>set minting. gr_tokens r = [] then {} else \<Union>r\<in>set minting. set (gr_tokens r))"
    by auto
  from s have cl: "cl = \<lparr>jc_Subject = ''s'', jc_Repository = ''Own/Repo'',
      jc_WorkflowRef = ''Own/Repo/.github/workflows/a.yml@refs/heads/main''\<rparr>"
    by (auto simp: signed_by_def sample_workflow_def sample_jwt_def)
  have m: "matching sample_rules (jc_Repository cl) (workflowPath (jc_Repository cl) (jc_WorkflowRef cl)) = sample_rules"
    and n: "case sample_rules of [x] \<Rightarrow> gr_tokens x \<noteq> [] \<and> gr_tools x = [''ping'', installationTokenTool] | _ \<Rightarrow> False"
    unfolding cl atomize_conj by code_simp
  from n obtain x where x: "sample_rules = [x]" "gr_tokens x \<noteq> []" "gr_tools x = [''ping'', installationTokenTool]"
    by (auto split: list.splits)
  have "Allows ctx ''ping'' \<and> \<not> Allows ctx ''resource_delete'' \<and>
     set (ctx_caps ctx) = (\<Union>r\<in>set sample_rules. set (gr_tokens r))"
    using r [unfolded m] by (simp add: x Let_def) (simp add: installationTokenTool_def)
  then show ?thesis by blast
qed

text \<open>
  Rules that parse are safe to serve: they are all well formed, no two of them for the same
  workflow, each cap has something to limit by and is of a rule with the token tool, and no cap lets
  a workflow obtain a token for its own repository with the \<open>workflows\<close> permission.
\<close>

theorem parsed_rules_are_safe:
  assumes "parseGitHubRuleSources read_json sources = Inr rules"
  shows "rules \<noteq> [] \<and> distinct (map rule_label rules) \<and> list_all rule_ok rules"
  using parseGitHubRuleSources_ok [OF assms] by blast

theorem parsed_rules_are_safe_witness: "list_all rule_ok sample_rules"
proof -
  have "case parseGitHubRules (\<lambda>_. Some sample_rules_json) ''[]'' of Inl _ \<Rightarrow> False | Inr _ \<Rightarrow> True" by code_simp
  then obtain rules where "parseGitHubRules (\<lambda>_. Some sample_rules_json) ''[]'' = Inr rules" by (auto split: sum.splits)
  with parsed_rules_are_safe [OF this [unfolded parseGitHubRules_def]] show ?thesis by (simp add: sample_rules_def)
qed

text \<open>
  C8. From the rule to the token: when every rule that grants the token tool to a workflow caps it,
  a token the tool requests in that workflow's name lies within one of those caps.
\<close>

theorem workflow_tokens_stay_in_the_caps:
  assumes "parseGitHubRuleSources read_json sources = Inr rules" and "grant_of rules cl = Some grant"
    and "gg_tokenCaps grant \<noteq> []"
    and "githubAppInstallationToken (live_services k x) (grant_ctx ctx grant) r w = (res, w')"
    and "ExtCall (XInstallationToken rs ps) \<in> set (new_effects w w')"
  shows "\<exists>rule\<in>set (matching rules (jc_Repository cl) (workflowPath (jc_Repository cl) (jc_WorkflowRef cl))).
     installationTokenTool \<in> set (gr_tools rule) \<and> (\<exists>cap\<in>set (gr_tokens rule). within_cap cap (rs, ps))"
proof -
  let ?ctx = "grant_ctx ctx grant"
  note g = conjunct2 [OF grant_of_Some [OF assms(2)]]
  have caps: "ctx_caps ?ctx = gg_tokenCaps grant"
    using assms(3) by (simp add: grant_ctx_def WithSelfRepository_def WithTokenCaps_def)
  moreover have "list_all cap_ok (gg_tokenCaps grant)"
    using grantsFor_caps_ok [OF g] parseGitHubRuleSources_ok [OF assms(1)] by blast
  ultimately obtain cap where "cap \<in> set (gg_tokenCaps grant)" "within_cap cap (rs, ps)"
    using scoped_token_request_Inr(1) [OF token_request_made [OF assms(4,5)]] assms(3) by auto
  with grantsFor_result(3) [OF g] show ?thesis by (auto simp: Let_def split: if_splits)
qed

definition sample_claims :: jwt_claims where
  "sample_claims = \<lparr>jc_Subject = ''s'', jc_Repository = ''Own/Repo'',
     jc_WorkflowRef = ''Own/Repo/.github/workflows/a.yml@refs/heads/main''\<rparr>"

definition sample_grant :: github_grant where
  "sample_grant = the (grant_of sample_rules sample_claims)"

definition sample_grant_run :: "tool_result outcome" where
  "sample_grant_run = githubAppInstallationToken (live_services (live_service sample_cluster) sample_integrations)
     (grant_ctx (request_ctx (\<lambda>_. False)) sample_grant) (JObj [(''permissions'', JObj [(''contents'', JStr ''read'')])]) init_world"

theorem workflow_tokens_stay_in_the_caps_witness:
  "\<exists>rule\<in>set sample_rules. \<exists>cap\<in>set (gr_tokens rule). within_cap cap (Some [''other''], Some [(''contents'', JStr ''read'')])"
proof -
  have "case parseGitHubRules (\<lambda>_. Some sample_rules_json) ''[]'' of Inl _ \<Rightarrow> False | Inr _ \<Rightarrow> True"
    and "case grant_of sample_rules sample_claims of None \<Rightarrow> False | Some _ \<Rightarrow> True"
    and caps: "gg_tokenCaps sample_grant \<noteq> []"
    and c: "ExtCall (XInstallationToken (Some [''other'']) (Some [(''contents'', JStr ''read'')]))
      \<in> set (new_effects init_world (snd sample_grant_run))"
    unfolding atomize_conj by code_simp
  then have p: "parseGitHubRules (\<lambda>_. Some sample_rules_json) ''[]'' = Inr sample_rules"
    and g: "grant_of sample_rules sample_claims = Some sample_grant"
    by (auto simp: sample_rules_def sample_grant_def split: sum.splits option.splits)
  from workflow_tokens_stay_in_the_caps [OF p [unfolded parseGitHubRules_def] g caps prod.collapse [symmetric]
      c [unfolded sample_grant_run_def]]
  show ?thesis by (auto simp: matching_def)
qed

text \<open>
  The workflow is read exactly from its reference: of \<open>repository/path@ref\<close>, with the repository
  in whatever case and no \<open>@\<close> in the ref, it is the path; and whenever a path is read, the
  reference is of that form, of this repository.
\<close>

theorem workflow_path_is_exact:
  assumes "path \<noteq> []"
  shows "workflowPath repository workflowRef = path \<longleftrightarrow>
     (\<exists>repo ref. workflowRef = repo @ ''/'' @ path @ ''@'' @ ref \<and> equal_fold repo repository \<and> CHR ''@'' \<notin> set ref)"
  using workflowPath_SomeD [OF _ assms] workflowPath_of [OF _ assms] by blast

theorem workflow_path_is_exact_witness:
  "workflowPath ''own/repo'' ''Own/Repo/a.yml@refs/heads/main'' = ''a.yml''"
proof -
  have "''Own/Repo/a.yml@refs/heads/main'' = ''Own/Repo'' @ ''/'' @ ''a.yml'' @ ''@'' @ ''refs/heads/main''"
    and "equal_fold ''Own/Repo'' ''own/repo''" and "CHR ''@'' \<notin> set ''refs/heads/main''"
    unfolding atomize_conj by code_simp
  then show ?thesis using workflow_path_is_exact [of "''a.yml''"] by blast
qed

section \<open>Keys\<close>

text \<open>
  The comparison of static keys without an early return finds what a search finds: the last
  position, from one, of the key presented, and zero exactly when it is not among them.
\<close>

theorem static_keys_match_exactly:
  "apiKeyIndex c presented = last_position (ac_apiKeys c) presented \<and>
   (matchAPIKey c presented \<longleftrightarrow> presented \<in> set (ac_apiKeys c))"
  by (simp add: apiKeyIndex_last matchAPIKey_def last_position_zero)

text \<open>
  A key set with an exponent of more than eight bytes does not lead to an error: reading it
  panics, whatever other keys it holds and even if they would do.
\<close>

theorem long_exponents_panic:
  assumes "k \<in> set ks" and "Kty k = ''RSA''" and "jwk_N k \<noteq> []" and "jwk_E k \<noteq> []"
    and "b64url_decode (jwk_N k) = Some n" and "b64url_decode (jwk_E k) = Some e" and "8 < length e"
  shows "usable_keys ks keys = None"
  using assms
  by (induction ks arbitrary: keys) (auto simp: rsaPublicKey_def split: key_result.splits)

theorem long_exponents_panic_witness:
  "usable_keys [\<lparr>Kid = ''1'', Kty = ''RSA'', jwk_N = ''AQAB'', jwk_E = ''AQAB''\<rparr>,
     \<lparr>Kid = ''2'', Kty = ''RSA'', jwk_N = ''AQAB'', jwk_E = ''AAAAAAAAAAAB''\<rparr>] Map.empty = None"
proof -
  let ?k = "\<lparr>Kid = ''2'', Kty = ''RSA'', jwk_N = ''AQAB'', jwk_E = ''AAAAAAAAAAAB''\<rparr>"
  have n: "b64url_decode (jwk_N ?k) = Some [1, 0, 1]"
    and e: "b64url_decode (jwk_E ?k) = Some [0, 0, 0, 0, 0, 0, 0, 0, 1]"
    by (simp_all add: b64url_decode_def b64url_val_def b64_val_def)
  have "8 < length [0, 0, 0, 0, 0, 0, 0, 0, 1 :: nat]" by code_simp
  then show ?thesis by (intro long_exponents_panic [OF _ _ _ _ n e]) simp_all
qed

section \<open>Start-up\<close>

text \<open>
  C27. A server that starts has been checked: unless authentication is switched off it asks for a
  credential, some credential can be presented, and every tool its rules grant is one it has.
\<close>

theorem started_servers_are_checked:
  assumes "server_main read_json get environ dp = Inr rn"
  shows "rn_handler rn = served dp \<and> validate_startup (dp_am dp) = None \<and>
     (case rn_auth rn of
        None \<Rightarrow> dp_getenv dp ''MCP_AUTH_DISABLED'' \<in> {''1'', ''true''}
      | Some c \<Rightarrow> (APIKeyCount c \<noteq> 0 \<or> OAuthConfigured c \<or> GitHubOIDCRuleCount c \<noteq> 0) \<and>
          (\<forall>g rule tool. ac_github c = Some g \<and> rule \<in> set (go_rules g) \<and> tool \<in> set (gr_tools rule) \<longrightarrow>
             tool \<in> fst ` set (toolRegistry (dp_am dp))))"
proof -
  from assms obtain st c where
    a: "auth_FromEnv read_json get (dp_getenv dp) environ = (Inr (rn_auth rn), st)"
    and scopes: "case rn_auth rn of None \<Rightarrow> True
       | Some c \<Rightarrow> CheckToolScopes (map_option go_rules (ac_github c)) (map fst (toolRegistry (dp_am dp))) = None"
    and rest: "rn_handler rn = served dp" "validate_startup (dp_am dp) = None"
    by (auto simp: server_main_def split: prod.splits sum.splits option.splits)
  show ?thesis
  proof (cases "rn_auth rn")
    case None
    with auth_FromEnv_disabled [OF a [unfolded None]] rest show ?thesis by simp
  next
    case (Some c)
    have "tool \<in> fst ` set (toolRegistry (dp_am dp))"
      if "ac_github c = Some g" "rule \<in> set (go_rules g)" "tool \<in> set (gr_tools rule)" for g rule tool
      using scopes CheckToolScopes_None [OF _ that(2,3), of "map fst (toolRegistry (dp_am dp))"] that(1) Some by simp
    with Some auth_FromEnv_enabled(1) [OF a [unfolded Some]] rest show ?thesis by simp blast
  qed
qed

definition keyed_deployment :: deployment where
  "keyed_deployment = (sample_deployment [])
     \<lparr>dp_getenv := (\<lambda>k. if k = ''MCP_API_KEYS'' then '' k1, k2'' else sample_env k)\<rparr>"

theorem started_servers_are_checked_witness:
  "\<exists>rn c. server_main (\<lambda>_. None) sample_get [] keyed_deployment = Inr rn \<and> rn_auth rn = Some c \<and>
     (APIKeyCount c \<noteq> 0 \<or> OAuthConfigured c \<or> GitHubOIDCRuleCount c \<noteq> 0)"
proof -
  let ?dp = keyed_deployment
  have "case auth_FromEnv (\<lambda>_. None) sample_get (dp_getenv ?dp) [] of (Inr (Some c), _) \<Rightarrow> ac_github c = None | _ \<Rightarrow> False"
    by code_simp
  moreover have core: "core_names (dp_am ?dp)" by (simp add: keyed_deployment_def sample_core)
  moreover have names: "Unregistered \<notin> set (map fst (toolRegistry (dp_am ?dp)))"
    using dom_toolRegistry [of "dp_am ?dp"]
    by (simp add: advertisedToolNames_def advertisedReason_def Unregistered_def)
  ultimately obtain c st where auth: "auth_FromEnv (\<lambda>_. None) sample_get (dp_getenv ?dp) [] = (Inr (Some c), st)"
    and c: "ac_github c = None"
    by (auto split: prod.splits sum.splits option.splits)
  have "validate_startup (dp_am ?dp) = None"
    by (simp add: validate_startup_def registry_consistent reason_consistent [OF core])
  with auth c names obtain rn where rn: "server_main (\<lambda>_. None) sample_get [] ?dp = Inr rn" and a: "rn_auth rn = Some c"
    by (auto simp: server_main_def CheckToolScopes_def new_metrics_def Let_def)
  from started_servers_are_checked [OF rn] rn a show ?thesis by auto
qed

end
