(* ===== verification/KubeState.thy ===== *)
theory KubeState
  imports Declaration Decode Acts
begin

text \<open>
  The cluster client (\<open>KubeService\<close> of internal/k8s): what its methods share. A method is a function of
  the client's state, which is the cached mapper and the requests it has sent to the apiserver so
  far. What the apiserver answers, in any order and at any time, is a function of a request and that
  state: the parameter \<open>kube_env\<close>. The mapper from kinds to resources (client-go's \<open>RESTMapper\<close>) is
  what discovery gives, so a parameter too. Error texts are kept to their leading clause.
\<close>

record gvr =
  g_Group :: string
  g_Version :: string
  g_Resource :: string

record resolved =
  rv_gvr :: gvr
  rv_namespaced :: bool

datatype mapping = Mapped resolved | NoMatch | MappingError string

type_synonym mapper = "string \<Rightarrow> string \<Rightarrow> string \<Rightarrow> mapping"

text \<open>A request to the apiserver; an absent namespace, name or subresource is the empty string.\<close>

record kube_request =
  kr_Verb :: string
  kr_Resource :: gvr
  kr_Namespace :: string
  kr_Name :: string
  kr_Subresource :: string
  kr_Accept :: string
  kr_ContentType :: string
  kr_Params :: "(string \<times> string) list"
  kr_Body :: "raw option"

record kube_state =
  ks_mapper :: "mapper option"
  ks_requests :: "kube_request list"

text \<open>What \<open>apierrors\<close> tells apart, with the text and, for a status, its code.\<close>

datatype api_failure =
    Forbidden string
  | Conflict string
  | Invalid string
  | BadRequest string
  | StatusError int string
  | OtherFailure string

fun failure_text :: "api_failure \<Rightarrow> string" where
  "failure_text (Forbidden s) = s"
| "failure_text (Conflict s) = s"
| "failure_text (Invalid s) = s"
| "failure_text (BadRequest s) = s"
| "failure_text (StatusError c s) = s"
| "failure_text (OtherFailure s) = s"

text \<open>The HTTP code of the status a failure carries, if it carries one.\<close>

fun failure_code :: "api_failure \<Rightarrow> int option" where
  "failure_code (Forbidden s) = Some 403"
| "failure_code (Conflict s) = Some 409"
| "failure_code (Invalid s) = Some 422"
| "failure_code (BadRequest s) = Some 400"
| "failure_code (StatusError c s) = Some c"
| "failure_code (OtherFailure s) = None"

text \<open>A body, as text and as the JSON value it is, if it is one.\<close>

record kube_body =
  kb_text :: string
  kb_json :: "raw option"

record kube_env =
  ke_am :: api_machinery
  ke_discover :: "kube_state \<Rightarrow> string + mapper"
  ke_preferred :: "kube_state \<Rightarrow> string + (string \<times> api_resource list) list"
  ke_unstructured :: "kube_body \<Rightarrow> string + obj"
  ke_served :: "string \<Rightarrow> kube_state \<Rightarrow> string + string list"
  ke_answer :: "kube_request \<Rightarrow> kube_state \<Rightarrow> (api_failure \<times> kube_body) + kube_body"

text \<open>
  \<open>ke_unstructured\<close> is apimachinery's decoder of a body into an untyped object; \<open>ke_served\<close> are the
  names discovery lists for a group and version.
\<close>

type_synonym 'a kube = "(kube_state, 'a) act"

definition kcheck :: "bool \<Rightarrow> string \<Rightarrow> unit kube" where
  "kcheck b msg = act_check b (apiErrorf msg)"

text \<open>One request: it is sent, and its answer is a failure or a body.\<close>

definition send :: "kube_env \<Rightarrow> kube_request \<Rightarrow> ((api_failure \<times> kube_body) + kube_body) kube" where
  "send env r st = (Inr (ke_answer env r st), st\<lparr>ks_requests := ks_requests st @ [r]\<rparr>)"

section \<open>Addressing\<close>

definition resource_pair :: "string \<Rightarrow> string \<Rightarrow> string" where
  "resource_pair verb resource = ''refused: this server has no ('' @ verb @ '', '' @ resource @ '') grant''"

definition apiCallError :: "api_failure \<Rightarrow> string \<Rightarrow> string \<Rightarrow> go_err" where
  "apiCallError e verb resource =
     (case e of Forbidden _ \<Rightarrow> apiErrorf (resource_pair verb resource) | _ \<Rightarrow> apiErrorf (failure_text e))"

definition subresourcePath :: "string \<Rightarrow> string \<Rightarrow> string" where
  "subresourcePath resource subresource = (if subresource = [] then resource else resource @ ''/'' @ subresource)"

definition group_version :: "gvr \<Rightarrow> string" where
  "group_version g = (if g_Group g = [] then g_Version g else g_Group g @ ''/'' @ g_Version g)"

definition objectNamespace :: "resolved \<Rightarrow> string \<Rightarrow> string option \<Rightarrow> go_err + string" where
  "objectNamespace res kind namespace =
     (if \<not> rv_namespaced res \<and> namespace \<noteq> None then Inl (apiErrorf (kind @ '' is cluster-scoped''))
      else if rv_namespaced res \<and> namespace = None then Inl (apiErrorf (kind @ '' is namespaced; namespace is required''))
      else Inr (or_else namespace []))"

definition restMapper :: "kube_env \<Rightarrow> bool \<Rightarrow> mapper kube" where
  "restMapper env refresh st =
     (case ks_mapper st of
        Some m \<Rightarrow>
          if \<not> refresh then (Inr m, st)
          else (case ke_discover env st of
                  Inl e \<Rightarrow> (Inl (apiErrorf (''discovery failed: '' @ e)), st)
                | Inr m' \<Rightarrow> (Inr m', st\<lparr>ks_mapper := Some m'\<rparr>))
      | None \<Rightarrow>
          (case ke_discover env st of
             Inl e \<Rightarrow> (Inl (apiErrorf (''discovery failed: '' @ e)), st)
           | Inr m' \<Rightarrow> (Inr m', st\<lparr>ks_mapper := Some m'\<rparr>)))"

text \<open>\<open>stripNoise\<close> deletes from the nested maps it finds; a member of another type is left alone.\<close>

definition put :: "string \<Rightarrow> json \<Rightarrow> obj \<Rightarrow> obj" where
  "put k v kvs = filter (\<lambda>p. fst p \<noteq> k) kvs @ [(k, v)]"

definition without :: "string \<Rightarrow> obj \<Rightarrow> obj" where
  "without k kvs = filter (\<lambda>p. fst p \<noteq> k) kvs"

definition replaced :: "string \<Rightarrow> json \<Rightarrow> obj \<Rightarrow> obj" where
  "replaced k v kvs = map (\<lambda>(k', v'). (k', if k' = k then v else v')) kvs"

definition strip_metadata :: "obj \<Rightarrow> obj" where
  "strip_metadata metadata =
     (let m = without ''managedFields'' metadata in
      case lookup m ''annotations'' of
        Some (JObj annotations) \<Rightarrow>
          (let a = without ''kubectl.kubernetes.io/last-applied-configuration'' annotations in
           if a = [] then without ''annotations'' m else replaced ''annotations'' (JObj a) m)
      | _ \<Rightarrow> m)"

definition stripNoise :: "obj \<Rightarrow> obj" where
  "stripNoise object =
     (case lookup object ''metadata'' of
        Some (JObj metadata) \<Rightarrow> replaced ''metadata'' (JObj (strip_metadata metadata)) object
      | _ \<Rightarrow> object)"

section \<open>Facts\<close>

lemma kcheck_Inr [simp]: "kcheck b msg st = (Inr u, st') \<longleftrightarrow> b \<and> st' = st"
  by (simp add: kcheck_def)

lemma send_Inr [simp]:
  "send env r st = (Inr a, st') \<longleftrightarrow> a = ke_answer env r st \<and> st' = st\<lparr>ks_requests := ks_requests st @ [r]\<rparr>"
  by (auto simp: send_def)

text \<open>
  The requests of a method. \<open>sends I P m\<close> says that from a state whose mapper satisfies \<open>I\<close> every
  request \<open>m\<close> sends satisfies \<open>P\<close>, whether it succeeds or not, and that the mapper still satisfies \<open>I\<close>
  after it. It follows the structure of the method.
\<close>

definition sends :: "(mapper option \<Rightarrow> bool) \<Rightarrow> (kube_request \<Rightarrow> bool) \<Rightarrow> 'a kube \<Rightarrow> bool" where
  "sends I P m \<longleftrightarrow>
     (\<forall>st r st'. I (ks_mapper st) \<longrightarrow> m st = (r, st') \<longrightarrow>
        I (ks_mapper st') \<and> (\<exists>rs. ks_requests st' = ks_requests st @ rs \<and> list_all P rs))"

text \<open>Discovery brings mappers of this kind only.\<close>

definition discovers :: "(mapper option \<Rightarrow> bool) \<Rightarrow> kube_env \<Rightarrow> bool" where
  "discovers I env \<longleftrightarrow> (\<forall>st m. ke_discover env st = Inr m \<longrightarrow> I (Some m))"

named_theorems sends_intros \<open>introduction rules for the requests of a method\<close>

lemma sends_kreturn [sends_intros]: "sends I P (act_return x)"
  by (simp add: sends_def act_return_def)

lemma sends_kfail [sends_intros]: "sends I P (act_fail e)"
  by (simp add: sends_def act_fail_def)

lemma sends_kcheck [sends_intros]: "sends I P (kcheck b msg)"
  by (simp add: kcheck_def act_check_def sends_kreturn sends_kfail)

lemma sends_klift [sends_intros]: "sends I P (act_lift r)"
  by (simp add: act_lift_def sends_kreturn sends_kfail split: sum.split)

lemma sends_send [sends_intros]: "P r \<Longrightarrow> sends I P (send env r)"
  by (auto simp: sends_def send_def)

lemma sends_guarded [sends_intros]: "sends I P m \<Longrightarrow> sends I P (\<lambda>st. if b then m st else (Inl e, st))"
  by (simp add: sends_def)

lemma sendsD:
  assumes "sends I P m" and "I (ks_mapper st)" and "m st = (r, st')"
  obtains rs where "I (ks_mapper st')" and "ks_requests st' = ks_requests st @ rs" and "list_all P rs"
  using assms unfolding sends_def by blast

text \<open>A later step may depend on what an earlier one returned.\<close>

lemma sends_kbind_result:
  assumes "sends I P m" and "\<And>x st st1. I (ks_mapper st) \<Longrightarrow> m st = (Inr x, st1) \<Longrightarrow> sends I P (f x)"
  shows "sends I P (act_bind m f)"
  unfolding sends_def
proof (intro allI impI)
  fix st r st' assume I: "I (ks_mapper st)" and run: "act_bind m f st = (r, st')"
  obtain q st1 where m: "m st = (q, st1)" by (cases "m st")
  obtain rs where rs: "I (ks_mapper st1)" "ks_requests st1 = ks_requests st @ rs" "list_all P rs"
    using sendsD [OF assms(1) I m] .
  show "I (ks_mapper st') \<and> (\<exists>rs. ks_requests st' = ks_requests st @ rs \<and> list_all P rs)"
  proof (cases q)
    case Inl
    with run m rs show ?thesis by (auto simp: act_bind_def)
  next
    case (Inr x)
    with run m have "f x st1 = (r, st')" by (simp add: act_bind_def)
    with assms(2) [OF I] m Inr rs(1) obtain rs' where "I (ks_mapper st')" "ks_requests st' = ks_requests st1 @ rs'" "list_all P rs'"
      by (blast elim: sendsD)
    with rs show ?thesis by auto
  qed
qed

lemma sends_kbind:
  assumes "sends I P m" and "\<And>x. sends I P (f x)"
  shows "sends I P (act_bind m f)"
  using assms by (blast intro: sends_kbind_result)

lemma sends_restMapper [sends_intros]: "discovers I env \<Longrightarrow> sends I P (restMapper env refresh)"
  by (auto simp: sends_def discovers_def restMapper_def split: option.splits sum.splits if_splits)

lemma restMapper_Inr:
  assumes "discovers I env" and "I (ks_mapper st)" and "restMapper env refresh st = (Inr m, st')"
  shows "I (Some m)" and "ks_mapper st' = Some m"
  using assms by (auto simp: discovers_def restMapper_def split: option.splits sum.splits if_splits)

text \<open>
  How many requests a method sends: none (\<open>quiet\<close>), or at most one that satisfies \<open>P\<close> (\<open>one_request\<close>).
\<close>

definition quiet :: "'a kube \<Rightarrow> bool" where
  "quiet m \<longleftrightarrow> (\<forall>st. ks_requests (snd (m st)) = ks_requests st)"

definition one_request :: "(kube_request \<Rightarrow> bool) \<Rightarrow> 'a kube \<Rightarrow> bool" where
  "one_request P m \<longleftrightarrow>
     (\<forall>st. ks_requests (snd (m st)) = ks_requests st \<or>
        (\<exists>r. P r \<and> ks_requests (snd (m st)) = ks_requests st @ [r]))"

named_theorems quiet_intros \<open>introduction rules for methods that send nothing\<close>

lemma quiet_kreturn [quiet_intros]: "quiet (act_return x)"
  and quiet_kfail [quiet_intros]: "quiet (act_fail e)"
  by (simp_all add: quiet_def act_return_def act_fail_def)

lemma quiet_kcheck [quiet_intros]: "quiet (kcheck b msg)"
  by (simp add: kcheck_def act_check_def quiet_kreturn quiet_kfail)

lemma quiet_klift [quiet_intros]: "quiet (act_lift r)"
  by (simp add: act_lift_def quiet_kreturn quiet_kfail split: sum.split)

lemma quiet_restMapper [quiet_intros]: "quiet (restMapper env refresh)"
  by (auto simp: quiet_def restMapper_def split: option.splits sum.splits)

lemma quiet_kbind [quiet_intros]: "quiet m \<Longrightarrow> (\<And>x. quiet (f x)) \<Longrightarrow> quiet (act_bind m f)"
  by (auto simp: quiet_def act_bind_def split: prod.split sum.split) (metis snd_conv)+

lemma single_mono: "one_request P m \<Longrightarrow> (\<And>r. P r \<Longrightarrow> Q r) \<Longrightarrow> one_request Q m"
  unfolding one_request_def by blast

lemma single_quiet: "quiet m \<Longrightarrow> one_request P m"
  by (simp add: quiet_def one_request_def)

lemma single_kbind: "quiet m \<Longrightarrow> (\<And>x. one_request P (f x)) \<Longrightarrow> one_request P (act_bind m f)"
  by (auto simp: quiet_def one_request_def act_bind_def split: prod.split sum.split) (metis snd_conv)+

lemma single_send: "P r \<Longrightarrow> (\<And>x. quiet (f x)) \<Longrightarrow> one_request P (act_bind (send env r) f)"
  by (auto simp: quiet_def one_request_def act_bind_def send_def)

lemma objectNamespace_Inr:
  "objectNamespace res kind namespace = Inr ns \<longleftrightarrow>
     (if rv_namespaced res then namespace = Some ns else namespace = None \<and> ns = [])"
  by (auto simp: objectNamespace_def)

text \<open>Stripping removes only what it names.\<close>

lemma lookup_without [simp]: "lookup (without k kvs) k' = (if k' = k then None else lookup kvs k')"
  by (auto simp: without_def lookup_filter_neq lookup_None_iff)

lemma lookup_replaced: "lookup (replaced k v kvs) k' = (if k' = k \<and> lookup kvs k \<noteq> None then Some v else lookup kvs k')"
  by (induction kvs) (auto simp: replaced_def lookup_Cons split: option.splits if_splits)

lemma lookup_put [simp]: "lookup (put k v kvs) k' = (if k' = k then Some v else lookup kvs k')"
  by (auto simp: put_def lookup_filter_neq)

lemma stripNoise_other: "k \<noteq> ''metadata'' \<Longrightarrow> lookup (stripNoise object) k = lookup object k"
  by (auto simp: stripNoise_def lookup_replaced split: option.splits json.splits)

lemma strip_metadata_other:
  "k \<noteq> ''managedFields'' \<Longrightarrow> k \<noteq> ''annotations'' \<Longrightarrow> lookup (strip_metadata metadata) k = lookup metadata k"
  by (auto simp: strip_metadata_def Let_def lookup_replaced split: option.splits json.splits)

end
