(* ===== verification/KubeKinds.thy ===== *)
theory KubeKinds
  imports KubeState
begin

text \<open>
  From a kind to a resource (internal/k8s resource.go): \<open>resolve\<close>, and the kinds it suggests when the
  cluster serves none of the name, with the edit distance they are ranked by. Characters are bytes
  here, which is what the code's runes are for the names of kinds.
\<close>

section \<open>Edit distance\<close>

text \<open>The inner loop: from the row above and the cell to the left, the rest of the current row.\<close>

fun next_cells :: "'a \<Rightarrow> 'a list \<Rightarrow> nat list \<Rightarrow> nat \<Rightarrow> nat list" where
  "next_cells a (b # bs) (p0 # p1 # ps) left =
     (let c = min (p1 + 1) (min (left + 1) (p0 + (if a = b then 0 else 1)))
      in c # next_cells a bs (p1 # ps) c)"
| "next_cells a _ _ left = []"

text \<open>The outer loop over the rows: \<open>i\<close> is the number of the row.\<close>

fun edit_rows :: "nat \<Rightarrow> 'a list \<Rightarrow> 'a list \<Rightarrow> nat list \<Rightarrow> nat list" where
  "edit_rows i [] bs prev = prev"
| "edit_rows i (a # as) bs prev = edit_rows (i + 1) as bs (i # next_cells a bs prev i)"

definition editDistance :: "'a list \<Rightarrow> 'a list \<Rightarrow> nat" where
  "editDistance a b = last (edit_rows 1 a b [0..<length b + 1])"

text \<open>
  What the distance is: the cost of turning one word into the other letter by letter, from the left,
  where deleting, inserting and replacing a letter cost one and keeping it nothing.
\<close>

inductive turns :: "'a list \<Rightarrow> 'a list \<Rightarrow> nat \<Rightarrow> bool" where
  turns_nil: "turns [] [] 0"
| turns_delete: "turns as bs n \<Longrightarrow> turns (as @ [a]) bs (n + 1)"
| turns_insert: "turns as bs n \<Longrightarrow> turns as (bs @ [b]) (n + 1)"
| turns_keep: "turns as bs n \<Longrightarrow> turns (as @ [a]) (bs @ [a]) n"
| turns_replace: "turns as bs n \<Longrightarrow> turns (as @ [a]) (bs @ [b]) (n + 1)"

text \<open>The recurrence of the textbook, over reversed words.\<close>

fun lev :: "'a list \<Rightarrow> 'a list \<Rightarrow> nat" where
  "lev [] bs = length bs"
| "lev as [] = length as"
| "lev (a # as) (b # bs) =
     min (lev as (b # bs) + 1) (min (lev (a # as) bs + 1) (lev as bs + (if a = b then 0 else 1)))"

definition dist :: "'a list \<Rightarrow> 'a list \<Rightarrow> nat" where
  "dist as bs = lev (rev as) (rev bs)"

lemma dist_Nil [simp]: "dist [] bs = length bs" "dist as [] = length as"
  by (cases "rev as"; simp add: dist_def; metis length_rev list.size)+

lemma dist_snoc:
  "dist (as @ [a]) (bs @ [b]) =
     min (dist as (bs @ [b]) + 1) (min (dist (as @ [a]) bs + 1) (dist as bs + (if a = b then 0 else 1)))"
  by (simp add: dist_def)

lemma dist_delete: "dist (as @ [a]) bs \<le> dist as bs + 1"
  by (cases bs rule: rev_cases) (auto simp: dist_snoc)

lemma dist_insert: "dist as (bs @ [b]) \<le> dist as bs + 1"
  by (cases as rule: rev_cases) (auto simp: dist_snoc)

lemma dist_least: "turns as bs n \<Longrightarrow> dist as bs \<le> n"
proof (induction rule: turns.induct)
  case (turns_delete as bs n a)
  then show ?case using dist_delete [of as a bs] by simp
next
  case (turns_insert as bs n b)
  then show ?case using dist_insert [of as bs b] by simp
qed (auto simp: dist_snoc)

lemma turns_dist: "turns as bs (dist as bs)"
proof -
  have "turns (rev xs) (rev ys) (lev xs ys)" for xs ys :: "'a list"
  proof (induction xs ys rule: lev.induct)
    case (1 ys)
    show ?case
    proof (induction ys)
      case (Cons y ys)
      from turns_insert [OF this] show ?case by simp
    qed (simp add: turns_nil)
  next
    case (2 x xs)
    show ?case
    proof (induction "x # xs" arbitrary: x xs)
      case (Cons x xs)
      show ?case
      proof (cases xs)
        case Nil
        from turns_delete [OF turns_nil] show ?thesis by (simp add: Nil)
      next
        case (Cons z zs)
        with Cons.hyps [OF this] turns_delete [of "rev xs" "[]" "length xs" x] show ?thesis by simp
      qed
    qed
  next
    case (3 x xs y ys)
    note del = turns_delete [OF 3(1), of x] and ins = turns_insert [OF 3(2), of y]
    note keep = turns_keep [OF 3(3), of x] and rep = turns_replace [OF 3(3), of x y]
    from del ins keep rep show ?case by (auto simp: min_def)
  qed
  from this [of "rev as" "rev bs"] show ?thesis by (simp add: dist_def)
qed

text \<open>The rows hold the distances of the prefixes.\<close>

lemma next_cells_dist:
  "next_cells a bs (map (\<lambda>j. dist xs (ys @ take j bs)) [0..<Suc (length bs)]) (dist (xs @ [a]) ys) =
     map (\<lambda>j. dist (xs @ [a]) (ys @ take j bs)) [1..<Suc (length bs)]"
proof (induction bs arbitrary: ys)
  case (Cons b bs)
  have up: "[0..<Suc (length (b # bs))] = 0 # map Suc [0..<Suc (length bs)]"
    by (simp add: map_Suc_upt upt_conv_Cons del: upt_Suc)
  have up1: "[1..<Suc (length (b # bs))] = 1 # map Suc [1..<Suc (length bs)]"
    by (simp add: map_Suc_upt upt_conv_Cons del: upt_Suc)
  have up0: "[0..<Suc (length bs)] = 0 # [1..<Suc (length bs)]"
    by (simp add: upt_conv_Cons del: upt_Suc)
  have c: "min (dist xs (ys @ [b]) + 1) (min (dist (xs @ [a]) ys + 1) (dist xs ys + (if a = b then 0 else 1))) =
      dist (xs @ [a]) (ys @ [b])"
    by (simp add: dist_snoc)
  have row: "map (\<lambda>j. dist xs (ys @ take j (b # bs))) [0..<Suc (length (b # bs))] =
      dist xs ys # map (\<lambda>j. dist xs ((ys @ [b]) @ take j bs)) [0..<Suc (length bs)]"
    by (simp only: up list.map map_map comp_def) simp
  have row': "map (\<lambda>j. dist xs ((ys @ [b]) @ take j bs)) [0..<Suc (length bs)] =
      dist xs (ys @ [b]) # map (\<lambda>j. dist xs ((ys @ [b]) @ take j bs)) [1..<Suc (length bs)]"
    by (simp only: up0 list.map) simp
  have "next_cells a (b # bs) (map (\<lambda>j. dist xs (ys @ take j (b # bs))) [0..<Suc (length (b # bs))]) (dist (xs @ [a]) ys) =
      dist (xs @ [a]) (ys @ [b]) #
        next_cells a bs (map (\<lambda>j. dist xs ((ys @ [b]) @ take j bs)) [0..<Suc (length bs)]) (dist (xs @ [a]) (ys @ [b]))"
    unfolding row row' next_cells.simps c Let_def ..
  also have "\<dots> = dist (xs @ [a]) (ys @ [b]) # map (\<lambda>j. dist (xs @ [a]) ((ys @ [b]) @ take j bs)) [1..<Suc (length bs)]"
    by (simp only: Cons.IH)
  also have "\<dots> = map (\<lambda>j. dist (xs @ [a]) (ys @ take j (b # bs))) [1..<Suc (length (b # bs))]"
    by (simp only: up1 list.map map_map comp_def) simp
  finally show ?case .
qed simp

lemma edit_rows_dist:
  "edit_rows (Suc (length xs)) as bs (map (\<lambda>j. dist xs (take j bs)) [0..<Suc (length bs)]) =
     map (\<lambda>j. dist (xs @ as) (take j bs)) [0..<Suc (length bs)]"
proof (induction as arbitrary: xs)
  case (Cons a as)
  have "Suc (length xs) # next_cells a bs (map (\<lambda>j. dist xs (take j bs)) [0..<Suc (length bs)]) (Suc (length xs)) =
      map (\<lambda>j. dist (xs @ [a]) (take j bs)) [0..<Suc (length bs)]"
    using next_cells_dist [of a bs xs "[]"] by (simp add: upt_conv_Cons del: upt_Suc)
  with Cons.IH [of "xs @ [a]"] show ?case by (simp del: upt_Suc)
qed simp

lemma editDistance_dist: "editDistance as bs = dist as bs"
proof -
  have "map (\<lambda>j. dist ([] :: 'a list) (take j bs)) [0..<Suc (length bs)] = [0..<Suc (length bs)]"
    by (rule map_idI) (auto simp: min_def)
  with edit_rows_dist [of "[]" as bs] show ?thesis by (simp add: editDistance_def)
qed

section \<open>Suggestions\<close>

text \<open>Candidates are ordered by their distance, then by their label.\<close>

datatype candidate = Candidate (cd_label: string) (cd_distance: nat)

instantiation candidate :: linorder
begin

definition less_eq_candidate :: "candidate \<Rightarrow> candidate \<Rightarrow> bool" where
  "less_eq_candidate c d \<longleftrightarrow>
     (if cd_distance c \<noteq> cd_distance d then cd_distance c < cd_distance d else cd_label c \<le> cd_label d)"

definition less_candidate :: "candidate \<Rightarrow> candidate \<Rightarrow> bool" where
  "less_candidate c d \<longleftrightarrow>
     (if cd_distance c \<noteq> cd_distance d then cd_distance c < cd_distance d else cd_label c < cd_label d)"

instance
proof
  fix c d e :: candidate
  show "c < d \<longleftrightarrow> c \<le> d \<and> \<not> d \<le> c"
    by (auto simp: less_eq_candidate_def less_candidate_def)
  show "c \<le> c" by (simp add: less_eq_candidate_def)
  show "c \<le> d \<Longrightarrow> d \<le> e \<Longrightarrow> c \<le> e"
    by (auto simp: less_eq_candidate_def split: if_splits)
  show "c \<le> d \<Longrightarrow> d \<le> c \<Longrightarrow> c = d"
    by (cases c; cases d) (auto simp: less_eq_candidate_def split: if_splits)
  show "c \<le> d \<or> d \<le> c"
    by (auto simp: less_eq_candidate_def)
qed

end

definition kindEditBudget :: "string \<Rightarrow> nat" where
  "kindEditBudget want =
     (let n = rune_count want in if n \<le> 4 then 1 else if n \<le> 9 then 2 else 3)"

definition kind_label :: "api_resource \<Rightarrow> string" where
  "kind_label r = (if ar_Group r \<noteq> [] then ar_Group r @ ''/'' @ ar_Version r @ ''/'' @ ar_Kind r else ar_Kind r)"

definition kind_candidate :: "string \<Rightarrow> api_resource \<Rightarrow> candidate option" where
  "kind_candidate want r =
     (let lower = to_lower (ar_Kind r); distance = editDistance lower want in
      if lower = want then None
      else if \<not> (contains_sub lower want \<or> contains_sub want lower) \<and> kindEditBudget want < distance then None
      else Some (Candidate (kind_label r) distance))"

text \<open>The loop: \<open>found\<close> is also the set \<open>seen\<close> of labels.\<close>

fun find_candidates :: "string \<Rightarrow> api_resource list \<Rightarrow> candidate list \<Rightarrow> candidate list" where
  "find_candidates want [] found = found"
| "find_candidates want (r # rs) found =
     (case kind_candidate want r of
        None \<Rightarrow> find_candidates want rs found
      | Some c \<Rightarrow>
          if cd_label c \<in> cd_label ` set found then find_candidates want rs found
          else find_candidates want rs (found @ [c]))"

definition rankSimilarKinds :: "api_resource list \<Rightarrow> string \<Rightarrow> string list" where
  "rankSimilarKinds all' kind = take 5 (map cd_label (sort (find_candidates (to_lower kind) all' [])))"

lemma find_candidates_found:
  assumes "c \<in> set (find_candidates want rs found)"
  shows "c \<in> set found \<or> (\<exists>r\<in>set rs. kind_candidate want r = Some c)"
  using assms
proof (induction rs arbitrary: found)
  case (Cons r rs)
  show ?case
  proof (cases "kind_candidate want r")
    case None
    with Cons show ?thesis by fastforce
  next
    case (Some d)
    show ?thesis
    proof (cases "cd_label d \<in> cd_label ` set found")
      case True
      with Cons Some show ?thesis by fastforce
    next
      case False
      with Cons.prems Some have "c \<in> set (find_candidates want rs (found @ [d]))" by simp
      from Cons.IH [OF this] Some show ?thesis by auto
    qed
  qed
qed simp

lemma find_candidates_distinct:
  "distinct (map cd_label found) \<Longrightarrow> distinct (map cd_label (find_candidates want rs found))"
  by (induction rs arbitrary: found) (auto split: option.splits)

lemma rankSimilarKinds_found:
  assumes "label \<in> set (rankSimilarKinds all' kind)"
  shows "\<exists>r\<in>set all'. label = kind_label r \<and> to_lower (ar_Kind r) \<noteq> to_lower kind \<and>
     (contains_sub (to_lower (ar_Kind r)) (to_lower kind) \<or> contains_sub (to_lower kind) (to_lower (ar_Kind r)) \<or>
      dist (to_lower (ar_Kind r)) (to_lower kind) \<le> kindEditBudget (to_lower kind))"
proof -
  from assms obtain c where "c \<in> set (find_candidates (to_lower kind) all' [])" and l: "label = cd_label c"
    by (auto simp: rankSimilarKinds_def dest!: in_set_takeD)
  from find_candidates_found [OF this(1)] obtain r where "r \<in> set all'" "kind_candidate (to_lower kind) r = Some c"
    by auto
  with l show ?thesis
    by (intro bexI [of _ r]) (auto simp: kind_candidate_def Let_def editDistance_dist not_less split: if_splits)
qed

lemma rankSimilarKinds_distinct: "distinct (rankSimilarKinds all' kind) \<and> length (rankSimilarKinds all' kind) \<le> 5"
proof -
  have "distinct (map cd_label (sort (find_candidates (to_lower kind) all' [])))"
    using find_candidates_distinct [of "[]" "to_lower kind" all']
    by (simp add: distinct_map)
  then show ?thesis by (simp add: rankSimilarKinds_def)
qed

section \<open>resolve\<close>

definition api_resources_of :: "kube_env \<Rightarrow> string \<times> api_resource list \<Rightarrow> api_resource list" where
  "api_resources_of env gl =
     (case gl of (groupVersion, rs) \<Rightarrow>
      (case ParseGroupVersion (ke_am env) groupVersion of
         None \<Rightarrow> []
       | Some (grp, version) \<Rightarrow>
           map (\<lambda>r. r\<lparr>ar_Group := grp, ar_Version := version\<rparr>) (filter (\<lambda>r. CHR ''/'' \<notin> set (ar_Name r)) rs)))"

text \<open>\<open>APIResources\<close>: a partial answer of discovery is used; the rows are sorted by group and kind.\<close>

definition kube_APIResources :: "kube_env \<Rightarrow> api_resource list kube" where
  "kube_APIResources env st =
     (case ke_preferred env st of
        Inl e \<Rightarrow> (Inl (apiErrorf (''discovery failed: '' @ e)), st)
      | Inr lss \<Rightarrow>
          (Inr (sort_key ar_Group (sort_key ar_Kind (concat (map (api_resources_of env) lss)))), st))"

definition similarKinds :: "kube_env \<Rightarrow> string \<Rightarrow> kube_state \<Rightarrow> string list" where
  "similarKinds env kind st =
     (case fst (kube_APIResources env st) of Inl _ \<Rightarrow> [] | Inr all' \<Rightarrow> rankSimilarKinds all' kind)"

definition unknownKindMessage :: "kube_env \<Rightarrow> string \<Rightarrow> string \<Rightarrow> kube_state \<Rightarrow> string" where
  "unknownKindMessage env apiVersion kind st =
     (let msg = ''cluster serves no kind '' @ kind @ '' in '' @ apiVersion;
          candidates = similarKinds env kind st in
      if candidates = [] then msg @ ''; call api_resources for the kinds this cluster serves''
      else msg @ ''; did you mean '' @ join '', '' candidates @ ''? (api_resources lists them all)'')"

text \<open>An unknown kind makes the client ask discovery once more before it is declared missing.\<close>

definition resolve_kind :: "kube_env \<Rightarrow> string \<Rightarrow> string \<Rightarrow> resolved kube" where
  "resolve_kind env apiVersion kind =
     (case ParseGroupVersion (ke_am env) apiVersion of
        None \<Rightarrow> act_fail (apiErrorf (''apiVersion '' @ apiVersion @ '' is not a group/version''))
      | Some (grp, version) \<Rightarrow>
          act_bind (restMapper env False) (\<lambda>m.
            case m grp kind version of
              Mapped res \<Rightarrow> act_return res
            | MappingError e \<Rightarrow> act_fail (apiErrorf e)
            | NoMatch \<Rightarrow>
                act_bind (restMapper env True) (\<lambda>m'.
                  case m' grp kind version of
                    Mapped res \<Rightarrow> act_return res
                  | MappingError e \<Rightarrow> act_fail (apiErrorf e)
                  | NoMatch \<Rightarrow> (\<lambda>st. act_fail (apiErrorf (unknownKindMessage env apiVersion kind st)) st))))"

lemma sends_resolve_kind [sends_intros]:
  assumes "discovers I env"
  shows "sends I P (resolve_kind env apiVersion kind)"
proof -
  have fail: "sends I P (\<lambda>st. act_fail (apiErrorf (unknownKindMessage env apiVersion kind st)) st)"
    by (simp add: sends_def act_fail_def)
  show ?thesis
    unfolding resolve_kind_def
    by (auto intro!: sends_intros sends_kbind fail assms split: option.split mapping.split)
qed

lemma quiet_resolve_kind [quiet_intros]: "quiet (resolve_kind env apiVersion kind)"
proof -
  have fail: "quiet (\<lambda>st. act_fail (apiErrorf (unknownKindMessage env apiVersion kind st)) st)"
    by (simp add: quiet_def act_fail_def)
  show ?thesis
    unfolding resolve_kind_def
    by (auto intro!: quiet_intros fail split: option.split mapping.split)
qed

text \<open>A kind is resolved by the mapper, the one at hand or a fresh one.\<close>

lemma resolve_kind_Inr:
  assumes "discovers I env" and "I (ks_mapper st)" and "resolve_kind env apiVersion kind st = (Inr res, st')"
  shows "\<exists>gv m. ParseGroupVersion (ke_am env) apiVersion = Some gv \<and> I (Some m) \<and> m (fst gv) kind (snd gv) = Mapped res"
proof -
  obtain grp version where gv: "ParseGroupVersion (ke_am env) apiVersion = Some (grp, version)"
    using assms(3) by (auto simp: resolve_kind_def split: option.splits)
  with assms(3) obtain m st1 where m: "restMapper env False st = (Inr m, st1)"
    and rest: "(case m grp kind version of
              Mapped res \<Rightarrow> act_return res
            | MappingError e \<Rightarrow> act_fail (apiErrorf e)
            | NoMatch \<Rightarrow>
                act_bind (restMapper env True) (\<lambda>m'.
                  case m' grp kind version of
                    Mapped res \<Rightarrow> act_return res
                  | MappingError e \<Rightarrow> act_fail (apiErrorf e)
                  | NoMatch \<Rightarrow> (\<lambda>st. act_fail (apiErrorf (unknownKindMessage env apiVersion kind st)) st))) st1 = (Inr res, st')"
    by (auto simp: resolve_kind_def act_bind_Inr)
  note im = restMapper_Inr [OF assms(1,2) m]
  show ?thesis
  proof (cases "m grp kind version")
    case (Mapped r)
    with rest im gv show ?thesis by auto
  next
    case NoMatch
    with rest obtain m' st2 where m': "restMapper env True st1 = (Inr m', st2)" and "m' grp kind version = Mapped res"
      by (auto simp: act_bind_Inr split: mapping.splits) (metis mapping.exhaust)
    moreover have "I (Some m')" using restMapper_Inr(1) [OF assms(1) _ m'] im by simp
    ultimately show ?thesis using gv by auto
  qed (use rest in auto)
qed

end
