(* ===== verification/KubeStreams.thy ===== *)
theory KubeStreams
  imports KubeKinds ToolArgs
begin

text \<open>
  The calls of the cluster client that carry a stream (internal/k8s exec.go, attach.go,
  port_forward.go, proxy.go and \<open>ExecInPod\<close> of client.go): the bounded writer, how the end of a stream
  is told, and what is answered. A stream is a parameter: the pieces that arrive on each side until
  the stream ends, how it ends, and whether the call's deadline has passed by then.
\<close>

section \<open>The bounded writer\<close>

definition streamMaxOutputBytes :: nat where "streamMaxOutputBytes = 262144"

text \<open>\<open>lw_fired\<close> records that \<open>onFull\<close> was called.\<close>

record limited_writer =
  lw_limit :: nat
  lw_buf :: string
  lw_full :: bool
  lw_fired :: bool

definition new_writer :: "nat \<Rightarrow> limited_writer" where
  "new_writer limit = \<lparr>lw_limit = limit, lw_buf = [], lw_full = False, lw_fired = False\<rparr>"

definition lw_write :: "string \<Rightarrow> limited_writer \<Rightarrow> limited_writer" where
  "lw_write p w =
     (if lw_full w then w
      else
        (let space = lw_limit w - length (lw_buf w) in
         if 0 < space \<and> length p \<le> space then w\<lparr>lw_buf := lw_buf w @ p\<rparr>
         else w\<lparr>lw_buf := lw_buf w @ take space p, lw_full := True, lw_fired := True\<rparr>))"

abbreviation lw_writes :: "string list \<Rightarrow> limited_writer \<Rightarrow> limited_writer" where
  "lw_writes \<equiv> fold lw_write"

text \<open>What is kept is a prefix of what was written, as long as the limit allows.\<close>

lemma lw_writes_full: "lw_full w \<Longrightarrow> lw_writes ps w = w"
  by (induction ps) (auto simp: lw_write_def)

lemma lw_writes_buf:
  assumes "\<not> lw_full w" and "length (lw_buf w) \<le> lw_limit w"
  shows "lw_buf (lw_writes ps w) = take (lw_limit w) (lw_buf w @ concat ps)"
  using assms
proof (induction ps arbitrary: w)
  case (Cons p ps)
  let ?w = "lw_write p w"
  show ?case
  proof (cases "lw_full ?w")
    case True
    then have same: "lw_writes (p # ps) w = ?w" by (simp add: lw_writes_full)
    have "lw_buf ?w = take (lw_limit w) (lw_buf w @ concat (p # ps))"
      using True Cons.prems by (auto simp: lw_write_def Let_def split: if_splits)
    then show ?thesis by (simp only: same)
  next
    case False
    with Cons.prems have "?w = w\<lparr>lw_buf := lw_buf w @ p\<rparr>" "length (lw_buf w @ p) \<le> lw_limit w"
      by (auto simp: lw_write_def Let_def split: if_splits)
    with Cons.IH [of ?w] Cons.prems show ?thesis by simp
  qed
qed simp

lemma lw_writes_truncated:
  assumes "\<not> lw_full w" and "length (lw_buf w) \<le> lw_limit w" and "list_all (\<lambda>p. p \<noteq> []) ps"
  shows "lw_full (lw_writes ps w) \<longleftrightarrow> lw_limit w < length (lw_buf w @ concat ps)"
  using assms
proof (induction ps arbitrary: w)
  case (Cons p ps)
  let ?w = "lw_write p w"
  have p: "0 < length p" using Cons.prems(3) by simp
  show ?case
  proof (cases "lw_full ?w")
    case True
    then have "lw_limit w < length (lw_buf w) + length p"
      using Cons.prems p by (auto simp: lw_write_def Let_def split: if_splits)
    with True show ?thesis by (simp add: lw_writes_full)
  next
    case False
    with Cons.prems have "?w = w\<lparr>lw_buf := lw_buf w @ p\<rparr>" "length (lw_buf w @ p) \<le> lw_limit w"
      by (auto simp: lw_write_def Let_def split: if_splits)
    with Cons.IH [of ?w] Cons.prems show ?thesis by simp
  qed
qed simp

section \<open>Streams\<close>

datatype stream_end = StreamOk | ExitError int | StreamFailed string

text \<open>A piece that arrived, on stderr if the flag says so.\<close>

record kube_stream =
  sm_pieces :: "(bool \<times> string) list"
  sm_end :: stream_end
  sm_expired :: bool

text \<open>
  A port that is forwarded: whether the two streams open, whether the payload can be written, what
  arrives until the far side hangs up or the window closes, and what the error stream says when it
  is read to its end, \<open>None\<close> if the far side never ends it.
\<close>

record kube_tunnel =
  tn_error_stream :: "string option"
  tn_data_stream :: "string option"
  tn_write :: "string option"
  tn_pieces :: "string list"
  tn_message :: "string option"

record stream_env =
  se_executor :: "kube_request \<Rightarrow> kube_state \<Rightarrow> string + kube_stream"
  se_dial :: "kube_request \<Rightarrow> kube_state \<Rightarrow> string + kube_tunnel"
  se_http :: "kube_request \<Rightarrow> kube_state \<Rightarrow> string + (int \<times> string list)"
  se_url :: "string \<Rightarrow> (string \<times> (string \<times> string) list) option"

definition pieces_of :: "bool \<Rightarrow> kube_stream \<Rightarrow> string list" where
  "pieces_of stderr s = map snd (filter (\<lambda>p. fst p = stderr) (sm_pieces s))"

definition wrap32 :: "int \<Rightarrow> int" where
  "wrap32 n = (n + 2147483648) mod 4294967296 - 2147483648"

definition execStreamOutcome :: "stream_end \<Rightarrow> bool \<Rightarrow> bool \<Rightarrow> go_err + (int option \<times> bool)" where
  "execStreamOutcome streamErr expired capped =
     (if streamErr = StreamOk \<and> \<not> capped then Inr (Some 0, False)
      else
        (case streamErr of
           ExitError c \<Rightarrow> Inr (Some (wrap32 c), False)
         | _ \<Rightarrow>
             if expired then Inr (None, True)
             else if capped then Inr (None, False)
             else (case streamErr of StreamFailed e \<Rightarrow> Inl (apiErrorf e) | _ \<Rightarrow> Inl (apiErrorf []))))"

definition plain_request :: "string \<Rightarrow> gvr \<Rightarrow> string \<Rightarrow> string \<Rightarrow> string \<Rightarrow> kube_request" where
  "plain_request verb g namespace name sub =
     \<lparr>kr_Verb = verb, kr_Resource = g, kr_Namespace = namespace, kr_Name = name, kr_Subresource = sub,
      kr_Accept = [], kr_ContentType = [], kr_Params = [], kr_Body = None\<rparr>"

definition with_params :: "kube_request \<Rightarrow> (string \<times> string) list \<Rightarrow> kube_request" where
  "with_params r ps = r\<lparr>kr_Params := ps\<rparr>"

definition pods_gvr :: gvr where
  "pods_gvr = \<lparr>g_Group = [], g_Version = ''v1'', g_Resource = ''pods''\<rparr>"

text \<open>A stream is opened by one request.\<close>

definition open_stream :: "(kube_request \<Rightarrow> kube_state \<Rightarrow> string + 'a) \<Rightarrow> kube_request \<Rightarrow> 'a kube" where
  "open_stream f r st =
     (case f r st of Inl e \<Rightarrow> Inl (apiErrorf e) | Inr x \<Rightarrow> Inr x, st\<lparr>ks_requests := ks_requests st @ [r]\<rparr>)"

lemma sends_open_stream [sends_intros]: "P r \<Longrightarrow> sends I P (open_stream f r)"
  by (auto simp: sends_def open_stream_def)

definition streamSubresourceServed :: "kube_env \<Rightarrow> gvr \<Rightarrow> string \<Rightarrow> string \<Rightarrow> unit kube" where
  "streamSubresourceServed env g kind sub st =
     (case ke_served env (group_version g) st of
        Inl e \<Rightarrow> (Inl (apiErrorf (''discovery failed: '' @ e)), st)
      | Inr names \<Rightarrow>
          (if subresourcePath (g_Resource g) sub \<in> set names then Inr ()
           else Inl (apiErrorf (kind @ '' does not serve an '' @ sub @ '' this layer can run'')), st))"

lemma sends_streamSubresourceServed [sends_intros]: "sends I P (streamSubresourceServed env g kind sub)"
  by (auto simp: sends_def streamSubresourceServed_def split: sum.split)

text \<open>The steps exec, attach and port forward share, up to the request: the pod's namespace.\<close>

definition stream_pod :: "kube_env \<Rightarrow> pod_ref \<Rightarrow> string \<Rightarrow> (resolved \<times> string) kube" where
  "stream_pod env ref sub =
     act_bind (resolve_kind env (po_APIVersion ref) (po_Kind ref)) (\<lambda>res.
     act_bind (act_lift (objectNamespace res (po_Kind ref) (po_Namespace ref))) (\<lambda>namespace.
     act_bind (kcheck (g_Group (rv_gvr res) = [] \<and> g_Resource (rv_gvr res) = ''pods'')
       (po_Kind ref @ '' does not serve an '' @ sub @ '' this layer can run'')) (\<lambda>_.
     act_bind (streamSubresourceServed env (rv_gvr res) (po_Kind ref) sub) (\<lambda>_.
     act_return (res, namespace)))))"

lemma sends_stream_pod [sends_intros]: "discovers I env \<Longrightarrow> sends I P (stream_pod env ref sub)"
  unfolding stream_pod_def by (intro sends_intros sends_kbind)

definition container_param :: "string option \<Rightarrow> (string \<times> string) list" where
  "container_param c = (case c of None \<Rightarrow> [] | Some name \<Rightarrow> [(''container'', name)])"

definition kube_ExecResource ::
  "kube_env \<Rightarrow> stream_env \<Rightarrow> exec_ref \<Rightarrow> string option \<Rightarrow> string list \<Rightarrow> exec_outcome kube"
where
  "kube_ExecResource env se ref container command =
     act_bind (stream_pod env ref ''exec'') (\<lambda>(res, namespace).
     act_bind (open_stream (se_executor se)
       (with_params (plain_request ''create'' pods_gvr namespace (po_Name ref) ''exec'')
         (container_param container @ map (\<lambda>a. (''command'', a)) command @ [(''stdout'', ''true''), (''stderr'', ''true'')])))
       (\<lambda>s.
     let out = lw_writes (pieces_of False s) (new_writer streamMaxOutputBytes);
         err = lw_writes (pieces_of True s) (new_writer streamMaxOutputBytes) in
     act_bind (act_lift (execStreamOutcome (sm_end s) (sm_expired s) (lw_full out \<or> lw_full err))) (\<lambda>(exitCode, timeLimited).
     act_return \<lparr>eo_Pod = po_Name ref, eo_Stdout = lw_buf out, eo_Stderr = lw_buf err, eo_ExitCode = exitCode,
              eo_Success = (exitCode = Some 0), eo_StdoutTruncated = lw_full out, eo_StderrTruncated = lw_full err,
              eo_TimeLimited = timeLimited\<rparr>)))"

text \<open>\<open>ExecInPod\<close>: the pods of a selector are listed, each with its name and phase; the first that runs is used.\<close>

definition kube_ExecInPod ::
  "kube_env \<Rightarrow> stream_env \<Rightarrow> (raw \<Rightarrow> (string \<times> string) list) \<Rightarrow> string \<Rightarrow> string \<Rightarrow> string option \<Rightarrow> string list \<Rightarrow> exec_outcome kube"
where
  "kube_ExecInPod env se pod_list namespace labelSelector container command =
     act_bind (send env (with_params (plain_request ''list'' pods_gvr namespace [] []) ([(''labelSelector'', labelSelector)])))
       (\<lambda>answer.
     case answer of
       Inl (e, _) \<Rightarrow> act_fail (apiErrorf (failure_text e))
     | Inr body \<Rightarrow>
         (case find (\<lambda>p. snd p = ''Running'') (pod_list (or_else (kb_json body) JNull)) of
            None \<Rightarrow> act_fail (apiErrorf (''no Running pod matched selector '' @ labelSelector))
          | Some (pod, _) \<Rightarrow>
              act_bind (open_stream (se_executor se)
                (with_params (plain_request ''create'' pods_gvr namespace pod ''exec'')
         (container_param container @ map (\<lambda>a. (''command'', a)) command @ [(''stdout'', ''true''), (''stderr'', ''true'')])))
                (\<lambda>s.
              case sm_end s of
                StreamFailed e \<Rightarrow> act_fail (apiErrorf e)
              | ending \<Rightarrow>
                  (let exitCode = (case ending of ExitError c \<Rightarrow> wrap32 c | _ \<Rightarrow> 0) in
                   act_return \<lparr>eo_Pod = pod, eo_Stdout = concat (pieces_of False s), eo_Stderr = concat (pieces_of True s),
                            eo_ExitCode = Some exitCode, eo_Success = (exitCode = 0), eo_StdoutTruncated = False,
                            eo_StderrTruncated = False, eo_TimeLimited = False\<rparr>))))"

section \<open>Attach\<close>

text \<open>
  \<open>attachStdinReader\<close>: the payload is handed out once, in order, and the end of the stream only after
  the window has closed. A read is given the size of the caller's buffer.
\<close>

record stdin_reader =
  sr_payload :: string
  sr_off :: nat

datatype stdin_read = StdinBytes string | StdinWaits

definition stdin_Read :: "nat \<Rightarrow> stdin_reader \<Rightarrow> stdin_read \<times> stdin_reader" where
  "stdin_Read n r =
     (if sr_off r < length (sr_payload r) then
        (if n = 0 then (StdinBytes [], r)
         else
           (let piece = take n (drop (sr_off r) (sr_payload r)) in
            (StdinBytes piece, r\<lparr>sr_off := sr_off r + length piece\<rparr>)))
      else (StdinWaits, r))"

fun stdin_reads :: "nat list \<Rightarrow> stdin_reader \<Rightarrow> stdin_read list" where
  "stdin_reads [] r = []"
| "stdin_reads (n # ns) r = (case stdin_Read n r of (x, r1) \<Rightarrow> x # stdin_reads ns r1)"

definition read_bytes :: "stdin_read \<Rightarrow> string" where
  "read_bytes x = (case x of StdinBytes s \<Rightarrow> s | StdinWaits \<Rightarrow> [])"

lemma read_bytes_simps [simp]: "read_bytes (StdinBytes s) = s" "read_bytes StdinWaits = []"
  by (simp_all add: read_bytes_def)

lemma stdin_reads_payload:
  "concat (map read_bytes (stdin_reads ns r)) = take (sum_list ns) (drop (sr_off r) (sr_payload r))"
proof (induction ns arbitrary: r)
  case (Cons n ns)
  show ?case
  proof (cases "sr_off r < length (sr_payload r) \<and> n \<noteq> 0")
    case True
    let ?rest = "drop (sr_off r) (sr_payload r)"
    let ?r1 = "r\<lparr>sr_off := sr_off r + length (take n ?rest)\<rparr>"
    have "stdin_Read n r = (StdinBytes (take n ?rest), ?r1)"
      using True by (simp add: stdin_Read_def Let_def)
    then have "concat (map read_bytes (stdin_reads (n # ns) r)) =
        take n ?rest @ concat (map read_bytes (stdin_reads ns ?r1))" by simp
    also have "\<dots> = take n ?rest @ take (sum_list ns) (drop (sr_off ?r1) (sr_payload ?r1))"
      by (simp only: Cons.IH)
    also have "drop (sr_off ?r1) (sr_payload ?r1) = drop n ?rest"
      by (cases "n \<le> length ?rest") (auto simp: add.commute)
    also have "take n ?rest @ take (sum_list ns) (drop n ?rest) = take (sum_list (n # ns)) ?rest"
      by (simp only: sum_list.Cons take_add)
    finally show ?thesis .
  next
    case False
    with Cons.IH [of r] show ?thesis by (auto simp: stdin_Read_def)
  qed
qed simp

definition kube_AttachResource ::
  "kube_env \<Rightarrow> stream_env \<Rightarrow> attach_ref \<Rightarrow> string option \<Rightarrow> string option \<Rightarrow> int \<Rightarrow> attach_outcome kube"
where
  "kube_AttachResource env se ref container stdin seconds =
     (let readSeconds = (if seconds \<le> 0 then AttachDefaultReadSeconds else seconds) in
      act_bind (kcheck (readSeconds \<le> AttachMaxReadSeconds) ''readSeconds is too long'') (\<lambda>_.
      act_bind (stream_pod env ref ''attach'') (\<lambda>(res, namespace).
      act_bind (open_stream (se_executor se)
        (with_params (plain_request ''create'' pods_gvr namespace (po_Name ref) ''attach'')
         (container_param container @ [(''stdout'', ''true''), (''stderr'', ''true'')]
             @ (if stdin = None then [] else [(''stdin'', ''true'')]))))
        (\<lambda>s.
      let out = lw_writes (pieces_of False s) (new_writer streamMaxOutputBytes);
          err = lw_writes (pieces_of True s) (new_writer streamMaxOutputBytes) in
      case (sm_end s, sm_expired s) of
        (StreamOk, _) \<Rightarrow>
          act_return \<lparr>ao_Pod = po_Name ref, ao_Stdout = lw_buf out, ao_Stderr = lw_buf err, ao_ReadSeconds = readSeconds,
                   ao_StdinWritten = (stdin \<noteq> None), ao_StdoutTruncated = lw_full out, ao_StderrTruncated = lw_full err\<rparr>
      | (ExitError c, False) \<Rightarrow> act_fail (apiErrorf ''command terminated with exit code'')
      | (StreamFailed e, False) \<Rightarrow> act_fail (apiErrorf e)
      | (_, True) \<Rightarrow>
          act_return \<lparr>ao_Pod = po_Name ref, ao_Stdout = lw_buf out, ao_Stderr = lw_buf err, ao_ReadSeconds = readSeconds,
                   ao_StdinWritten = (stdin \<noteq> None), ao_StdoutTruncated = lw_full out, ao_StderrTruncated = lw_full err\<rparr>))))"

section \<open>Port forward\<close>

text \<open>
  A body that is no UTF-8 travels in base64, and the answer says which. The strings of the model are
  bytes, so the two cases of \<open>newPortForwardOutcome\<close> and \<open>newProxyOutcome\<close> are one function.
\<close>

definition carried :: "string \<Rightarrow> string \<times> string" where
  "carried s = (if valid_utf8 s then (s, ''utf-8'') else (b64_encode s, ''base64''))"

definition newPortForwardOutcome :: "int \<Rightarrow> string \<Rightarrow> limited_writer \<Rightarrow> int \<Rightarrow> port_forward_outcome" where
  "newPortForwardOutcome port payload body readSeconds =
     \<lparr>pf_Pod = [], pf_Port = port, pf_Response = fst (carried (lw_buf body)),
      pf_ResponseEncoding = snd (carried (lw_buf body)), pf_ResponseTruncated = lw_full body,
      pf_BytesSent = int (length payload), pf_ReadSeconds = readSeconds, pf_TunnelClosed = True\<rparr>"

text \<open>
  \<open>roundTrip\<close>: \<open>None\<close> where the call does not return. The window closes the wait for the answer, and
  not the wait for the message of the error stream, which lasts until the far side ends that stream.
\<close>

definition roundTrip :: "kube_tunnel \<Rightarrow> int \<Rightarrow> string \<Rightarrow> int \<Rightarrow> (go_err + port_forward_outcome) option" where
  "roundTrip tn port payload readSeconds =
     (case tn_error_stream tn of
        Some e \<Rightarrow> Some (Inl (apiErrorf (''port forward error stream could not be opened: '' @ e)))
      | None \<Rightarrow>
     (case tn_data_stream tn of
        Some e \<Rightarrow> Some (Inl (apiErrorf (''port forward data stream could not be opened: '' @ e)))
      | None \<Rightarrow>
     (case (if payload = [] then None else tn_write tn) of
        Some e \<Rightarrow> Some (Inl (apiErrorf (''port forward payload could not be sent: '' @ e)))
      | None \<Rightarrow>
     (case tn_message tn of
        None \<Rightarrow> None
      | Some refusal \<Rightarrow>
          if refusal \<noteq> [] then Some (Inl (apiErrorf (''port '' @ itoa port @ '' on the pod refused the forward: '' @ refusal)))
          else Some (Inr (newPortForwardOutcome port payload
            (lw_writes (tn_pieces tn) (new_writer streamMaxOutputBytes)) readSeconds))))))"

text \<open>So the answer is an option too.\<close>

definition kube_PortForwardResource ::
  "kube_env \<Rightarrow> stream_env \<Rightarrow> port_forward_ref \<Rightarrow> int \<Rightarrow> string \<Rightarrow> int \<Rightarrow> port_forward_outcome option kube"
where
  "kube_PortForwardResource env se ref port payload seconds =
     (let readSeconds = (if seconds \<le> 0 then PortForwardDefaultReadSeconds else seconds) in
      act_bind (kcheck (readSeconds \<le> PortForwardMaxReadSeconds) ''readSeconds is too long'') (\<lambda>_.
      act_bind (kcheck (1 \<le> port \<and> port \<le> 65535) ''port must be between 1 and 65535'') (\<lambda>_.
      act_bind (stream_pod env ref ''portforward'') (\<lambda>(res, namespace).
      act_bind (open_stream (se_dial se) (plain_request ''create'' pods_gvr namespace (po_Name ref) ''portforward'')) (\<lambda>tn.
      case roundTrip tn port payload readSeconds of
        None \<Rightarrow> act_return None
      | Some (Inl e) \<Rightarrow> act_fail e
      | Some (Inr outcome) \<Rightarrow> act_return (Some (outcome\<lparr>pf_Pod := po_Name ref\<rparr>)))))))"

section \<open>Proxy\<close>

definition proxyKinds :: "string list" where "proxyKinds = [''pods'', ''services'', ''nodes'']"

definition proxyTargetName :: "proxy_ref \<Rightarrow> string" where
  "proxyTargetName ref = (case px_Port ref of None \<Rightarrow> px_Name ref | Some port \<Rightarrow> px_Name ref @ '':'' @ port)"

text \<open>
  \<open>splitProxyPath\<close>: \<open>url.Parse\<close> (a parameter, here the path and the query of a text that parses), and
  the segments of the path that are not empty.
\<close>

definition splitProxyPath ::
  "(string \<Rightarrow> (string \<times> (string \<times> string) list) option) \<Rightarrow> string \<Rightarrow> (string list \<times> (string \<times> string) list) option"
where
  "splitProxyPath url path =
     (case url path of
        None \<Rightarrow> None
      | Some (parsed, query) \<Rightarrow> Some (filter (\<lambda>s. s \<noteq> []) (split_on (CHR ''/'') parsed), query))"

record api_status =
  as_Kind :: string
  as_APIVersion :: string

definition read_status :: "raw option \<Rightarrow> api_status option" where
  "read_status body =
     (case body of
        None \<Rightarrow> None
      | Some v \<Rightarrow>
          (case read_struct False
             [(''kind'', \<lambda>x s. bind_sum (read_string x (as_Kind s)) (\<lambda>y. Inr (s\<lparr>as_Kind := y\<rparr>))),
              (''apiVersion'', \<lambda>x s. bind_sum (read_string x (as_APIVersion s)) (\<lambda>y. Inr (s\<lparr>as_APIVersion := y\<rparr>)))]
             v \<lparr>as_Kind = [], as_APIVersion = []\<rparr> of
             Inl _ \<Rightarrow> None | Inr s \<Rightarrow> Some s))"

definition apiserverRefusal :: "(string \<Rightarrow> raw option) \<Rightarrow> int \<Rightarrow> string \<Rightarrow> string \<Rightarrow> string \<Rightarrow> go_err option" where
  "apiserverRefusal parse_body answered body verb resource =
     (if answered \<noteq> 403 then None
      else
        (case read_status (parse_body body) of
           None \<Rightarrow> None
         | Some s \<Rightarrow> if as_Kind s \<noteq> ''Status'' then None else Some (apiErrorf (resource_pair verb (resource @ ''/proxy'')))))"

definition newProxyOutcome :: "proxy_ref \<Rightarrow> string \<Rightarrow> string \<Rightarrow> int \<Rightarrow> limited_writer \<Rightarrow> int \<Rightarrow> proxy_outcome" where
  "newProxyOutcome ref m path answered body readSeconds =
     \<lparr>pxo_Method = to_upper m, pxo_Verb = ProxyVerbForMethod m, pxo_Path = path, pxo_Name = px_Name ref,
      pxo_Status = answered, pxo_Body = fst (carried (lw_buf body)), pxo_BodyEncoding = snd (carried (lw_buf body)),
      pxo_Truncated = lw_full body, pxo_ReadSeconds = readSeconds\<rparr>"

text \<open>The segments become the suffix of the request; its content type travels with a body only.\<close>

definition proxy_request ::
  "proxy_ref \<Rightarrow> string \<Rightarrow> resolved \<Rightarrow> string \<Rightarrow> string list \<Rightarrow> (string \<times> string) list \<Rightarrow> string \<Rightarrow> string \<Rightarrow> kube_request"
where
  "proxy_request ref m res namespace segments query body contentType =
     \<lparr>kr_Verb = ProxyVerbForMethod m, kr_Resource = rv_gvr res, kr_Namespace = namespace, kr_Name = proxyTargetName ref,
      kr_Subresource = ''proxy'', kr_Accept = [], kr_ContentType = (if body = [] then [] else contentType),
      kr_Params = map (\<lambda>s. (''suffix'', s)) segments @ query, kr_Body = (if body = [] then None else Some (JStr body))\<rparr>"

definition kube_ProxyResource ::
  "kube_env \<Rightarrow> stream_env \<Rightarrow> (string \<Rightarrow> raw option) \<Rightarrow> proxy_ref \<Rightarrow> string \<Rightarrow> string \<Rightarrow> string \<Rightarrow> string \<Rightarrow> int \<Rightarrow> proxy_outcome kube"
where
  "kube_ProxyResource env se parse_body ref m path body contentType seconds =
     (let readSeconds = (if seconds \<le> 0 then ProxyDefaultReadSeconds else seconds) in
      act_bind (kcheck (readSeconds \<le> ProxyMaxReadSeconds) ''readSeconds is too long'') (\<lambda>_.
      act_bind (resolve_kind env (px_APIVersion ref) (px_Kind ref)) (\<lambda>res.
      act_bind (act_lift (objectNamespace res (px_Kind ref) (px_Namespace ref))) (\<lambda>namespace.
      act_bind (kcheck (g_Group (rv_gvr res) = [] \<and> g_Resource (rv_gvr res) \<in> set proxyKinds)
        (px_Kind ref @ '' does not serve a proxy this layer can run'')) (\<lambda>_.
      act_bind (streamSubresourceServed env (rv_gvr res) (px_Kind ref) ''proxy'') (\<lambda>_.
      act_bind (kcheck (ProxyVerbForMethod m \<noteq> []) (m @ '' is not an HTTP method this tool proxies'')) (\<lambda>_.
      case splitProxyPath (se_url se) path of
        None \<Rightarrow> act_fail (apiErrorf (''path '' @ path @ '' cannot be parsed''))
      | Some (segments, query) \<Rightarrow>
          act_bind (open_stream (se_http se)
            (proxy_request ref m res namespace segments query body contentType))
            (\<lambda>(answered, pieces).
          let buf = lw_writes pieces (new_writer streamMaxOutputBytes) in
          case apiserverRefusal parse_body answered (lw_buf buf) (ProxyVerbForMethod m) (g_Resource (rv_gvr res)) of
            Some e \<Rightarrow> act_fail e
          | None \<Rightarrow> act_return (newProxyOutcome ref m path answered buf readSeconds)))))))))"

section \<open>What is answered\<close>

text \<open>What a caller does to get the bytes back.\<close>

definition uncarried :: "string \<times> string \<Rightarrow> string option" where
  "uncarried p = (if snd p = ''base64'' then b64_decode (fst p) else Some (fst p))"

lemma uncarried_carried [simp]: "uncarried (carried s) = Some s"
  by (simp add: uncarried_def carried_def)

lemma new_writer_simps [simp]:
  "lw_limit (new_writer n) = n" "lw_buf (new_writer n) = []" "\<not> lw_full (new_writer n)"
  by (simp_all add: new_writer_def)

lemma kept_bytes [simp]: "lw_buf (lw_writes ps (new_writer n)) = take n (concat ps)"
  by (simp add: lw_writes_buf)

end
