(* ===== verification/KubeTargets.thy ===== *)
theory KubeTargets
  imports KubeKinds
begin

text \<open>
  The gate's own reads (internal/k8s precondition.go and collection_precondition.go): one object, and
  a selection listed page by page. Of the metadata types of apimachinery the model reads the members
  the code uses. The loop over the pages runs at most \<open>collectionMaxPages\<close> times, as in the code.
\<close>

definition metadataAccept :: string where
  "metadataAccept = ''application/json;as=PartialObjectMetadata;v=v1;g=meta.k8s.io''"

definition collectionMetadataAccept :: string where
  "collectionMetadataAccept = ''application/json;as=PartialObjectMetadataList;v=v1;g=meta.k8s.io''"

definition partialObjectMetadataKind :: string where "partialObjectMetadataKind = ''PartialObjectMetadata''"
definition metav1 :: string where "metav1 = ''meta.k8s.io/v1''"

definition collectionPageSize :: nat where "collectionPageSize = 500"
definition collectionMaxPages :: nat where "collectionMaxPages = 100"
definition collectionMaxTargets :: int where "collectionMaxTargets = 10000"

section \<open>One object\<close>

record target_body =
  tb_Kind :: string
  tb_APIVersion :: string
  tb_ResourceVersion :: string
  tb_UID :: string
  tb_Replicas :: "int option"

definition read_pointer :: "'a reader \<Rightarrow> 'a \<Rightarrow> 'a option reader" where
  "read_pointer r zero v old =
     (if v = JNull then Inr None else bind_sum (r v (or_else old zero)) (\<lambda>x. Inr (Some x)))"

definition target_fields :: "(string \<times> target_body reader) list" where
  "target_fields =
     [(''kind'', \<lambda>v s. bind_sum (read_string v (tb_Kind s)) (\<lambda>x. Inr (s\<lparr>tb_Kind := x\<rparr>))),
      (''apiVersion'', \<lambda>v s. bind_sum (read_string v (tb_APIVersion s)) (\<lambda>x. Inr (s\<lparr>tb_APIVersion := x\<rparr>))),
      (''metadata'', read_struct False
         [(''resourceVersion'', \<lambda>v s. bind_sum (read_string v (tb_ResourceVersion s)) (\<lambda>x. Inr (s\<lparr>tb_ResourceVersion := x\<rparr>))),
          (''uid'', \<lambda>v s. bind_sum (read_string v (tb_UID s)) (\<lambda>x. Inr (s\<lparr>tb_UID := x\<rparr>)))]),
      (''spec'', read_struct False
         [(''replicas'', \<lambda>v s. bind_sum (read_pointer read_int 0 v (tb_Replicas s)) (\<lambda>x. Inr (s\<lparr>tb_Replicas := x\<rparr>)))])]"

definition no_target_body :: target_body where
  "no_target_body = \<lparr>tb_Kind = [], tb_APIVersion = [], tb_ResourceVersion = [], tb_UID = [], tb_Replicas = None\<rparr>"

definition readTargetState :: "raw option \<Rightarrow> target_ref \<Rightarrow> go_err + target_state" where
  "readTargetState body ref =
     (case body of
        None \<Rightarrow> Inl (apiErrorf ''apiserver answered the pre-approval read with a body this server cannot decode'')
      | Some v \<Rightarrow>
          (case read_struct False target_fields v no_target_body of
             Inl _ \<Rightarrow> Inl (apiErrorf ''apiserver answered the pre-approval read with a body this server cannot decode'')
           | Inr b \<Rightarrow>
               if tr_MetadataOnly ref \<and> tb_Kind b \<noteq> partialObjectMetadataKind then
                 Inl (apiErrorf (''refusing to describe '' @ tr_Kind ref @ '' '' @ tr_Name ref))
               else if tb_ResourceVersion b = [] then
                 Inl (apiErrorf (''apiserver answered the pre-approval read of '' @ tr_Kind ref @ '' without a resourceVersion''))
               else Inr \<lparr>ts_ResourceVersion = tb_ResourceVersion b, ts_UID = tb_UID b, ts_Replicas = tb_Replicas b\<rparr>))"

text \<open>The subresource is for the record: the request addresses the object.\<close>

definition read_request :: "resolved \<Rightarrow> string \<Rightarrow> target_ref \<Rightarrow> kube_request" where
  "read_request res namespace ref =
     \<lparr>kr_Verb = ''get'', kr_Resource = rv_gvr res, kr_Namespace = namespace, kr_Name = tr_Name ref, kr_Subresource = [],
      kr_Accept = (if tr_MetadataOnly ref then metadataAccept else []), kr_ContentType = [], kr_Params = [], kr_Body = None\<rparr>"

definition kube_ReadTarget :: "kube_env \<Rightarrow> target_ref \<Rightarrow> target_state kube" where
  "kube_ReadTarget env ref =
     act_bind (kcheck (tr_Name ref \<noteq> []) ''a gated call needs a named object before it can be approved'') (\<lambda>_.
     act_bind (resolve_kind env (tr_APIVersion ref) (tr_Kind ref)) (\<lambda>res.
     act_bind (act_lift (objectNamespace res (tr_Kind ref) (tr_Namespace ref))) (\<lambda>namespace.
     act_bind (send env (read_request res namespace ref)) (\<lambda>answer.
     case answer of
       Inl (e, _) \<Rightarrow> act_fail (apiCallError e ''get'' (g_Resource (rv_gvr res)))
     | Inr body \<Rightarrow> act_lift (readTargetState (kb_json body) ref)))))"

section \<open>A selection\<close>

record page_item =
  pi_Kind :: string
  pi_APIVersion :: string
  pi_Name :: string
  pi_Namespace :: string
  pi_UID :: string
  pi_ResourceVersion :: string

record page_list =
  pl_Kind :: string
  pl_APIVersion :: string
  pl_ResourceVersion :: string
  pl_Continue :: string
  pl_Remaining :: "int option"
  pl_Items :: "page_item list option"

definition item_fields :: "(string \<times> page_item reader) list" where
  "item_fields =
     [(''kind'', \<lambda>v s. bind_sum (read_string v (pi_Kind s)) (\<lambda>x. Inr (s\<lparr>pi_Kind := x\<rparr>))),
      (''apiVersion'', \<lambda>v s. bind_sum (read_string v (pi_APIVersion s)) (\<lambda>x. Inr (s\<lparr>pi_APIVersion := x\<rparr>))),
      (''metadata'', read_struct False
         [(''name'', \<lambda>v s. bind_sum (read_string v (pi_Name s)) (\<lambda>x. Inr (s\<lparr>pi_Name := x\<rparr>))),
          (''namespace'', \<lambda>v s. bind_sum (read_string v (pi_Namespace s)) (\<lambda>x. Inr (s\<lparr>pi_Namespace := x\<rparr>))),
          (''uid'', \<lambda>v s. bind_sum (read_string v (pi_UID s)) (\<lambda>x. Inr (s\<lparr>pi_UID := x\<rparr>))),
          (''resourceVersion'', \<lambda>v s. bind_sum (read_string v (pi_ResourceVersion s)) (\<lambda>x. Inr (s\<lparr>pi_ResourceVersion := x\<rparr>)))])]"

definition no_item :: page_item where
  "no_item = \<lparr>pi_Kind = [], pi_APIVersion = [], pi_Name = [], pi_Namespace = [], pi_UID = [], pi_ResourceVersion = []\<rparr>"

definition page_fields :: "(string \<times> page_list reader) list" where
  "page_fields =
     [(''kind'', \<lambda>v s. bind_sum (read_string v (pl_Kind s)) (\<lambda>x. Inr (s\<lparr>pl_Kind := x\<rparr>))),
      (''apiVersion'', \<lambda>v s. bind_sum (read_string v (pl_APIVersion s)) (\<lambda>x. Inr (s\<lparr>pl_APIVersion := x\<rparr>))),
      (''metadata'', read_struct False
         [(''resourceVersion'', \<lambda>v s. bind_sum (read_string v (pl_ResourceVersion s)) (\<lambda>x. Inr (s\<lparr>pl_ResourceVersion := x\<rparr>))),
          (''continue'', \<lambda>v s. bind_sum (read_string v (pl_Continue s)) (\<lambda>x. Inr (s\<lparr>pl_Continue := x\<rparr>))),
          (''remainingItemCount'', \<lambda>v s. bind_sum (read_pointer read_int 0 v (pl_Remaining s)) (\<lambda>x. Inr (s\<lparr>pl_Remaining := x\<rparr>)))]),
      (''items'', \<lambda>v s. bind_sum (read_slice (read_struct False item_fields) no_item v (pl_Items s)) (\<lambda>x. Inr (s\<lparr>pl_Items := x\<rparr>)))]"

definition no_page :: page_list where
  "no_page = \<lparr>pl_Kind = [], pl_APIVersion = [], pl_ResourceVersion = [], pl_Continue = [], pl_Remaining = None, pl_Items = None\<rparr>"

text \<open>The state of the loop, apart from the cursor: the snapshot so far and the cursors seen.\<close>

record listing =
  ls_ResourceVersion :: string
  ls_Targets :: "collection_target list"
  ls_Cursors :: "string list"

definition item_ok :: "string \<Rightarrow> page_item \<Rightarrow> bool" where
  "item_ok namespace i \<longleftrightarrow>
     pi_Kind i = ''PartialObjectMetadata'' \<and> pi_APIVersion i = metav1 \<and> pi_Name i \<noteq> [] \<and>
     pi_Namespace i = namespace \<and> pi_UID i \<noteq> [] \<and> pi_ResourceVersion i \<noteq> []"

definition target_of_item :: "page_item \<Rightarrow> collection_target" where
  "target_of_item i =
     \<lparr>cg_Name = pi_Name i, cg_Namespace = pi_Namespace i, cg_UID = pi_UID i, cg_ResourceVersion = pi_ResourceVersion i\<rparr>"

text \<open>The inner loop: the names are those of the targets so far.\<close>

fun add_items :: "string \<Rightarrow> collection_target list \<Rightarrow> page_item list \<Rightarrow> go_err + collection_target list" where
  "add_items namespace targets [] = Inr targets"
| "add_items namespace targets (i # is) =
     (if \<not> item_ok namespace i then Inl (apiErrorf ''collection metadata contains an incomplete or out-of-namespace target'')
      else if pi_Name i \<in> cg_Name ` set targets then Inl (apiErrorf ''collection metadata contains a duplicate target'')
      else add_items namespace (targets @ [target_of_item i]) is)"

text \<open>\<open>fields["items"] == nil\<close>: the exact name, in the last of several members.\<close>

definition read_page :: "raw option \<Rightarrow> go_err + page_list" where
  "read_page body =
     (case body of
        Some (JObj kvs) \<Rightarrow>
          if lookup kvs ''items'' = None then Inl (apiErrorf ''collection metadata has no decodable items field'')
          else
            (case read_struct False page_fields (JObj kvs) no_page of
               Inl _ \<Rightarrow> Inl (apiErrorf ''cannot decode the collection metadata snapshot'')
             | Inr page \<Rightarrow> Inr page)
      | _ \<Rightarrow> Inl (apiErrorf ''collection metadata has no decodable items field''))"

definition add_page :: "string \<Rightarrow> bool \<Rightarrow> page_list \<Rightarrow> listing \<Rightarrow> go_err + listing" where
  "add_page namespace later page l =
     (if pl_Kind page \<noteq> ''PartialObjectMetadataList'' \<or> pl_APIVersion page \<noteq> metav1 then
        Inl (apiErrorf ''collection approval requires meta.k8s.io/v1 PartialObjectMetadataList'')
      else if pl_ResourceVersion page = [] \<or> later \<and> pl_ResourceVersion page \<noteq> ls_ResourceVersion l then
        Inl (apiErrorf ''collection pages do not identify one resourceVersion snapshot'')
      else if collectionMaxTargets < int (length (ls_Targets l)) + int (length (or_else (pl_Items page) [])) then
        Inl (apiErrorf ''collection snapshot exceeds its targets; narrow the selection'')
      else
        bind_sum (add_items namespace (ls_Targets l) (or_else (pl_Items page) [])) (\<lambda>targets.
          if (case pl_Remaining page of None \<Rightarrow> False | Some n \<Rightarrow> n < 0 \<or> pl_Continue page = [] \<and> n \<noteq> 0) then
            Inl (apiErrorf ''collection metadata reports an incomplete snapshot'')
          else Inr (l\<lparr>ls_ResourceVersion := pl_ResourceVersion page, ls_Targets := targets\<rparr>)))"

definition page_request :: "resolved \<Rightarrow> collection_target_ref \<Rightarrow> string \<Rightarrow> kube_request" where
  "page_request res ref cursor =
     \<lparr>kr_Verb = ''list'', kr_Resource = rv_gvr res, kr_Namespace = ct_Namespace ref, kr_Name = [], kr_Subresource = [],
      kr_Accept = collectionMetadataAccept, kr_ContentType = [],
      kr_Params = (''limit'', ''500'')
        # (if ct_LabelSelector ref = [] then [] else [(''labelSelector'', ct_LabelSelector ref)])
        @ (if ct_FieldSelector ref = [] then [] else [(''fieldSelector'', ct_FieldSelector ref)])
        @ (if cursor = [] then [] else [(''continue'', cursor)]),
      kr_Body = None\<rparr>"

text \<open>The loop, by the number of pages it may still ask for.\<close>

fun list_pages ::
  "kube_env \<Rightarrow> resolved \<Rightarrow> collection_target_ref \<Rightarrow> nat \<Rightarrow> bool \<Rightarrow> string \<Rightarrow> listing \<Rightarrow> collection_target_state kube"
where
  "list_pages env res ref 0 later cursor l = act_fail (apiErrorf ''collection snapshot exceeds its pages; narrow the selection'')"
| "list_pages env res ref (Suc n) later cursor l =
     act_bind (send env (page_request res ref cursor)) (\<lambda>answer.
     case answer of
       Inl (e, _) \<Rightarrow> act_fail (apiCallError e ''list'' (g_Resource (rv_gvr res)))
     | Inr body \<Rightarrow>
         act_bind (act_lift (read_page (kb_json body))) (\<lambda>page.
         act_bind (act_lift (add_page (ct_Namespace ref) later page l)) (\<lambda>l'.
         if pl_Continue page = [] then
           act_return \<lparr>cs_ResourceVersion = ls_ResourceVersion l', cs_Targets = sort_key cg_Name (ls_Targets l')\<rparr>
         else
           act_bind (kcheck (pl_Continue page \<notin> set (ls_Cursors l')) ''collection metadata repeats a continuation token'') (\<lambda>_.
           list_pages env res ref n True (pl_Continue page) (l'\<lparr>ls_Cursors := ls_Cursors l' @ [pl_Continue page]\<rparr>)))))"

definition no_listing :: listing where
  "no_listing = \<lparr>ls_ResourceVersion = [], ls_Targets = [], ls_Cursors = []\<rparr>"

text \<open>\<open>IsDNS1123Label\<close> of apimachinery is a parameter.\<close>

definition kube_ListTargets :: "kube_env \<Rightarrow> (string \<Rightarrow> bool) \<Rightarrow> collection_target_ref \<Rightarrow> collection_target_state kube" where
  "kube_ListTargets env dns_label ref =
     act_bind (kcheck (ct_Namespace ref \<noteq> [] \<and> dns_label (ct_Namespace ref)) ''a collection approval requires one valid namespace'') (\<lambda>_.
     act_bind (resolve_kind env (ct_APIVersion ref) (ct_Kind ref)) (\<lambda>res.
     act_bind (kcheck (rv_namespaced res) ''a collection approval cannot select cluster-scoped resources'') (\<lambda>_.
     list_pages env res ref collectionMaxPages False [] no_listing)))"

section \<open>What a snapshot is\<close>

lemma target_of_item_sel [simp]:
  "cg_Name (target_of_item i) = pi_Name i" "cg_Namespace (target_of_item i) = pi_Namespace i"
  "cg_UID (target_of_item i) = pi_UID i" "cg_ResourceVersion (target_of_item i) = pi_ResourceVersion i"
  by (simp_all add: target_of_item_def)

lemma add_items_Inr:
  assumes "add_items namespace targets is = Inr targets'"
  shows "targets' = targets @ map target_of_item is \<and> list_all (item_ok namespace) is \<and>
     (distinct (map cg_Name targets) \<longrightarrow> distinct (map cg_Name targets'))"
  using assms
proof (induction "is" arbitrary: targets)
  case (Cons i "is")
  from Cons.prems have i: "item_ok namespace i" "pi_Name i \<notin> cg_Name ` set targets"
    and rest: "add_items namespace (targets @ [target_of_item i]) is = Inr targets'"
    by (auto split: if_splits)
  have "distinct (map cg_Name targets) \<longrightarrow> distinct (map cg_Name (targets @ [target_of_item i]))"
    using i(2) by auto
  with Cons.IH [OF rest] have "distinct (map cg_Name targets) \<longrightarrow> distinct (map cg_Name targets')" by blast
  moreover have "targets' = targets @ map target_of_item (i # is) \<and> list_all (item_ok namespace) (i # is)"
    using Cons.IH [OF rest] i(1) by simp
  ultimately show ?case by blast
qed simp

definition target_ok :: "string \<Rightarrow> collection_target \<Rightarrow> bool" where
  "target_ok namespace t \<longleftrightarrow>
     cg_Name t \<noteq> [] \<and> cg_Namespace t = namespace \<and> cg_UID t \<noteq> [] \<and> cg_ResourceVersion t \<noteq> []"

definition listing_ok :: "string \<Rightarrow> listing \<Rightarrow> bool" where
  "listing_ok namespace l \<longleftrightarrow>
     list_all (target_ok namespace) (ls_Targets l) \<and> distinct (map cg_Name (ls_Targets l)) \<and>
     int (length (ls_Targets l)) \<le> collectionMaxTargets"

lemma listing_ok_sorted:
  assumes "listing_ok namespace l"
  shows "list_all (target_ok namespace) (sort_key cg_Name (ls_Targets l))"
    and "distinct (map cg_Name (sort_key cg_Name (ls_Targets l)))"
    and "int (length (sort_key cg_Name (ls_Targets l))) \<le> collectionMaxTargets"
  using assms by (simp_all add: listing_ok_def list_all_iff distinct_map)

lemma add_page_Inr:
  assumes "add_page namespace later page l = Inr l'" and "listing_ok namespace l"
  shows "listing_ok namespace l' \<and> ls_Targets l' = ls_Targets l @ map target_of_item (or_else (pl_Items page) []) \<and>
     ls_ResourceVersion l' = pl_ResourceVersion page \<and> ls_ResourceVersion l' \<noteq> [] \<and> ls_Cursors l' = ls_Cursors l \<and>
     (later \<longrightarrow> ls_ResourceVersion l' = ls_ResourceVersion l) \<and>
     (pl_Continue page = [] \<longrightarrow> pl_Remaining page \<in> {None, Some 0})"
proof -
  from assms(1) obtain targets where t: "add_items namespace (ls_Targets l) (or_else (pl_Items page) []) = Inr targets"
    and n: "int (length (ls_Targets l)) + int (length (or_else (pl_Items page) [])) \<le> collectionMaxTargets"
    and l': "l' = l\<lparr>ls_ResourceVersion := pl_ResourceVersion page, ls_Targets := targets\<rparr>"
    and rv: "pl_ResourceVersion page \<noteq> []" "later \<longrightarrow> pl_ResourceVersion page = ls_ResourceVersion l"
    and rem: "pl_Continue page = [] \<longrightarrow> pl_Remaining page \<in> {None, Some 0}"
    by (auto simp: add_page_def bind_sum_Inr_iff not_less split: if_splits option.splits)
  note items = add_items_Inr [OF t]
  have "distinct (map cg_Name targets)" using items assms(2) unfolding listing_ok_def by blast
  moreover have "list_all (target_ok namespace) targets"
    using items assms(2) by (auto simp: listing_ok_def list_all_iff item_ok_def target_ok_def)
  moreover have "int (length targets) \<le> collectionMaxTargets" using items n by simp
  ultimately show ?thesis using items l' rv rem by (simp add: listing_ok_def)
qed

text \<open>
  The abstract contents of a listing: the items of a chain of pages, each asked for with the cursor
  the page before gave, of one resource version, the last of them final.
\<close>

fun page_chain :: "resolved \<Rightarrow> collection_target_ref \<Rightarrow> string \<Rightarrow> (kube_request \<times> page_list) list \<Rightarrow> bool" where
  "page_chain res ref cursor [] = False"
| "page_chain res ref cursor [(r, page)] \<longleftrightarrow>
     r = page_request res ref cursor \<and> pl_Continue page = [] \<and> pl_Remaining page \<in> {None, Some 0}"
| "page_chain res ref cursor ((r, page) # x # xs) \<longleftrightarrow>
     r = page_request res ref cursor \<and> pl_Continue page \<noteq> [] \<and> page_chain res ref (pl_Continue page) (x # xs)"

definition chain_items :: "(kube_request \<times> page_list) list \<Rightarrow> page_item list" where
  "chain_items ps = concat (map (\<lambda>(r, page). or_else (pl_Items page) []) ps)"

lemma list_pages_Inr:
  assumes "list_pages env res ref n later cursor l st = (Inr s, st')" and "listing_ok (ct_Namespace ref) l"
  shows "\<exists>ps. page_chain res ref cursor ps \<and> length ps \<le> n \<and> ks_requests st' = ks_requests st @ map fst ps \<and>
     (\<forall>(r, page)\<in>set ps. pl_ResourceVersion page = cs_ResourceVersion s) \<and>
     (later \<longrightarrow> cs_ResourceVersion s = ls_ResourceVersion l) \<and> cs_ResourceVersion s \<noteq> [] \<and>
     cs_Targets s = sort_key cg_Name (ls_Targets l @ map target_of_item (chain_items ps)) \<and>
     list_all (target_ok (ct_Namespace ref)) (cs_Targets s) \<and> distinct (map cg_Name (cs_Targets s)) \<and>
     int (length (cs_Targets s)) \<le> collectionMaxTargets"
  using assms
proof (induction n arbitrary: later cursor l st)
  case (Suc n)
  let ?r = "page_request res ref cursor"
  let ?st1 = "st\<lparr>ks_requests := ks_requests st @ [?r]\<rparr>"
  from Suc.prems(1) obtain body where "ke_answer env ?r st = Inr body"
    by (cases "ke_answer env ?r st") (auto simp: act_bind_Inr)
  with Suc.prems(1) obtain page l' where
    page: "read_page (kb_json body) = Inr page"
    and add: "add_page (ct_Namespace ref) later page l = Inr l'"
    and rest: "(if pl_Continue page = [] then
           act_return \<lparr>cs_ResourceVersion = ls_ResourceVersion l', cs_Targets = sort_key cg_Name (ls_Targets l')\<rparr>
         else
           act_bind (kcheck (pl_Continue page \<notin> set (ls_Cursors l')) ''collection metadata repeats a continuation token'') (\<lambda>_.
           list_pages env res ref n True (pl_Continue page) (l'\<lparr>ls_Cursors := ls_Cursors l' @ [pl_Continue page]\<rparr>)))
         ?st1 = (Inr s, st')"
    by (simp add: act_bind_Inr del: act_return_Inr) blast
  note a = add_page_Inr [OF add Suc.prems(2)]
  show ?case
  proof (cases "pl_Continue page = []")
    case True
    with rest have s: "s = \<lparr>cs_ResourceVersion = ls_ResourceVersion l', cs_Targets = sort_key cg_Name (ls_Targets l')\<rparr>"
      and st': "st' = ?st1" by auto
    have "listing_ok (ct_Namespace ref) l'" using a by blast
    note sorted = listing_ok_sorted [OF this]
    have "cs_Targets s = sort_key cg_Name (ls_Targets l')" using s by simp
    with sorted have "list_all (target_ok (ct_Namespace ref)) (cs_Targets s)" "distinct (map cg_Name (cs_Targets s))"
      "int (length (cs_Targets s)) \<le> collectionMaxTargets" by simp_all
    moreover have "cs_Targets s = sort_key cg_Name (ls_Targets l @ map target_of_item (chain_items [(?r, page)]))"
      "page_chain res ref cursor [(?r, page)]" "ks_requests st' = ks_requests st @ map fst [(?r, page)]"
      "\<forall>(r, page)\<in>set [(?r, page)]. pl_ResourceVersion page = cs_ResourceVersion s"
      "later \<longrightarrow> cs_ResourceVersion s = ls_ResourceVersion l" "cs_ResourceVersion s \<noteq> []"
      using a True s st' by (auto simp: chain_items_def)
    ultimately show ?thesis by (intro exI [of _ "[(?r, page)]"]) simp
  next
    case False
    let ?l = "l'\<lparr>ls_Cursors := ls_Cursors l' @ [pl_Continue page]\<rparr>"
    from rest False have run: "list_pages env res ref n True (pl_Continue page) ?l ?st1 = (Inr s, st')"
      by (auto simp: act_bind_Inr)
    moreover from a have "listing_ok (ct_Namespace ref) l'" by blast
    then have "listing_ok (ct_Namespace ref) ?l" by (simp add: listing_ok_def)
    ultimately obtain ps where ps: "page_chain res ref (pl_Continue page) ps" "length ps \<le> n"
      "ks_requests st' = ks_requests ?st1 @ map fst ps"
      "\<forall>(r, page)\<in>set ps. pl_ResourceVersion page = cs_ResourceVersion s"
      "cs_ResourceVersion s = ls_ResourceVersion ?l" "cs_ResourceVersion s \<noteq> []"
      "cs_Targets s = sort_key cg_Name (ls_Targets ?l @ map target_of_item (chain_items ps))"
      "list_all (target_ok (ct_Namespace ref)) (cs_Targets s)" "distinct (map cg_Name (cs_Targets s))"
      "int (length (cs_Targets s)) \<le> collectionMaxTargets"
      using Suc.IH [of True "pl_Continue page" ?l ?st1] by auto
    have "page_chain res ref cursor ((?r, page) # ps)" using ps(1) False by (cases ps) auto
    with ps a show ?thesis
      by (intro exI [of _ "(?r, page) # ps"]) (auto simp: chain_items_def)
  qed
qed simp

end
