(* ===== verification/KubePatch.thy ===== *)
theory KubePatch
  imports KubeState
begin

text \<open>
  internal/k8s patch_precondition.go: \<open>approvedPatch\<close> makes a patch conditional on the version and the
  identity of the object that was approved. A raw message is the value it spells; the members of a
  Go map have no order, so a patch is compared by its members.
\<close>

definition test_op :: "string \<Rightarrow> string \<Rightarrow> raw" where
  "test_op field v = JObj [(''op'', JStr ''test''), (''path'', JStr (''/metadata/'' @ field)), (''value'', JStr v)]"

definition conditions :: "patch_ref \<Rightarrow> (string \<times> string) list" where
  "conditions ref = [(''resourceVersion'', pr_ApprovedResourceVersion ref), (''uid'', pr_ApprovedUID ref)]"

definition condition_tests :: "patch_ref \<Rightarrow> raw list" where
  "condition_tests ref = map (\<lambda>(field, v). test_op field v) (conditions ref)"

definition patch_metadata :: "obj \<Rightarrow> obj option" where
  "patch_metadata patch =
     (case lookup patch ''metadata'' of None \<Rightarrow> Some [] | Some (JObj m) \<Rightarrow> Some (dedup m) | Some _ \<Rightarrow> None)"

definition has_directive :: "obj \<Rightarrow> bool" where
  "has_directive members \<longleftrightarrow> list_ex (\<lambda>(k, _). take 1 k = ''$'') members"

text \<open>A member that is there must be the string it stands for, so \<open>null\<close> and an empty text differ.\<close>

definition add_identity :: "obj \<Rightarrow> string \<times> string \<Rightarrow> go_err + obj" where
  "add_identity patch = (\<lambda>(field, v).
     case lookup patch field of
       Some raw \<Rightarrow> if raw = JStr v then Inr patch else Inl (apiErrorf (''refusing patch: '' @ field @ '' differs from the coordinate''))
     | None \<Rightarrow> Inr (put field (JStr v) patch))"

definition add_condition :: "bool \<Rightarrow> obj \<Rightarrow> string \<times> string \<Rightarrow> go_err + obj" where
  "add_condition is_apply metadata = (\<lambda>(field, v).
     if lookup metadata field \<notin> {None, Some (JStr v)} then
       Inl (apiErrorf (''refusing patch: metadata.'' @ field @ '' differs from the approved target''))
     else if is_apply \<and> field = ''uid'' then Inr metadata
     else Inr (put field (JStr v) metadata))"

definition approvedPatch :: "patch_ref \<Rightarrow> go_err + raw" where
  "approvedPatch ref =
     (if pr_ApprovedResourceVersion ref = [] \<or> pr_ApprovedUID ref = [] then
        Inl (apiErrorf ''refusing patch: approved target version and identity are required'')
      else if pr_PatchType ref = ''json'' then
        (case pr_Patch ref of
           JArr ops \<Rightarrow> Inr (JArr (condition_tests ref @ ops @ condition_tests ref))
         | _ \<Rightarrow> Inl (apiErrorf ''refusing patch: JSON Patch must be an array''))
      else
        (case pr_Patch ref of
           JObj kvs \<Rightarrow>
             (let patch = dedup kvs in
              case patch_metadata patch of
                None \<Rightarrow> Inl (apiErrorf ''refusing patch: metadata must be an object'')
              | Some metadata \<Rightarrow>
                  if pr_PatchType ref = ''strategic'' \<and> (has_directive patch \<or> has_directive metadata) then
                    Inl (apiErrorf ''refusing patch: strategic directives at the root or metadata can remove approved-target preconditions'')
                  else
                    bind_sum
                      (if pr_PatchType ref = ''apply'' then
                         fold_sum add_identity patch [(''apiVersion'', pr_APIVersion ref), (''kind'', pr_Kind ref)]
                       else Inr patch) (\<lambda>patch'.
                    bind_sum (fold_sum (add_condition (pr_PatchType ref = ''apply'')) metadata (conditions ref)) (\<lambda>metadata'.
                    Inr (JObj (put ''metadata'' (JObj metadata') patch')))))
         | _ \<Rightarrow> Inl (apiErrorf ''refusing patch: patch must be an object'')))"

section \<open>What an approved patch carries\<close>

lemma lookup_eq_dedup_empty: "patch_metadata (dedup kvs) = patch_metadata kvs"
  by (simp add: patch_metadata_def)

lemma add_condition_Inr:
  "add_condition is_apply m (field, v) = Inr m' \<longleftrightarrow>
     lookup m field \<in> {None, Some (JStr v)} \<and> m' = (if is_apply \<and> field = ''uid'' then m else put field (JStr v) m)"
  by (auto simp: add_condition_def)

lemma add_identity_Inr:
  "add_identity p (field, v) = Inr p' \<longleftrightarrow>
     lookup p field \<in> {None, Some (JStr v)} \<and> p' = (if lookup p field = None then put field (JStr v) p else p)"
  by (auto simp: add_identity_def split: option.splits)

lemma conditions_Inr:
  "fold_sum (add_condition is_apply) m (conditions ref) = Inr m' \<longleftrightarrow>
     lookup m ''resourceVersion'' \<in> {None, Some (JStr (pr_ApprovedResourceVersion ref))} \<and>
     lookup m ''uid'' \<in> {None, Some (JStr (pr_ApprovedUID ref))} \<and>
     m' = (let m1 = put ''resourceVersion'' (JStr (pr_ApprovedResourceVersion ref)) m in
           if is_apply then m1 else put ''uid'' (JStr (pr_ApprovedUID ref)) m1)"
  by (auto simp: conditions_def bind_sum_Inr_iff add_condition_Inr Let_def)

lemma identity_Inr:
  assumes "fold_sum add_identity p [(''apiVersion'', av), (''kind'', k)] = Inr p'"
  shows "lookup p' ''apiVersion'' = Some (JStr av)" and "lookup p' ''kind'' = Some (JStr k)"
    and "f \<noteq> ''apiVersion'' \<Longrightarrow> f \<noteq> ''kind'' \<Longrightarrow> lookup p' f = lookup p f"
    and "lookup p ''apiVersion'' \<in> {None, Some (JStr av)}" and "lookup p ''kind'' \<in> {None, Some (JStr k)}"
  using assms by (auto simp: bind_sum_Inr_iff add_identity_Inr split: if_splits)

text \<open>The members of the metadata a patch has.\<close>

definition metadata_of :: "obj \<Rightarrow> obj" where
  "metadata_of p = object_or_empty p ''metadata''"

lemma approvedPatch_object:
  assumes "approvedPatch ref = Inr p" and "pr_PatchType ref \<noteq> ''json''"
  shows "\<exists>kvs p'. pr_Patch ref = JObj kvs \<and> p = JObj p' \<and>
     lookup (metadata_of p') ''resourceVersion'' = Some (JStr (pr_ApprovedResourceVersion ref)) \<and>
     (pr_PatchType ref \<noteq> ''apply'' \<longrightarrow> lookup (metadata_of p') ''uid'' = Some (JStr (pr_ApprovedUID ref))) \<and>
     lookup (metadata_of p') ''uid'' \<in> {None, Some (JStr (pr_ApprovedUID ref))} \<and>
     (\<forall>k. k \<noteq> ''resourceVersion'' \<longrightarrow> k \<noteq> ''uid'' \<longrightarrow> lookup (metadata_of p') k = lookup (metadata_of kvs) k) \<and>
     (\<forall>k. k \<noteq> ''metadata'' \<longrightarrow> (pr_PatchType ref = ''apply'' \<longrightarrow> k \<noteq> ''apiVersion'' \<and> k \<noteq> ''kind'') \<longrightarrow>
        lookup p' k = lookup kvs k) \<and>
     (pr_PatchType ref = ''apply'' \<longrightarrow>
        lookup p' ''apiVersion'' = Some (JStr (pr_APIVersion ref)) \<and> lookup p' ''kind'' = Some (JStr (pr_Kind ref))) \<and>
     (pr_PatchType ref = ''strategic'' \<longrightarrow> \<not> has_directive (dedup kvs) \<and> \<not> has_directive (dedup (metadata_of kvs)))"
proof -
  from assms obtain kvs where kvs: "pr_Patch ref = JObj kvs"
    by (auto simp: approvedPatch_def split: if_splits json.splits)
  with assms obtain m patch' m' where m: "patch_metadata (dedup kvs) = Some m"
    and dirs: "pr_PatchType ref = ''strategic'' \<longrightarrow> \<not> has_directive (dedup kvs) \<and> \<not> has_directive m"
    and idents: "(if pr_PatchType ref = ''apply''
        then fold_sum add_identity (dedup kvs) [(''apiVersion'', pr_APIVersion ref), (''kind'', pr_Kind ref)]
        else Inr (dedup kvs)) = Inr patch'"
    and conds: "fold_sum (add_condition (pr_PatchType ref = ''apply'')) m (conditions ref) = Inr m'"
    and p: "p = JObj (put ''metadata'' (JObj m') patch')"
    by (auto simp: approvedPatch_def Let_def bind_sum_Inr_iff split: if_splits option.splits)
  have md: "m = dedup (metadata_of kvs)"
    using m by (auto simp: patch_metadata_def metadata_of_def object_or_empty_def split: option.splits json.splits)
  have m': "metadata_of (put ''metadata'' (JObj m') patch') = m'"
    by (simp add: metadata_of_def object_or_empty_def)
  have fields: "lookup patch' k = lookup kvs k"
    if "pr_PatchType ref = ''apply'' \<longrightarrow> k \<noteq> ''apiVersion'' \<and> k \<noteq> ''kind''" for k
    using that idents identity_Inr(3) [of "dedup kvs"] by (auto split: if_splits)
  have ident: "pr_PatchType ref = ''apply'' \<longrightarrow>
      lookup patch' ''apiVersion'' = Some (JStr (pr_APIVersion ref)) \<and> lookup patch' ''kind'' = Some (JStr (pr_Kind ref))"
    using idents identity_Inr(1,2) [of "dedup kvs"] by auto
  note c = conds [unfolded conditions_Inr md]
  have members: "lookup m' k =
      (if k = ''resourceVersion'' then Some (JStr (pr_ApprovedResourceVersion ref))
       else if k = ''uid'' \<and> pr_PatchType ref \<noteq> ''apply'' then Some (JStr (pr_ApprovedUID ref))
       else lookup (metadata_of kvs) k)" for k
    using c by (simp add: Let_def)
  have uid: "lookup (metadata_of kvs) ''uid'' \<in> {None, Some (JStr (pr_ApprovedUID ref))}"
    using c by (simp only: lookup_dedup)
  let ?p = "put ''metadata'' (JObj m') patch'"
  have "lookup (metadata_of ?p) ''resourceVersion'' = Some (JStr (pr_ApprovedResourceVersion ref))"
    "pr_PatchType ref \<noteq> ''apply'' \<longrightarrow> lookup (metadata_of ?p) ''uid'' = Some (JStr (pr_ApprovedUID ref))"
    "lookup (metadata_of ?p) ''uid'' \<in> {None, Some (JStr (pr_ApprovedUID ref))}"
    "\<forall>k. k \<noteq> ''resourceVersion'' \<longrightarrow> k \<noteq> ''uid'' \<longrightarrow> lookup (metadata_of ?p) k = lookup (metadata_of kvs) k"
    using uid by (simp_all add: m' members)
  moreover have "\<forall>k. k \<noteq> ''metadata'' \<longrightarrow> (pr_PatchType ref = ''apply'' \<longrightarrow> k \<noteq> ''apiVersion'' \<and> k \<noteq> ''kind'') \<longrightarrow>
        lookup ?p k = lookup kvs k"
    by (intro allI impI) (simp add: fields)
  moreover have "pr_PatchType ref = ''apply'' \<longrightarrow>
        lookup ?p ''apiVersion'' = Some (JStr (pr_APIVersion ref)) \<and> lookup ?p ''kind'' = Some (JStr (pr_Kind ref))"
    using ident by simp
  moreover have "pr_PatchType ref = ''strategic'' \<longrightarrow> \<not> has_directive (dedup kvs) \<and> \<not> has_directive (dedup (metadata_of kvs))"
    using dirs unfolding md by blast
  ultimately show ?thesis unfolding p kvs by blast
qed

section \<open>What a server makes of a guarded JSON Patch\<close>

text \<open>
  RFC 6902: the operations are applied in their order, and one that fails ends the patch. What one
  operation does to a document is a parameter.
\<close>

fun apply_ops :: "(raw \<Rightarrow> json \<Rightarrow> json option) \<Rightarrow> raw list \<Rightarrow> json \<Rightarrow> json option" where
  "apply_ops step [] d = Some d"
| "apply_ops step (r # rs) d = (case step r d of None \<Rightarrow> None | Some d' \<Rightarrow> apply_ops step rs d')"

lemma apply_ops_append:
  "apply_ops step (xs @ ys) d = (case apply_ops step xs d of None \<Rightarrow> None | Some d' \<Rightarrow> apply_ops step ys d')"
  by (induction xs arbitrary: d) (auto split: option.split)

definition metadata_field :: "json \<Rightarrow> string \<Rightarrow> json option" where
  "metadata_field d k = (case d of JObj kvs \<Rightarrow> lookup (metadata_of kvs) k | _ \<Rightarrow> None)"

definition test_rule :: "(raw \<Rightarrow> json \<Rightarrow> json option) \<Rightarrow> bool" where
  "test_rule step \<longleftrightarrow>
     (\<forall>field v d d'. step (test_op field v) d = Some d' \<longrightarrow> d' = d \<and> metadata_field d field = Some (JStr v))"

definition holds_target :: "patch_ref \<Rightarrow> json \<Rightarrow> bool" where
  "holds_target ref d \<longleftrightarrow>
     metadata_field d ''resourceVersion'' = Some (JStr (pr_ApprovedResourceVersion ref)) \<and>
     metadata_field d ''uid'' = Some (JStr (pr_ApprovedUID ref))"

lemma apply_condition_tests:
  assumes "test_rule step" and "apply_ops step (condition_tests ref) d = Some d'"
  shows "d' = d \<and> holds_target ref d"
proof -
  from assms(2) obtain d1 where "step (test_op ''resourceVersion'' (pr_ApprovedResourceVersion ref)) d = Some d1"
    and "step (test_op ''uid'' (pr_ApprovedUID ref)) d1 = Some d'"
    by (auto simp: condition_tests_def conditions_def split: option.splits)
  with assms(1) show ?thesis unfolding test_rule_def holds_target_def by blast
qed

lemma guarded_ops:
  assumes "test_rule step" and "apply_ops step (condition_tests ref @ ops @ condition_tests ref) d = Some d'"
  shows "holds_target ref d \<and> apply_ops step ops d = Some d' \<and> holds_target ref d'"
proof -
  from assms(2) obtain d1 d2 where "apply_ops step (condition_tests ref) d = Some d1"
    and "apply_ops step ops d1 = Some d2" and "apply_ops step (condition_tests ref) d2 = Some d'"
    by (auto simp: apply_ops_append split: option.splits)
  with apply_condition_tests [OF assms(1)] show ?thesis by blast
qed

end
