(* ===== verification/KubeWrites.thy ===== *)
theory KubeWrites
  imports KubeKinds KubePatch
begin

text \<open>
  The calls of the cluster client that change an object (internal/k8s create.go, delete_collection.go
  and the update, patch and delete of resource.go). A parameter that the tool layer sets and the
  client dereferences unchecked is an option, and reading it when it is missing ends the call in a
  panic.
\<close>

datatype 'a ending = Ended 'a | Panics

definition fieldManager :: string where "fieldManager = ''homelab-k3s-mcp''"

definition object_request ::
  "string \<Rightarrow> gvr \<Rightarrow> string \<Rightarrow> string \<Rightarrow> string \<Rightarrow> string \<Rightarrow> (string \<times> string) list \<Rightarrow> raw option \<Rightarrow> kube_request"
where
  "object_request verb g namespace name sub contentType params body =
     \<lparr>kr_Verb = verb, kr_Resource = g, kr_Namespace = namespace, kr_Name = name, kr_Subresource = sub,
      kr_Accept = [], kr_ContentType = contentType, kr_Params = params, kr_Body = body\<rparr>"

text \<open>The coordinate of one object: its resource and the namespace to address it in.\<close>

definition object_coordinate :: "kube_env \<Rightarrow> string \<Rightarrow> string \<Rightarrow> string option \<Rightarrow> (resolved \<times> string) kube" where
  "object_coordinate env apiVersion kind namespace =
     act_bind (resolve_kind env apiVersion kind) (\<lambda>res.
     act_bind (act_lift (objectNamespace res kind namespace)) (\<lambda>ns.
     act_return (res, ns)))"

definition without_text :: "string \<Rightarrow> string \<Rightarrow> obj option \<Rightarrow> resource_result" where
  "without_text resource namespace object =
     \<lparr>rs_Resource = resource, rs_Namespace = namespace, rs_Object = object, rs_Text = []\<rparr>"

section \<open>Create\<close>

definition create_matches :: "create_ref \<Rightarrow> bool" where
  "create_matches ref \<longleftrightarrow>
     (case lookup (cr_Manifest ref) ''metadata'' of
        Some (JObj m) \<Rightarrow>
          cr_Name ref \<noteq> [] \<and> lookup m ''name'' = Some (JStr (cr_Name ref)) \<and>
          lookup (cr_Manifest ref) ''apiVersion'' = Some (JStr (cr_APIVersion ref)) \<and>
          lookup (cr_Manifest ref) ''kind'' = Some (JStr (cr_Kind ref))
      | _ \<Rightarrow> False)"

definition create_namespace_matches :: "create_ref \<Rightarrow> bool" where
  "create_namespace_matches ref \<longleftrightarrow>
     lookup (object_or_empty (cr_Manifest ref) ''metadata'') ''namespace'' = map_option JStr (cr_Namespace ref)"

definition createError :: "api_failure \<Rightarrow> string \<Rightarrow> go_err" where
  "createError e resource =
     (case failure_code e of
        None \<Rightarrow> apiErrorf ''create failed without a confirmed API result; outcome may be unknown''
      | Some n \<Rightarrow>
          if n = 403 then apiErrorf (''403 Forbidden: this server has no (create, '' @ resource @ '') grant'')
          else if n = 409 then apiErrorf ''409 Conflict: create was refused; no overwrite or retry was attempted''
          else if 500 \<le> n then apiErrorf (''create failed: HTTP '' @ itoa n @ ''; outcome may be unknown'')
          else apiErrorf (''create failed: HTTP '' @ itoa n @ ''; no retry was attempted''))"

definition kube_CreateResource :: "kube_env \<Rightarrow> create_ref \<Rightarrow> resource_result kube" where
  "kube_CreateResource env ref =
     act_bind (kcheck (create_matches ref) ''create manifest must match its named coordinate'') (\<lambda>_.
     act_bind (kcheck (create_namespace_matches ref) ''create manifest namespace must match its coordinate'') (\<lambda>_.
     act_bind (object_coordinate env (cr_APIVersion ref) (cr_Kind ref) (cr_Namespace ref)) (\<lambda>(res, namespace).
     act_bind (send env (object_request ''create'' (rv_gvr res) namespace [] [] []
       [(''fieldManager'', fieldManager)] (Some (JObj (cr_Manifest ref))))) (\<lambda>answer.
     case answer of
       Inl (e, _) \<Rightarrow> act_fail (createError e (g_Resource (rv_gvr res)))
     | Inr _ \<Rightarrow> act_return (without_text (g_Resource (rv_gvr res)) namespace None)))))"

section \<open>Update\<close>

definition scaleObject :: "string \<Rightarrow> string \<Rightarrow> int \<Rightarrow> obj" where
  "scaleObject namespace name replicas =
     [(''apiVersion'', JStr ''autoscaling/v1''), (''kind'', JStr ''Scale''),
      (''metadata'', JObj ((''name'', JStr name) # (if namespace = [] then [] else [(''namespace'', JStr namespace)]))),
      (''spec'', JObj [(''replicas'', JNum (itoa replicas))])]"

definition requireSubresource :: "kube_env \<Rightarrow> gvr \<Rightarrow> string \<Rightarrow> string \<Rightarrow> unit kube" where
  "requireSubresource env g sub kind st =
     (case ke_served env (group_version g) st of
        Inl e \<Rightarrow> (Inl (apiErrorf (''discovery failed: '' @ e)), st)
      | Inr names \<Rightarrow>
          (if subresourcePath (g_Resource g) sub \<in> set names then Inr ()
           else Inl (apiErrorf (kind @ '' has no replicas: this cluster serves no '' @ subresourcePath (g_Resource g) sub)), st))"

lemma sends_requireSubresource [sends_intros]: "sends I P (requireSubresource env g sub kind)"
  by (auto simp: sends_def requireSubresource_def split: sum.split)

text \<open>The body of an update: a copy of the manifest, or a scale, under the approved version.\<close>

definition update_body :: "update_ref \<Rightarrow> string \<Rightarrow> obj ending" where
  "update_body ref namespace =
     (if ur_Subresource ref = ScaleSubresource then
        (case ur_Replicas ref of None \<Rightarrow> Panics | Some n \<Rightarrow> Ended (scaleObject namespace (ur_Name ref) n))
      else Ended (or_else (ur_Manifest ref) []))"

definition under_version :: "string \<Rightarrow> obj \<Rightarrow> go_err + obj" where
  "under_version version body =
     (case lookup body ''metadata'' of
        Some (JObj metadata) \<Rightarrow>
          if lookup metadata ''resourceVersion'' \<notin> {None, Some (JStr version)} then
            Inl (apiErrorf ''resource_update automatically refused: manifest resourceVersion does not match the approved target'')
          else Inr (put ''metadata'' (JObj (put ''resourceVersion'' (JStr version) metadata)) body)
      | _ \<Rightarrow> Inl (apiErrorf ''update manifest metadata must be an object''))"

definition updateError :: "api_failure \<Rightarrow> string \<Rightarrow> go_err" where
  "updateError e resource =
     (case e of
        Conflict _ \<Rightarrow> apiErrorf (''resource_update automatically refused: update on '' @ resource @ '' conflicted with the approved resourceVersion'')
      | _ \<Rightarrow> apiCallError e ''update'' resource)"

text \<open>The dynamic client reads the answer into an untyped object; where it cannot, its error is the call's.\<close>

definition object_answer ::
  "kube_env \<Rightarrow> (api_failure \<Rightarrow> go_err) \<Rightarrow> string \<Rightarrow> string \<Rightarrow> (api_failure \<times> kube_body) + kube_body \<Rightarrow> go_err + resource_result"
where
  "object_answer env convert resource namespace answer =
     (case answer of
        Inl (e, _) \<Rightarrow> Inl (convert e)
      | Inr body \<Rightarrow>
          (case ke_unstructured env body of
             Inl e \<Rightarrow> Inl (convert (OtherFailure e))
           | Inr object \<Rightarrow> Inr (without_text resource namespace (Some (stripNoise object)))))"

text \<open>The dynamic client addresses the object by the name in the body, and refuses one without.\<close>

definition body_name :: "obj \<Rightarrow> string" where
  "body_name body = string_or_empty (object_or_empty body ''metadata'') ''name''"

definition kube_UpdateResource :: "kube_env \<Rightarrow> update_ref \<Rightarrow> resource_result ending kube" where
  "kube_UpdateResource env ref =
     act_bind (kcheck (ur_ApprovedResourceVersion ref \<noteq> []) ''resource_update requires the approved target resourceVersion'') (\<lambda>_.
     act_bind (object_coordinate env (ur_APIVersion ref) (ur_Kind ref) (ur_Namespace ref)) (\<lambda>(res, namespace).
     act_bind (if ur_Subresource ref = ScaleSubresource then requireSubresource env (rv_gvr res) ScaleSubresource (ur_Kind ref)
            else act_return ()) (\<lambda>_.
     case update_body ref namespace of
       Panics \<Rightarrow> act_return Panics
     | Ended manifest \<Rightarrow>
         act_bind (act_lift (under_version (ur_ApprovedResourceVersion ref) manifest)) (\<lambda>body.
         act_bind (act_lift (ensure (body_name body \<noteq> []) (updateError (OtherFailure ''name is required'')
           (subresourcePath (g_Resource (rv_gvr res)) (ur_Subresource ref))))) (\<lambda>_.
         act_bind (send env (object_request ''update'' (rv_gvr res) namespace (body_name body) (ur_Subresource ref) []
           [(''fieldManager'', fieldManager)] (Some (JObj body)))) (\<lambda>answer.
         act_bind (act_lift (object_answer env (\<lambda>e. updateError e (subresourcePath (g_Resource (rv_gvr res)) (ur_Subresource ref)))
           (subresourcePath (g_Resource (rv_gvr res)) (ur_Subresource ref)) namespace answer)) (\<lambda>result.
         act_return (Ended result))))))))"

section \<open>Patch\<close>

definition patch_content_type :: "string \<Rightarrow> string" where
  "patch_content_type patchType =
     (if patchType = ''merge'' then ''application/merge-patch+json''
      else if patchType = ''strategic'' then ''application/strategic-merge-patch+json''
      else if patchType = ''json'' then ''application/json-patch+json''
      else if patchType = ''apply'' then ''application/apply-patch+yaml'' else [])"

definition patchError :: "api_failure \<Rightarrow> string \<Rightarrow> go_err" where
  "patchError e resource =
     (let refused = (\<lambda>text. apiErrorf (''patch refused: invalid patch or failed approved-target precondition''
        @ (if text = [] then [] else '' (<apiserver: '' @ text @ ''>)''))) in
      case e of
        Forbidden _ \<Rightarrow> apiCallError e ''patch'' resource
      | Conflict _ \<Rightarrow> apiErrorf ''patch refused: approved target version or field ownership conflicts''
      | Invalid text \<Rightarrow> refused text
      | BadRequest text \<Rightarrow> refused text
      | _ \<Rightarrow> apiErrorf ''patch failed; outcome may be uncertain'')"

definition patch_answer ::
  "kube_env \<Rightarrow> string \<Rightarrow> string \<Rightarrow> (api_failure \<times> kube_body) + kube_body \<Rightarrow> go_err + resource_result"
where
  "patch_answer env resource namespace answer =
     (case answer of
        Inl (e, _) \<Rightarrow> Inl (patchError e resource)
      | Inr body \<Rightarrow>
          (case ke_unstructured env body of
             Inl _ \<Rightarrow> Inl (apiErrorf ''patch response could not be decoded; outcome may be uncertain'')
           | Inr object \<Rightarrow> Inr (without_text resource namespace (Some (stripNoise object)))))"

definition kube_PatchResource :: "kube_env \<Rightarrow> patch_ref \<Rightarrow> resource_result kube" where
  "kube_PatchResource env ref =
     act_bind (kcheck (IsPatchType (pr_PatchType ref)) (''patchType '' @ pr_PatchType ref @ '' is not one of '' @ join '', '' PatchTypeNames)) (\<lambda>_.
     act_bind (act_lift (approvedPatch ref)) (\<lambda>body.
     act_bind (object_coordinate env (pr_APIVersion ref) (pr_Kind ref) (pr_Namespace ref)) (\<lambda>(res, namespace).
     act_bind (send env (object_request ''patch'' (rv_gvr res) namespace (pr_Name ref) [] (patch_content_type (pr_PatchType ref))
       [(''fieldManager'', if pr_FieldManager ref = [] then fieldManager else pr_FieldManager ref)] (Some body))) (\<lambda>answer.
     act_lift (patch_answer env (g_Resource (rv_gvr res)) namespace answer)))))"

section \<open>Delete\<close>

text \<open>The options the code sets; it sends no preconditions.\<close>

definition delete_options :: "int option \<Rightarrow> raw" where
  "delete_options grace = JObj (case grace of None \<Rightarrow> [] | Some n \<Rightarrow> [(''gracePeriodSeconds'', JNum (itoa n))])"

definition kube_DeleteResource :: "kube_env \<Rightarrow> delete_ref \<Rightarrow> resource_result kube" where
  "kube_DeleteResource env ref =
     act_bind (object_coordinate env (dr_APIVersion ref) (dr_Kind ref) (dr_Namespace ref)) (\<lambda>(res, namespace).
     act_bind (send env (object_request ''delete'' (rv_gvr res) namespace (dr_Name ref) [] [] []
       (Some (delete_options (dr_GracePeriodSeconds ref))))) (\<lambda>answer.
     case answer of
       Inl (e, _) \<Rightarrow> act_fail (apiCallError e ''delete'' (g_Resource (rv_gvr res)))
     | Inr _ \<Rightarrow> act_return (without_text (g_Resource (rv_gvr res)) namespace None)))"

definition selectors :: "string \<Rightarrow> string \<Rightarrow> (string \<times> string) list" where
  "selectors ls fs =
     (if ls = [] then [] else [(''labelSelector'', ls)]) @ (if fs = [] then [] else [(''fieldSelector'', fs)])"

definition kube_DeleteCollection :: "kube_env \<Rightarrow> delete_collection_ref \<Rightarrow> delete_collection_result kube" where
  "kube_DeleteCollection env ref =
     act_bind (kcheck (dc_Namespace ref \<noteq> []) ''namespace is required; a collection delete is confined to one namespace'') (\<lambda>_.
     act_bind (resolve_kind env (dc_APIVersion ref) (dc_Kind ref)) (\<lambda>res.
     act_bind (kcheck (rv_namespaced res) (dc_Kind ref @ '' is cluster-scoped; a collection delete is confined to one namespace'')) (\<lambda>_.
     act_bind (send env (object_request ''deletecollection'' (rv_gvr res) (dc_Namespace ref) [] [] []
       (selectors (dc_LabelSelector ref) (dc_FieldSelector ref)) (Some (delete_options (dc_GracePeriodSeconds ref))))) (\<lambda>answer.
     case answer of
       Inl (e, _) \<Rightarrow> act_fail (apiCallError e ''deletecollection'' (g_Resource (rv_gvr res)))
     | Inr _ \<Rightarrow> act_return \<lparr>dcr_Resource = g_Resource (rv_gvr res), dcr_Namespace = dc_Namespace ref,
         dcr_LabelSelector = dc_LabelSelector ref, dcr_FieldSelector = dc_FieldSelector ref\<rparr>))))"

end
