(* ===== verification/KubeReads.thy ===== *)
theory KubeReads
  imports KubeTargets KubeWrites
begin

text \<open>
  The reads of the cluster client (internal/k8s resource.go): a list as the apiserver's table, a
  watch of one window, one object, and the log of a pod. Of the types of apimachinery the model
  reads the members the code uses.
\<close>

section \<open>List\<close>

definition tableAccept :: string where
  "tableAccept = ''application/json;as=Table;v=v1;g=meta.k8s.io, application/json''"

record table =
  tb'_Kind :: string
  tb'_APIVersion :: string
  tb'_Continue :: string
  tb'_Remaining :: "int option"
  tb'_Columns :: "list_column list option"
  tb'_Rows :: "json list option list option"

definition column_fields :: "(string \<times> list_column reader) list" where
  "column_fields =
     [(''name'', \<lambda>v s. bind_sum (read_string v (lc_Name s)) (\<lambda>x. Inr (s\<lparr>lc_Name := x\<rparr>))),
      (''type'', \<lambda>v s. bind_sum (read_string v (lc_Type s)) (\<lambda>x. Inr (s\<lparr>lc_Type := x\<rparr>)))]"

definition read_any :: "json reader" where
  "read_any v old = Inr (decode_any v)"

definition row_fields :: "(string \<times> json list option reader) list" where
  "row_fields = [(''cells'', read_slice read_any JNull)]"

definition table_fields :: "(string \<times> table reader) list" where
  "table_fields =
     [(''kind'', \<lambda>v s. bind_sum (read_string v (tb'_Kind s)) (\<lambda>x. Inr (s\<lparr>tb'_Kind := x\<rparr>))),
      (''apiVersion'', \<lambda>v s. bind_sum (read_string v (tb'_APIVersion s)) (\<lambda>x. Inr (s\<lparr>tb'_APIVersion := x\<rparr>))),
      (''metadata'', read_struct False
         [(''continue'', \<lambda>v s. bind_sum (read_string v (tb'_Continue s)) (\<lambda>x. Inr (s\<lparr>tb'_Continue := x\<rparr>))),
          (''remainingItemCount'', \<lambda>v s. bind_sum (read_pointer read_int 0 v (tb'_Remaining s)) (\<lambda>x. Inr (s\<lparr>tb'_Remaining := x\<rparr>)))]),
      (''columnDefinitions'', \<lambda>v s. bind_sum (read_slice (read_struct False column_fields) \<lparr>lc_Name = [], lc_Type = []\<rparr> v (tb'_Columns s))
         (\<lambda>x. Inr (s\<lparr>tb'_Columns := x\<rparr>))),
      (''rows'', \<lambda>v s. bind_sum (read_slice (read_struct False row_fields) None v (tb'_Rows s)) (\<lambda>x. Inr (s\<lparr>tb'_Rows := x\<rparr>)))]"

definition no_table :: table where
  "no_table = \<lparr>tb'_Kind = [], tb'_APIVersion = [], tb'_Continue = [], tb'_Remaining = None, tb'_Columns = None, tb'_Rows = None\<rparr>"

definition read_table :: "raw option \<Rightarrow> go_err + table" where
  "read_table body =
     (case bind_sum (case body of None \<Rightarrow> Inl [] | Some v \<Rightarrow> Inr v) (\<lambda>v. read_struct False table_fields v no_table) of
        Inl _ \<Rightarrow> Inl (apiErrorf ''apiserver returned a list this server cannot render as a table'')
      | Inr t \<Rightarrow>
          if tb'_Kind t \<noteq> ''Table'' then
            Inl (apiErrorf (''apiserver answered '' @ tb'_APIVersion t @ '' '' @ tb'_Kind t @ '' instead of a Table''))
          else Inr t)"

definition list_result_of :: "resolved \<Rightarrow> table \<Rightarrow> list_result" where
  "list_result_of res t =
     \<lparr>lr_Resource = g_Resource (rv_gvr res), lr_Namespaced = rv_namespaced res,
      lr_Columns = or_else (tb'_Columns t) [], lr_Rows = map (\<lambda>cells. or_else cells []) (or_else (tb'_Rows t) []),
      lr_Continue = tb'_Continue t, lr_Truncated = (tb'_Continue t \<noteq> []), lr_Remaining = tb'_Remaining t\<rparr>"

text \<open>A list or a watch of a namespaced kind may span all namespaces; one of a cluster-scoped kind has none.\<close>

definition scope_check :: "resolved \<Rightarrow> string \<Rightarrow> string option \<Rightarrow> go_err + string" where
  "scope_check res kind namespace =
     (if \<not> rv_namespaced res \<and> namespace \<noteq> None then Inl (apiErrorf (kind @ '' is cluster-scoped''))
      else Inr (or_else namespace []))"

definition list_limit :: "int \<Rightarrow> int" where
  "list_limit n = (if n \<le> 0 then ListDefaultLimit else n)"

definition list_request :: "resolved \<Rightarrow> string \<Rightarrow> list_query \<Rightarrow> kube_request" where
  "list_request res namespace q =
     (object_request ''list'' (rv_gvr res) namespace [] [] []
       ((''limit'', itoa (list_limit (lq_Limit q)))
        # (if lq_Continue q = [] then [] else [(''continue'', lq_Continue q)])
        @ selectors (or_else (lq_LabelSelector q) []) (or_else (lq_FieldSelector q) [])) None)
     \<lparr>kr_Accept := tableAccept\<rparr>"

definition kube_ListResources :: "kube_env \<Rightarrow> list_query \<Rightarrow> list_result kube" where
  "kube_ListResources env q =
     act_bind (resolve_kind env (lq_APIVersion q) (lq_Kind q)) (\<lambda>res.
     act_bind (act_lift (scope_check res (lq_Kind q) (lq_Namespace q))) (\<lambda>namespace.
     act_bind (send env (list_request res namespace q)) (\<lambda>answer.
     case answer of
       Inl (e, _) \<Rightarrow> act_fail (apiCallError e ''list'' (g_Resource (rv_gvr res)))
     | Inr body \<Rightarrow> act_bind (act_lift (read_table (kb_json body))) (\<lambda>t. act_return (list_result_of res t)))))"

section \<open>Watch\<close>

text \<open>
  What the stream of a watch brings, in its order: an event with an object, an event whose object is
  no untyped object, or the error event. The list ends where the stream closes, the window is over
  or the call is cancelled, whichever the loop sees first.
\<close>

datatype watch_step = Pushed string obj | PushedOther string | PushedError api_failure

fun collect_events :: "string \<Rightarrow> watch_event list \<Rightarrow> watch_step list \<Rightarrow> go_err + watch_event list \<times> bool" where
  "collect_events resource events [] = Inr (events, False)"
| "collect_events resource events (PushedError e # steps) = Inl (apiCallError e ''watch'' resource)"
| "collect_events resource events (PushedOther type # steps) =
     Inl (apiErrorf (''apiserver pushed a '' @ type @ '' this server cannot render as an object''))"
| "collect_events resource events (Pushed type content # steps) =
     (let events' = events @ [\<lparr>we_Type = type, we_Object = stripNoise content\<rparr>] in
      if WatchMaxEvents \<le> length events' then Inr (events', True) else collect_events resource events' steps)"

definition watch_seconds :: "int \<Rightarrow> int" where
  "watch_seconds n = (if n \<le> 0 then WatchDefaultSeconds else n)"

definition watch_request :: "resolved \<Rightarrow> string \<Rightarrow> watch_query \<Rightarrow> kube_request" where
  "watch_request res namespace q =
     object_request ''watch'' (rv_gvr res) namespace [] [] []
       ([(''watch'', ''true''), (''timeoutSeconds'', itoa (watch_seconds (wq_Seconds q)))]
        @ (if wq_ResourceVersion q = [] then [] else [(''resourceVersion'', wq_ResourceVersion q)])
        @ selectors (or_else (wq_LabelSelector q) []) (or_else (wq_FieldSelector q) [])) None"

definition observe :: "(kube_state \<Rightarrow> 'a) \<Rightarrow> 'a kube" where
  "observe f st = (Inr (f st), st)"

lemma sends_observe [sends_intros]: "sends I P (observe f)"
  by (simp add: sends_def observe_def)

definition kube_WatchResources ::
  "kube_env \<Rightarrow> (kube_request \<Rightarrow> kube_state \<Rightarrow> watch_step list) \<Rightarrow> watch_query \<Rightarrow> watch_result kube"
where
  "kube_WatchResources env pushes q =
     act_bind (resolve_kind env (wq_APIVersion q) (wq_Kind q)) (\<lambda>res.
     act_bind (act_lift (scope_check res (wq_Kind q) (wq_Namespace q))) (\<lambda>namespace.
     act_bind (send env (watch_request res namespace q)) (\<lambda>answer.
     case answer of
       Inl (e, _) \<Rightarrow> act_fail (apiCallError e ''watch'' (g_Resource (rv_gvr res)))
     | Inr _ \<Rightarrow>
         act_bind (observe (pushes (watch_request res namespace q))) (\<lambda>steps.
         act_bind (act_lift (collect_events (g_Resource (rv_gvr res)) [] steps)) (\<lambda>(events, truncated).
         act_return \<lparr>wr_Resource = g_Resource (rv_gvr res), wr_Namespaced = rv_namespaced res, wr_Namespace = namespace,
                   wr_Events = events, wr_Truncated = truncated\<rparr>)))))"

section \<open>Get\<close>

definition log_params :: "log_options \<Rightarrow> (string \<times> string) list" where
  "log_params l =
     (case lo_Container l of None \<Rightarrow> [] | Some c \<Rightarrow> if c = [] then [] else [(''container'', c)])
     @ (if lo_Previous l then [(''previous'', ''true'')] else [])
     @ (if lo_Timestamps l then [(''timestamps'', ''true'')] else [])
     @ (case lo_TailLines l of None \<Rightarrow> [] | Some n \<Rightarrow> [(''tailLines'', itoa n)])
     @ (case lo_SinceSeconds l of None \<Rightarrow> [] | Some n \<Rightarrow> [(''sinceSeconds'', itoa n)])"

record status_body =
  sb_Kind :: string
  sb_Message :: string

definition status_fields :: "(string \<times> status_body reader) list" where
  "status_fields =
     [(''kind'', \<lambda>x s. bind_sum (read_string x (sb_Kind s)) (\<lambda>y. Inr (s\<lparr>sb_Kind := y\<rparr>))),
      (''message'', \<lambda>x s. bind_sum (read_string x (sb_Message s)) (\<lambda>y. Inr (s\<lparr>sb_Message := y\<rparr>)))]"

definition podLogsError :: "api_failure \<Rightarrow> raw option \<Rightarrow> go_err" where
  "podLogsError e body =
     (if (case e of Forbidden _ \<Rightarrow> False | _ \<Rightarrow> True) then
        (case bind_sum (case body of None \<Rightarrow> Inl [] | Some v \<Rightarrow> Inr v)
                (\<lambda>v. read_struct False status_fields v \<lparr>sb_Kind = [], sb_Message = []\<rparr>) of
           Inr s \<Rightarrow> if sb_Kind s = ''Status'' \<and> sb_Message s \<noteq> [] then apiErrorf (sb_Message s) else apiCallError e ''get'' ''pods/log''
         | Inl _ \<Rightarrow> apiCallError e ''get'' ''pods/log'')
      else apiCallError e ''get'' ''pods/log'')"

definition podLogs :: "kube_env \<Rightarrow> resolved \<Rightarrow> string \<Rightarrow> resource_ref \<Rightarrow> resource_result kube" where
  "podLogs env res namespace ref =
     act_bind (kcheck (g_Resource (rv_gvr res) = ''pods'' \<and> g_Group (rv_gvr res) = [])
       (''subresource log is served by pods only, not by '' @ rr_Kind ref)) (\<lambda>_.
     act_bind (send env (object_request ''get'' \<lparr>g_Group = [], g_Version = ''v1'', g_Resource = ''pods''\<rparr> namespace (rr_Name ref) ''log'' []
       (log_params (rr_Log ref)) None)) (\<lambda>answer.
     case answer of
       Inl (e, body) \<Rightarrow> act_fail (podLogsError e (kb_json body))
     | Inr body \<Rightarrow> act_return \<lparr>rs_Resource = ''pods/log'', rs_Namespace = namespace, rs_Object = None, rs_Text = kb_text body\<rparr>))"

definition kube_GetResource :: "kube_env \<Rightarrow> resource_ref \<Rightarrow> resource_result kube" where
  "kube_GetResource env ref =
     act_bind (object_coordinate env (rr_APIVersion ref) (rr_Kind ref) (rr_Namespace ref)) (\<lambda>(res, namespace).
     if rr_Subresource ref = ''log'' then podLogs env res namespace ref
     else
       act_bind (send env (object_request ''get'' (rv_gvr res) namespace (rr_Name ref) (rr_Subresource ref) [] [] None)) (\<lambda>answer.
       act_lift (object_answer env (\<lambda>e. apiCallError e ''get'' (subresourcePath (g_Resource (rv_gvr res)) (rr_Subresource ref)))
         (subresourcePath (g_Resource (rv_gvr res)) (rr_Subresource ref)) namespace answer)))"

section \<open>What a window holds\<close>

definition step_event :: "watch_step \<Rightarrow> watch_event option" where
  "step_event s = (case s of Pushed type content \<Rightarrow> Some \<lparr>we_Type = type, we_Object = stripNoise content\<rparr> | _ \<Rightarrow> None)"

lemma step_event_simps [simp]:
  "step_event (Pushed type content) = Some \<lparr>we_Type = type, we_Object = stripNoise content\<rparr>"
  "step_event (PushedOther type) = None" "step_event (PushedError e) = None"
  by (simp_all add: step_event_def)

text \<open>
  The specification of a window: all of the first \<open>WatchMaxEvents\<close> steps are events, and it is
  truncated exactly when there are that many.
\<close>

lemma collect_events_iff:
  assumes "length events < WatchMaxEvents"
  shows "collect_events resource events steps = Inr (events', truncated) \<longleftrightarrow>
     (let seen = take (WatchMaxEvents - length events) steps in
      list_all (\<lambda>s. step_event s \<noteq> None) seen \<and> events' = events @ List.map_filter step_event seen \<and>
      (truncated \<longleftrightarrow> WatchMaxEvents \<le> length events + length steps))"
  using assms
proof (induction resource events steps rule: collect_events.induct)
  case (4 resource events type content steps)
  let ?e = "\<lparr>we_Type = type, we_Object = stripNoise content\<rparr>"
  have Suc: "WatchMaxEvents - length events = Suc (WatchMaxEvents - length (events @ [?e]))" using 4(2) by simp
  show ?case
  proof (cases "WatchMaxEvents \<le> length (events @ [?e])")
    case True
    with 4(2) have "WatchMaxEvents - length events = 1" by simp
    with True 4(2) show ?thesis by (auto simp: Let_def map_filter_simps)
  next
    case False
    with 4(1) [of "events @ [?e]"] have
      "collect_events resource (events @ [?e]) steps = Inr (events', truncated) \<longleftrightarrow>
     (let seen = take (WatchMaxEvents - length (events @ [?e])) steps in
      list_all (\<lambda>s. step_event s \<noteq> None) seen \<and> events' = (events @ [?e]) @ List.map_filter step_event seen \<and>
      (truncated \<longleftrightarrow> WatchMaxEvents \<le> length (events @ [?e]) + length steps))" by simp
    moreover have "collect_events resource events (Pushed type content # steps) = collect_events resource (events @ [?e]) steps"
      using False by (simp add: Let_def)
    ultimately show ?thesis
      unfolding Suc by (simp add: Let_def map_filter_simps)
  qed
qed (auto simp: Let_def map_filter_simps take_Cons' WatchMaxEvents_def)

end
