(* ===== verification/KubeService.thy ===== *)
theory KubeService
  imports KubeStreams KubeReads Confine
begin

text \<open>
  The live cluster client as an instance of the service interface, and what its methods send: how many
  requests, and for which pair of verb and resource. The bound on the pairs is carried through the
  confinement of a call, so it is a bound on what one tool call asks the apiserver for.
\<close>

text \<open>
  What the client rests on outside the repository, beside \<open>kube_env\<close> and \<open>stream_env\<close>: what a watch
  pushes, how the list of pods reads, and how the body of a refusal reads. The last is what a caller
  is given where a method ends without an answer, in a panic or not at all: no theorem depends on it.
\<close>

record client_env =
  ce_env :: kube_env
  ce_streams :: stream_env
  ce_pushes :: "kube_request \<Rightarrow> kube_state \<Rightarrow> watch_step list"
  ce_pod_list :: "raw \<Rightarrow> (string \<times> string) list"
  ce_parse :: "string \<Rightarrow> raw option"
  ce_unanswered :: go_err

definition kube_service :: "client_env \<Rightarrow> kube_state k8s_service" where
  "kube_service ce =
     (let env = ce_env ce; se = ce_streams ce in
      \<lparr>APIResources = kube_APIResources env,
       ListResources = kube_ListResources env,
       WatchResources = kube_WatchResources env (ce_pushes ce),
       GetResource = kube_GetResource env,
       CreateResource = kube_CreateResource env,
       UpdateResource = (\<lambda>ref. act_bind (kube_UpdateResource env ref) (\<lambda>e.
         case e of Ended result \<Rightarrow> act_return result | Panics \<Rightarrow> act_fail (ce_unanswered ce))),
       PatchResource = kube_PatchResource env,
       DeleteResource = kube_DeleteResource env,
       DeleteCollection = kube_DeleteCollection env,
       ExecInPod = kube_ExecInPod env se (ce_pod_list ce),
       ExecResource = kube_ExecResource env se,
       AttachResource = kube_AttachResource env se,
       PortForwardResource = (\<lambda>ref port payload seconds.
         act_bind (kube_PortForwardResource env se ref port payload seconds) (\<lambda>e.
         case e of Some result \<Rightarrow> act_return result | None \<Rightarrow> act_fail (ce_unanswered ce))),
       ProxyResource = kube_ProxyResource env se (ce_parse ce)\<rparr>)"

section \<open>One request\<close>

lemma quiet_object_coordinate [quiet_intros]: "quiet (object_coordinate env av k ns)"
  unfolding object_coordinate_def by (intro quiet_intros)

lemma quiet_requireSubresource [quiet_intros]: "quiet (requireSubresource env g sub kind)"
  by (simp add: quiet_def requireSubresource_def split: sum.split)

text \<open>The request of each write.\<close>

definition writes :: "string \<Rightarrow> string \<Rightarrow> (raw \<Rightarrow> bool) \<Rightarrow> kube_request \<Rightarrow> bool" where
  "writes verb name body r \<longleftrightarrow>
     kr_Verb r = verb \<and> kr_Name r = name \<and> (\<exists>b. kr_Body r = Some b \<and> body b)"

lemma single_create:
  "one_request (writes ''create'' [] (\<lambda>b. b = JObj (cr_Manifest ref) \<and> create_matches ref \<and> create_namespace_matches ref))
     (kube_CreateResource env ref)"
proof (cases "create_matches ref \<and> create_namespace_matches ref")
  case True
  then show ?thesis
    unfolding kube_CreateResource_def
    by (intro single_kbind quiet_intros)
      (auto intro!: single_send quiet_intros simp: writes_def object_request_def split: sum.split prod.split)
next
  case False
  then show ?thesis
    by (auto simp: one_request_def kube_CreateResource_def kcheck_def act_check_def act_fail_def act_return_def act_bind_def)
qed

lemma under_version_Inr:
  assumes "under_version version body = Inr body'"
  shows "metadata_field (JObj body') ''resourceVersion'' = Some (JStr version)"
    and "body_name body' = body_name body"
    and "k \<noteq> ''metadata'' \<Longrightarrow> lookup body' k = lookup body k"
    and "f \<noteq> ''resourceVersion'' \<Longrightarrow> lookup (metadata_of body') f = lookup (metadata_of body) f"
  using assms
  by (auto simp: under_version_def metadata_field_def metadata_of_def object_or_empty_def body_name_def
      string_or_empty_def split: option.splits json.splits if_splits)

definition update_request_ok :: "update_ref \<Rightarrow> kube_request \<Rightarrow> bool" where
  "update_request_ok ref r \<longleftrightarrow>
     kr_Verb r = ''update'' \<and> kr_Subresource r = ur_Subresource ref \<and>
     (\<exists>manifest namespace body. update_body ref namespace = Ended manifest \<and> kr_Body r = Some (JObj body) \<and>
        under_version (ur_ApprovedResourceVersion ref) manifest = Inr body \<and> kr_Name r = body_name body \<and>
        kr_Name r \<noteq> [] \<and> ur_ApprovedResourceVersion ref \<noteq> [])"

lemma single_klift:
  assumes "\<And>x. r = Inr x \<Longrightarrow> one_request P (f x)"
  shows "one_request P (act_bind (act_lift r) f)"
proof (cases r)
  case (Inr x)
  then show ?thesis using assms [OF Inr] by (simp add: act_lift_def)
qed (simp add: act_lift_def single_quiet quiet_kfail)

lemma single_kcheck:
  assumes "b \<Longrightarrow> one_request P (f ())"
  shows "one_request P (act_bind (kcheck b msg) f)"
  using assms by (cases b) (simp_all add: kcheck_def act_check_def single_quiet quiet_kfail)

lemma single_update: "one_request (update_request_ok ref) (kube_UpdateResource env ref)"
proof -
  let ?P = "update_request_ok ref"
  have final: "one_request ?P
      (act_bind (send env (object_request ''update'' (rv_gvr res) namespace (body_name body) (ur_Subresource ref) []
           [(''fieldManager'', fieldManager)] (Some (JObj body)))) (\<lambda>answer.
         act_bind (act_lift (object_answer env (\<lambda>e. updateError e (subresourcePath (g_Resource (rv_gvr res)) (ur_Subresource ref)))
           (subresourcePath (g_Resource (rv_gvr res)) (ur_Subresource ref)) namespace answer)) (\<lambda>result.
         act_return (Ended result))))"
    if "ur_ApprovedResourceVersion ref \<noteq> []" "update_body ref namespace = Ended manifest"
      "under_version (ur_ApprovedResourceVersion ref) manifest = Inr body" "body_name body \<noteq> []"
    for res namespace manifest body
    using that by (intro single_send quiet_intros) (auto simp: update_request_ok_def object_request_def)
  have "one_request ?P (case update_body ref namespace of
       Panics \<Rightarrow> act_return Panics
     | Ended manifest \<Rightarrow>
         act_bind (act_lift (under_version (ur_ApprovedResourceVersion ref) manifest)) (\<lambda>body.
         act_bind (act_lift (ensure (body_name body \<noteq> []) (updateError (OtherFailure ''name is required'')
           (subresourcePath (g_Resource (rv_gvr res)) (ur_Subresource ref))))) (\<lambda>_.
         act_bind (send env (object_request ''update'' (rv_gvr res) namespace (body_name body) (ur_Subresource ref) []
           [(''fieldManager'', fieldManager)] (Some (JObj body)))) (\<lambda>answer.
         act_bind (act_lift (object_answer env (\<lambda>e. updateError e (subresourcePath (g_Resource (rv_gvr res)) (ur_Subresource ref)))
           (subresourcePath (g_Resource (rv_gvr res)) (ur_Subresource ref)) namespace answer)) (\<lambda>result.
         act_return (Ended result))))))"
    if "ur_ApprovedResourceVersion ref \<noteq> []" for res namespace
  proof (cases "update_body ref namespace")
    case (Ended manifest)
    show ?thesis
      unfolding Ended ending.case
      by (intro single_klift final [OF that Ended]) (simp_all add: ensure_Inr)
  qed (simp add: single_quiet quiet_intros)
  then show ?thesis
    unfolding kube_UpdateResource_def
    by (intro single_kcheck single_kbind quiet_intros)
       (auto intro!: single_kbind quiet_intros split: prod.split)
qed

definition patch_request_ok :: "patch_ref \<Rightarrow> kube_request \<Rightarrow> bool" where
  "patch_request_ok ref r \<longleftrightarrow>
     kr_Verb r = ''patch'' \<and> kr_Name r = pr_Name ref \<and> kr_ContentType r = patch_content_type (pr_PatchType ref) \<and>
     (\<exists>body. kr_Body r = Some body \<and> approvedPatch ref = Inr body)"

lemma single_patch: "one_request (patch_request_ok ref) (kube_PatchResource env ref)"
  unfolding kube_PatchResource_def
  by (intro single_kcheck single_klift single_kbind quiet_intros)
    (auto intro!: single_send quiet_intros simp: patch_request_ok_def object_request_def split: prod.split)

lemma single_delete:
  "one_request (writes ''delete'' (dr_Name ref) (\<lambda>b. b = delete_options (dr_GracePeriodSeconds ref))) (kube_DeleteResource env ref)"
  unfolding kube_DeleteResource_def
  by (intro single_kbind quiet_intros)
    (auto intro!: single_send quiet_intros simp: writes_def object_request_def split: prod.split sum.split)

definition collection_request_ok :: "delete_collection_ref \<Rightarrow> kube_request \<Rightarrow> bool" where
  "collection_request_ok ref r \<longleftrightarrow>
     kr_Verb r = ''deletecollection'' \<and> kr_Namespace r = dc_Namespace ref \<and> dc_Namespace ref \<noteq> [] \<and>
     kr_Params r = selectors (dc_LabelSelector ref) (dc_FieldSelector ref)"

lemma single_collection: "one_request (collection_request_ok ref) (kube_DeleteCollection env ref)"
  unfolding kube_DeleteCollection_def
  by (intro single_kcheck single_kbind [OF quiet_resolve_kind] single_send)
    (auto intro: quiet_intros simp: collection_request_ok_def object_request_def split: sum.split)

section \<open>The pairs\<close>

text \<open>The permission a request takes.\<close>

definition request_pair :: "kube_request \<Rightarrow> rbac_pair" where
  "request_pair r = mk_pair (kr_Verb r) (subresourcePath (g_Resource (kr_Resource r)) (kr_Subresource r))"

text \<open>A mapper that gives the names the gate guesses.\<close>

definition guessed_names :: "api_machinery \<Rightarrow> mapper option \<Rightarrow> bool" where
  "guessed_names am o' \<longleftrightarrow>
     (case o' of None \<Rightarrow> True
      | Some m \<Rightarrow> (\<forall>grp kind version res. m grp kind version = Mapped res \<longrightarrow>
           g_Resource (rv_gvr res) = guessPlural am (grp, version) kind))"

text \<open>The requests of each method of a client.\<close>

definition service_sends :: "(mapper option \<Rightarrow> bool) \<Rightarrow> (kube_request \<Rightarrow> bool) \<Rightarrow> kube_state k8s_service \<Rightarrow> bool" where
  "service_sends I P svc \<longleftrightarrow>
     sends I P (APIResources svc) \<and>
     (\<forall>q. sends I P (ListResources svc q)) \<and> (\<forall>q. sends I P (WatchResources svc q)) \<and>
     (\<forall>ref. sends I P (GetResource svc ref)) \<and> (\<forall>ref. sends I P (CreateResource svc ref)) \<and>
     (\<forall>ref. sends I P (UpdateResource svc ref)) \<and> (\<forall>ref. sends I P (PatchResource svc ref)) \<and>
     (\<forall>ref. sends I P (DeleteResource svc ref)) \<and> (\<forall>ref. sends I P (DeleteCollection svc ref)) \<and>
     (\<forall>n s c cmd. sends I P (ExecInPod svc n s c cmd)) \<and> (\<forall>ref c cmd. sends I P (ExecResource svc ref c cmd)) \<and>
     (\<forall>ref c i s. sends I P (AttachResource svc ref c i s)) \<and> (\<forall>ref p b s. sends I P (PortForwardResource svc ref p b s)) \<and>
     (\<forall>ref m p b t s. sends I P (ProxyResource svc ref m p b t s))"

lemma sends_confined:
  assumes "chk = Inr () \<Longrightarrow> sends I P m"
  shows "sends I P (guarded chk m)"
proof (cases chk)
  case Inl
  then show ?thesis by (simp add: sends_def guarded_def)
next
  case (Inr u)
  then have "guarded chk m = m" by (simp add: fun_eq_iff guarded_def)
  with assms Inr show ?thesis by simp
qed

lemma resolved_name:
  assumes "discovers (guessed_names (ke_am env)) env" and "guessed_names (ke_am env) (ks_mapper st)"
    and "resolve_kind env av k st = (Inr res, st')"
  shows "resourceName (ke_am env) av k sub = Inr (subresourcePath (g_Resource (rv_gvr res)) sub)"
  using resolve_kind_Inr [OF assms]
  by (auto simp: guessed_names_def resourceName_def subresourcePath_def Let_def split: option.splits)

text \<open>So a call that is permitted has the pair of what it resolves to among those it declared.\<close>

lemma permitted_pair:
  assumes "permit (ke_am env) c verb av k sub = Inr ()" and "discovers (guessed_names (ke_am env)) env"
    and "guessed_names (ke_am env) (ks_mapper st)" and "resolve_kind env av k st = (Inr res, st')"
  shows "mk_pair verb (subresourcePath (g_Resource (rv_gvr res)) sub) \<in> set (cf_allowed c)"
  using assms(1) resolved_name [OF assms(2-4), of sub] by (auto simp: permit_Inr)

end
