(* ===== verification/KubeConfine.thy ===== *)
theory KubeConfine
  imports KubeService
begin

text \<open>
  The confined client over the live one: every request a method sends takes a permission the call has
  declared, where the mapper of the cluster gives the resource names the gate guesses.
\<close>

definition allowed_request :: "confinement \<Rightarrow> kube_request \<Rightarrow> bool" where
  "allowed_request c r \<longleftrightarrow> request_pair r \<in> set (cf_allowed c)"

definition guesses :: "kube_env \<Rightarrow> bool" where
  "guesses env \<longleftrightarrow> discovers (guessed_names (ke_am env)) env"

abbreviation sends_allowed :: "kube_env \<Rightarrow> confinement \<Rightarrow> 'a kube \<Rightarrow> bool" where
  "sends_allowed env c \<equiv> sends (guessed_names (ke_am env)) (allowed_request c)"

lemma object_coordinate_resolved:
  "object_coordinate env av k ns st = (Inr (res, n), st') \<Longrightarrow> \<exists>st1. resolve_kind env av k st = (Inr res, st1)"
  by (auto simp: object_coordinate_def act_bind_Inr)

lemma stream_pod_resolved:
  "stream_pod env ref sub st = (Inr (res, n), st') \<Longrightarrow>
     (\<exists>st1. resolve_kind env (po_APIVersion ref) (po_Kind ref) st = (Inr res, st1)) \<and> g_Resource (rv_gvr res) = ''pods''"
  by (auto simp: stream_pod_def act_bind_Inr)

lemma sends_object_coordinate [sends_intros]: "discovers I env \<Longrightarrow> sends I P (object_coordinate env av k ns)"
  unfolding object_coordinate_def by (intro sends_intros sends_kbind)

text \<open>The steps that resolve the kind of a permitted call.\<close>

lemma sends_resolved:
  assumes "guesses env" and "permit (ke_am env) c verb av k sub = Inr ()"
    and "\<And>res. mk_pair verb (subresourcePath (g_Resource (rv_gvr res)) sub) \<in> set (cf_allowed c) \<Longrightarrow> sends_allowed env c (f res)"
  shows "sends_allowed env c (act_bind (resolve_kind env av k) f)"
  using assms(1) permitted_pair [OF assms(2)]
  by (intro sends_kbind_result sends_resolve_kind assms(3)) (auto simp: guesses_def)

lemma sends_coordinate:
  assumes "guesses env" and "permit (ke_am env) c verb av k sub = Inr ()"
    and "\<And>res n. mk_pair verb (subresourcePath (g_Resource (rv_gvr res)) sub) \<in> set (cf_allowed c) \<Longrightarrow> sends_allowed env c (f (res, n))"
  shows "sends_allowed env c (act_bind (object_coordinate env av k ns) f)"
proof (rule sends_kbind_result)
  show "sends_allowed env c (object_coordinate env av k ns)"
    using assms(1) by (auto intro: sends_intros simp: guesses_def)
  fix x st st1 assume st: "guessed_names (ke_am env) (ks_mapper st)" and run: "object_coordinate env av k ns st = (Inr x, st1)"
  obtain res n where x: "x = (res, n)" by (cases x)
  with run obtain st2 where "resolve_kind env av k st = (Inr res, st2)"
    by (auto dest: object_coordinate_resolved)
  from permitted_pair [OF assms(2) assms(1) [unfolded guesses_def] st this] x
  show "sends_allowed env c (f x)" using assms(3) by simp
qed

lemma sends_pod:
  assumes "guesses env" and "permit (ke_am env) c verb (po_APIVersion ref) (po_Kind ref) sub = Inr ()"
    and "\<And>res n. mk_pair verb (subresourcePath ''pods'' sub) \<in> set (cf_allowed c) \<Longrightarrow> sends_allowed env c (f (res, n))"
  shows "sends_allowed env c (act_bind (stream_pod env ref what) f)"
proof (rule sends_kbind_result)
  show "sends_allowed env c (stream_pod env ref what)"
    using assms(1) by (auto intro: sends_intros simp: guesses_def)
  fix x st st1 assume st: "guessed_names (ke_am env) (ks_mapper st)" and run: "stream_pod env ref what st = (Inr x, st1)"
  obtain res n where x: "x = (res, n)" by (cases x)
  with run obtain st2 where "resolve_kind env (po_APIVersion ref) (po_Kind ref) st = (Inr res, st2)" and "g_Resource (rv_gvr res) = ''pods''"
    by (auto dest: stream_pod_resolved)
  with permitted_pair [OF assms(2) assms(1) [unfolded guesses_def] st] x
  show "sends_allowed env c (f x)" using assms(3) by fastforce
qed

text \<open>A check before them.\<close>

lemma sends_checked: "(b \<Longrightarrow> sends I P (f ())) \<Longrightarrow> sends I P (act_bind (kcheck b msg) f)"
  by (cases b) (simp_all add: kcheck_def act_check_def sends_kfail)

lemma allowed_simps:
  "allowed_request c (object_request verb g n name sub t ps b) \<longleftrightarrow>
     mk_pair verb (subresourcePath (g_Resource g) sub) \<in> set (cf_allowed c)"
  "allowed_request c (plain_request verb g n name sub) \<longleftrightarrow>
     mk_pair verb (subresourcePath (g_Resource g) sub) \<in> set (cf_allowed c)"
  "allowed_request c (with_params r ps) \<longleftrightarrow> allowed_request c r"
  "allowed_request c (list_request res n q) \<longleftrightarrow>
     mk_pair ''list'' (subresourcePath (g_Resource (rv_gvr res)) []) \<in> set (cf_allowed c)"
  "allowed_request c (watch_request res n wq) \<longleftrightarrow>
     mk_pair ''watch'' (subresourcePath (g_Resource (rv_gvr res)) []) \<in> set (cf_allowed c)"
  "allowed_request c (proxy_request ref m res n segments query body contentType) \<longleftrightarrow>
     mk_pair (ProxyVerbForMethod m) (subresourcePath (g_Resource (rv_gvr res)) ''proxy'') \<in> set (cf_allowed c)"
  by (simp_all add: allowed_request_def request_pair_def object_request_def plain_request_def with_params_def
      list_request_def watch_request_def proxy_request_def)

lemma pods_gvr_simps [simp]: "g_Resource pods_gvr = ''pods''" "g_Group pods_gvr = []" "g_Version pods_gvr = ''v1''"
  by (simp_all add: pods_gvr_def)

section \<open>The methods\<close>

lemmas sends_steps = sends_checked sends_resolved sends_coordinate sends_pod
lemmas sends_rest = sends_intros sends_kbind

lemma confined_list:
  "guesses env \<Longrightarrow> permit (ke_am env) c ''list'' (lq_APIVersion q) (lq_Kind q) [] = Inr () \<Longrightarrow>
     sends_allowed env c (kube_ListResources env q)"
  unfolding kube_ListResources_def
  by (rule sends_resolved, assumption+) (auto intro!: sends_rest simp: allowed_simps split: sum.split)

lemma confined_watch:
  "guesses env \<Longrightarrow> permit (ke_am env) c ''watch'' (wq_APIVersion q) (wq_Kind q) [] = Inr () \<Longrightarrow>
     sends_allowed env c (kube_WatchResources env pushes q)"
  unfolding kube_WatchResources_def
  by (rule sends_resolved, assumption+) (auto intro!: sends_rest simp: allowed_simps split: sum.split)

lemma confined_get:
  "guesses env \<Longrightarrow> permit (ke_am env) c ''get'' (rr_APIVersion ref) (rr_Kind ref) (rr_Subresource ref) = Inr () \<Longrightarrow>
     sends_allowed env c (kube_GetResource env ref)"
  unfolding kube_GetResource_def podLogs_def
  by (rule sends_coordinate, assumption+) (auto intro!: sends_checked sends_rest simp: allowed_simps split: sum.split)

lemma confined_create:
  "guesses env \<Longrightarrow> permit (ke_am env) c ''create'' (cr_APIVersion ref) (cr_Kind ref) [] = Inr () \<Longrightarrow>
     sends_allowed env c (kube_CreateResource env ref)"
  unfolding kube_CreateResource_def
  by (intro sends_checked, rule sends_coordinate, assumption+)
    (auto intro!: sends_rest simp: allowed_simps split: sum.split)

lemma confined_update:
  "guesses env \<Longrightarrow> permit (ke_am env) c ''update'' (ur_APIVersion ref) (ur_Kind ref) (ur_Subresource ref) = Inr () \<Longrightarrow>
     sends_allowed env c (kube_UpdateResource env ref)"
  unfolding kube_UpdateResource_def
  by (intro sends_checked, rule sends_coordinate, assumption+)
    (auto intro!: sends_rest simp: allowed_simps split: ending.split)

lemma confined_patch:
  "guesses env \<Longrightarrow> permit (ke_am env) c ''patch'' (pr_APIVersion ref) (pr_Kind ref) [] = Inr () \<Longrightarrow>
     sends_allowed env c (kube_PatchResource env ref)"
  unfolding kube_PatchResource_def
  by (intro sends_checked sends_kbind [OF sends_klift], rule sends_coordinate, assumption+)
    (auto intro!: sends_rest simp: allowed_simps)

lemma confined_delete:
  "guesses env \<Longrightarrow> permit (ke_am env) c ''delete'' (dr_APIVersion ref) (dr_Kind ref) [] = Inr () \<Longrightarrow>
     sends_allowed env c (kube_DeleteResource env ref)"
  unfolding kube_DeleteResource_def
  by (rule sends_coordinate, assumption+) (auto intro!: sends_rest simp: allowed_simps split: sum.split)

lemma confined_collection:
  "guesses env \<Longrightarrow> permit (ke_am env) c ''deletecollection'' (dc_APIVersion ref) (dc_Kind ref) [] = Inr () \<Longrightarrow>
     sends_allowed env c (kube_DeleteCollection env ref)"
  unfolding kube_DeleteCollection_def
  by (intro sends_checked, rule sends_resolved, assumption+)
    (auto intro!: sends_rest simp: allowed_simps split: sum.split)

lemma confined_exec_in_pod:
  "exec_in_pod_check c = Inr () \<Longrightarrow> sends_allowed env c (kube_ExecInPod env se pod_list namespace labels container command)"
  unfolding kube_ExecInPod_def
  by (auto intro!: sends_rest simp: allowed_simps exec_in_pod_check_def bind_sum_Inr_iff allow_def subresourcePath_def Let_def
      split: sum.split option.split stream_end.split)

lemma confined_exec:
  "guesses env \<Longrightarrow> permit (ke_am env) c ''create'' (po_APIVersion ref) (po_Kind ref) ''exec'' = Inr () \<Longrightarrow>
     sends_allowed env c (kube_ExecResource env se ref container command)"
  unfolding kube_ExecResource_def
  by (rule sends_pod, assumption+) (auto intro!: sends_rest simp: allowed_simps Let_def)

lemma confined_attach:
  "guesses env \<Longrightarrow> permit (ke_am env) c ''create'' (po_APIVersion ref) (po_Kind ref) ''attach'' = Inr () \<Longrightarrow>
     sends_allowed env c (kube_AttachResource env se ref container stdin seconds)"
  unfolding kube_AttachResource_def Let_def
  by (intro sends_checked, rule sends_pod, assumption+)
    (auto intro!: sends_rest simp: allowed_simps split: stream_end.split bool.split)

lemma confined_port_forward:
  "guesses env \<Longrightarrow> permit (ke_am env) c ''create'' (po_APIVersion ref) (po_Kind ref) ''portforward'' = Inr () \<Longrightarrow>
     sends_allowed env c (kube_PortForwardResource env se ref port payload seconds)"
  unfolding kube_PortForwardResource_def Let_def
  by (intro sends_checked, rule sends_pod, assumption+)
    (auto intro!: sends_rest simp: allowed_simps split: option.split sum.split)

lemma confined_proxy:
  "guesses env \<Longrightarrow> permit (ke_am env) c (ProxyVerbForMethod m) (px_APIVersion ref) (px_Kind ref) ''proxy'' = Inr () \<Longrightarrow>
     sends_allowed env c (kube_ProxyResource env se parse ref m path body contentType seconds)"
  unfolding kube_ProxyResource_def Let_def
  by (intro sends_checked, rule sends_resolved, assumption+)
    (auto intro!: sends_rest simp: allowed_simps split: option.split)

lemma confined_api: "sends_allowed env c (kube_APIResources env)"
  by (auto simp: sends_def kube_APIResources_def split: sum.split)

lemmas confined_methods = confined_list confined_watch confined_get confined_create confined_update confined_patch
  confined_delete confined_collection confined_exec_in_pod confined_exec confined_attach confined_port_forward
  confined_proxy confined_api

lemma sends_answered:
  "sends I P m \<Longrightarrow> (\<And>x. sends I P (f x)) \<Longrightarrow> sends I P (act_bind m f)"
  by (rule sends_kbind)

lemma confined_service_sends:
  assumes "guesses (ce_env ce)"
  shows "service_sends (guessed_names (ke_am (ce_env ce))) (allowed_request c)
     (confinedService (ke_am (ce_env ce)) c (kube_service ce))"
  unfolding service_sends_def confinedService_def kube_service_def Let_def k8s_service.simps
  by (intro conjI allI sends_confined)
    (auto intro!: confined_methods assms sends_kbind sends_intros split: ending.split option.split)

end
