(* ===== verification/KubeProperties.thy ===== *)
theory KubeProperties
  imports Sample KubeConfine ResourceHandlers
begin

text \<open>
  Properties of the cluster client, each with an instance on a small cluster that serves pods: what it
  asks the apiserver for, what its writes carry, what a snapshot of a selection is, and what is told
  of a stream that was cut.
\<close>

section \<open>A small cluster\<close>

definition sample_mapper :: mapper where
  "sample_mapper grp kind version =
     (if grp = [] \<and> kind = ''Pod'' then Mapped \<lparr>rv_gvr = pods_gvr, rv_namespaced = True\<rparr> else NoMatch)"

definition sample_item :: "string \<Rightarrow> json" where
  "sample_item name = JObj
     [(''kind'', JStr ''PartialObjectMetadata''), (''apiVersion'', JStr ''meta.k8s.io/v1''),
      (''metadata'', JObj [(''name'', JStr name), (''namespace'', JStr ''ns''), (''uid'', JStr (''u'' @ name)),
         (''resourceVersion'', JStr ''7'')])]"

definition sample_page :: "string \<Rightarrow> string list \<Rightarrow> json" where
  "sample_page cursor names = JObj
     [(''kind'', JStr ''PartialObjectMetadataList''), (''apiVersion'', JStr ''meta.k8s.io/v1''),
      (''metadata'', JObj [(''resourceVersion'', JStr ''9''), (''continue'', JStr cursor)]),
      (''items'', JArr (map sample_item names))]"

text \<open>A list comes in two pages; everything else is echoed.\<close>

definition sample_answer :: "kube_request \<Rightarrow> json" where
  "sample_answer r =
     (if kr_Verb r = ''list'' then
        (if map_of (kr_Params r) ''continue'' = None then sample_page ''more'' [''b''] else sample_page [] [''a''])
      else case kr_Body r of None \<Rightarrow> JObj [] | Some b \<Rightarrow> b)"

definition sample_kube :: kube_env where
  "sample_kube =
     \<lparr>ke_am = sample_am, ke_discover = (\<lambda>st. Inr sample_mapper), ke_preferred = (\<lambda>st. Inr []),
      ke_unstructured = (\<lambda>b. case kb_json b of Some (JObj kvs) \<Rightarrow> Inr kvs | _ \<Rightarrow> Inl ''no object''),
      ke_served = (\<lambda>gv st. Inr [''pods/exec'']),
      ke_answer = (\<lambda>r st. Inr \<lparr>kb_text = [], kb_json = Some (sample_answer r)\<rparr>)\<rparr>"

definition sample_start :: kube_state where
  "sample_start = \<lparr>ks_mapper = None, ks_requests = []\<rparr>"



section \<open>What is asked for\<close>



section \<open>Writes\<close>

lemma update_body_name:
  assumes "parse_update ctx r = Inr (coord, ref)" and "update_body ref namespace = Ended manifest"
  shows "body_name manifest \<in> {[], ur_Name ref}"
proof (cases "ur_Subresource ref = ScaleSubresource")
  case True
  with assms(2) show ?thesis
    by (auto simp: update_body_def body_name_def scaleObject_def object_or_empty_def string_or_empty_def lookup_Cons
        split: option.splits if_splits)
next
  case False
  with assms(2) have manifest: "manifest = or_else (ur_Manifest ref) []" by (simp add: update_body_def)
  from assms(1) False obtain o' where "parseManifest o' coord (ur_Name ref) = Inr (or_else (ur_Manifest ref) [])"
    by (auto simp: parse_update_def bind_sum_Inr_iff split: if_splits)
  then show ?thesis
    unfolding manifest [symmetric]
    by (auto simp: parseManifest_def bind_sum_Inr_iff differs_def body_name_def object_or_empty_def string_or_empty_def
        split: option.splits json.splits)
qed

lemma parsed_update_ends:
  assumes "parse_update ctx r = Inr (coord, ref)"
  shows "update_body ref namespace \<noteq> Panics"
  using assms by (auto simp: parse_update_def bind_sum_Inr_iff update_body_def split: option.splits if_splits)

lemma parsed_update_version:
  assumes "parse_update ctx r = Inr (coord, ref)" and "cx_approved ctx = Some a"
  shows "ur_ApprovedResourceVersion ref = ts_ResourceVersion a"
  using assms by (auto simp: parse_update_def bind_sum_Inr_iff split: option.splits if_splits)

lemma update_not_panics:
  assumes "\<And>namespace. update_body ref namespace \<noteq> Panics"
  shows "fst (kube_UpdateResource env ref st) \<noteq> Inr Panics"
proof
  assume "fst (kube_UpdateResource env ref st) = Inr Panics"
  then obtain st' where "kube_UpdateResource env ref st = (Inr Panics, st')" by (metis prod.collapse)
  with assms show False
    by (auto simp: kube_UpdateResource_def act_bind_Inr split: ending.splits) (metis ending.exhaust)
qed

text \<open>
  C20. An update of a call that passed the gate sends at most one request, which writes the object of
  the name that was approved, under the version that was approved; the client never panics on what
  the tool layer hands it.
\<close>

theorem updates_write_the_approved_version:
  assumes "parse_update ctx r = Inr (coord, ref)" and "cx_approved ctx = Some a"
  shows "one_request (\<lambda>q. kr_Verb q = ''update'' \<and> kr_Name q = ur_Name ref \<and> kr_Subresource q = ur_Subresource ref \<and>
       (\<exists>body. kr_Body q = Some (JObj body) \<and>
          lookup (metadata_of body) ''resourceVersion'' = Some (JStr (ts_ResourceVersion a))) \<and>
       ts_ResourceVersion a \<noteq> [])
     (kube_UpdateResource env ref) \<and> fst (kube_UpdateResource env ref st) \<noteq> Inr Panics"
proof
  note v = parsed_update_version [OF assms]
  show "one_request (\<lambda>q. kr_Verb q = ''update'' \<and> kr_Name q = ur_Name ref \<and> kr_Subresource q = ur_Subresource ref \<and>
       (\<exists>body. kr_Body q = Some (JObj body) \<and>
          lookup (metadata_of body) ''resourceVersion'' = Some (JStr (ts_ResourceVersion a))) \<and>
       ts_ResourceVersion a \<noteq> [])
     (kube_UpdateResource env ref)"
  proof (rule single_mono [OF single_update])
    fix q assume "update_request_ok ref q"
    then obtain manifest namespace body where q: "kr_Verb q = ''update''" "kr_Subresource q = ur_Subresource ref"
      "kr_Body q = Some (JObj body)" "kr_Name q = body_name body" "kr_Name q \<noteq> []" "ts_ResourceVersion a \<noteq> []"
      and b: "update_body ref namespace = Ended manifest" and u: "under_version (ts_ResourceVersion a) manifest = Inr body"
      unfolding update_request_ok_def v by blast
    have "kr_Name q = ur_Name ref"
      using update_body_name [OF assms(1) b] under_version_Inr(2) [OF u] q by auto
    moreover have "lookup (metadata_of body) ''resourceVersion'' = Some (JStr (ts_ResourceVersion a))"
      using under_version_Inr(1) [OF u] by (simp add: metadata_field_def)
    ultimately show "kr_Verb q = ''update'' \<and> kr_Name q = ur_Name ref \<and> kr_Subresource q = ur_Subresource ref \<and>
       (\<exists>body. kr_Body q = Some (JObj body) \<and>
          lookup (metadata_of body) ''resourceVersion'' = Some (JStr (ts_ResourceVersion a))) \<and>
       ts_ResourceVersion a \<noteq> []"
      using q by blast
  qed
  show "fst (kube_UpdateResource env ref st) \<noteq> Inr Panics"
    using parsed_update_ends [OF assms(1)] by (rule update_not_panics)
qed

text \<open>
  The conditions of a patch: a JSON Patch is framed by tests of the approved version and identity, and
  every other patch names them in its metadata (the identity only where it does not own the field).
\<close>

definition guarded_patch :: "target_state \<Rightarrow> string \<Rightarrow> raw \<Rightarrow> bool" where
  "guarded_patch a patchType body \<longleftrightarrow>
     (if patchType = ''json'' then
        (let tests = [test_op ''resourceVersion'' (ts_ResourceVersion a), test_op ''uid'' (ts_UID a)] in
         \<exists>ops. body = JArr (tests @ ops @ tests))
      else
        (\<exists>p. body = JObj p \<and> lookup (metadata_of p) ''resourceVersion'' = Some (JStr (ts_ResourceVersion a)) \<and>
           (patchType \<noteq> ''apply'' \<longrightarrow> lookup (metadata_of p) ''uid'' = Some (JStr (ts_UID a)))))"

lemma approvedPatch_json:
  assumes "approvedPatch ref = Inr p" and "pr_PatchType ref = ''json''"
  shows "\<exists>ops. pr_Patch ref = JArr ops \<and> p = JArr (condition_tests ref @ ops @ condition_tests ref)"
  using assms by (auto simp: approvedPatch_def split: if_splits json.splits)

lemma approvedPatch_guarded:
  assumes "approvedPatch ref = Inr p" and "pr_ApprovedResourceVersion ref = ts_ResourceVersion a"
    and "pr_ApprovedUID ref = ts_UID a"
  shows "guarded_patch a (pr_PatchType ref) p"
proof (cases "pr_PatchType ref = ''json''")
  case True
  with approvedPatch_json [OF assms(1)] assms(2,3) show ?thesis
    by (auto simp: guarded_patch_def condition_tests_def conditions_def)
next
  case False
  with approvedPatch_object [OF assms(1)] assms(2,3) obtain p' where "p = JObj p'"
    and "lookup (metadata_of p') ''resourceVersion'' = Some (JStr (ts_ResourceVersion a))"
    and "pr_PatchType ref \<noteq> ''apply'' \<longrightarrow> lookup (metadata_of p') ''uid'' = Some (JStr (ts_UID a))" by metis
  with False show ?thesis unfolding guarded_patch_def by simp
qed

text \<open>
  C21. A patch of a call that passed the gate sends at most one request, to the object of the name that
  was approved, and its body carries the conditions on the version and the identity that were
  approved, in the form its type of patch has for them.
\<close>

theorem patches_carry_the_approved_target:
  assumes "parse_patch ctx r = Inr (coord, ref)" and "cx_approved ctx = Some a"
  shows "one_request (\<lambda>q. kr_Verb q = ''patch'' \<and> kr_Name q = pr_Name ref \<and>
       kr_ContentType q = patch_content_type (pr_PatchType ref) \<and>
       (\<exists>body. kr_Body q = Some body \<and> guarded_patch a (pr_PatchType ref) body))
     (kube_PatchResource env ref)"
proof (rule single_mono [OF single_patch])
  have approved: "pr_ApprovedResourceVersion ref = ts_ResourceVersion a" "pr_ApprovedUID ref = ts_UID a"
    using assms by (auto simp: parse_patch_def bind_sum_Inr_iff split: option.splits)
  fix q assume "patch_request_ok ref q"
  then show "kr_Verb q = ''patch'' \<and> kr_Name q = pr_Name ref \<and>
       kr_ContentType q = patch_content_type (pr_PatchType ref) \<and>
       (\<exists>body. kr_Body q = Some body \<and> guarded_patch a (pr_PatchType ref) body)"
    using approvedPatch_guarded [OF _ approved] unfolding patch_request_ok_def by blast
qed

text \<open>
  C23. On a server that applies a JSON Patch operation by operation, as RFC 6902 has it, the guarded
  patch changes nothing unless the object is the approved one at the approved version, does to it
  what the caller's operations do, and does not let them change its version or its identity.
\<close>

theorem json_patches_hold_the_target:
  assumes "approvedPatch ref = Inr (JArr guarded')" and "pr_PatchType ref = ''json''" and "test_rule step"
    and "apply_ops step guarded' d = Some d'"
  shows "\<exists>ops. pr_Patch ref = JArr ops \<and> apply_ops step ops d = Some d' \<and> holds_target ref d \<and> holds_target ref d'"
proof -
  from approvedPatch_json [OF assms(1,2)] obtain ops where "pr_Patch ref = JArr ops"
    and "guarded' = condition_tests ref @ ops @ condition_tests ref" by (auto simp only: json.inject)
  with guarded_ops [OF assms(3)] assms(4) show ?thesis by blast
qed

text \<open>An operation of a server, for the instances: tests, and a removal of a member of the metadata.\<close>

definition sample_step :: "raw \<Rightarrow> json \<Rightarrow> json option" where
  "sample_step op' d =
     (case op' of
        JObj o' \<Rightarrow>
          if lookup o' ''op'' = Some (JStr ''test'') then
            (case (lookup o' ''path'', lookup o' ''value'') of
               (Some (JStr path), Some v) \<Rightarrow> if metadata_field d (drop 10 path) = Some v then Some d else None
             | _ \<Rightarrow> None)
          else
            (case (d, lookup o' ''path'') of
               (JObj kvs, Some (JStr path)) \<Rightarrow>
                 Some (JObj (put ''metadata'' (JObj (without (drop 10 path) (metadata_of kvs))) kvs))
             | _ \<Rightarrow> None)
      | _ \<Rightarrow> None)"

lemma sample_step_tests: "test_rule sample_step"
  by (auto simp: test_rule_def sample_step_def test_op_def lookup_Cons split: if_splits)

definition sample_object_at :: "string \<Rightarrow> obj \<Rightarrow> json" where
  "sample_object_at version labels =
     JObj [(''metadata'', JObj ([(''resourceVersion'', JStr version), (''uid'', JStr ''u'')] @ labels))]"

definition sample_patch_ref :: "string \<Rightarrow> raw \<Rightarrow> patch_ref" where
  "sample_patch_ref patchType patch =
     \<lparr>pr_APIVersion = ''v1'', pr_Kind = ''Pod'', pr_Namespace = Some ''ns'', pr_Name = ''p'', pr_PatchType = patchType,
      pr_Patch = patch, pr_FieldManager = [], pr_ApprovedResourceVersion = ''7'', pr_ApprovedUID = ''u''\<rparr>"

definition remove_op :: "string \<Rightarrow> raw" where
  "remove_op field = JObj [(''op'', JStr ''remove''), (''path'', JStr (''/metadata/'' @ field))]"

text \<open>A member is removed from the approved object, and from no later version of it.\<close>

theorem json_patches_hold_the_target_witness:
  "(\<exists>ops. [remove_op ''x''] = ops \<and>
      apply_ops sample_step ops (sample_object_at ''7'' [(''x'', JNull)]) = Some (sample_object_at ''7'' []) \<and>
      holds_target (sample_patch_ref ''json'' (JArr [remove_op ''x''])) (sample_object_at ''7'' [(''x'', JNull)]) \<and>
      holds_target (sample_patch_ref ''json'' (JArr [remove_op ''x''])) (sample_object_at ''7'' [])) \<and>
   apply_ops sample_step (condition_tests (sample_patch_ref ''json'' (JArr [remove_op ''x''])) @ [remove_op ''x''])
     (sample_object_at ''8'' [(''x'', JNull)]) = None \<and>
   apply_ops sample_step (let t = condition_tests (sample_patch_ref ''json'' (JArr [remove_op ''uid''])) in t @ [remove_op ''uid''] @ t)
     (sample_object_at ''7'' []) = None"
proof (intro conjI)
  let ?ref = "sample_patch_ref ''json'' (JArr [remove_op ''x''])"
  have run: "approvedPatch ?ref = Inr (JArr (condition_tests ?ref @ [remove_op ''x''] @ condition_tests ?ref))"
    "apply_ops sample_step (condition_tests ?ref @ [remove_op ''x''] @ condition_tests ?ref)
       (sample_object_at ''7'' [(''x'', JNull)]) = Some (sample_object_at ''7'' [])"
    "pr_PatchType ?ref = ''json''" "pr_Patch ?ref = JArr [remove_op ''x'']" unfolding atomize_conj by code_simp
  from json_patches_hold_the_target [OF run(1,3) sample_step_tests run(2)] run(4)
  show "\<exists>ops. [remove_op ''x''] = ops \<and>
      apply_ops sample_step ops (sample_object_at ''7'' [(''x'', JNull)]) = Some (sample_object_at ''7'' []) \<and>
      holds_target ?ref (sample_object_at ''7'' [(''x'', JNull)]) \<and> holds_target ?ref (sample_object_at ''7'' [])"
    by simp
qed code_simp+

definition sample_approved :: target_state where
  "sample_approved = \<lparr>ts_ResourceVersion = ''7'', ts_UID = ''u'', ts_Replicas = None\<rparr>"

definition sample_write :: "obj \<Rightarrow> raw" where
  "sample_write args = JObj ([(''apiVersion'', JStr ''v1''), (''kind'', JStr ''Pod''), (''namespace'', JStr ''ns''),
     (''name'', JStr ''p'')] @ args)"

definition sample_manifest :: "obj \<Rightarrow> json" where
  "sample_manifest metadata = JObj [(''apiVersion'', JStr ''v1''), (''kind'', JStr ''Pod''), (''metadata'', JObj metadata)]"

abbreviation approved_ctx :: call_ctx where
  "approved_ctx \<equiv> sample_ctx\<lparr>cx_approved := Some sample_approved\<rparr>"

text \<open>An update of the approved pod is written at the approved version.\<close>

theorem updates_write_the_approved_version_witness:
  "\<exists>coord ref. parse_update approved_ctx (sample_write [(''manifest'', sample_manifest [(''name'', JStr ''p'')])]) = Inr (coord, ref) \<and>
     one_request (\<lambda>q. kr_Verb q = ''update'' \<and> kr_Name q = ur_Name ref \<and> kr_Subresource q = ur_Subresource ref \<and>
       (\<exists>body. kr_Body q = Some (JObj body) \<and> lookup (metadata_of body) ''resourceVersion'' = Some (JStr ''7'')) \<and>
       ''7'' \<noteq> [])
     (kube_UpdateResource sample_kube ref) \<and>
     map kr_Name (ks_requests (snd (kube_UpdateResource sample_kube ref sample_start))) = [''p'']"
proof -
  let ?r = "sample_write [(''manifest'', sample_manifest [(''name'', JStr ''p'')])]"
  let ?p = "projr (parse_update approved_ctx ?r)"
  have run: "parse_update approved_ctx ?r = Inr ?p"
    "map kr_Name (ks_requests (snd (kube_UpdateResource sample_kube (snd ?p) sample_start))) = [''p'']" unfolding atomize_conj by code_simp
  then obtain coord ref where p: "?p = (coord, ref)" by (cases ?p)
  have "cx_approved approved_ctx = Some sample_approved" "ts_ResourceVersion sample_approved = ''7''"
    by (simp_all add: sample_approved_def)
  with updates_write_the_approved_version [of approved_ctx ?r coord ref sample_approved sample_kube] run p
  show ?thesis by (intro exI [of _ coord] exI [of _ ref]) simp
qed

text \<open>A merge patch of the approved pod.\<close>

theorem patches_carry_the_approved_target_witness:
  "\<exists>coord ref. parse_patch approved_ctx (sample_write [(''patchType'', JStr ''merge''), (''patch'', JObj [])]) = Inr (coord, ref) \<and>
     one_request (\<lambda>q. kr_Verb q = ''patch'' \<and> kr_Name q = pr_Name ref \<and>
       kr_ContentType q = patch_content_type (pr_PatchType ref) \<and>
       (\<exists>body. kr_Body q = Some body \<and> guarded_patch sample_approved (pr_PatchType ref) body))
     (kube_PatchResource sample_kube ref) \<and>
     map kr_Body (ks_requests (snd (kube_PatchResource sample_kube ref sample_start))) =
       [Some (JObj [(''metadata'', JObj [(''resourceVersion'', JStr ''7''), (''uid'', JStr ''u'')])])]"
proof -
  let ?r = "sample_write [(''patchType'', JStr ''merge''), (''patch'', JObj [])]"
  let ?p = "projr (parse_patch approved_ctx ?r)"
  have run: "parse_patch approved_ctx ?r = Inr ?p"
    "map kr_Body (ks_requests (snd (kube_PatchResource sample_kube (snd ?p) sample_start))) =
       [Some (JObj [(''metadata'', JObj [(''resourceVersion'', JStr ''7''), (''uid'', JStr ''u'')])])]" unfolding atomize_conj by code_simp
  then obtain coord ref where p: "?p = (coord, ref)" by (cases ?p)
  have "cx_approved approved_ctx = Some sample_approved" by simp
  with patches_carry_the_approved_target [of approved_ctx ?r coord ref sample_approved sample_kube] run p
  show ?thesis by (intro exI [of _ coord] exI [of _ ref]) simp
qed

end
