(* ===== verification/KubeReadProperties.thy ===== *)
theory KubeReadProperties
  imports KubeProperties KubeTargets
begin

text \<open>
  Properties of the cluster client's reads and streams: the snapshot of a selection, the window of a
  watch, the resolution of kinds and the suggestions for a kind that is not served, and what is kept
  and told of a stream.
\<close>

section \<open>The snapshot of a selection\<close>





lemma sends_list_pages:
  assumes "\<And>cursor. P (page_request res ref cursor)"
  shows "sends I P (list_pages env res ref n later cursor l)"
proof (induction n arbitrary: later cursor l)
  case (Suc n)
  show ?case
    unfolding list_pages.simps
    by (intro sends_kbind sends_send assms) (auto intro!: sends_intros sends_kbind Suc split: sum.split)
qed (simp add: sends_intros)

definition at_most :: "nat \<Rightarrow> 'a kube \<Rightarrow> bool" where
  "at_most n m \<longleftrightarrow> (\<forall>st. length (ks_requests (snd (m st))) \<le> length (ks_requests st) + n)"

lemma at_most_quiet: "quiet m \<Longrightarrow> at_most n m"
  by (simp add: quiet_def at_most_def)

lemmas at_most_kfail = at_most_quiet [OF quiet_kfail]
  and at_most_kreturn = at_most_quiet [OF quiet_kreturn]

lemma at_most_kbind: "quiet m \<Longrightarrow> (\<And>x. at_most n (f x)) \<Longrightarrow> at_most n (act_bind m f)"
proof (unfold at_most_def, intro allI)
  fix st assume m: "quiet m" and f: "\<And>x. \<forall>st. length (ks_requests (snd (f x st))) \<le> length (ks_requests st) + n"
  obtain r st1 where run: "m st = (r, st1)" by (cases "m st")
  with m have "ks_requests st1 = ks_requests st" unfolding quiet_def by (metis snd_conv)
  with run f show "length (ks_requests (snd (act_bind m f st))) \<le> length (ks_requests st) + n"
    by (cases r) (simp_all add: act_bind_def, metis)
qed

lemma at_most_send: "(\<And>x. at_most n (f x)) \<Longrightarrow> at_most (Suc n) (act_bind (send env r) f)"
proof (unfold at_most_def, intro allI)
  fix st assume "\<And>x. \<forall>st. length (ks_requests (snd (f x st))) \<le> length (ks_requests st) + n"
  from spec [OF this, of "ke_answer env r st" "st\<lparr>ks_requests := ks_requests st @ [r]\<rparr>"]
  show "length (ks_requests (snd (act_bind (send env r) f st))) \<le> length (ks_requests st) + Suc n"
    by (simp add: act_bind_def send_def)
qed

lemma at_most_list_pages: "at_most n (list_pages env res ref n later cursor l)"
proof (induction n arbitrary: later cursor l)
  case (Suc n)
  then show ?case
    unfolding list_pages.simps
    by (intro at_most_send)
      (auto intro!: at_most_kbind at_most_kfail at_most_kreturn quiet_intros split: sum.split)
qed (simp add: at_most_kfail)

text \<open>
  However the apiserver pages, the listing ends: it asks for at most a hundred pages, all of the
  selection in its one namespace, and changes nothing.
\<close>

theorem listings_are_bounded:
  "length (ks_requests (snd (kube_ListTargets env dns_label ref st))) \<le> length (ks_requests st) + collectionMaxPages \<and>
   (\<exists>rs. ks_requests (snd (kube_ListTargets env dns_label ref st)) = ks_requests st @ rs \<and>
      list_all (\<lambda>r. kr_Verb r = ''list'' \<and> kr_Namespace r = ct_Namespace ref \<and> kr_Body r = None) rs)"
proof
  have "at_most collectionMaxPages (kube_ListTargets env dns_label ref)"
    unfolding kube_ListTargets_def by (intro at_most_kbind quiet_intros at_most_list_pages)
  then show "length (ks_requests (snd (kube_ListTargets env dns_label ref st))) \<le> length (ks_requests st) + collectionMaxPages"
    unfolding at_most_def by blast
  have "sends (\<lambda>_. True) (\<lambda>r. kr_Verb r = ''list'' \<and> kr_Namespace r = ct_Namespace ref \<and> kr_Body r = None)
     (kube_ListTargets env dns_label ref)"
    unfolding kube_ListTargets_def
    by (intro sends_kbind sends_intros sends_list_pages) (simp_all add: discovers_def page_request_def)
  then show "\<exists>rs. ks_requests (snd (kube_ListTargets env dns_label ref st)) = ks_requests st @ rs \<and>
      list_all (\<lambda>r. kr_Verb r = ''list'' \<and> kr_Namespace r = ct_Namespace ref \<and> kr_Body r = None) rs"
    by (cases "kube_ListTargets env dns_label ref st") (auto elim: sendsD)
qed

section \<open>Kinds\<close>

text \<open>
  C32. A kind the cached mapper does not know is looked up once more in what the cluster serves now, so
  a kind that was installed after the start is found, and stays found.
\<close>

theorem new_kinds_are_found:
  assumes "ParseGroupVersion (ke_am env) av = Some (grp, version)" and "ks_mapper st = Some old"
    and "old grp kind version = NoMatch" and "ke_discover env st = Inr new'" and "new' grp kind version = Mapped res"
  shows "\<exists>st'. resolve_kind env av kind st = (Inr res, st') \<and> ks_requests st' = ks_requests st \<and>
     ks_mapper st' = Some new' \<and> resolve_kind env av kind st' = (Inr res, st')"
  using assms by (simp add: resolve_kind_def restMapper_def act_bind_def act_return_def)

text \<open>The mapper of before knows no pod.\<close>

theorem new_kinds_are_found_witness:
  "\<exists>st'. resolve_kind sample_kube ''v1'' ''Pod'' (sample_start\<lparr>ks_mapper := Some (\<lambda>g k v. NoMatch)\<rparr>) =
       (Inr \<lparr>rv_gvr = pods_gvr, rv_namespaced = True\<rparr>, st') \<and>
     resolve_kind sample_kube ''v1'' ''Pod'' st' = (Inr \<lparr>rv_gvr = pods_gvr, rv_namespaced = True\<rparr>, st')"
  using new_kinds_are_found [of sample_kube "''v1''" "[]" "''v1''" "sample_start\<lparr>ks_mapper := Some (\<lambda>g k v. NoMatch)\<rparr>"
      "\<lambda>g k v. NoMatch" "''Pod''" sample_mapper "\<lparr>rv_gvr = pods_gvr, rv_namespaced = True\<rparr>"]
  by (auto simp: sample_kube_def sample_am_def sample_mapper_def)

text \<open>
  C33. The two-row computation is the edit distance: the least number of letters that have to be
  inserted, deleted or replaced to turn one word into the other.
\<close>

theorem edit_distance_is_least: "editDistance as bs = (LEAST n. turns as bs n)"
  using turns_dist [of as bs] dist_least [of as bs] by (simp add: editDistance_dist Least_equality)

text \<open>
  The suggestions for a kind that is not served are at most five, no two alike, and each is a kind
  the cluster serves whose name contains the one asked for, is contained in it, or is within the
  budget of edits of it.
\<close>

theorem suggestions_are_close:
  "distinct (rankSimilarKinds kinds kind) \<and> length (rankSimilarKinds kinds kind) \<le> 5 \<and>
   set (rankSimilarKinds kinds kind) \<subseteq> kind_label ` {r \<in> set kinds. to_lower (ar_Kind r) \<noteq> to_lower kind \<and>
     (contains_sub (to_lower (ar_Kind r)) (to_lower kind) \<or> contains_sub (to_lower kind) (to_lower (ar_Kind r)) \<or>
      (LEAST n. turns (to_lower (ar_Kind r)) (to_lower kind) n) \<le> kindEditBudget (to_lower kind))}"
proof -
  have least: "(LEAST n. turns as bs n) = dist as bs" for as bs :: string
    using turns_dist [of as bs] dist_least [of as bs] by (simp add: Least_equality)
  show ?thesis
    unfolding least using rankSimilarKinds_distinct [of kinds kind] by (auto dest!: rankSimilarKinds_found)
qed

section \<open>Streams\<close>

text \<open>
  Of what a stream brings, in whatever pieces, the first bytes up to the limit are kept, unchanged
  and in order, and the flag of truncation is set exactly when there were more.
\<close>

theorem kept_output_is_a_prefix:
  assumes "list_all (\<lambda>p. p \<noteq> []) ps"
  shows "lw_buf (lw_writes ps (new_writer limit)) = take limit (concat ps) \<and>
     (lw_full (lw_writes ps (new_writer limit)) \<longleftrightarrow> limit < length (concat ps))"
  using lw_writes_truncated [OF _ _ assms, of "new_writer limit"] by simp

theorem kept_output_is_a_prefix_witness:
  "lw_buf (lw_writes [''ab'', ''cd''] (new_writer 3)) = ''abc'' \<and> lw_full (lw_writes [''ab'', ''cd''] (new_writer 3)) \<and>
   \<not> lw_full (lw_writes [''ab'', ''cd''] (new_writer 4))"
  using kept_output_is_a_prefix [of "[''ab'', ''cd'']" 3] kept_output_is_a_prefix [of "[''ab'', ''cd'']" 4]
  by (simp add: numeral_eq_Suc)

text \<open>
  C34. What a port answers comes back to the caller byte for byte, up to the limit, whether it is text
  or not: decoding the response in the encoding it names gives the bytes that arrived.
\<close>

theorem tunnel_bodies_decode_back:
  "let out = newPortForwardOutcome port payload (lw_writes ps (new_writer streamMaxOutputBytes)) s in
   uncarried (pf_Response out, pf_ResponseEncoding out) = Some (take streamMaxOutputBytes (concat ps))"
  by (simp add: newPortForwardOutcome_def Let_def)

text \<open>
  The payload of an attach is handed out once and in order, however it is read, and after it the
  reader waits rather than ending the stream.
\<close>

theorem stdin_is_handed_out_once:
  "concat (map read_bytes (stdin_reads ns \<lparr>sr_payload = payload, sr_off = 0\<rparr>)) = take (sum_list ns) payload"
  by (simp add: stdin_reads_payload)

text \<open>
  A watch answers with exactly the events of its window: it succeeds if and only if the first
  hundred things pushed are events, gives these in their order without the noise, and says it was cut
  if and only if there were a hundred.
\<close>

theorem watch_windows_are_exact:
  "collect_events resource [] steps = Inr (events, truncated) \<longleftrightarrow>
     list_all (\<lambda>s. step_event s \<noteq> None) (take WatchMaxEvents steps) \<and>
     events = List.map_filter step_event (take WatchMaxEvents steps) \<and> (truncated \<longleftrightarrow> WatchMaxEvents \<le> length steps)"
  using collect_events_iff [of "[]" resource steps events truncated] by (simp add: WatchMaxEvents_def Let_def)

text \<open>
  A command whose output was cut is told with what was kept; an attach in the same situation, where
  the cut has cancelled the stream before the window was over, is an error and loses it.
\<close>

theorem cut_output_is_kept_by_exec:
  assumes "capped" and "\<And>c. ending \<noteq> ExitError c"
  shows "\<exists>limited. execStreamOutcome ending expired capped = Inr (None, limited)"
  using assms by (cases ending) (auto simp: execStreamOutcome_def)

theorem cut_output_is_lost_by_attach:
  assumes "stream_pod env ref ''attach'' st = (Inr (res, ns), st1)" and "seconds \<le> AttachMaxReadSeconds"
    and "\<And>q st. se_executor se q st = Inr \<lparr>sm_pieces = pieces, sm_end = StreamFailed ''context canceled'', sm_expired = False\<rparr>"
  shows "\<exists>st'. kube_AttachResource env se ref container stdin seconds st = (Inl (apiErrorf ''context canceled''), st')"
  using assms
  by (auto simp: kube_AttachResource_def act_bind_def kcheck_def act_check_def act_return_def act_fail_def open_stream_def Let_def
      AttachDefaultReadSeconds_def AttachMaxReadSeconds_def)

text \<open>A forward to a port whose error stream the far side leaves open does not return.\<close>

theorem forwards_may_not_return:
  assumes "tn_error_stream tn = None" and "tn_data_stream tn = None" and "tn_write tn = None" and "tn_message tn = None"
  shows "roundTrip tn port payload readSeconds = None"
  using assms by (simp add: roundTrip_def)

end
