(* ===== verification/GithubClient.thy ===== *)
theory GithubClient
  imports HttpClient Screen Services
begin

text \<open>
  internal/github: the client that mints installation tokens of the App, and spends the one permission
  it does not hand out. The App's private key is what it signs (\<open>signer\<close>); parsing the key and the
  RS256 signature are the jwt library's.
\<close>

section \<open>Errors and configuration\<close>

datatype github_kind = GUnavailable | GAPI | GRejected | GInvalid

definition github_error :: "github_kind \<Rightarrow> string \<Rightarrow> go_err" where
  "github_error k msg =
     (case k of
        GUnavailable \<Rightarrow> ErrUnavailable (''github app unavailable: '' @ msg)
      | GRejected \<Rightarrow> ErrText (''github token request rejected: '' @ msg)
      | GInvalid \<Rightarrow> ErrText (''github commit status refused: '' @ msg)
      | GAPI \<Rightarrow> ErrText (''github api error: '' @ msg))"

text \<open>\<open>NewUnavailable\<close>: the error with which every operation of the service fails.\<close>

definition github_NewUnavailable :: "string \<Rightarrow> go_err" where
  "github_NewUnavailable reason =
     github_error GUnavailable (if reason = [] then ''github app credentials are not configured'' else reason)"

definition defaultAPIBase :: string where "defaultAPIBase = ''https://api.github.com''"
definition githubAPIVersion :: string where "githubAPIVersion = ''2022-11-28''"
definition jwtTTLSeconds :: int where "jwtTTLSeconds = 540"
definition jwtClockSkewSecs :: int where "jwtClockSkewSecs = 60"
definition statusesPermission :: string where "statusesPermission = ''statuses''"
definition checksPermission :: string where "checksPermission = ''checks''"

text \<open>The names of \<open>excludedWritePermissions\<close>, each with its refusal.\<close>

definition excludedWritePermissions :: "(string \<times> string) list" where
  "excludedWritePermissions =
     [(statusesPermission, ''this tool does not issue statuses: write - use github_commit_status_create''),
      (checksPermission, ''this tool does not issue checks: write'')]"

record app_claims =
  ap_iat :: int
  ap_exp :: int
  ap_iss :: string

type_synonym signer = "app_claims \<Rightarrow> string + string"

record github_client =
  gh_clientID :: string
  gh_installationID :: int
  gh_privateKey :: signer
  gh_apiBase :: string
  gh_userAgent :: string
  gh_statusContextPrefixes :: "string list"

definition contextPrefixesFromEnv :: "(string \<Rightarrow> string) \<Rightarrow> string list" where
  "contextPrefixesFromEnv getenv =
     filter (\<lambda>s. s \<noteq> []) (map trim_space (split_on (CHR '','') (getenv ''GITHUB_COMMIT_STATUS_CONTEXT_PREFIXES'')))"

definition github_FromEnv :: "(string \<Rightarrow> string + signer) \<Rightarrow> (string \<Rightarrow> string) \<Rightarrow> string \<Rightarrow> string + github_client option" where
  "github_FromEnv parseKey getenv agent =
     (let clientID = getenv ''GITHUB_APP_CLIENT_ID''; installationRaw = getenv ''GITHUB_APP_INSTALLATION_ID'';
          pem = getenv ''GITHUB_APP_PRIVATE_KEY''; apiBase = getenv ''GITHUB_API_BASE_URL'' in
      if clientID = [] then Inr None
      else if installationRaw = [] then Inl ''GITHUB_APP_INSTALLATION_ID is required when GITHUB_APP_CLIENT_ID is set''
      else (case parse_int64 installationRaw of
          None \<Rightarrow> Inl ''parse GITHUB_APP_INSTALLATION_ID: invalid syntax''
        | Some n \<Rightarrow>
            if pem = [] then Inl ''GITHUB_APP_PRIVATE_KEY is required when GITHUB_APP_CLIENT_ID is set''
            else (case parseKey pem of
                Inl e \<Rightarrow> Inl (''parse github app private key: '' @ e)
              | Inr key \<Rightarrow> Inr (Some
                  \<lparr>gh_clientID = clientID, gh_installationID = n, gh_privateKey = key,
                   gh_apiBase = trim_right (CHR ''/'') (if apiBase = [] then defaultAPIBase else apiBase),
                   gh_userAgent = agent, gh_statusContextPrefixes = contextPrefixesFromEnv getenv\<rparr>))))"

section \<open>Requests\<close>

definition github_headers :: "github_client \<Rightarrow> string \<Rightarrow> bool \<Rightarrow> (string \<times> string) list" where
  "github_headers c auth body =
     [(''Authorization'', ''Bearer '' @ auth), (''Accept'', ''application/vnd.github+json''),
      (''X-GitHub-Api-Version'', githubAPIVersion), (''User-Agent'', gh_userAgent c)]
     @ (if body then [(''Content-Type'', ''application/json'')] else [])"

definition github_call :: "github_client \<Rightarrow> string \<Rightarrow> string \<Rightarrow> string \<Rightarrow> raw option \<Rightarrow> http_call" where
  "github_call c verb url auth body =
     \<lparr>hc_Method = verb, hc_URL = url, hc_Headers = github_headers c auth (body \<noteq> None), hc_Body = body\<rparr>"

text \<open>
  Sending a request and reading the answer into a struct, as \<open>fetchInstallation\<close>,
  \<open>mintInstallationToken\<close> and \<open>postCommitStatus\<close> do it.
\<close>

definition github_exchange :: "http_env \<Rightarrow> http_call \<Rightarrow> string \<Rightarrow> (string \<times> 's reader) list \<Rightarrow> 's \<Rightarrow> 's http" where
  "github_exchange env call what fs zero =
     act_bind (http_do env call) (\<lambda>answer.
     act_lift (case answer of
         Inl e \<Rightarrow> Inl (github_error GAPI (to_lower (hc_Method call) @ '' '' @ hc_URL call @ '': '' @ e))
       | Inr resp \<Rightarrow>
           if \<not> success (ha_StatusCode resp) then
             Inl (github_error GAPI (hc_URL call @ '' returned '' @ ha_Status resp @ '': '' @ ha_Body resp))
           else (case unmarshal env fs zero (ha_Body resp) of
               Inl e \<Rightarrow> Inl (github_error GAPI (''parse '' @ what @ '': '' @ e))
             | Inr x \<Rightarrow> Inr x)))"

definition appJWT :: "http_env \<Rightarrow> github_client \<Rightarrow> string http" where
  "appJWT env c =
     act_bind (act_get (he_now env)) (\<lambda>now.
     act_lift (case gh_privateKey c
         \<lparr>ap_iat = now - jwtClockSkewSecs, ap_exp = now + jwtTTLSeconds, ap_iss = gh_clientID c\<rparr> of
         Inl e \<Rightarrow> Inl (github_error GAPI (''sign app jwt: '' @ e))
       | Inr jwt \<Rightarrow> Inr jwt))"

definition permissionLevel :: "obj \<Rightarrow> string \<Rightarrow> string" where
  "permissionLevel permissions name = to_lower (trim_space (string_or_empty permissions name))"

section \<open>The installation\<close>

record installation =
  in_Permissions :: "obj option"
  in_Login :: string

definition installation_fields :: "(string \<times> installation reader) list" where
  "installation_fields =
     [(''permissions'', \<lambda>v s. bind_sum (read_object v (in_Permissions s)) (\<lambda>x. Inr (s\<lparr>in_Permissions := x\<rparr>))),
      (''account'', read_struct False [(''login'', read_string_field in_Login in_Login_update)])]"

definition installation_url :: "github_client \<Rightarrow> string" where
  "installation_url c = gh_apiBase c @ ''/app/installations/'' @ itoa (gh_installationID c)"

definition fetchInstallation :: "http_env \<Rightarrow> github_client \<Rightarrow> string \<Rightarrow> installation http" where
  "fetchInstallation env c jwt =
     github_exchange env (github_call c ''GET'' (installation_url c) jwt None) ''installation'' installation_fields
       \<lparr>in_Permissions = None, in_Login = []\<rparr>"

definition installationPermissions :: "http_env \<Rightarrow> github_client \<Rightarrow> string \<Rightarrow> obj http" where
  "installationPermissions env c jwt =
     act_bind (fetchInstallation env c jwt) (\<lambda>parsed.
     act_lift (case in_Permissions parsed of
         None \<Rightarrow> Inl (github_error GAPI (installation_url c @ '' returned no permissions''))
       | Some perms \<Rightarrow> Inr perms))"

definition installationOwner :: "http_env \<Rightarrow> github_client \<Rightarrow> string \<Rightarrow> string http" where
  "installationOwner env c jwt =
     act_bind (fetchInstallation env c jwt) (\<lambda>parsed.
     act_bind (act_check (in_Login parsed \<noteq> []) (github_error GAPI (installation_url c @ '' returned no account login''))) (\<lambda>_.
     act_return (in_Login parsed)))"

text \<open>Every excluded permission that is there to write is turned into one to read.\<close>

definition lower_one :: "string \<Rightarrow> obj \<Rightarrow> obj" where
  "lower_one name effective =
     (if permissionLevel effective name = ''write'' then set_member name (JStr ''read'') effective else effective)"

definition lower_excluded :: "obj \<Rightarrow> obj" where
  "lower_excluded installed = foldl (\<lambda>effective (name, _). lower_one name effective) installed excludedWritePermissions"

definition refused_permission :: "obj \<Rightarrow> (string \<times> string) option" where
  "refused_permission permissions = find (\<lambda>(name, _). permissionLevel permissions name = ''write'') excludedWritePermissions"

definition effectivePermissions :: "http_env \<Rightarrow> github_client \<Rightarrow> string \<Rightarrow> obj option \<Rightarrow> obj http" where
  "effectivePermissions env c jwt requested =
     (case requested of
        Some perms \<Rightarrow>
          (case refused_permission perms of
             Some (_, refusal) \<Rightarrow> act_fail (github_error GRejected refusal)
           | None \<Rightarrow> act_return perms)
      | None \<Rightarrow>
          act_bind (installationPermissions env c jwt) (\<lambda>installed.
          act_return (lower_excluded installed)))"

section \<open>Tokens\<close>

record minted =
  mt_Token :: string
  mt_ExpiresAt :: string
  mt_Permissions :: "obj option"
  mt_RepositorySelection :: string

definition minted_fields :: "(string \<times> minted reader) list" where
  "minted_fields =
     [(''token'', read_string_field mt_Token mt_Token_update),
      (''expires_at'', read_string_field mt_ExpiresAt mt_ExpiresAt_update),
      (''permissions'', \<lambda>v s. bind_sum (read_object v (mt_Permissions s)) (\<lambda>x. Inr (s\<lparr>mt_Permissions := x\<rparr>))),
      (''repository_selection'', read_string_field mt_RepositorySelection mt_RepositorySelection_update)]"

definition zero_minted :: minted where
  "zero_minted = \<lparr>mt_Token = [], mt_ExpiresAt = [], mt_Permissions = None, mt_RepositorySelection = []\<rparr>"

definition token_of :: "minted \<Rightarrow> installation_token" where
  "token_of m = InstallationToken (mt_Token m) (mt_ExpiresAt m) (or_else (mt_Permissions m) []) (mt_RepositorySelection m)"

definition tokens_url :: "github_client \<Rightarrow> string" where
  "tokens_url c = installation_url c @ ''/access_tokens''"

definition revoke_url :: "github_client \<Rightarrow> string" where
  "revoke_url c = gh_apiBase c @ ''/installation/token''"

definition revokeToken :: "http_env \<Rightarrow> github_client \<Rightarrow> string \<Rightarrow> unit http" where
  "revokeToken env c token =
     (let url = revoke_url c in
      act_bind (http_do env (github_call c ''DELETE'' url token None)) (\<lambda>answer.
      act_lift (case answer of
          Inl e \<Rightarrow> Inl (ErrText (''delete '' @ url @ '': '' @ e))
        | Inr resp \<Rightarrow> ensure (success (ha_StatusCode resp)) (ErrText (url @ '' returned '' @ ha_Status resp)))))"

definition mint_call :: "github_client \<Rightarrow> string \<Rightarrow> obj \<Rightarrow> http_call" where
  "mint_call c jwt body = github_call c ''POST'' (tokens_url c) jwt (Some (JObj body))"

definition mintInstallationToken :: "http_env \<Rightarrow> github_client \<Rightarrow> string \<Rightarrow> obj \<Rightarrow> installation_token http" where
  "mintInstallationToken env c jwt body =
     act_bind (github_exchange env (mint_call c jwt body) ''installation token'' minted_fields zero_minted) (\<lambda>m.
     act_return (token_of m))"

text \<open>\<open>CreateInstallationToken\<close>: a token that came back with an excluded permission is revoked.\<close>

definition token_body :: "string list option \<Rightarrow> obj \<Rightarrow> obj" where
  "token_body repositories effective =
     (case repositories of None \<Rightarrow> [] | Some rs \<Rightarrow> [(''repositories'', JArr (map JStr rs))])
     @ [(''permissions'', JObj effective)]"

definition guard_token :: "http_env \<Rightarrow> github_client \<Rightarrow> installation_token \<Rightarrow> installation_token http" where
  "guard_token env c token =
     (case refused_permission (tok_Permissions token) of
        None \<Rightarrow> act_return token
      | Some (name, _) \<Rightarrow>
          act_bind (act_try (revokeToken env c (tok_Token token))) (\<lambda>revocation.
          act_fail (github_error GAPI
            (''installation token came back carrying '' @ name @ '': write; it was revoked and is not returned''
             @ (case revocation of Inl e \<Rightarrow> '' (revoke failed: '' @ err_text e @ '')'' | Inr _ \<Rightarrow> [])))))"

definition client_CreateInstallationToken ::
  "http_env \<Rightarrow> github_client \<Rightarrow> string list option \<Rightarrow> obj option \<Rightarrow> installation_token http" where
  "client_CreateInstallationToken env c repositories permissions =
     act_bind (appJWT env c) (\<lambda>jwt.
     act_bind (effectivePermissions env c jwt permissions) (\<lambda>effective.
     act_bind (mintInstallationToken env c jwt (token_body repositories effective)) (\<lambda>token.
     guard_token env c token)))"

section \<open>Commit statuses\<close>

definition commitStatusStates :: "string list" where
  "commitStatusStates = [''error'', ''failure'', ''pending'', ''success'']"

definition maxDescriptionRunes :: nat where "maxDescriptionRunes = 140"

definition full_sha :: "string \<Rightarrow> bool" where
  "full_sha s \<longleftrightarrow> length s = 40 \<and> list_all (\<lambda>c. hex_of c \<noteq> None) s"

definition validateCommitStatusInput :: "commit_status_input \<Rightarrow> go_err + unit" where
  "validateCommitStatusInput i =
     bind_sum (ensure (trim_space (cs_Repository i) \<noteq> []) (github_error GInvalid ''repository is required'')) (\<lambda>_.
     bind_sum (ensure (\<not> contains_any (cs_Repository i) ''/ '')
       (github_error GInvalid (''repository '' @ cs_Repository i @ '' must be the repo name without its owner''))) (\<lambda>_.
     bind_sum (ensure (full_sha (cs_SHA i)) (github_error GInvalid (''sha '' @ cs_SHA i @ '' is not a 40-character hex commit sha''))) (\<lambda>_.
     bind_sum (ensure (cs_State i \<in> set commitStatusStates)
       (github_error GInvalid (''state '' @ cs_State i @ '' must be one of '' @ join '', '' commitStatusStates))) (\<lambda>_.
     bind_sum (ensure (cs_Context i \<noteq> []) (github_error GInvalid ''context is required'')) (\<lambda>_.
     bind_sum (ensure (rune_count (cs_Description i) \<le> maxDescriptionRunes)
       (github_error GInvalid (''description is above the '' @ itoa (int maxDescriptionRunes) @ '' limit''))) (\<lambda>_.
     ensure (cs_TargetURL i \<noteq> [] \<longrightarrow> absolute_http (cs_TargetURL i))
       (github_error GInvalid (''target_url '' @ cs_TargetURL i @ '' must be an absolute http(s) URL''))))))))"

definition checkContextPrefix :: "github_client \<Rightarrow> string \<Rightarrow> go_err + unit" where
  "checkContextPrefix c statusContext =
     (if gh_statusContextPrefixes c = [] then
        Inl (github_error GInvalid ''no commit status context prefix is configured, so every context is refused'')
      else ensure (list_ex (has_prefix statusContext) (gh_statusContextPrefixes c))
        (github_error GInvalid (''context '' @ statusContext @ '' is outside the allowed prefixes: ''
           @ join '', '' (gh_statusContextPrefixes c))))"

record status_json =
  sx_ID :: int
  sx_State :: string
  sx_Context :: string
  sx_SHA :: string
  sx_Description :: string
  sx_TargetURL :: string
  sx_CreatedAt :: string

definition commit_fields :: "(string \<times> status_json reader) list" where
  "commit_fields =
     [(''id'', read_int_field sx_ID sx_ID_update), (''state'', read_string_field sx_State sx_State_update),
      (''context'', read_string_field sx_Context sx_Context_update), (''sha'', read_string_field sx_SHA sx_SHA_update),
      (''description'', read_string_field sx_Description sx_Description_update),
      (''target_url'', read_string_field sx_TargetURL sx_TargetURL_update),
      (''created_at'', read_string_field sx_CreatedAt sx_CreatedAt_update)]"

definition zero_status :: status_json where
  "zero_status = \<lparr>sx_ID = 0, sx_State = [], sx_Context = [], sx_SHA = [], sx_Description = [], sx_TargetURL = [], sx_CreatedAt = []\<rparr>"

definition status_of :: "string \<Rightarrow> status_json \<Rightarrow> commit_status" where
  "status_of sha s = CommitStatus (sx_ID s) (sx_State s) (sx_Context s) sha (sx_Description s) (sx_TargetURL s) (sx_CreatedAt s)"

definition commit_body :: "commit_status_input \<Rightarrow> obj" where
  "commit_body i =
     [(''state'', JStr (cs_State i)), (''context'', JStr (cs_Context i))]
     @ (if cs_Description i = [] then [] else [(''description'', JStr (cs_Description i))])
     @ (if cs_TargetURL i = [] then [] else [(''target_url'', JStr (cs_TargetURL i))])"

definition status_url :: "github_client \<Rightarrow> string \<Rightarrow> commit_status_input \<Rightarrow> string" where
  "status_url c owner i = gh_apiBase c @ ''/repos/'' @ owner @ ''/'' @ cs_Repository i @ ''/statuses/'' @ cs_SHA i"

definition postCommitStatus :: "http_env \<Rightarrow> github_client \<Rightarrow> string \<Rightarrow> string \<Rightarrow> commit_status_input \<Rightarrow> commit_status http" where
  "postCommitStatus env c token owner i =
     act_bind (github_exchange env (github_call c ''POST'' (status_url c owner i) token (Some (JObj (commit_body i))))
       ''commit status'' commit_fields zero_status) (\<lambda>s.
     act_return (status_of (cs_SHA i) s))"

text \<open>\<open>CreateCommitStatus\<close>: the deferred revocation runs whatever the request came to.\<close>

definition status_token_body :: "string \<Rightarrow> obj" where
  "status_token_body repository =
     [(''repositories'', JArr [JStr repository]), (''permissions'', JObj [(statusesPermission, JStr ''write'')])]"

definition spend_token :: "http_env \<Rightarrow> github_client \<Rightarrow> string \<Rightarrow> commit_status_input \<Rightarrow> installation_token \<Rightarrow> commit_status http" where
  "spend_token env c owner i token =
     act_bind (act_try (postCommitStatus env c (tok_Token token) owner i)) (\<lambda>result.
     act_bind (act_try (revokeToken env c (tok_Token token))) (\<lambda>_.
     act_lift result))"

definition client_CreateCommitStatus :: "http_env \<Rightarrow> github_client \<Rightarrow> commit_status_input \<Rightarrow> commit_status http" where
  "client_CreateCommitStatus env c i =
     act_bind (act_lift (validateCommitStatusInput i)) (\<lambda>_.
     act_bind (act_lift (checkContextPrefix c (cs_Context i))) (\<lambda>_.
     act_bind (appJWT env c) (\<lambda>jwt.
     act_bind (installationOwner env c jwt) (\<lambda>owner.
     act_bind (mintInstallationToken env c jwt (status_token_body (cs_Repository i))) (\<lambda>token.
     spend_token env c owner i token)))))"

end
