(* ===== verification/GithubLedger.thy ===== *)
theory GithubLedger
  imports GithubClient
begin

text \<open>
  The tokens of the installation that are alive, as the answers to the client's requests tell: an
  abstract ledger that the client's two operations move, and the steps it promises to make.
\<close>

section \<open>The ledger\<close>

definition minted_token :: "http_env \<Rightarrow> github_client \<Rightarrow> trace \<Rightarrow> http_call \<Rightarrow> installation_token option" where
  "minted_token env c before call =
     (if hc_Method call = ''POST'' \<and> hc_URL call = tokens_url c then
        (case he_answer env call before of
           Inl _ \<Rightarrow> None
         | Inr resp \<Rightarrow>
             if success (ha_StatusCode resp) then
               (case unmarshal env minted_fields zero_minted (ha_Body resp) of Inl _ \<Rightarrow> None | Inr m \<Rightarrow> Some (token_of m))
             else None)
      else None)"

definition revokes :: "http_env \<Rightarrow> github_client \<Rightarrow> trace \<Rightarrow> http_call \<Rightarrow> string \<Rightarrow> bool" where
  "revokes env c before call token \<longleftrightarrow>
     hc_Method call = ''DELETE'' \<and> hc_URL call = revoke_url c \<and> header_of call ''Authorization'' = Some (''Bearer '' @ token) \<and>
     (case he_answer env call before of Inl _ \<Rightarrow> False | Inr resp \<Rightarrow> success (ha_StatusCode resp))"

definition ledger_step :: "http_env \<Rightarrow> github_client \<Rightarrow> trace \<Rightarrow> http_call \<Rightarrow> installation_token set \<Rightarrow> installation_token set" where
  "ledger_step env c before call L =
     {t \<in> L \<union> set_option (minted_token env c before call). \<not> revokes env c before call (tok_Token t)}"

definition living :: "http_env \<Rightarrow> github_client \<Rightarrow> trace \<Rightarrow> installation_token set" where
  "living env c tr = foldl (\<lambda>L (before, call). ledger_step env c before call L) {} (history tr)"

lemma living_Nil [simp]: "living env c [] = {}"
  by (simp add: living_def history_def)

lemma living_snoc: "living env c (tr @ [call]) = ledger_step env c tr call (living env c tr)"
  by (simp add: living_def history_snoc)

text \<open>What the ledger may do: lose tokens, or gain one that was handed out and carries no excluded permission.\<close>

definition harmless :: "installation_token \<Rightarrow> bool" where
  "harmless t \<longleftrightarrow> refused_permission (tok_Permissions t) = None"

inductive ledger_move :: "installation_token set \<Rightarrow> installation_token option \<Rightarrow> installation_token set \<Rightarrow> bool" where
  nothing: "L' \<subseteq> L \<Longrightarrow> ledger_move L None L'"
| handed_out: "harmless t \<Longrightarrow> ledger_move L (Some t) (insert t L)"

inductive_cases ledger_moveE: "ledger_move L issued L'"

section \<open>The client's operations\<close>

datatype github_op = IssueOp "string list option" "obj option" | StatusOp commit_status_input

definition handed :: "go_err + 'a \<Rightarrow> 'a option" where
  "handed r = (case r of Inl _ \<Rightarrow> None | Inr t \<Rightarrow> Some t)"

fun run_op :: "http_env \<Rightarrow> github_client \<Rightarrow> github_op \<Rightarrow> trace \<Rightarrow> installation_token option \<times> trace" where
  "run_op env c (IssueOp repositories permissions) tr =
     (case client_CreateInstallationToken env c repositories permissions tr of (r, tr') \<Rightarrow> (handed r, tr'))"
| "run_op env c (StatusOp i) tr = (case client_CreateCommitStatus env c i tr of (r, tr') \<Rightarrow> (None, tr'))"

text \<open>\<open>client_runs env c issued tr\<close>: after some operations the trace is \<open>tr\<close> and \<open>issued\<close> was handed out.\<close>

inductive client_runs :: "http_env \<Rightarrow> github_client \<Rightarrow> installation_token list \<Rightarrow> trace \<Rightarrow> bool" for env c where
  start: "client_runs env c [] []"
| step: "client_runs env c issued tr \<Longrightarrow> run_op env c op tr = (r, tr') \<Longrightarrow>
    client_runs env c (case r of None \<Rightarrow> issued | Some t \<Rightarrow> t # issued) tr'"

text \<open>GitHub accepts the revocation of a token.\<close>

definition revocations_work :: "http_env \<Rightarrow> github_client \<Rightarrow> bool" where
  "revocations_work env c \<longleftrightarrow>
     (\<forall>before token. \<exists>resp. he_answer env (github_call c ''DELETE'' (revoke_url c) token None) before = Inr resp \<and>
        success (ha_StatusCode resp))"

section \<open>The steps of the operations\<close>

lemma revokes_call: "revokes env c before call token \<Longrightarrow> hc_Method call = ''DELETE''"
  by (simp add: revokes_def)

text \<open>A request that neither mints nor revokes leaves the ledger.\<close>

definition aside :: "github_client \<Rightarrow> http_call \<Rightarrow> bool" where
  "aside c call \<longleftrightarrow> hc_Method call \<noteq> ''DELETE'' \<and> hc_URL call \<noteq> tokens_url c"

lemma ledger_step_aside: "aside c call \<Longrightarrow> ledger_step env c before call L = L"
  by (auto simp: ledger_step_def minted_token_def revokes_def aside_def)

lemma living_aside: "list_all (aside c) calls \<Longrightarrow> living env c (tr @ calls) = living env c tr"
  by (induction calls rule: rev_induct) (simp_all add: living_snoc ledger_step_aside flip: append_assoc)

lemma requests_aside:
  assumes "requests (\<lambda>_. aside c) m" and "m tr = (r, tr')"
  shows "living env c tr' = living env c tr"
proof -
  from assms obtain calls where "tr' = tr @ calls" "\<And>i. i < length calls \<Longrightarrow> aside c (calls ! i)" by (rule requestsD) blast
  then show ?thesis by (simp add: living_aside list_all_length)
qed

lemma requests_exchange: "(\<And>before. P before call) \<Longrightarrow> requests P (github_exchange env call what fs zero)"
  unfolding github_exchange_def by (intro requests_intros)

lemma requests_jwt: "requests P (appJWT env c)"
  unfolding appJWT_def by (intro requests_intros)

lemma installation_aside: "aside c (github_call c ''GET'' (installation_url c) jwt None)"
  by (simp add: aside_def github_call_def tokens_url_def)

lemma status_aside: "aside c (github_call c ''POST'' (status_url c owner i) token body)"
  by (simp add: aside_def github_call_def tokens_url_def installation_url_def status_url_def)

lemma requests_owner: "requests (\<lambda>_. aside c) (installationOwner env c jwt)"
  unfolding installationOwner_def fetchInstallation_def
  by (intro requests_intros requests_exchange requests_check installation_aside)

lemma requests_effective: "requests (\<lambda>_. aside c) (effectivePermissions env c jwt permissions)"
  unfolding effectivePermissions_def installationPermissions_def fetchInstallation_def
  by (auto split: option.split intro!: requests_intros requests_exchange installation_aside)

lemma requests_post: "requests (\<lambda>_. aside c) (postCommitStatus env c token owner i)"
  unfolding postCommitStatus_def by (intro requests_intros requests_exchange status_aside)

lemma mint_run:
  assumes "mintInstallationToken env c jwt body tr = (r, tr')"
  shows "tr' = tr @ [mint_call c jwt body] \<and> handed r = minted_token env c tr (mint_call c jwt body)"
  using assms
  by (auto simp: mintInstallationToken_def github_exchange_def act_bind_def http_do_def act_lift_def act_fail_def
      act_return_def minted_token_def mint_call_def github_call_def handed_def split: sum.splits if_splits)

lemma living_mint:
  assumes "mintInstallationToken env c jwt body tr = (r, tr')"
  shows "living env c tr' = living env c tr \<union> set_option (handed r)"
proof -
  have "\<not> revokes env c tr (mint_call c jwt body) t" for t by (simp add: revokes_def mint_call_def github_call_def)
  with mint_run [OF assms] show ?thesis by (auto simp: living_snoc ledger_step_def)
qed

lemma living_revoke:
  assumes "revocations_work env c" and "revokeToken env c token tr = (r, tr')"
  shows "living env c tr' = {t \<in> living env c tr. tok_Token t \<noteq> token}"
proof -
  have tr': "tr' = tr @ [github_call c ''DELETE'' (revoke_url c) token None]"
    using assms(2) by (auto simp: revokeToken_def Let_def act_bind_def http_do_def act_lift_def act_fail_def act_return_def
        split: sum.splits)
  let ?call = "github_call c ''DELETE'' (revoke_url c) token None"
  obtain resp where resp: "he_answer env ?call tr = Inr resp" "success (ha_StatusCode resp)"
    using assms(1) unfolding revocations_work_def by blast
  have header: "header_of ?call ''Authorization'' = Some (''Bearer '' @ token)"
    by (simp add: github_call_def header_of_def github_headers_def)
  have "revokes env c tr ?call t \<longleftrightarrow> t = token" for t
    unfolding revokes_def header by (simp add: resp) (auto simp: github_call_def)
  then show ?thesis by (auto simp: tr' living_snoc ledger_step_def minted_token_def github_call_def)
qed

lemma move_none: "L' = L \<Longrightarrow> ledger_move L None L'"
  by (simp add: ledger_move.nothing)

text \<open>An act that leaves the ledger may go before; a mint adds its token.\<close>

lemma moves_after:
  assumes "requests (\<lambda>_. aside c) m" and run: "act_bind m f tr = (r, tr')" and none: "\<And>e. h (Inl e) = None"
    and "\<And>x tr1. f x tr1 = (r, tr') \<Longrightarrow> living env c tr1 = living env c tr \<Longrightarrow>
      ledger_move (living env c tr) (h r) (living env c tr')"
  shows "ledger_move (living env c tr) (h r) (living env c tr')"
proof -
  obtain q tr1 where m: "m tr = (q, tr1)" by (cases "m tr")
  with assms(1) have "living env c tr1 = living env c tr" by (rule requests_aside)
  with assms(4) run m none show ?thesis by (cases q) (auto simp: act_bind_def intro: move_none)
qed

lemma moves_mint:
  assumes run: "act_bind (mintInstallationToken env c jwt body) f tr = (r, tr')" and none: "\<And>e. h (Inl e) = None"
    and "\<And>t tr1. f t tr1 = (r, tr') \<Longrightarrow> living env c tr1 = insert t (living env c tr) \<Longrightarrow>
      ledger_move (living env c tr) (h r) (living env c tr')"
  shows "ledger_move (living env c tr) (h r) (living env c tr')"
proof -
  obtain q tr1 where m: "mintInstallationToken env c jwt body tr = (q, tr1)" by (cases "mintInstallationToken env c jwt body tr")
  from living_mint [OF m] have "living env c tr1 = living env c tr \<union> set_option (handed q)" .
  with assms(3) run m none show ?thesis by (cases q) (auto simp: act_bind_def handed_def intro: move_none)
qed

lemma moves_revoke:
  assumes "revocations_work env c" and run: "act_bind (act_try (revokeToken env c (tok_Token t))) f tr = (r, tr')"
    and before: "living env c tr = insert t L" and rest: "\<And>x tr1. f x tr1 = (r, tr') \<Longrightarrow> tr' = tr1 \<and> h r = None"
  shows "ledger_move L (h r) (living env c tr')"
proof -
  obtain q tr1 where m: "revokeToken env c (tok_Token t) tr = (q, tr1)" by (cases "revokeToken env c (tok_Token t) tr")
  from living_revoke [OF assms(1) m] before have "living env c tr1 \<subseteq> L" by auto
  moreover from run m have "f q tr1 = (r, tr')" by (simp add: act_bind_def act_try_def)
  ultimately show ?thesis using rest by (metis ledger_move.nothing)
qed

lemma handed_none [simp]: "handed (Inl e) = None"
  by (simp add: handed_def)

lemma guard_harmless: "guard_token env c token tr = (Inr t, tr') \<Longrightarrow> harmless t"
  by (cases "refused_permission (tok_Permissions token)")
     (auto simp: guard_token_def harmless_def act_bind_Inr)

text \<open>What an operation hands out carries no excluded permission, whatever the other side answers.\<close>

lemma issued_harmless:
  "client_CreateInstallationToken env c repositories permissions tr = (Inr t, tr') \<Longrightarrow> harmless t"
  by (auto simp: client_CreateInstallationToken_def act_bind_Inr dest: guard_harmless)

lemma guard_moves:
  assumes works: "revocations_work env c" and run: "guard_token env c token tr = (r, tr')"
    and before: "living env c tr = insert token L"
  shows "ledger_move L (handed r) (living env c tr')"
proof (cases "refused_permission (tok_Permissions token)")
  case None
  with run before show ?thesis
    by (auto simp: guard_token_def act_return_def harmless_def handed_def intro!: ledger_move.handed_out)
next
  case (Some refused)
  with run show ?thesis unfolding guard_token_def
    by (auto split: prod.splits simp: act_fail_def elim!: moves_revoke [OF works _ before, where h = handed])
qed

lemma spend_moves:
  assumes works: "revocations_work env c" and run: "spend_token env c owner i token tr = (r, tr')"
    and before: "living env c tr = insert token L"
  shows "ledger_move L None (living env c tr')"
proof -
  obtain q tr1 where post: "postCommitStatus env c (tok_Token token) owner i tr = (q, tr1)"
    by (cases "postCommitStatus env c (tok_Token token) owner i tr")
  from requests_aside [OF requests_post post] before have before1: "living env c tr1 = insert token L" by simp
  from run post have rest: "act_bind (act_try (revokeToken env c (tok_Token token))) (\<lambda>_. act_lift q) tr1 = (r, tr')"
    by (simp add: spend_token_def act_bind_def act_try_def)
  have "tr' = tr2 \<and> (None :: installation_token option) = None" if "act_lift q tr2 = (r, tr')" for tr2
    using that by (auto simp: act_lift_def act_fail_def act_return_def split: sum.splits)
  then show ?thesis by (rule moves_revoke [where h = "\<lambda>_. None", OF works rest before1])
qed

lemma issue_moves:
  assumes works: "revocations_work env c"
    and run: "client_CreateInstallationToken env c repositories permissions tr = (r, tr')"
  shows "ledger_move (living env c tr) (handed r) (living env c tr')"
  using run unfolding client_CreateInstallationToken_def
proof (rule moves_after [OF requests_jwt, where h = handed])
  fix jwt tr1
  assume "act_bind (effectivePermissions env c jwt permissions) (\<lambda>effective.
      act_bind (mintInstallationToken env c jwt (token_body repositories effective)) (guard_token env c)) tr1 = (r, tr')"
    and L1: "living env c tr1 = living env c tr"
  from this(1) have "ledger_move (living env c tr1) (handed r) (living env c tr')"
  proof (rule moves_after [OF requests_effective, where h = handed])
    fix effective tr2
    assume "act_bind (mintInstallationToken env c jwt (token_body repositories effective)) (guard_token env c) tr2 = (r, tr')"
      and L2: "living env c tr2 = living env c tr1"
    from this(1) have "ledger_move (living env c tr2) (handed r) (living env c tr')"
      by (rule moves_mint [where h = handed]) (auto intro: guard_moves [OF works])
    with L2 show "ledger_move (living env c tr1) (handed r) (living env c tr')" by simp
  qed simp
  with L1 show "ledger_move (living env c tr) (handed r) (living env c tr')" by simp
qed simp

lemma requests_lifted: "requests (\<lambda>_. aside c) (act_lift r)"
  by (rule requests_intros)

lemma status_moves:
  assumes works: "revocations_work env c" and run: "client_CreateCommitStatus env c i tr = (r, tr')"
  shows "ledger_move (living env c tr) None (living env c tr')"
proof (cases "validateCommitStatusInput i = Inr () \<and> checkContextPrefix c (cs_Context i) = Inr ()")
  case False
  with run have "tr' = tr"
    by (auto simp: client_CreateCommitStatus_def act_bind_def act_lift_def act_fail_def act_return_def split: sum.splits)
  then show ?thesis by (simp add: move_none)
next
  case True
  with run have "act_bind (appJWT env c) (\<lambda>jwt. act_bind (installationOwner env c jwt) (\<lambda>owner.
      act_bind (mintInstallationToken env c jwt (status_token_body (cs_Repository i))) (spend_token env c owner i))) tr = (r, tr')"
    by (simp add: client_CreateCommitStatus_def act_lift_def)
  then show ?thesis
  proof (rule moves_after [OF requests_jwt, where h = "\<lambda>_. None"])
    fix jwt tr1
    assume "act_bind (installationOwner env c jwt) (\<lambda>owner.
      act_bind (mintInstallationToken env c jwt (status_token_body (cs_Repository i))) (spend_token env c owner i)) tr1 = (r, tr')"
      and L1: "living env c tr1 = living env c tr"
    from this(1) have "ledger_move (living env c tr1) None (living env c tr')"
    proof (rule moves_after [OF requests_owner, where h = "\<lambda>_. None"])
      fix owner tr2
      assume "act_bind (mintInstallationToken env c jwt (status_token_body (cs_Repository i))) (spend_token env c owner i) tr2 = (r, tr')"
        and L2: "living env c tr2 = living env c tr1"
      from this(1) have "ledger_move (living env c tr2) None (living env c tr')"
        by (rule moves_mint [where h = "\<lambda>_. None"]) (auto intro: spend_moves [OF works])
      with L2 show "ledger_move (living env c tr1) None (living env c tr')" by simp
    qed simp
    with L1 show "ledger_move (living env c tr) None (living env c tr')" by simp
  qed simp
qed

end
