(* ===== verification/ClientSample.thy ===== *)
theory ClientSample
  imports HttpClient
begin

text \<open>A platform on which everything is answered, for the witnesses.\<close>

definition answer_of :: "int \<Rightarrow> string \<Rightarrow> string + http_response" where
  "answer_of status body = Inr \<lparr>ha_StatusCode = status, ha_Status = itoa status, ha_Body = body, ha_ReadErr = None\<rparr>"

definition sample_http :: http_env where
  "sample_http =
     \<lparr>he_answer = (\<lambda>call before.
        if hc_Method call = ''DELETE'' then answer_of 204 []
        else if hc_Method call = ''GET'' then answer_of 200 ''installation''
        else answer_of 201 ''created''),
      he_json = (\<lambda>body.
        if body = ''installation'' then
          Some (JObj [(''account'', JObj [(''login'', JStr ''me'')]),
            (''permissions'', JObj [(''contents'', JStr ''read''), (''statuses'', JStr ''write'')])])
        else Some (JObj [(''token'', JStr ''t1''), (''id'', JNum ''5''), (''permissions'', JObj [(''contents'', JStr ''read'')])])),
      he_first = (\<lambda>_. None), he_file = (\<lambda>_ _. Inr ''tenant''), he_now = (\<lambda>before. 1000 + int (length before))\<rparr>"

end
