(* ===== verification/GithubProperties.thy ===== *)
theory GithubProperties
  imports GithubLedger ClientSample
begin

text \<open>What the client of the GitHub App promises about the tokens it mints.\<close>

definition sample_github :: github_client where
  "sample_github =
     \<lparr>gh_clientID = ''app'', gh_installationID = 7, gh_privateKey = (\<lambda>_. Inr ''jwt''), gh_apiBase = ''https://gh'',
      gh_userAgent = ''agent'', gh_statusContextPrefixes = [''ci/'']\<rparr>"

definition sample_status :: commit_status_input where
  "sample_status = \<lparr>cs_Repository = ''r'', cs_SHA = replicate 40 (CHR ''a''), cs_State = ''success'', cs_Context = ''ci/test'',
     cs_Description = [], cs_TargetURL = []\<rparr>"

lemma sample_revocations: "revocations_work sample_http sample_github"
  by (simp add: revocations_work_def sample_http_def github_call_def answer_of_def success_def)

text \<open>
  C14. Refinement of the ledger: as long as GitHub accepts revocations, an operation of the client
  moves the set of living tokens the way the abstract ledger may move. It gains at most the one
  token that is handed out, and that one carries no excluded permission; setting a commit status
  gains none, although it mints a token that may write statuses.
\<close>

theorem github_client_refines_the_ledger:
  assumes "revocations_work env c" and "run_op env c op tr = (issued, tr')"
  shows "ledger_move (living env c tr) issued (living env c tr')"
  using assms(2) by (cases op) (auto split: prod.splits intro: issue_moves [OF assms(1)] status_moves [OF assms(1)])

theorem github_client_refines_the_ledger_witness:
  "\<exists>tr'. ledger_move {} (Some (InstallationToken ''t1'' [] [(''contents'', JStr ''read'')] [])) (living sample_http sample_github tr') \<and>
     length tr' = 2"
proof -
  define out where "out = run_op sample_http sample_github (IssueOp None None) []"
  have "fst out = Some (InstallationToken ''t1'' [] [(''contents'', JStr ''read'')] []) \<and> length (snd out) = 2"
    unfolding out_def by code_simp
  moreover have "run_op sample_http sample_github (IssueOp None None) [] = (fst out, snd out)" by (simp add: out_def)
  ultimately show ?thesis using github_client_refines_the_ledger [OF sample_revocations, of "IssueOp None None" "[]"] by fastforce
qed

lemma harmless_iff:
  "harmless t \<longleftrightarrow> permissionLevel (tok_Permissions t) ''statuses'' \<noteq> ''write'' \<and> permissionLevel (tok_Permissions t) ''checks'' \<noteq> ''write''"
  by (simp add: harmless_def refused_permission_def excludedWritePermissions_def statusesPermission_def checksPermission_def)

lemma run_op_harmless: "run_op env c op tr = (Some t, tr') \<Longrightarrow> harmless t"
  by (cases op) (auto simp: handed_def split: prod.splits sum.splits dest: issued_harmless)

text \<open>
  C16. After any sequence of operations of the client, with revocations accepted, every living token
  is one that was handed out to a caller; and whatever the other side answers, no token that was handed
  out can write commit statuses or check runs.
\<close>

theorem living_tokens_were_handed_out:
  assumes "client_runs env c issued tr"
  shows "(revocations_work env c \<longrightarrow> living env c tr \<subseteq> set issued) \<and>
    (\<forall>t\<in>set issued. permissionLevel (tok_Permissions t) ''statuses'' \<noteq> ''write'' \<and>
       permissionLevel (tok_Permissions t) ''checks'' \<noteq> ''write'')"
  using assms
proof (induction rule: client_runs.induct)
  case (step issued tr op r tr')
  have "living env c tr' \<subseteq> set (case r of None \<Rightarrow> issued | Some t \<Rightarrow> t # issued)" if works: "revocations_work env c"
  proof -
    have "ledger_move (living env c tr) r (living env c tr')"
      using step.hyps(2) by (cases op) (auto split: prod.splits intro: issue_moves [OF works] status_moves [OF works])
    then show ?thesis using step.IH works by (auto elim!: ledger_moveE)
  qed
  then show ?case using step.IH step.hyps(2) by (auto dest!: run_op_harmless simp: harmless_iff split: option.split)
qed simp

theorem living_tokens_were_handed_out_witness:
  "\<exists>issued tr. client_runs sample_http sample_github issued tr \<and> living sample_http sample_github tr \<subseteq> set issued \<and>
     length issued = 1 \<and> length tr = 6"
proof -
  define one where "one = run_op sample_http sample_github (IssueOp None None) []"
  define two where "two = run_op sample_http sample_github (StatusOp sample_status) (snd one)"
  have ran: "fst one \<noteq> None" "fst two = None" "length (snd two) = 6" unfolding two_def one_def atomize_conj by code_simp
  from ran(1) obtain t where t: "fst one = Some t" by blast
  have "client_runs sample_http sample_github [t] (snd one)"
    using client_runs.step [OF client_runs.start, of sample_http sample_github "IssueOp None None" "fst one" "snd one"] t
    by (simp add: one_def)
  moreover have "run_op sample_http sample_github (StatusOp sample_status) (snd one) = (None, snd two)"
    using ran(2) by (metis prod.collapse two_def)
  ultimately have "client_runs sample_http sample_github (case None of None \<Rightarrow> [t] | Some u \<Rightarrow> u # [t]) (snd two)"
    by (rule client_runs.step)
  then have runs: "client_runs sample_http sample_github [t] (snd two)" by simp
  with living_tokens_were_handed_out [OF runs] sample_revocations ran show ?thesis
    by (intro exI [of _ "[t]"] exI [of _ "snd two"]) simp
qed

lemma level_lower_one:
  "permissionLevel (lower_one k e) name =
     (if name = k \<and> permissionLevel e k = ''write'' then ''read'' else permissionLevel e name)"
proof -
  have "to_lower (trim_space ''read'') = ''read''" by code_simp
  moreover have "lookup e k \<noteq> None" if level: "permissionLevel e k = ''write''"
  proof
    assume "lookup e k = None"
    then have "permissionLevel e k = []" by (simp add: permissionLevel_def string_or_empty_def trim_space_def to_lower_def)
    with level show False by simp
  qed
  ultimately show ?thesis
    by (auto simp: lower_one_def permissionLevel_def string_or_empty_def lookup_set_member split: option.split)
qed

lemma lower_excluded_harmless: "refused_permission (lower_excluded installed) = None"
  by (simp add: refused_permission_def lower_excluded_def excludedWritePermissions_def level_lower_one
      statusesPermission_def checksPermission_def)

lemma effective_harmless:
  "effectivePermissions env c jwt permissions tr = (Inr effective, tr') \<Longrightarrow>
     refused_permission effective = None \<and> (\<forall>p. permissions = Some p \<longrightarrow> effective = p)"
  by (auto simp: effectivePermissions_def act_bind_Inr lower_excluded_harmless split: option.splits)

definition harmless_request :: "github_client \<Rightarrow> string list option \<Rightarrow> obj option \<Rightarrow> http_call \<Rightarrow> bool" where
  "harmless_request c repositories permissions call \<longleftrightarrow>
     hc_Method call = ''GET'' \<and> hc_URL call = installation_url c \<or>
     hc_Method call = ''DELETE'' \<and> hc_URL call = revoke_url c \<or>
     hc_Method call = ''POST'' \<and> hc_URL call = tokens_url c \<and>
       (\<exists>effective. hc_Body call = Some (JObj (token_body repositories effective)) \<and>
          refused_permission effective = None \<and> (\<forall>p. permissions = Some p \<longrightarrow> effective = p))"

lemma requests_installation:
  "requests (\<lambda>_. harmless_request c repositories permissions) (fetchInstallation env c jwt)"
  unfolding fetchInstallation_def
  by (rule requests_exchange) (simp add: harmless_request_def github_call_def)

lemma requests_revocation:
  "(\<And>before. P before (github_call c ''DELETE'' (revoke_url c) token None)) \<Longrightarrow> requests P (revokeToken env c token)"
  unfolding revokeToken_def Let_def by (intro requests_intros)

lemma requests_guard:
  "(\<And>before. P before (github_call c ''DELETE'' (revoke_url c) (tok_Token token) None)) \<Longrightarrow> requests P (guard_token env c token)"
  unfolding guard_token_def by (auto split: option.split prod.split intro!: requests_intros requests_revocation)

lemma requests_mint:
  "(\<And>before. P before (mint_call c jwt body)) \<Longrightarrow> requests P (mintInstallationToken env c jwt body)"
  unfolding mintInstallationToken_def by (intro requests_intros requests_exchange)

text \<open>
  A request for a token always names its permissions, and never one of the excluded ones to write:
  what the caller asked for, or what the installation has with those turned into reading. It goes to
  the App's own installation with a token signed for it, and names the repositories it was asked for.
\<close>

theorem token_requests_are_harmless:
  "requests (\<lambda>_. harmless_request c repositories permissions) (client_CreateInstallationToken env c repositories permissions)"
  unfolding client_CreateInstallationToken_def
proof (rule requests_bind [OF requests_jwt])
  fix jwt
  have lookup: "requests (\<lambda>_. harmless_request c repositories permissions) (effectivePermissions env c jwt permissions)"
    unfolding effectivePermissions_def installationPermissions_def
    by (auto split: option.split intro!: requests_intros requests_installation)
  have spent: "requests (\<lambda>_. harmless_request c repositories permissions) (guard_token env c token)" for token
    by (rule requests_guard) (simp add: harmless_request_def github_call_def)
  show "requests (\<lambda>_. harmless_request c repositories permissions)
     (act_bind (effectivePermissions env c jwt permissions) (\<lambda>effective.
      act_bind (mintInstallationToken env c jwt (token_body repositories effective)) (guard_token env c)))"
  proof (rule requests_bind_result [OF lookup])
    fix effective tr tr1 assume "effectivePermissions env c jwt permissions tr = (Inr effective, tr1)"
    then have "harmless_request c repositories permissions (mint_call c jwt (token_body repositories effective))"
      by (auto simp: harmless_request_def mint_call_def github_call_def dest: effective_harmless)
    then show "requests (\<lambda>_. harmless_request c repositories permissions)
       (act_bind (mintInstallationToken env c jwt (token_body repositories effective)) (guard_token env c))"
      by (intro requests_bind requests_mint spent)
  qed
qed

definition status_request :: "github_client \<Rightarrow> commit_status_input \<Rightarrow> http_call \<Rightarrow> bool" where
  "status_request c i call \<longleftrightarrow>
     hc_Method call = ''GET'' \<and> hc_URL call = installation_url c \<or>
     hc_Method call = ''POST'' \<and> hc_URL call = tokens_url c \<and> hc_Body call = Some (JObj (status_token_body (cs_Repository i))) \<or>
     hc_Method call = ''POST'' \<and> (\<exists>owner. hc_URL call = status_url c owner i) \<and> hc_Body call = Some (JObj (commit_body i)) \<or>
     hc_Method call = ''DELETE'' \<and> hc_URL call = revoke_url c"

definition status_allowed :: "github_client \<Rightarrow> commit_status_input \<Rightarrow> bool" where
  "status_allowed c i \<longleftrightarrow>
     (\<exists>prefix\<in>set (gh_statusContextPrefixes c). has_prefix (cs_Context i) prefix) \<and> full_sha (cs_SHA i) \<and>
     cs_Repository i \<noteq> [] \<and> CHR ''/'' \<notin> set (cs_Repository i) \<and> cs_State i \<in> set commitStatusStates"

lemma validated_status:
  assumes "validateCommitStatusInput i = Inr u" and "checkContextPrefix c (cs_Context i) = Inr v"
  shows "status_allowed c i"
proof -
  from assms(1) have "trim_space (cs_Repository i) \<noteq> []" "\<not> contains_any (cs_Repository i) ''/ ''" "full_sha (cs_SHA i)"
    "cs_State i \<in> set commitStatusStates"
    by (simp_all add: validateCommitStatusInput_def bind_sum_Inr_iff)
  moreover from assms(2) have "\<exists>prefix\<in>set (gh_statusContextPrefixes c). has_prefix (cs_Context i) prefix"
    by (simp add: checkContextPrefix_def list_ex_iff split: if_splits)
  moreover have "cs_Repository i \<noteq> []" if "trim_space (cs_Repository i) \<noteq> []"
    using that by (cases "cs_Repository i") (simp_all add: trim_space_def)
  ultimately show ?thesis by (simp add: status_allowed_def contains_any_def list_ex_iff) blast
qed

lemma requests_spend: "requests (\<lambda>_. status_request c i) (spend_token env c owner i token)"
  unfolding spend_token_def postCommitStatus_def
  by (intro requests_intros requests_exchange requests_revocation)
     (auto simp: status_request_def github_call_def)

text \<open>
  C35. A commit status is asked for only when its context stands in an allowed namespace, its commit is a
  full SHA and its repository has no owner of its own: otherwise nothing is sent. What is sent for it is the
  look-up of the owner, one token for that repository and that permission alone, the status
  itself on that repository and commit, and the revocation of the token.
\<close>

theorem statuses_stay_in_their_namespace:
  assumes "client_CreateCommitStatus env c i tr = (r, tr')" and "tr' \<noteq> tr"
  shows "status_allowed c i \<and> (\<exists>calls. tr' = tr @ calls \<and> list_all (status_request c i) calls)"
proof -
  have ok: "validateCommitStatusInput i = Inr ()" "checkContextPrefix c (cs_Context i) = Inr ()"
    using assms by (auto simp: client_CreateCommitStatus_def act_bind_def act_lift_def act_fail_def act_return_def split: sum.splits)
  have "requests (\<lambda>_. status_request c i) (client_CreateCommitStatus env c i)"
    unfolding client_CreateCommitStatus_def installationOwner_def fetchInstallation_def
    by (intro requests_intros requests_jwt requests_check requests_exchange requests_mint requests_spend)
       (auto simp: status_request_def github_call_def mint_call_def)
  then obtain calls where "tr' = tr @ calls" "\<And>n. n < length calls \<Longrightarrow> status_request c i (calls ! n)"
    using assms(1) by (rule requestsD) blast
  with validated_status [OF ok] show ?thesis by (auto simp: list_all_length)
qed

theorem statuses_stay_in_their_namespace_witness:
  "status_allowed sample_github sample_status \<and>
     (\<exists>calls. list_all (status_request sample_github sample_status) calls \<and> length calls = 4)"
proof -
  define out where "out = client_CreateCommitStatus sample_http sample_github sample_status []"
  have "length (snd out) = 4" unfolding out_def by code_simp
  moreover have "client_CreateCommitStatus sample_http sample_github sample_status [] = (fst out, snd out)" by (simp add: out_def)
  ultimately show ?thesis using statuses_stay_in_their_namespace [of sample_http sample_github sample_status "[]"] by fastforce
qed

end
