(* ===== verification/SessionClient.thy ===== *)
theory SessionClient
  imports HttpClient Services
begin

text \<open>
  internal/sessionplatform: the client of the control plane. Every request carries the tenant's token,
  read anew from its file; an answer is turned into one of the kinds of error the tool layer tells
  the caller apart.
\<close>

section \<open>Errors\<close>

datatype session_kind =
    SUnavailable | SAPI | SNotFound | SInvalidArgument | SBusy | STooLarge | SQuotaExhausted | SConflict

fun session_prefix :: "session_kind \<Rightarrow> string" where
  "session_prefix SUnavailable = ''session platform unavailable: ''"
| "session_prefix SNotFound = ''session platform not found: ''"
| "session_prefix SInvalidArgument = ''session platform invalid argument: ''"
| "session_prefix SBusy = ''session platform busy, retry after a queued prompt finishes: ''"
| "session_prefix STooLarge = ''session platform payload too large, retrying will not help: ''"
| "session_prefix SQuotaExhausted = ''session platform output quota exhausted, retrying will not help (existing output is still readable): ''"
| "session_prefix SConflict = ''session platform conflict, retry after the in-progress lifecycle operation finishes: ''"
| "session_prefix SAPI = ''session platform api error: ''"

definition session_error :: "session_kind \<Rightarrow> string \<Rightarrow> go_err" where
  "session_error k msg = (if k = SUnavailable then ErrUnavailable (session_prefix k @ msg) else ErrText (session_prefix k @ msg))"

text \<open>\<open>NewUnavailable\<close>: the error with which every operation of the service fails.\<close>

definition session_NewUnavailable :: "string \<Rightarrow> go_err" where
  "session_NewUnavailable reason =
     session_error SUnavailable (if reason = [] then ''session platform endpoint is not configured'' else reason)"

section \<open>The client\<close>

record session_client =
  sc_endpoint :: string
  sc_userAgent :: string
  sc_tokenFile :: string

definition sessionsPath :: string where "sessionsPath = ''/api/v1/sessions''"
definition configPath :: string where "configPath = ''/api/v1/config''"
definition shellWorkloadType :: string where "shellWorkloadType = ''shell''"

definition sessionPath :: "string \<Rightarrow> string" where
  "sessionPath sid = sessionsPath @ ''/'' @ PathEscape sid"

definition readPath :: "string \<Rightarrow> string" where
  "readPath sid = sessionsPath @ ''/'' @ PathEscape sid @ ''/read''"

definition writePath :: "string \<Rightarrow> string" where
  "writePath sid = sessionsPath @ ''/'' @ PathEscape sid @ ''/write''"

text \<open>\<open>readToken\<close> of the token at the time of the request.\<close>

definition session_readToken :: "http_env \<Rightarrow> string \<Rightarrow> trace \<Rightarrow> string + string" where
  "session_readToken env path tr = read_token env ''session platform tenant token'' path tr"

definition sessionplatform_FromEnv :: "http_env \<Rightarrow> (string \<Rightarrow> string) \<Rightarrow> string \<Rightarrow> string + session_client option" where
  "sessionplatform_FromEnv env getenv agent =
     (let endpoint = trim_space (getenv ''SESSION_PLATFORM_ENDPOINT'') in
      if endpoint = [] then Inr None
      else if \<not> has_prefix endpoint ''http://'' \<and> \<not> has_prefix endpoint ''https://'' then
        Inl (''SESSION_PLATFORM_ENDPOINT must be an absolute http(s) URL, got '' @ endpoint)
      else
        (let tokenFile = trim_space (getenv ''SESSION_PLATFORM_TOKEN_FILE'') in
         bind_sum (if tokenFile = [] then Inr [] else session_readToken env tokenFile []) (\<lambda>_.
         Inr (Some \<lparr>sc_endpoint = trim_right (CHR ''/'') endpoint, sc_userAgent = agent, sc_tokenFile = tokenFile\<rparr>))))"

definition controlPlaneMessage :: "http_env \<Rightarrow> string \<Rightarrow> string \<Rightarrow> string" where
  "controlPlaneMessage env body stat =
     (case unmarshal env [(''error'', read_string)] [] body of
        Inr m \<Rightarrow> if m \<noteq> [] then m else if body \<noteq> [] then stat @ '': '' @ body else stat
      | Inl _ \<Rightarrow> if body \<noteq> [] then stat @ '': '' @ body else stat)"

text \<open>
  \<open>send\<close> and, for its error, \<open>sendError\<close>: an error of the client itself is passed on, one of the
  transport becomes an API error.
\<close>

definition session_headers :: "session_client \<Rightarrow> (string \<times> string) list \<Rightarrow> string option \<Rightarrow> (string \<times> string) list" where
  "session_headers c own token =
     own @ [(''Accept'', ''application/json''), (''User-Agent'', sc_userAgent c)]
     @ (case token of None \<Rightarrow> [] | Some t \<Rightarrow> [(''Authorization'', ''Bearer '' @ t)])"

definition session_token :: "http_env \<Rightarrow> session_client \<Rightarrow> string option http" where
  "session_token env c =
     (if sc_tokenFile c = [] then act_return None
      else act_bind (act_get (session_readToken env (sc_tokenFile c))) (\<lambda>t.
        act_lift (case t of Inl e \<Rightarrow> Inl (session_error SUnavailable e) | Inr token \<Rightarrow> Inr (Some token))))"

definition session_send :: "http_env \<Rightarrow> session_client \<Rightarrow> string \<Rightarrow> string \<Rightarrow> raw option \<Rightarrow> http_response http" where
  "session_send env c verb endpoint body =
     act_bind (session_token env c) (\<lambda>token.
     act_bind (http_do env
       \<lparr>hc_Method = verb, hc_URL = endpoint,
        hc_Headers = session_headers c (if body = None then [] else [(''Content-Type'', ''application/json'')]) token,
        hc_Body = body\<rparr>) (\<lambda>answer.
     act_lift (case answer of
         Inl e \<Rightarrow> Inl (session_error SAPI (to_lower verb @ '' '' @ endpoint @ '': '' @ e))
       | Inr resp \<Rightarrow>
           if ha_StatusCode resp = 401 \<or> ha_StatusCode resp = 403 then
             Inl (session_error SAPI (''control plane refused this server's tenant identity (SESSION_PLATFORM_TOKEN_FILE): ''
               @ controlPlaneMessage env (take 1048576 (ha_Body resp)) (ha_Status resp)))
           else Inr resp)))"

definition returned :: "string \<Rightarrow> http_response \<Rightarrow> go_err" where
  "returned endpoint resp = session_error SAPI (endpoint @ '' returned '' @ ha_Status resp @ '': '' @ ha_Body resp)"

definition session_decode :: "http_env \<Rightarrow> string \<Rightarrow> (string \<times> 's reader) list \<Rightarrow> 's \<Rightarrow> http_response \<Rightarrow> go_err + 's" where
  "session_decode env what fs zero resp =
     (case unmarshal env fs zero (ha_Body resp) of
        Inl e \<Rightarrow> Inl (session_error SAPI (''parse '' @ what @ '': '' @ e)) | Inr x \<Rightarrow> Inr x)"

section \<open>Answers\<close>

record session_json =
  sj_ID :: string
  sj_Name :: string
  sj_WorkloadType :: string
  sj_State :: string
  sj_Pod :: string
  sj_Plugins :: "string list option"
  sj_CreatedAt :: string
  sj_LastAccess :: string

definition zero_session :: session_json where
  "zero_session = \<lparr>sj_ID = [], sj_Name = [], sj_WorkloadType = [], sj_State = [], sj_Pod = [], sj_Plugins = None,
     sj_CreatedAt = [], sj_LastAccess = []\<rparr>"

definition session_fields :: "(string \<times> session_json reader) list" where
  "session_fields =
     [(''id'', read_string_field sj_ID sj_ID_update), (''name'', read_string_field sj_Name sj_Name_update),
      (''workloadType'', read_string_field sj_WorkloadType sj_WorkloadType_update),
      (''state'', read_string_field sj_State sj_State_update), (''pod'', read_string_field sj_Pod sj_Pod_update),
      (''plugins'', \<lambda>v s. bind_sum (read_strings v (sj_Plugins s)) (\<lambda>x. Inr (s\<lparr>sj_Plugins := x\<rparr>))),
      (''createdAt'', read_string_field sj_CreatedAt sj_CreatedAt_update),
      (''lastAccess'', read_string_field sj_LastAccess sj_LastAccess_update)]"

definition session_of :: "session_json \<Rightarrow> session" where
  "session_of s = Session (sj_ID s) (sj_Name s) (sj_WorkloadType s) (sj_State s) (sj_Pod s) (or_else (sj_Plugins s) [])
     (sj_CreatedAt s) (sj_LastAccess s)"

record read_json =
  rj_Session :: session_json
  rj_Path :: string
  rj_Payload :: string
  rj_NextOffset :: int

definition read_fields :: "(string \<times> read_json reader) list" where
  "read_fields =
     [(''session'', \<lambda>v s. bind_sum (read_struct False session_fields v (rj_Session s)) (\<lambda>x. Inr (s\<lparr>rj_Session := x\<rparr>))),
      (''path'', read_string_field rj_Path rj_Path_update), (''payload'', read_string_field rj_Payload rj_Payload_update),
      (''nextOffset'', read_int_field rj_NextOffset rj_NextOffset_update)]"

definition write_fields :: "(string \<times> read_json reader) list" where
  "write_fields =
     [(''session'', \<lambda>v s. bind_sum (read_struct False session_fields v (rj_Session s)) (\<lambda>x. Inr (s\<lparr>rj_Session := x\<rparr>))),
      (''path'', read_string_field rj_Path rj_Path_update)]"

definition zero_read :: read_json where
  "zero_read = \<lparr>rj_Session = zero_session, rj_Path = [], rj_Payload = [], rj_NextOffset = 0\<rparr>"


section \<open>Workload types\<close>

definition workload_types :: "string list option reader" where
  "workload_types = read_slice (read_struct False [(''type'', read_string)]) []"

definition offeredWorkloadTypes :: "http_env \<Rightarrow> session_client \<Rightarrow> string list option http" where
  "offeredWorkloadTypes env c =
     (let endpoint = sc_endpoint c @ configPath in
      act_bind (session_send env c ''GET'' endpoint None) (\<lambda>resp.
      act_lift
        (let limited = resp\<lparr>ha_Body := take 1048576 (ha_Body resp)\<rparr> in
         if \<not> success (ha_StatusCode limited) then Inl (returned endpoint limited)
         else bind_sum (session_decode env endpoint [(''workloadTypes'', workload_types)] None limited) (\<lambda>types.
           Inr (map_option (filter (\<lambda>t. t \<noteq> [])) types)))))"

definition checkWorkloadType :: "http_env \<Rightarrow> session_client \<Rightarrow> string \<Rightarrow> unit http" where
  "checkWorkloadType env c wt =
     (if wt = [] \<or> wt = shellWorkloadType then act_return ()
      else act_bind (offeredWorkloadTypes env c) (\<lambda>offered.
        case offered of
          None \<Rightarrow> act_return ()
        | Some ts \<Rightarrow> act_check (wt \<in> set ts)
            (session_error SInvalidArgument (''workloadType must be one of the offered types, got '' @ wt))))"

section \<open>The operations\<close>

text \<open>\<open>json.Marshal(req)\<close>: the members marked \<open>omitempty\<close> are left out when they are empty.\<close>

definition create_body :: "create_session \<Rightarrow> raw" where
  "create_body req =
     JObj ([(''name'', JStr (sn_Name req))]
       @ (if sn_WorkloadType req = [] then [] else [(''workloadType'', JStr (sn_WorkloadType req))])
       @ (if sn_Model req = [] then [] else [(''model'', JStr (sn_Model req))])
       @ (if sn_Plugins req = [] then [] else [(''plugins'', JArr (map JStr (sn_Plugins req)))]))"

text \<open>
  Each operation reads an answer as one of the kinds of refusal first; \<open>refusals\<close> are the cases of
  its switch, in their order, before the one for every other status that is no success.
\<close>

definition session_answer :: "(int \<times> session_kind) list \<Rightarrow> (session_kind \<Rightarrow> string) \<Rightarrow> string \<Rightarrow> http_response \<Rightarrow> go_err + unit" where
  "session_answer refusals explain endpoint resp =
     (case map_of refusals (ha_StatusCode resp) of
        Some k \<Rightarrow> Inl (session_error k (explain k))
      | None \<Rightarrow> ensure (success (ha_StatusCode resp)) (returned endpoint resp))"

definition about_session :: "string \<Rightarrow> string \<Rightarrow> session_kind \<Rightarrow> string" where
  "about_session sid msg k = (if k \<in> {SNotFound, SConflict} then ''session '' @ sid @ '': '' @ msg else msg)"

definition session_message :: "http_env \<Rightarrow> http_response \<Rightarrow> string" where
  "session_message env resp = controlPlaneMessage env (ha_Body resp) (ha_Status resp)"

definition client_CreateSession :: "http_env \<Rightarrow> session_client \<Rightarrow> create_session \<Rightarrow> session http" where
  "client_CreateSession env c req =
     act_bind (act_check (trim_space (sn_Name req) \<noteq> [])
       (session_error SInvalidArgument ''name must contain a non-whitespace character'')) (\<lambda>_.
     act_bind (checkWorkloadType env c (sn_WorkloadType req)) (\<lambda>_.
     let endpoint = sc_endpoint c @ sessionsPath in
     act_bind (session_send env c ''POST'' endpoint (Some (create_body req))) (\<lambda>resp.
     act_bind (act_lift (session_answer [(400, SInvalidArgument), (413, STooLarge)] (\<lambda>_. session_message env resp) endpoint resp)) (\<lambda>_.
     act_bind (act_lift (session_decode env ''created session'' session_fields zero_session resp)) (\<lambda>s.
     act_return (session_of s))))))"

definition client_DeleteSession :: "http_env \<Rightarrow> session_client \<Rightarrow> string \<Rightarrow> unit http" where
  "client_DeleteSession env c sid =
     act_bind (act_check (sid \<noteq> []) (session_error SInvalidArgument ''session id is required'')) (\<lambda>_.
     let endpoint = sc_endpoint c @ sessionPath sid in
     act_bind (session_send env c ''DELETE'' endpoint None) (\<lambda>resp.
     act_lift (session_answer [(404, SNotFound), (409, SConflict)] (about_session sid (session_message env resp)) endpoint resp)))"

definition client_ListSessions :: "http_env \<Rightarrow> session_client \<Rightarrow> session list http" where
  "client_ListSessions env c =
     (let endpoint = sc_endpoint c @ sessionsPath in
      act_bind (session_send env c ''GET'' endpoint None) (\<lambda>resp.
      act_bind (act_lift (session_answer [] (\<lambda>_. []) endpoint resp)) (\<lambda>_.
      act_bind (act_lift (session_decode env ''sessions''
        [(''sessions'', read_slice (read_struct False session_fields) zero_session)] None resp)) (\<lambda>ss.
      act_return (map session_of (or_else ss []))))))"

definition client_ReadSession :: "http_env \<Rightarrow> session_client \<Rightarrow> string \<Rightarrow> int \<Rightarrow> read_session http" where
  "client_ReadSession env c sid off =
     act_bind (act_check (sid \<noteq> []) (session_error SInvalidArgument ''session id is required'')) (\<lambda>_.
     act_bind (act_check (0 \<le> off) (session_error SInvalidArgument (''offset must be >= 0, got '' @ itoa off))) (\<lambda>_.
     let endpoint = sc_endpoint c @ readPath sid in
     act_bind (session_send env c ''POST'' endpoint (Some (JObj [(''offset'', JNum (itoa off))]))) (\<lambda>resp.
     act_bind (act_lift (session_answer [(404, SNotFound), (400, SInvalidArgument)]
       (about_session sid (session_message env resp)) endpoint resp)) (\<lambda>_.
     act_bind (act_lift (session_decode env ''read result'' read_fields zero_read resp)) (\<lambda>r.
     act_return (ReadSession (session_of (rj_Session r)) (rj_Path r) (rj_Payload r) (rj_NextOffset r)))))))"

definition client_WriteSession :: "http_env \<Rightarrow> session_client \<Rightarrow> string \<Rightarrow> string \<Rightarrow> write_session http" where
  "client_WriteSession env c sid payload =
     act_bind (act_check (sid \<noteq> []) (session_error SInvalidArgument ''session id is required'')) (\<lambda>_.
     let endpoint = sc_endpoint c @ writePath sid in
     act_bind (session_send env c ''POST'' endpoint (Some (JObj [(''payload'', JStr payload)]))) (\<lambda>resp.
     act_bind (act_lift (session_answer
       [(404, SNotFound), (400, SInvalidArgument), (413, STooLarge), (429, SBusy), (507, SQuotaExhausted)]
       (about_session sid (session_message env resp)) endpoint resp)) (\<lambda>_.
     act_bind (act_lift (session_decode env ''write result'' write_fields zero_read resp)) (\<lambda>r.
     act_return (WriteSession (session_of (rj_Session r)) (rj_Path r))))))"

end
