(* ===== verification/SessionProperties.thy ===== *)
theory SessionProperties
  imports SessionClient IntegrationHandlers ClientSample
begin

text \<open>What the client of the session platform promises.\<close>

text \<open>The operations, and where each of them may send a request.\<close>

datatype session_op =
  ListOp | ReadOp string int | WriteOp string string | CreateOp create_session | DeleteOp string

definition done_with :: "'a http \<Rightarrow> unit http" where
  "done_with m = act_bind m (\<lambda>_. act_return ())"

fun session_run :: "http_env \<Rightarrow> session_client \<Rightarrow> session_op \<Rightarrow> unit http" where
  "session_run env c ListOp = done_with (client_ListSessions env c)"
| "session_run env c (ReadOp sid off) = done_with (client_ReadSession env c sid off)"
| "session_run env c (WriteOp sid payload) = done_with (client_WriteSession env c sid payload)"
| "session_run env c (CreateOp req) = done_with (client_CreateSession env c req)"
| "session_run env c (DeleteOp sid) = client_DeleteSession env c sid"

definition names_session :: "string \<Rightarrow> string \<Rightarrow> bool" where
  "names_session sid segment \<longleftrightarrow> PathUnescape segment = Some sid \<and> set segment \<inter> set ''/?#'' = {}"

fun addressed :: "session_op \<Rightarrow> string \<Rightarrow> string \<Rightarrow> bool" where
  "addressed ListOp verb path \<longleftrightarrow> verb = ''GET'' \<and> path = ''/api/v1/sessions''"
| "addressed (ReadOp sid _) verb path \<longleftrightarrow>
     verb = ''POST'' \<and> (\<exists>segment. names_session sid segment \<and> path = ''/api/v1/sessions/'' @ segment @ ''/read'')"
| "addressed (WriteOp sid _) verb path \<longleftrightarrow>
     verb = ''POST'' \<and> (\<exists>segment. names_session sid segment \<and> path = ''/api/v1/sessions/'' @ segment @ ''/write'')"
| "addressed (CreateOp _) verb path \<longleftrightarrow>
     verb = ''POST'' \<and> path = ''/api/v1/sessions'' \<or> verb = ''GET'' \<and> path = ''/api/v1/config''"
| "addressed (DeleteOp sid) verb path \<longleftrightarrow>
     verb = ''DELETE'' \<and> (\<exists>segment. names_session sid segment \<and> path = ''/api/v1/sessions/'' @ segment)"

definition tenants_request :: "http_env \<Rightarrow> session_client \<Rightarrow> session_op \<Rightarrow> trace \<Rightarrow> http_call \<Rightarrow> bool" where
  "tenants_request env c op before call \<longleftrightarrow>
     (\<exists>path. hc_URL call = sc_endpoint c @ path \<and> addressed op (hc_Method call) path) \<and>
     (sc_tokenFile c \<noteq> [] \<longrightarrow>
        (\<exists>raw. he_file env (sc_tokenFile c) before = Inr raw \<and> trim_space raw \<noteq> [] \<and>
           header_of call ''Authorization'' = Some (''Bearer '' @ trim_space raw)))"

lemma session_token_run:
  assumes "session_token env c tr = (r, tr')"
  shows "tr' = tr \<and> (\<forall>token. r = Inr token \<longrightarrow> sc_tokenFile c \<noteq> [] \<longrightarrow>
    (\<exists>raw. he_file env (sc_tokenFile c) tr = Inr raw \<and> trim_space raw \<noteq> [] \<and> token = Some (trim_space raw)))"
proof (cases "sc_tokenFile c = []")
  case True
  with assms show ?thesis by (simp add: session_token_def act_return_def)
next
  case False
  with assms have "r = (case session_readToken env (sc_tokenFile c) tr of
      Inl e \<Rightarrow> Inl (session_error SUnavailable e) | Inr token \<Rightarrow> Inr (Some token))" and "tr' = tr"
    by (auto simp: session_token_def act_bind_def act_get_def act_lift_def act_fail_def act_return_def split: sum.splits)
  then show ?thesis by (auto simp: session_readToken_def split: sum.splits dest!: read_token_Inr)
qed

lemma requests_session_send:
  assumes "addressed op verb path"
  shows "requests (tenants_request env c op) (session_send env c verb (sc_endpoint c @ path) body)"
  unfolding session_send_def
proof (rule requests_quiet_do)
  show "w1 = w" if "session_token env c w = (r, w1)" for w r w1 using session_token_run [OF that] by simp
next
  fix w token w1 assume token: "session_token env c w = (Inr token, w1)"
  have "header_of \<lparr>hc_Method = verb, hc_URL = sc_endpoint c @ path,
     hc_Headers = session_headers c (if body = None then [] else [(''Content-Type'', ''application/json'')]) (Some t),
     hc_Body = body\<rparr> ''Authorization'' = Some (''Bearer '' @ t)" for t
    by (simp add: header_of_def session_headers_def)
  with session_token_run [OF token] assms
  show "tenants_request env c op w \<lparr>hc_Method = verb, hc_URL = sc_endpoint c @ path,
     hc_Headers = session_headers c (if body = None then [] else [(''Content-Type'', ''application/json'')]) token,
     hc_Body = body\<rparr>" by (auto simp: tenants_request_def)
qed (rule requests_intros)

lemma names_escaped: "names_session sid (PathEscape sid)"
  unfolding names_session_def using PathUnescape_escape PathEscape_segment by blast

lemma session_paths:
  "addressed ListOp ''GET'' sessionsPath" "addressed (CreateOp req) ''POST'' sessionsPath" "addressed (CreateOp req) ''GET'' configPath"
  "addressed (ReadOp sid off) ''POST'' (readPath sid)" "addressed (WriteOp sid payload) ''POST'' (writePath sid)"
  "addressed (DeleteOp sid) ''DELETE'' (sessionPath sid)"
  by (auto simp: sessionsPath_def configPath_def readPath_def writePath_def sessionPath_def intro: names_escaped)

lemma requests_workload_types: "requests (tenants_request env c (CreateOp req)) (checkWorkloadType env c wt)"
  unfolding checkWorkloadType_def offeredWorkloadTypes_def Let_def act_check_def
  by (auto split: option.split intro!: requests_intros requests_session_send session_paths)

text \<open>
  C17. Every request of the session client goes to the path of its operation on the control plane, with
  the session named by one segment of the path that reads back as the caller's id; and once a token file
  is configured, every request carries the tenant's token, as the file holds it when the request is sent.
  Without a readable token nothing is sent.
\<close>

theorem session_requests_are_the_tenants:
  "requests (tenants_request env c op) (session_run env c op)"
  by (cases op)
     (auto simp: done_with_def client_ListSessions_def client_ReadSession_def client_WriteSession_def client_CreateSession_def
       client_DeleteSession_def Let_def intro!: requests_intros requests_check requests_session_send requests_workload_types session_paths)

definition sample_session :: session_client where
  "sample_session = \<lparr>sc_endpoint = ''http://cp'', sc_userAgent = ''agent'', sc_tokenFile = ''/token''\<rparr>"

lemma busy_alone: "session_error k msg = session_error SBusy text \<Longrightarrow> k = SBusy"
  by (cases k) (simp_all add: session_error_def)

lemma not_busy: "k \<noteq> SBusy \<Longrightarrow> session_error k msg \<noteq> session_error SBusy text"
  using busy_alone by blast

lemma write_answer_busy:
  "(\<exists>text. session_answer [(404, SNotFound), (400, SInvalidArgument), (413, STooLarge), (429, SBusy), (507, SQuotaExhausted)]
       explain endpoint resp = Inl (session_error SBusy text)) \<longleftrightarrow> ha_StatusCode resp = 429"
  by (auto simp: session_answer_def returned_def ensure_def not_busy)

lemma session_send_cases:
  assumes "session_send env c verb endpoint body tr = (q, tr1)"
  obtains (unsent) m where "q = Inl (session_error SUnavailable m)" "tr1 = tr"
  | (failed) call m where "tr1 = tr @ [call]" "q = Inl (session_error SAPI m)"
      "\<And>resp. he_answer env call tr = Inr resp \<Longrightarrow> ha_StatusCode resp \<in> {401, 403}"
  | (answered) call resp where "tr1 = tr @ [call]" "he_answer env call tr = Inr resp" "q = Inr resp"
proof -
  obtain t tr0 where token: "session_token env c tr = (t, tr0)" by (cases "session_token env c tr")
  with session_token_run have tr0: "tr0 = tr" by blast
  show thesis
  proof (cases t)
    case (Inl e)
    with token have "\<exists>m. e = session_error SUnavailable m"
      by (auto simp: session_token_def act_return_def act_bind_def act_get_def act_lift_def act_fail_def split: if_splits sum.splits)
    with assms token tr0 Inl unsent show thesis by (auto simp: session_send_def act_bind_def)
  next
    case (Inr token')
    define call where "call = \<lparr>hc_Method = verb, hc_URL = endpoint,
      hc_Headers = session_headers c (if body = None then [] else [(''Content-Type'', ''application/json'')]) token', hc_Body = body\<rparr>"
    show thesis
    proof (cases "he_answer env call tr")
      case Inl
      with assms token tr0 Inr show thesis
        by (intro failed [of call]) (auto simp: session_send_def act_bind_def http_do_def act_lift_def act_fail_def call_def)
    next
      case answer: (Inr resp)
      show thesis
      proof (cases "ha_StatusCode resp \<in> {401, 403}")
        case True
        with assms token tr0 Inr answer show thesis
          by (intro failed [of call]) (auto simp: session_send_def act_bind_def http_do_def act_lift_def act_fail_def call_def)
      next
        case False
        with assms token tr0 Inr answer show thesis
          by (intro answered [of call resp]) (auto simp: session_send_def act_bind_def http_do_def act_lift_def act_return_def call_def)
      qed
    qed
  qed
qed

lemma write_run:
  assumes "client_WriteSession env c sid payload tr = (r, tr')" and "sid \<noteq> []"
    and "session_send env c ''POST'' (sc_endpoint c @ writePath sid) (Some (JObj [(''payload'', JStr payload)])) tr = (q, tr1)"
  shows "tr' = tr1 \<and> (\<forall>e. q = Inl e \<longrightarrow> r = Inl e) \<and>
    (\<forall>resp. q = Inr resp \<longrightarrow> ((\<exists>text. r = Inl (session_error SBusy text)) \<longleftrightarrow> ha_StatusCode resp = 429))"
proof (cases q)
  case (Inl e)
  with assms show ?thesis by (simp add: client_WriteSession_def act_check_def act_bind_def Let_def)
next
  case (Inr resp)
  let ?refusal = "session_answer
    [(404, SNotFound), (400, SInvalidArgument), (413, STooLarge), (429, SBusy), (507, SQuotaExhausted)]
    (about_session sid (session_message env resp)) (sc_endpoint c @ writePath sid) resp"
  have "tr' = tr1 \<and> ((\<exists>text. r = Inl (session_error SBusy text)) \<longleftrightarrow> (\<exists>text. ?refusal = Inl (session_error SBusy text)))"
    using assms Inr
    by (cases ?refusal) (auto simp: client_WriteSession_def act_check_def act_bind_def act_lift_def act_fail_def act_return_def
        Let_def session_decode_def not_busy split: sum.splits)
  then show ?thesis by (simp add: write_answer_busy Inr)
qed

text \<open>
  The one refusal of a write that is worth repeating unchanged is told apart: the client reports
  the session as busy exactly when the control plane answered the request with 429.
\<close>

theorem busy_means_429:
  assumes "client_WriteSession env c sid payload tr = (r, tr')"
  shows "(\<exists>text. r = Inl (session_error SBusy text)) \<longleftrightarrow>
    (\<exists>call resp. tr' = tr @ [call] \<and> he_answer env call tr = Inr resp \<and> ha_StatusCode resp = 429)"
proof (cases "sid = []")
  case True
  with assms show ?thesis by (auto simp: client_WriteSession_def act_check_def act_fail_def not_busy)
next
  case False
  obtain q tr1 where sent: "session_send env c ''POST'' (sc_endpoint c @ writePath sid)
    (Some (JObj [(''payload'', JStr payload)])) tr = (q, tr1)" by (rule prod.exhaust)
  note run = write_run [OF assms False sent]
  from sent show ?thesis
  proof (cases rule: session_send_cases)
    case unsent
    with run show ?thesis by (simp add: not_busy)
  next
    case (failed call m)
    with run show ?thesis by (auto simp: not_busy)
  next
    case (answered call resp)
    with run show ?thesis by auto
  qed
qed

definition busy_http :: http_env where
  "busy_http = sample_http\<lparr>he_answer := (\<lambda>call before. answer_of 429 ''queue full'')\<rparr>"

theorem busy_means_429_witness:
  "(\<exists>text. fst (client_WriteSession busy_http sample_session ''s1'' ''hello'' []) = Inl (session_error SBusy text)) \<and>
     length (snd (client_WriteSession busy_http sample_session ''s1'' ''hello'' [])) = 1"
proof -
  define out where "out = client_WriteSession busy_http sample_session ''s1'' ''hello'' []"
  have run: "client_WriteSession busy_http sample_session ''s1'' ''hello'' [] = (fst out, snd out)" by (simp add: out_def)
  have "length (snd out) = 1" unfolding out_def by code_simp
  then obtain call where "snd out = [] @ [call]" by (cases "snd out") auto
  moreover have "he_answer busy_http call [] = answer_of 429 ''queue full''" by (simp add: busy_http_def)
  ultimately show ?thesis using busy_means_429 [OF run] \<open>length (snd out) = 1\<close> unfolding out_def by (auto simp: answer_of_def)
qed

definition json_of_session :: "session \<Rightarrow> session_json" where
  "json_of_session s =
     \<lparr>sj_ID = se_ID s, sj_Name = se_Name s, sj_WorkloadType = se_WorkloadType s, sj_State = se_State s,
      sj_Pod = se_Pod s, sj_Plugins = (if se_Plugins s = [] then None else Some (se_Plugins s)),
      sj_CreatedAt = se_CreatedAt s, sj_LastAccess = se_LastAccess s\<rparr>"

lemma session_of_json: "session_of (json_of_session s) = s"
  by (cases s) (simp add: session_of_def json_of_session_def)

lemma read_strings_back: "map_sum_list (\<lambda>x. read_string x []) (map JStr xs) = Inr xs"
  by (induction xs) (simp_all add: read_string_def)

lemma read_one_session: "read_struct False session_fields (JObj (sessionFields s)) zero_session = Inr (json_of_session s)"
  by (simp add: sessionFields_def session_fields_def read_struct_def match_field_def read_string_field_def read_string_def
      read_strings_def read_slice_def zero_session_def j_strs_def json_of_session_def
      read_strings_back [unfolded read_string_def])

lemma read_sessions:
  "map_sum_list (\<lambda>x. read_struct False session_fields x zero_session) (map (\<lambda>s. JObj (sessionFields s)) ss) =
     Inr (map json_of_session ss)"
  by (induction ss) (simp_all add: read_one_session)

text \<open>
  C36. What the control plane lists is what the tool reports: a listing written the way the tool
  writes sessions reads back as the same sessions, none of them lost, none reordered.
\<close>

theorem listed_sessions_come_through:
  assumes "session_token env c tr = (Inr token, tr)"
    and "\<And>call. he_answer env call tr = Inr resp" and "success (ha_StatusCode resp)"
    and "he_json env (ha_Body resp) = Some (JObj [(''sessions'', JArr (map (\<lambda>s. JObj (sessionFields s)) ss))])"
  shows "fst (client_ListSessions env c tr) = Inr ss"
proof -
  from assms(3) have fine: "ha_StatusCode resp \<noteq> 401" "ha_StatusCode resp \<noteq> 403" by (auto simp: success_def)
  have "session_decode env ''sessions'' [(''sessions'', read_slice (read_struct False session_fields) zero_session)] None resp =
      Inr (Some (map json_of_session ss))"
    by (simp add: session_decode_def unmarshal_def assms(4) read_struct_single) (simp add: read_slice_def read_sessions)
  with assms(1-3) fine show ?thesis
    by (simp add: client_ListSessions_def session_send_def act_bind_def http_do_def act_lift_def act_return_def
        session_answer_def Let_def comp_def session_of_json or_else_def)
qed

definition listing_http :: http_env where
  "listing_http = sample_http\<lparr>he_answer := (\<lambda>call before. answer_of 200 ''inventory''),
     he_json := (\<lambda>body. Some (JObj [(''sessions'', JArr (map (\<lambda>s. JObj (sessionFields s))
       [Session ''s1'' ''one'' ''shell'' ''active'' ''pod-1'' [] ''t0'' ''t1'', Session ''s2'' ''two'' ''shell'' ''idle'' [] [''p''] ''t0'' ''t1'']))]))\<rparr>"

theorem listed_sessions_come_through_witness:
  "fst (client_ListSessions listing_http sample_session []) =
     Inr [Session ''s1'' ''one'' ''shell'' ''active'' ''pod-1'' [] ''t0'' ''t1'', Session ''s2'' ''two'' ''shell'' ''idle'' [] [''p''] ''t0'' ''t1'']"
proof (rule listed_sessions_come_through)
  show "session_token listing_http sample_session [] = (Inr (Some ''tenant''), [])" by code_simp
qed (auto simp: listing_http_def answer_of_def success_def)

end
