(* ===== verification/GrafanaClient.thy ===== *)
theory GrafanaClient
  imports GoTime HttpClient Services
begin

text \<open>
  internal/grafana: the client that mints read-only tokens of one hour. Random bytes and the clock in
  nanoseconds are parameters.
\<close>

definition grafana_api :: "string \<Rightarrow> go_err" where "grafana_api msg = ErrText (''grafana cloud api error: '' @ msg)"
definition grafana_unavailable :: "string \<Rightarrow> go_err" where
  "grafana_unavailable msg = ErrUnavailable (''grafana cloud unavailable: '' @ msg)"

text \<open>\<open>NewUnavailable\<close>: the error with which every operation of the service fails.\<close>

definition grafana_NewUnavailable :: "string \<Rightarrow> go_err" where
  "grafana_NewUnavailable reason =
     grafana_unavailable (if reason = [] then ''grafana cloud credentials are not configured'' else reason)"

definition grafana_defaultAPIBase :: string where "grafana_defaultAPIBase = ''https://www.grafana.com/api''"
definition tokenTTL :: int where "tokenTTL = 3600"

record grafana_client =
  gc_issuerToken :: string
  gc_readPolicyID :: string
  gc_region :: string
  gc_apiBase :: string
  gc_metricsURL :: string
  gc_metricsUser :: string
  gc_logsURL :: string
  gc_logsUser :: string
  gc_userAgent :: string

record grafana_env =
  gv_rand :: "trace \<Rightarrow> string option"
  gv_nano :: "trace \<Rightarrow> int"

definition missing_settings :: "(string \<Rightarrow> string) \<Rightarrow> string list" where
  "missing_settings getenv =
     filter (\<lambda>name. getenv name = [])
       [''GRAFANA_METRICS_URL'', ''GRAFANA_METRICS_USER'', ''GRAFANA_LOGS_URL'', ''GRAFANA_LOGS_USER'']"

definition grafana_FromEnv :: "(string \<Rightarrow> string) \<Rightarrow> string \<Rightarrow> string + grafana_client option" where
  "grafana_FromEnv getenv agent =
     (let issuerToken = getenv ''GRAFANA_ISSUER_TOKEN''; readPolicyID = getenv ''GRAFANA_READ_POLICY_ID'';
          missing = missing_settings getenv; apiBase = getenv ''GRAFANA_API_URL'' in
      if issuerToken = [] then Inr None
      else if readPolicyID = [] then Inl ''GRAFANA_READ_POLICY_ID is required when GRAFANA_ISSUER_TOKEN is set''
      else if missing \<noteq> [] then Inl (join '', '' missing @ '' required when GRAFANA_ISSUER_TOKEN is set'')
      else Inr (Some
        \<lparr>gc_issuerToken = issuerToken, gc_readPolicyID = readPolicyID, gc_region = getenv ''GRAFANA_REGION'',
         gc_apiBase = trim_right (CHR ''/'') (if apiBase = [] then grafana_defaultAPIBase else apiBase),
         gc_metricsURL = getenv ''GRAFANA_METRICS_URL'', gc_metricsUser = getenv ''GRAFANA_METRICS_USER'',
         gc_logsURL = getenv ''GRAFANA_LOGS_URL'', gc_logsUser = getenv ''GRAFANA_LOGS_USER'', gc_userAgent = agent\<rparr>))"

text \<open>\<open>hex.EncodeToString\<close> and \<open>tokenName\<close>.\<close>

definition lower_hex :: "nat \<Rightarrow> char" where
  "lower_hex n = (if n < 10 then char_of (48 + n) else char_of (87 + n))"

definition hex_encode :: "string \<Rightarrow> string" where
  "hex_encode s = concat (map (\<lambda>c. [lower_hex (of_char c div 16), lower_hex (of_char c mod 16)]) s)"

definition tokenName :: "http_env \<Rightarrow> grafana_env \<Rightarrow> trace \<Rightarrow> string" where
  "tokenName env gv tr =
     (case gv_rand gv tr of
        None \<Rightarrow> ''homelab-k3s-mcp-'' @ itoa (gv_nano gv tr)
      | Some suffix \<Rightarrow> ''homelab-k3s-mcp-'' @ itoa (he_now env tr) @ ''-'' @ hex_encode suffix)"

definition grafana_endpoint :: "grafana_client \<Rightarrow> string" where
  "grafana_endpoint c =
     gc_apiBase c @ ''/v1/tokens'' @ (if gc_region c = [] then [] else ''?region='' @ QueryEscape (gc_region c))"

definition grafana_body :: "grafana_client \<Rightarrow> string \<Rightarrow> string \<Rightarrow> raw" where
  "grafana_body c name expires =
     JObj [(''accessPolicyId'', JStr (gc_readPolicyID c)), (''name'', JStr name), (''displayName'', JStr name),
       (''expiresAt'', JStr expires)]"

definition grafana_fields :: "(string \<times> (string \<times> string) reader) list" where
  "grafana_fields =
     [(''token'', \<lambda>v (t, e). bind_sum (read_string v t) (\<lambda>x. Inr (x, e))),
      (''expiresAt'', \<lambda>v (t, e). bind_sum (read_string v e) (\<lambda>x. Inr (t, x)))]"

definition grafana_answer :: "http_env \<Rightarrow> grafana_client \<Rightarrow> string + http_response \<Rightarrow> go_err + grafana_credentials" where
  "grafana_answer env c answer =
     (case answer of
        Inl e \<Rightarrow> Inl (grafana_api (''post '' @ grafana_endpoint c @ '': '' @ e))
      | Inr resp \<Rightarrow>
          if \<not> success (ha_StatusCode resp) then
            Inl (grafana_api (grafana_endpoint c @ '' returned '' @ ha_Status resp @ '': '' @ ha_Body resp))
          else (case unmarshal env grafana_fields ([], []) (ha_Body resp) of
              Inl e \<Rightarrow> Inl (grafana_api (''parse token: '' @ e))
            | Inr (token, expires) \<Rightarrow>
                if token = [] then Inl (grafana_api ''grafana response did not include a token'')
                else Inr (GrafanaCredentials token expires (gc_metricsURL c) (gc_metricsUser c) (gc_logsURL c) (gc_logsUser c))))"

definition client_CreateToken :: "http_env \<Rightarrow> grafana_env \<Rightarrow> grafana_client \<Rightarrow> grafana_credentials http" where
  "client_CreateToken env gv c =
     act_bind (act_get (tokenName env gv)) (\<lambda>name.
     act_bind (act_get (\<lambda>tr. rfc3339 (he_now env tr + tokenTTL))) (\<lambda>expires.
     act_bind (http_do env
       \<lparr>hc_Method = ''POST'', hc_URL = grafana_endpoint c,
        hc_Headers = [(''Authorization'', ''Bearer '' @ gc_issuerToken c), (''Accept'', ''application/json''),
          (''Content-Type'', ''application/json''), (''User-Agent'', gc_userAgent c)],
        hc_Body = Some (grafana_body c name expires)\<rparr>) (\<lambda>answer.
     act_lift (grafana_answer env c answer))))"

end
