(* ===== verification/OpenSearchClient.thy ===== *)
theory OpenSearchClient
  imports HttpClient ToolArgs Services
begin

text \<open>
  internal/opensearch: the client of the document store and its three ways to authenticate. The AWS SDK
  is a parameter (\<open>aws_sdk\<close>): the region its configuration resolves to, the credentials of an assumed
  role and the headers its signer adds.
\<close>

section \<open>The AWS SDK\<close>

record aws_credentials =
  ak_AccessKeyID :: string
  ak_SecretAccessKey :: string
  ak_SessionToken :: string

record assumed_role =
  ar_ARN :: string
  ar_SessionName :: string
  ar_ExternalID :: "string option"
  ar_Endpoint :: "string option"
  ar_Region :: string

record aws_sdk =
  sdk_LoadDefaultConfig :: "string option \<Rightarrow> string + string"
  sdk_Retrieve :: "assumed_role \<Rightarrow> trace \<Rightarrow> string + aws_credentials"
  sdk_PayloadHash :: "raw option \<Rightarrow> string"
  sdk_SignHTTP :: "aws_credentials \<Rightarrow> http_call \<Rightarrow> string \<Rightarrow> string \<Rightarrow> string \<Rightarrow> int \<Rightarrow> string + (string \<times> string) list"

definition non_empty :: "string \<Rightarrow> string option" where
  "non_empty s = (if s = [] then None else Some s)"

section \<open>Authentication\<close>

definition requestError :: "string \<Rightarrow> go_err" where "requestError msg = ErrText (''opensearch error: '' @ msg)"
definition opensearch_unavailable :: "string \<Rightarrow> go_err" where
  "opensearch_unavailable msg = ErrUnavailable (''opensearch unavailable: '' @ msg)"

text \<open>\<open>NewUnavailable\<close>: the error with which every operation of the service fails.\<close>

definition opensearch_NewUnavailable :: "string \<Rightarrow> go_err" where
  "opensearch_NewUnavailable reason =
     opensearch_unavailable (if reason = [] then ''opensearch integration is not configured'' else reason)"

datatype auth_mode = AuthNone | AuthBasic | AuthSigV4

datatype authenticator =
    NoAuth
  | BasicAuth (ba_user: string) (ba_pass: string)
  | SigV4Auth (sv_region: string) (sv_service: string) (sv_creds: assumed_role)

fun mode :: "authenticator \<Rightarrow> auth_mode" where
  "mode NoAuth = AuthNone"
| "mode (BasicAuth _ _) = AuthBasic"
| "mode (SigV4Auth _ _ _) = AuthSigV4"

text \<open>\<open>apply\<close>: the request as it is sent.\<close>

definition add_headers :: "(string \<times> string) list \<Rightarrow> http_call \<Rightarrow> http_call" where
  "add_headers hs call = call\<lparr>hc_Headers := hc_Headers call @ hs\<rparr>"

fun auth_apply :: "http_env \<Rightarrow> aws_sdk \<Rightarrow> authenticator \<Rightarrow> http_call \<Rightarrow> http_call http" where
  "auth_apply env sdk NoAuth call = act_return call"
| "auth_apply env sdk (BasicAuth user pass) call =
     act_return (add_headers [(''Authorization'', ''Basic '' @ b64_encode (user @ '':'' @ pass))] call)"
| "auth_apply env sdk (SigV4Auth region service role) call =
     (let payloadHash = sdk_PayloadHash sdk (hc_Body call);
          hashed = add_headers [(''X-Amz-Content-Sha256'', payloadHash)] call in
      act_bind (act_get (sdk_Retrieve sdk role)) (\<lambda>creds.
      act_bind (act_get (he_now env)) (\<lambda>now.
      act_lift (case creds of
          Inl e \<Rightarrow> Inl (requestError (''assume role: '' @ e))
        | Inr k \<Rightarrow>
            (case sdk_SignHTTP sdk k hashed payloadHash service region now of
               Inl e \<Rightarrow> Inl (requestError (''sign request: '' @ e))
             | Inr hs \<Rightarrow> Inr (add_headers hs hashed))))))"

definition defaultRoleSessionName :: string where "defaultRoleSessionName = ''homelab-k3s-mcp''"
definition defaultSigningService :: string where "defaultSigningService = ''es''"

definition sigv4FromEnv :: "aws_sdk \<Rightarrow> (string \<Rightarrow> string) \<Rightarrow> string \<Rightarrow> string + authenticator" where
  "sigv4FromEnv sdk getenv roleARN =
     (let service = or_else (non_empty (getenv ''OPENSEARCH_SIGNING_SERVICE'')) defaultSigningService in
      if service \<noteq> ''es'' \<and> service \<noteq> ''aoss'' then
        Inl (''OPENSEARCH_SIGNING_SERVICE must be es or aoss, got '' @ service)
      else (case sdk_LoadDefaultConfig sdk (non_empty (getenv ''OPENSEARCH_REGION'')) of
          Inl e \<Rightarrow> Inl (''load aws config: '' @ e)
        | Inr region \<Rightarrow>
            if region = [] then Inl ''no AWS region resolved: set OPENSEARCH_REGION when OPENSEARCH_ROLE_ARN is set''
            else Inr (SigV4Auth region service
              \<lparr>ar_ARN = roleARN,
               ar_SessionName = or_else (non_empty (getenv ''OPENSEARCH_ROLE_SESSION_NAME'')) defaultRoleSessionName,
               ar_ExternalID = None, ar_Endpoint = non_empty (getenv ''OPENSEARCH_STS_ENDPOINT''), ar_Region = region\<rparr>)))"

definition authFromEnv :: "aws_sdk \<Rightarrow> (string \<Rightarrow> string) \<Rightarrow> string + authenticator" where
  "authFromEnv sdk getenv =
     (let user = getenv ''OPENSEARCH_USERNAME''; pass = getenv ''OPENSEARCH_PASSWORD''; roleARN = getenv ''OPENSEARCH_ROLE_ARN'' in
      if (user = []) \<noteq> (pass = []) then Inl ''OPENSEARCH_USERNAME and OPENSEARCH_PASSWORD must be set together''
      else if user \<noteq> [] \<and> roleARN \<noteq> [] then Inl ''set either basic credentials or OPENSEARCH_ROLE_ARN, not both''
      else if user \<noteq> [] then Inr (BasicAuth user pass)
      else if roleARN \<noteq> [] then sigv4FromEnv sdk getenv roleARN
      else Inr NoAuth)"

section \<open>The client\<close>

record opensearch_client =
  oc_endpoint :: string
  oc_auth :: authenticator

definition opensearch_FromEnv :: "aws_sdk \<Rightarrow> (string \<Rightarrow> string) \<Rightarrow> string + opensearch_client option" where
  "opensearch_FromEnv sdk getenv =
     (let endpoint = trim_right (CHR ''/'') (getenv ''OPENSEARCH_ENDPOINT'') in
      if endpoint = [] then Inr None
      else if \<not> http_base endpoint then Inl (''OPENSEARCH_ENDPOINT must be an absolute http(s) URL, got '' @ endpoint)
      else bind_sum (authFromEnv sdk getenv) (\<lambda>auth. Inr (Some \<lparr>oc_endpoint = endpoint, oc_auth = auth\<rparr>)))"

text \<open>\<open>do\<close>: the status and the body.\<close>

definition opensearch_do :: "http_env \<Rightarrow> aws_sdk \<Rightarrow> opensearch_client \<Rightarrow> string \<Rightarrow> string \<Rightarrow> raw option \<Rightarrow> (int \<times> string) http" where
  "opensearch_do env sdk c verb path body =
     act_bind (auth_apply env sdk (oc_auth c)
       \<lparr>hc_Method = verb, hc_URL = oc_endpoint c @ path,
        hc_Headers = (if body = None then [] else [(''Content-Type'', ''application/json'')]), hc_Body = body\<rparr>) (\<lambda>call.
     act_bind (http_do env call) (\<lambda>answer.
     act_lift (case answer of
         Inl e \<Rightarrow> Inl (requestError (verb @ '' '' @ path @ '': '' @ e))
       | Inr resp \<Rightarrow>
           (case ha_ReadErr resp of
              Some e \<Rightarrow> Inl (requestError (''read response '' @ verb @ '' '' @ path @ '': '' @ e))
            | None \<Rightarrow> Inr (ha_StatusCode resp, ha_Body resp)))))"

definition status_error :: "string \<Rightarrow> string \<Rightarrow> int \<Rightarrow> string \<Rightarrow> go_err" where
  "status_error what path status data =
     requestError (what @ '' '' @ path @ '': status '' @ itoa status @ '': '' @ snippet data)"

definition opensearch_decode :: "http_env \<Rightarrow> string \<Rightarrow> (string \<times> 's reader) list \<Rightarrow> 's \<Rightarrow> string \<Rightarrow> go_err + 's" where
  "opensearch_decode env what fs zero body =
     (case unmarshal env fs zero body of
        Inl e \<Rightarrow> Inl (requestError (''decode '' @ what @ '' response: '' @ e)) | Inr x \<Rightarrow> Inr x)"

section \<open>Searching\<close>

definition DefaultSearchSize :: int where "DefaultSearchSize = 10"
definition MaxSearchSize :: int where "MaxSearchSize = 50"

definition search_size :: "int option \<Rightarrow> go_err + int" where
  "search_size sz =
     (case sz of
        None \<Rightarrow> Inr DefaultSearchSize
      | Some n \<Rightarrow>
          if n < 1 then Inl (requestError (''size must be >= 1, got '' @ itoa n))
          else if n > MaxSearchSize then
            Inl (requestError (''size must be <= '' @ itoa MaxSearchSize @ '', got '' @ itoa n))
          else Inr n)"

definition search_path :: "string option \<Rightarrow> string" where
  "search_path index = (case index of None \<Rightarrow> ''/_search'' | Some i \<Rightarrow> ''/'' @ PathEscape i @ ''/_search'')"

definition search_body :: "string \<Rightarrow> int \<Rightarrow> raw" where
  "search_body q n =
     JObj [(''query'', JObj [(''simple_query_string'', JObj [(''query'', JStr q)])]), (''size'', JNum (itoa n))]"

record hit_json =
  hj_Index :: string
  hj_ID :: string
  hj_Score :: "string option"
  hj_Source :: raw

definition read_score :: "string option reader" where
  "read_score v old =
     (case v of JNull \<Rightarrow> Inr None | JNum s \<Rightarrow> Inr (Some s) | _ \<Rightarrow> Inl ''cannot unmarshal into a float64'')"

definition hit_fields :: "(string \<times> hit_json reader) list" where
  "hit_fields =
     [(''_index'', read_string_field hj_Index hj_Index_update), (''_id'', read_string_field hj_ID hj_ID_update),
      (''_score'', \<lambda>v s. bind_sum (read_score v (hj_Score s)) (\<lambda>x. Inr (s\<lparr>hj_Score := x\<rparr>))),
      (''_source'', \<lambda>v s. Inr (s\<lparr>hj_Source := v\<rparr>))]"

record hits_json =
  hx_Total :: int
  hx_Hits :: "hit_json list option"

definition hits_fields :: "(string \<times> hits_json reader) list" where
  "hits_fields =
     [(''total'', read_struct False [(''value'', read_int_field hx_Total hx_Total_update)]),
      (''hits'', \<lambda>v s. bind_sum (read_slice (read_struct False hit_fields)
         \<lparr>hj_Index = [], hj_ID = [], hj_Score = None, hj_Source = JNull\<rparr> v (hx_Hits s)) (\<lambda>x. Inr (s\<lparr>hx_Hits := x\<rparr>)))]"

definition hit_of :: "hit_json \<Rightarrow> search_hit" where
  "hit_of h = SearchHit (hj_Index h) (hj_ID h) (hj_Score h) (hj_Source h)"

definition client_Search :: "http_env \<Rightarrow> aws_sdk \<Rightarrow> opensearch_client \<Rightarrow> string \<Rightarrow> string option \<Rightarrow> int option \<Rightarrow> search_result http" where
  "client_Search env sdk c q index sz =
     act_bind (act_lift (search_size sz)) (\<lambda>n.
     let path = search_path index in
     act_bind (opensearch_do env sdk c ''POST'' path (Some (search_body q n))) (\<lambda>(status, data).
     act_bind (act_check (status = 200) (status_error ''search'' path status data)) (\<lambda>_.
     act_bind (act_lift (opensearch_decode env ''search'' [(''hits'', read_struct False hits_fields)]
       \<lparr>hx_Total = 0, hx_Hits = None\<rparr> data)) (\<lambda>parsed.
     act_return (SearchResult (hx_Total parsed) (map hit_of (or_else (hx_Hits parsed) [])))))))"

section \<open>Documents\<close>

definition document_fields_json :: "(string \<times> (string \<times> string \<times> string) reader) list" where
  "document_fields_json =
     [(''_index'', \<lambda>v (i, d, r). bind_sum (read_string v i) (\<lambda>x. Inr (x, d, r))),
      (''_id'', \<lambda>v (i, d, r). bind_sum (read_string v d) (\<lambda>x. Inr (i, x, r))),
      (''result'', \<lambda>v (i, d, r). bind_sum (read_string v r) (\<lambda>x. Inr (i, d, x)))]"

definition put_path :: "string \<Rightarrow> string option \<Rightarrow> string" where
  "put_path index did =
     ''/'' @ PathEscape index @ ''/_doc'' @ (case did of None \<Rightarrow> [] | Some d \<Rightarrow> ''/'' @ PathEscape d)"

definition client_PutDocument :: "http_env \<Rightarrow> aws_sdk \<Rightarrow> opensearch_client \<Rightarrow> string \<Rightarrow> string option \<Rightarrow> obj \<Rightarrow> document_result http" where
  "client_PutDocument env sdk c index did document =
     (let path = put_path index did in
      act_bind (opensearch_do env sdk c (if did = None then ''POST'' else ''PUT'') path (Some (JObj document))) (\<lambda>(status, data).
      act_bind (act_check (status = 200 \<or> status = 201) (status_error ''put document'' path status data)) (\<lambda>_.
      act_bind (act_lift (opensearch_decode env ''put'' document_fields_json ([], [], []) data)) (\<lambda>(i, d, r).
      act_return (DocumentResult i d r)))))"

definition delete_path :: "string \<Rightarrow> string \<Rightarrow> string" where
  "delete_path index did = ''/'' @ PathEscape index @ ''/_doc/'' @ PathEscape did"

definition client_DeleteDocument :: "http_env \<Rightarrow> aws_sdk \<Rightarrow> opensearch_client \<Rightarrow> string \<Rightarrow> string \<Rightarrow> document_result http" where
  "client_DeleteDocument env sdk c index did =
     (let path = delete_path index did in
      act_bind (opensearch_do env sdk c ''DELETE'' path None) (\<lambda>(status, data).
      if status = 200 then act_return (DocumentResult index did ''deleted'')
      else if status = 404 then act_return (DocumentResult index did ''not_found'')
      else act_fail (status_error ''delete document'' path status data)))"

end
