(* ===== verification/AwsClient.thy ===== *)
theory AwsClient
  imports GoTime OpenSearchClient
begin

text \<open>
  internal/awsconfig: the one object of the configured bucket. S3 is a parameter of the client: what
  \<open>GetObject\<close> of a bucket and a key answers under the credentials of the assumed role; the
  requests the SDK makes for it are not in the trace.
\<close>

definition aws_fetch :: "string \<Rightarrow> go_err" where "aws_fetch msg = ErrText (''aws config error: '' @ msg)"
definition aws_unavailable :: "string \<Rightarrow> go_err" where
  "aws_unavailable msg = ErrUnavailable (''aws config unavailable: '' @ msg)"

text \<open>\<open>NewUnavailable\<close>: the error with which every operation of the service fails.\<close>

definition aws_NewUnavailable :: "string \<Rightarrow> go_err" where
  "aws_NewUnavailable reason =
     aws_unavailable (if reason = [] then ''aws config integration is not configured'' else reason)"

record s3_object =
  s3_Body :: "string + string"
  s3_ContentType :: "string option"
  s3_ETag :: "string option"
  s3_LastModified :: "int option"

record s3_options =
  so_Role :: assumed_role
  so_BaseEndpoint :: "string option"
  so_UsePathStyle :: bool

type_synonym s3_backend = "s3_options \<Rightarrow> string \<Rightarrow> string \<Rightarrow> trace \<Rightarrow> string + s3_object"

record aws_client =
  aw_s3 :: s3_options
  aw_bucket :: string
  aw_key :: string

definition aws_FromEnv :: "aws_sdk \<Rightarrow> (string \<Rightarrow> string) \<Rightarrow> string + aws_client option" where
  "aws_FromEnv sdk getenv =
     (let bucket = getenv ''AWS_CONFIG_S3_BUCKET''; k = getenv ''AWS_CONFIG_S3_KEY''; roleARN = getenv ''AWS_CONFIG_ROLE_ARN'';
          endpoint = non_empty (getenv ''AWS_CONFIG_S3_ENDPOINT'') in
      if bucket = [] then Inr None
      else if k = [] then Inl ''AWS_CONFIG_S3_KEY is required when AWS_CONFIG_S3_BUCKET is set''
      else if roleARN = [] then Inl ''AWS_CONFIG_ROLE_ARN is required when AWS_CONFIG_S3_BUCKET is set''
      else (case sdk_LoadDefaultConfig sdk (non_empty (getenv ''AWS_CONFIG_S3_REGION'')) of
          Inl e \<Rightarrow> Inl (''load aws config: '' @ e)
        | Inr region \<Rightarrow> Inr (Some
            \<lparr>aw_s3 =
               \<lparr>so_Role =
                  \<lparr>ar_ARN = roleARN,
                   ar_SessionName = or_else (non_empty (getenv ''AWS_CONFIG_ROLE_SESSION_NAME'')) defaultRoleSessionName,
                   ar_ExternalID = non_empty (getenv ''AWS_CONFIG_ROLE_EXTERNAL_ID''), ar_Endpoint = endpoint,
                   ar_Region = region\<rparr>,
                so_BaseEndpoint = endpoint, so_UsePathStyle = (endpoint \<noteq> None)\<rparr>,
             aw_bucket = bucket, aw_key = k\<rparr>)))"

text \<open>\<open>strings.Trim(etag, quote)\<close>: every quote at either end.\<close>

definition trim_quotes :: "string \<Rightarrow> string" where
  "trim_quotes s = trim_right (CHR 0x22) (dropWhile (\<lambda>c. c = CHR 0x22) s)"

definition aws_object_of :: "aws_client \<Rightarrow> s3_object \<Rightarrow> string \<Rightarrow> aws_object" where
  "aws_object_of c out data =
     AwsObject (aw_bucket c) (aw_key c) data (or_else (s3_ContentType out) [])
       (or_else (map_option trim_quotes (s3_ETag out)) []) (or_else (map_option rfc3339 (s3_LastModified out)) [])
       (int (length data))"

definition client_GetConfig :: "s3_backend \<Rightarrow> aws_client \<Rightarrow> aws_object http" where
  "client_GetConfig s3 c =
     (let address = ''s3://'' @ aw_bucket c @ ''/'' @ aw_key c in
      act_bind (act_get (s3 (aw_s3 c) (aw_bucket c) (aw_key c))) (\<lambda>answer.
      act_lift (case answer of
          Inl e \<Rightarrow> Inl (aws_fetch (''get '' @ address @ '': '' @ e))
        | Inr out \<Rightarrow>
            (case s3_Body out of
               Inl e \<Rightarrow> Inl (aws_fetch (''read '' @ address @ '': '' @ e))
             | Inr data \<Rightarrow> Inr (aws_object_of c out data)))))"

end
