(* ===== verification/Clients.thy ===== *)
theory Clients
  imports SessionClient GithubClient DropClient PocketAideClient GrafanaClient AwsClient Server
begin

text \<open>
  The clients that main.go builds from the environment: each is the live one, or the unavailable one
  of its package when it is not configured or its configuration is refused. Every request they make
  goes into one trace, and \<open>past\<close> says which requests had been made when the world is as it is.
\<close>

record platform =
  pf_http :: http_env
  pf_parseKey :: "string \<Rightarrow> string + signer"
  pf_sdk :: aws_sdk
  pf_s3 :: s3_backend
  pf_grafana :: grafana_env
  pf_getenv :: "string \<Rightarrow> string"

definition user_agent :: string where
  "user_agent = version_Name @ ''/'' @ server_version"

text \<open>What \<open>FromEnv\<close> came to, as the service that is built from it: the client, or the unavailable one.\<close>

definition built_client :: "(string \<Rightarrow> go_err) \<Rightarrow> string + 'c option \<Rightarrow> go_err + 'c" where
  "built_client newUnavailable result =
     (case result of
        Inl e \<Rightarrow> Inl (newUnavailable e)
      | Inr None \<Rightarrow> Inl (newUnavailable [])
      | Inr (Some c) \<Rightarrow> Inr c)"

definition with_client :: "go_err + 'c \<Rightarrow> ('c \<Rightarrow> 'a http) \<Rightarrow> 'a http" where
  "with_client client f = (case client of Inl e \<Rightarrow> act_fail e | Inr c \<Rightarrow> f c)"

definition buildGitHubService :: "platform \<Rightarrow> go_err + github_client" where
  "buildGitHubService pf =
     built_client github_NewUnavailable
       (github_FromEnv (pf_parseKey pf) (pf_getenv pf) user_agent)"

definition buildAWSService :: "platform \<Rightarrow> go_err + aws_client" where
  "buildAWSService pf =
     built_client aws_NewUnavailable (aws_FromEnv (pf_sdk pf) (pf_getenv pf))"

definition buildGrafanaService :: "platform \<Rightarrow> go_err + grafana_client" where
  "buildGrafanaService pf =
     built_client grafana_NewUnavailable
       (grafana_FromEnv (pf_getenv pf) user_agent)"

definition buildOpenSearchService :: "platform \<Rightarrow> go_err + opensearch_client" where
  "buildOpenSearchService pf =
     built_client opensearch_NewUnavailable
       (opensearch_FromEnv (pf_sdk pf) (pf_getenv pf))"

definition buildSessionPlatformService :: "platform \<Rightarrow> go_err + session_client" where
  "buildSessionPlatformService pf =
     built_client session_NewUnavailable
       (sessionplatform_FromEnv (pf_http pf) (pf_getenv pf) user_agent)"

definition buildPocketAideService :: "platform \<Rightarrow> go_err + pocketaide_client" where
  "buildPocketAideService pf =
     built_client pocketaide_NewUnavailable
       (pocketaide_FromEnv (pf_http pf) (pf_getenv pf))"

definition buildDropService :: "platform \<Rightarrow> go_err + drop_client" where
  "buildDropService pf =
     built_client drop_NewUnavailable (drop_FromEnv (pf_http pf) (pf_getenv pf))"

text \<open>The answers of the integrations are those of the clients.\<close>

definition document_client :: "platform \<Rightarrow> ext_call \<Rightarrow> document_result http" where
  "document_client pf x =
     with_client (buildOpenSearchService pf) (\<lambda>c.
       case x of
         XPutDocument index did doc \<Rightarrow> client_PutDocument (pf_http pf) (pf_sdk pf) c index did doc
       | XDeleteDocument index did \<Rightarrow> client_DeleteDocument (pf_http pf) (pf_sdk pf) c index did
       | _ \<Rightarrow> act_fail (requestError ''no document request''))"

definition client_oracle :: "platform \<Rightarrow> (world \<Rightarrow> trace) \<Rightarrow> ext_oracle" where
  "client_oracle pf past =
     \<lparr>o_token = (\<lambda>repos perms w. fst (with_client (buildGitHubService pf)
        (\<lambda>c. client_CreateInstallationToken (pf_http pf) c repos perms) (past w))),
      o_status = (\<lambda>i w. fst (with_client (buildGitHubService pf) (\<lambda>c. client_CreateCommitStatus (pf_http pf) c i) (past w))),
      o_aws = (\<lambda>w. fst (with_client (buildAWSService pf) (client_GetConfig (pf_s3 pf)) (past w))),
      o_grafana = (\<lambda>w. fst (with_client (buildGrafanaService pf) (client_CreateToken (pf_http pf) (pf_grafana pf)) (past w))),
      o_search = (\<lambda>q index sz w. fst (with_client (buildOpenSearchService pf)
        (\<lambda>c. client_Search (pf_http pf) (pf_sdk pf) c q index sz) (past w))),
      o_document = (\<lambda>x w. fst (document_client pf x (past w))),
      o_sessions = (\<lambda>w. fst (with_client (buildSessionPlatformService pf) (client_ListSessions (pf_http pf)) (past w))),
      o_read = (\<lambda>sid off w. fst (with_client (buildSessionPlatformService pf)
        (\<lambda>c. client_ReadSession (pf_http pf) c sid off) (past w))),
      o_write = (\<lambda>sid payload w. fst (with_client (buildSessionPlatformService pf)
        (\<lambda>c. client_WriteSession (pf_http pf) c sid payload) (past w))),
      o_create_session = (\<lambda>req w. fst (with_client (buildSessionPlatformService pf)
        (\<lambda>c. client_CreateSession (pf_http pf) c req) (past w))),
      o_delete_session = (\<lambda>sid w. fst (with_client (buildSessionPlatformService pf)
        (\<lambda>c. client_DeleteSession (pf_http pf) c sid) (past w))),
      o_notify = (\<lambda>title body requester w. fst (with_client (buildPocketAideService pf)
        (\<lambda>c. client_Notify (pf_http pf) c title body requester) (past w))),
      o_issue = (\<lambda>req w. fst (with_client (buildDropService pf) (\<lambda>c. client_IssueToken (pf_http pf) c req) (past w)))\<rparr>"

text \<open>The deployment in which every integration has its own client.\<close>

definition deployed :: "platform \<Rightarrow> (world \<Rightarrow> trace) \<Rightarrow> deployment \<Rightarrow> deployment" where
  "deployed pf past dp = dp\<lparr>dp_getenv := pf_getenv pf, dp_integrations := client_oracle pf past\<rparr>"

end
