(* ===== verification/ClientProperties.thy ===== *)
theory ClientProperties
  imports GithubProperties SessionProperties Clients Sample
begin

text \<open>What the other clients promise, and what the tools make of the clients' answers.\<close>

section \<open>Drop\<close>

definition drop_request_ok :: "http_env \<Rightarrow> drop_client \<Rightarrow> trace \<Rightarrow> http_call \<Rightarrow> bool" where
  "drop_request_ok env c before call \<longleftrightarrow>
     hc_Method call = ''POST'' \<and> hc_URL call = dc_baseURL c @ ''/api/v1/sa/token'' \<and>
     (\<exists>req. hc_Body call = Some (issue_body req) \<and> 1 \<le> dq_ValidMinutes req \<and> dq_ValidMinutes req \<le> 1440 \<and>
        0 \<le> dq_MaxDays req \<and> dq_MaxDays req \<le> 30 \<and> rune_count (trim_space (dq_Label req)) \<le> 40) \<and>
     (\<exists>raw. he_file env (dc_tokenFile c) before = Inr raw \<and> trim_space raw \<noteq> [] \<and>
        header_of call ''Authorization'' = Some (''Bearer '' @ trim_space raw))"

lemma validated_minutes:
  assumes "Validate req = Inr u"
  shows "1 \<le> dq_ValidMinutes (with_default_minutes req) \<and> dq_ValidMinutes (with_default_minutes req) \<le> 1440 \<and>
    0 \<le> dq_MaxDays (with_default_minutes req) \<and> dq_MaxDays (with_default_minutes req) \<le> 30 \<and>
    rune_count (trim_space (dq_Label (with_default_minutes req))) \<le> 40"
  using assms
  by (simp add: Validate_def bind_sum_Inr_iff with_default_minutes_def DefaultValidMinutes_def MaxValidMinutes_def
      MaxDays_def MaxLabelRunes_def)

text \<open>
  C37. A request for a drop token stays within the limits of drop whatever the caller asked for: one
  minute to a day (an hour when nothing was asked), at most thirty days, a label of at most forty
  characters. It is authenticated by the service account token of that moment.
\<close>

theorem drop_requests_are_bounded:
  "requests (drop_request_ok env c) (client_IssueToken env c req)"
  unfolding client_IssueToken_def
proof (rule requests_lift_bind)
  fix u assume valid: "Validate req = Inr u"
  define call where "call token = \<lparr>hc_Method = ''POST'', hc_URL = dc_baseURL c @ ''/api/v1/sa/token'',
    hc_Headers = [(''Content-Type'', ''application/json''), (''Authorization'', ''Bearer '' @ token)],
    hc_Body = Some (issue_body (with_default_minutes req))\<rparr>" for token
  have "requests (drop_request_ok env c)
     (act_bind (\<lambda>tr. (map_sum drop_api id (drop_readToken env (dc_tokenFile c) tr), tr)) (\<lambda>token.
      act_bind (http_do env (call token)) (\<lambda>answer. act_lift (drop_answer env c answer))))"
  proof (rule requests_quiet_do)
    fix w x w1 assume "(map_sum drop_api id (drop_readToken env (dc_tokenFile c) w), w) = (Inr x, w1)"
    then have "drop_readToken env (dc_tokenFile c) w = Inr x"
      by (cases "drop_readToken env (dc_tokenFile c) w") simp_all
    with validated_minutes [OF valid] show "drop_request_ok env c w (call x)"
      by (auto simp: drop_request_ok_def call_def header_of_def drop_readToken_def dest!: read_token_Inr)
  qed (auto intro: requests_intros)
  moreover have "act_bind (act_get (drop_readToken env (dc_tokenFile c))) (\<lambda>sa. case sa of
       Inl e \<Rightarrow> act_fail (drop_api e)
     | Inr token \<Rightarrow> act_bind (http_do env (call token)) (\<lambda>answer. act_lift (drop_answer env c answer))) =
     act_bind (\<lambda>tr. (map_sum drop_api id (drop_readToken env (dc_tokenFile c) tr), tr)) (\<lambda>token.
      act_bind (http_do env (call token)) (\<lambda>answer. act_lift (drop_answer env c answer)))"
    by (simp add: fun_eq_iff act_bind_def act_get_def act_fail_def split: sum.split)
  ultimately show "requests (drop_request_ok env c)
     (act_bind (act_get (drop_readToken env (dc_tokenFile c))) (\<lambda>sa. case sa of
       Inl e \<Rightarrow> act_fail (drop_api e)
     | Inr token \<Rightarrow>
         act_bind (http_do env
           \<lparr>hc_Method = ''POST'', hc_URL = dc_baseURL c @ ''/api/v1/sa/token'',
            hc_Headers = [(''Content-Type'', ''application/json''), (''Authorization'', ''Bearer '' @ token)],
            hc_Body = Some (issue_body (with_default_minutes req))\<rparr>) (\<lambda>answer.
         act_lift (drop_answer env c answer))))" unfolding call_def by simp
qed

section \<open>Documents\<close>

datatype document_op =
  SearchOp string "string option" "int option" | PutOp string "string option" obj | RemoveOp string string

fun document_run :: "http_env \<Rightarrow> aws_sdk \<Rightarrow> opensearch_client \<Rightarrow> document_op \<Rightarrow> unit http" where
  "document_run env sdk c (SearchOp q index sz) = done_with (client_Search env sdk c q index sz)"
| "document_run env sdk c (PutOp index did document) = done_with (client_PutDocument env sdk c index did document)"
| "document_run env sdk c (RemoveOp index did) = done_with (client_DeleteDocument env sdk c index did)"

fun document_request :: "document_op \<Rightarrow> string \<Rightarrow> string \<Rightarrow> raw option \<Rightarrow> bool" where
  "document_request (SearchOp q index sz) verb path body \<longleftrightarrow>
     verb = ''POST'' \<and> (\<exists>n. body = Some (search_body q n) \<and> 1 \<le> n \<and> n \<le> 50 \<and> n = or_else sz 10) \<and>
     (case index of None \<Rightarrow> path = ''/_search'' | Some i \<Rightarrow> \<exists>seg. names_session i seg \<and> path = ''/'' @ seg @ ''/_search'')"
| "document_request (PutOp index did document) verb path body \<longleftrightarrow>
     body = Some (JObj document) \<and>
     (\<exists>seg. names_session index seg \<and>
        (case did of
           None \<Rightarrow> verb = ''POST'' \<and> path = ''/'' @ seg @ ''/_doc''
         | Some d \<Rightarrow> verb = ''PUT'' \<and> (\<exists>last. names_session d last \<and> path = ''/'' @ seg @ ''/_doc/'' @ last)))"
| "document_request (RemoveOp index did) verb path body \<longleftrightarrow>
     verb = ''DELETE'' \<and> body = None \<and>
     (\<exists>seg last. names_session index seg \<and> names_session did last \<and> path = ''/'' @ seg @ ''/_doc/'' @ last)"

definition document_request_ok :: "opensearch_client \<Rightarrow> document_op \<Rightarrow> http_call \<Rightarrow> bool" where
  "document_request_ok c op call \<longleftrightarrow>
     (\<exists>path. hc_URL call = oc_endpoint c @ path \<and> document_request op (hc_Method call) path (hc_Body call)) \<and>
     (\<forall>user pass. oc_auth c = BasicAuth user pass \<longrightarrow>
        header_of call ''Authorization'' = Some (''Basic '' @ b64_encode (user @ '':'' @ pass)))"

lemma requests_auth: "requests P (auth_apply env sdk a call)"
  by (cases a) (auto simp: Let_def intro!: requests_intros)

lemma auth_apply_same:
  assumes "auth_apply env sdk a call tr = (Inr call', tr')" and "header_of call ''Authorization'' = None"
  shows "hc_Method call' = hc_Method call \<and> hc_URL call' = hc_URL call \<and> hc_Body call' = hc_Body call \<and>
    (\<forall>user pass. a = BasicAuth user pass \<longrightarrow>
       header_of call' ''Authorization'' = Some (''Basic '' @ b64_encode (user @ '':'' @ pass)))"
  using assms by (cases a) (auto simp: add_headers_def header_of_def Let_def act_bind_Inr map_add_def split: sum.splits)

lemma requests_opensearch:
  assumes "document_request op verb path body"
  shows "requests (\<lambda>_. document_request_ok c op) (opensearch_do env sdk c verb path body)"
  unfolding opensearch_do_def
proof (rule requests_bind_result [OF requests_auth])
  fix call tr tr1
  assume "auth_apply env sdk (oc_auth c)
     \<lparr>hc_Method = verb, hc_URL = oc_endpoint c @ path,
      hc_Headers = (if body = None then [] else [(''Content-Type'', ''application/json'')]), hc_Body = body\<rparr> tr = (Inr call, tr1)"
  from auth_apply_same [OF this] assms have "document_request_ok c op call"
    by (simp add: document_request_ok_def header_of_def)
  then show "requests (\<lambda>_. document_request_ok c op) (act_bind (http_do env call) (\<lambda>answer. act_lift (case answer of
         Inl e \<Rightarrow> Inl (requestError (verb @ '' '' @ path @ '': '' @ e))
       | Inr resp \<Rightarrow> (case ha_ReadErr resp of
              Some e \<Rightarrow> Inl (requestError (''read response '' @ verb @ '' '' @ path @ '': '' @ e))
            | None \<Rightarrow> Inr (ha_StatusCode resp, ha_Body resp)))))" by (intro requests_intros)
qed

lemma search_size_ok: "search_size sz = Inr n \<Longrightarrow> 1 \<le> n \<and> n \<le> 50 \<and> n = or_else sz 10"
  by (auto simp: search_size_def DefaultSearchSize_def MaxSearchSize_def split: option.splits if_splits)

lemma document_paths:
  "document_request (PutOp index did document) (if did = None then ''POST'' else ''PUT'') (put_path index did) (Some (JObj document))"
  "document_request (RemoveOp index d) ''DELETE'' (delete_path index d) None"
  "search_size sz = Inr n \<Longrightarrow> document_request (SearchOp q ix sz) ''POST'' (search_path ix) (Some (search_body q n))"
  by (auto simp: put_path_def delete_path_def search_path_def split: option.split dest: search_size_ok intro: names_escaped)

text \<open>
  A request to the document store goes to what the caller named and nothing else: index and
  document are one segment of the path each, and read back as the caller's texts. A search asks for one
  to fifty documents, ten when nothing was asked; a document is written as it was given. When basic credentials
  are configured, every request carries them.
\<close>

theorem document_requests_are_confined:
  "requests (\<lambda>_. document_request_ok c op) (document_run env sdk c op)"
proof (cases op)
  case (SearchOp q index sz)
  show ?thesis unfolding SearchOp document_run.simps done_with_def client_Search_def Let_def
    by (intro requests_bind requests_lift_bind requests_basic)
       (auto intro!: requests_opensearch document_paths requests_bind requests_basic requests_check)
next
  case (PutOp index did document)
  show ?thesis unfolding PutOp document_run.simps done_with_def client_PutDocument_def Let_def
    by (intro requests_bind requests_basic requests_opensearch document_paths)
       (auto intro!: requests_bind requests_basic requests_check)
next
  case (RemoveOp index d)
  show ?thesis unfolding RemoveOp document_run.simps done_with_def client_DeleteDocument_def Let_def
    by (intro requests_bind requests_basic requests_opensearch document_paths)
       (auto intro!: requests_basic)
qed

section \<open>Tools over their clients\<close>

definition capped_request :: "github_client \<Rightarrow> token_cap list \<Rightarrow> http_call \<Rightarrow> bool" where
  "capped_request c caps call \<longleftrightarrow>
     (hc_URL call = tokens_url c \<longrightarrow>
        (\<exists>rs effective. hc_Body call = Some (JObj (token_body (Some rs) effective)) \<and>
           refused_permission effective = None \<and> (\<exists>cap\<in>set caps. within_cap cap (Some rs, Some effective))))"

lemma within_cap_effective:
  assumes "within_cap cap (rs, ps)" and "\<forall>p. ps = Some p \<longrightarrow> effective = p"
  shows "rs \<noteq> None \<and> within_cap cap (rs, Some effective)"
  using assms by (auto simp: within_cap_def split: option.splits)

text \<open>
  C15. The caps of a workflow hold on the wire: whatever the caller asks the token tool for, each token
  that its client asks GitHub for lies, with the permissions named in the request, within one of
  the caller's caps and has no excluded permission.
\<close>

theorem caps_hold_on_the_wire:
  assumes "scoped_token_request ctx r = Inr (rs, ps)" and "ctx_caps ctx \<noteq> []" and "list_all cap_ok (ctx_caps ctx)"
  shows "requests (\<lambda>_. capped_request c (ctx_caps ctx)) (client_CreateInstallationToken env c rs ps)"
proof (rule requests_mono [OF token_requests_are_harmless])
  fix call assume call: "harmless_request c rs ps call"
  obtain cap where cap: "cap \<in> set (ctx_caps ctx)" "within_cap cap (rs, ps)"
    using scoped_token_request_Inr(1) [OF assms(1,3,2)] by blast
  show "capped_request c (ctx_caps ctx) call"
    unfolding capped_request_def
  proof
    assume "hc_URL call = tokens_url c"
    with call obtain effective where body: "hc_Body call = Some (JObj (token_body rs effective))"
      "refused_permission effective = None" "\<forall>p. ps = Some p \<longrightarrow> effective = p"
      by (auto simp: harmless_request_def tokens_url_def revoke_url_def installation_url_def)
    from within_cap_effective [OF cap(2) body(3)] obtain xs where "rs = Some xs" "within_cap cap (Some xs, Some effective)" by auto
    with body cap(1) show "\<exists>rs effective. hc_Body call = Some (JObj (token_body (Some rs) effective)) \<and>
       refused_permission effective = None \<and> (\<exists>cap\<in>set (ctx_caps ctx). within_cap cap (Some rs, Some effective))" by blast
  qed
qed

definition wire_cap :: token_cap where
  "wire_cap = \<lparr>Repositories = [''o/a''], ExcludeRepositories = None, Permissions = Some [(''contents'', ''write'')]\<rparr>"

theorem caps_hold_on_the_wire_witness:
  "requests (\<lambda>_. capped_request sample_github [wire_cap])
     (client_CreateInstallationToken sample_http sample_github (Some [''o/a'']) (Some [(''contents'', JStr ''read'')]))"
proof -
  have r: "scoped_token_request (sample_ctx\<lparr>ctx_caps := [wire_cap], ctx_self := ''o/self''\<rparr>)
      (JObj [(''permissions'', JObj [(''contents'', JStr ''read'')])]) =
    Inr (Some [''o/a''], Some [(''contents'', JStr ''read'')])" by code_simp
  have ok: "list_all cap_ok (ctx_caps (sample_ctx\<lparr>ctx_caps := [wire_cap], ctx_self := ''o/self''\<rparr>))"
    by (simp add: cap_ok_def wire_cap_def)
  from caps_hold_on_the_wire [OF r _ ok] show ?thesis by simp
qed

lemma with_client_Inr: "with_client client f tr = (Inr x, tr') \<longleftrightarrow> (\<exists>c. client = Inr c \<and> f c tr = (Inr x, tr'))"
  by (cases client) (simp_all add: with_client_def)

lemma fst_Inr: "fst p = Inr x \<Longrightarrow> \<exists>s. p = (Inr x, s)"
  by (cases p) simp

text \<open>
  What the token tool reports is a token that cannot write commit statuses or check runs, when the
  server runs with the clients it builds: nothing GitHub answers gets such a token to a caller.
\<close>

theorem token_tool_reports_harmless_tokens:
  assumes "githubAppInstallationToken (live_services k (client_oracle pf past)) ctx r w = (Inr res, w')" and "\<not> isError res"
  shows "\<exists>t. res = resourceResult ''file:///github-token.env'' (installationTokenEnv t) \<and>
    permissionLevel (tok_Permissions t) ''statuses'' \<noteq> ''write'' \<and> permissionLevel (tok_Permissions t) ''checks'' \<noteq> ''write''"
proof -
  obtain rs ps where "respond (CreateInstallationToken (live_services k (client_oracle pf past)) rs ps)
      (\<lambda>token. resourceResult ''file:///github-token.env'' (installationTokenEnv token)) w = (Inr res, w')"
    using assms(1) by (auto simp: githubAppInstallationToken_def parsed_def split: sum.splits)
  with assms(2) obtain t where res: "res = resourceResult ''file:///github-token.env'' (installationTokenEnv t)"
    and tok: "fst (CreateInstallationToken (live_services k (client_oracle pf past)) rs ps w) = Inr t"
    by (auto simp: respond_def toolError_def toolText_def split: prod.splits sum.splits)
  from tok have "fst (with_client (buildGitHubService pf) (\<lambda>c. client_CreateInstallationToken (pf_http pf) c rs ps) (past w)) = Inr t"
    by (simp add: live_services_def perform_def client_oracle_def)
  then have "harmless t" by (auto dest!: fst_Inr simp: with_client_Inr dest: issued_harmless)
  with res show ?thesis by (auto simp: harmless_iff)
qed

definition sample_platform :: platform where
  "sample_platform =
     \<lparr>pf_http = sample_http, pf_parseKey = (\<lambda>_. Inr (\<lambda>_. Inr ''jwt'')),
      pf_sdk = \<lparr>sdk_LoadDefaultConfig = (\<lambda>_. Inr ''r''), sdk_Retrieve = (\<lambda>_ _. Inl ''none''), sdk_PayloadHash = (\<lambda>_. []),
        sdk_SignHTTP = (\<lambda>_ _ _ _ _ _. Inl ''none'')\<rparr>,
      pf_s3 = (\<lambda>_ _ _ _. Inl ''none''), pf_grafana = \<lparr>gv_rand = (\<lambda>_. None), gv_nano = (\<lambda>_. 0)\<rparr>,
      pf_getenv = (\<lambda>name.
        if name = ''GITHUB_APP_CLIENT_ID'' then ''app''
        else if name = ''GITHUB_APP_INSTALLATION_ID'' then ''7''
        else if name = ''GITHUB_APP_PRIVATE_KEY'' then ''pem'' else [])\<rparr>"

definition sample_report :: "tool_result outcome" where
  "sample_report = githubAppInstallationToken
     (live_services (live_service sample_cluster) (client_oracle sample_platform (\<lambda>_. []))) sample_ctx (JObj []) init_world"

theorem token_tool_reports_harmless_tokens_witness:
  "\<exists>t. fst sample_report = Inr (resourceResult ''file:///github-token.env'' (installationTokenEnv t)) \<and>
     permissionLevel (tok_Permissions t) ''statuses'' \<noteq> ''write''"
proof -
  have "\<exists>res. fst sample_report = Inr res \<and> \<not> isError res" 
  proof -
    have "(case fst sample_report of Inl _ \<Rightarrow> False | Inr res \<Rightarrow> \<not> isError res)" by code_simp
    then show ?thesis by (auto split: sum.splits)
  qed
  then obtain res where res: "fst sample_report = Inr res" "\<not> isError res" by blast
  then have "githubAppInstallationToken (live_services (live_service sample_cluster) (client_oracle sample_platform (\<lambda>_. [])))
      sample_ctx (JObj []) init_world = (Inr res, snd sample_report)" by (simp add: sample_report_def prod_eq_iff)
  from token_tool_reports_harmless_tokens [OF this res(2)] res(1) show ?thesis by auto
qed

end
