(* ===== verification/ToolsList.thy ===== *)
theory ToolsList
  imports RegistryProps
begin

text \<open>
  toolslist.go: the advertised tools as the JSON value the literal is, one definition per tool, with its
  schema and its hints. The descriptions, prose for the model, are left out, but for the two shared
  texts of \<open>reason\<close> (provenance.go), which the start-up check compares; those are given by their UTF-8 bytes.
\<close>

definition reasonDescriptionAlways :: string where
  "reasonDescriptionAlways =
     [
       CHR 0xEC, CHR 0x9A, CHR 0xB4, CHR 0xEC, CHR 0x98, CHR 0x81, CHR 0xEC, CHR 0x9E, CHR 0x90, CHR 0xEC, CHR 0x9D, CHR 0x98,
       CHR 0x20, CHR 0xEC, CHR 0x8A, CHR 0xB9, CHR 0xEC, CHR 0x9D, CHR 0xB8, CHR 0x20, CHR 0xED, CHR 0x99, CHR 0x94, CHR 0xEB,
       CHR 0xA9, CHR 0xB4, CHR 0xEC, CHR 0x97, CHR 0x90, CHR 0x20, CHR 0xEA, CHR 0xB7, CHR 0xB8, CHR 0xEB, CHR 0x8C, CHR 0x80,
       CHR 0xEB, CHR 0xA1, CHR 0x9C, CHR 0x20, CHR 0xEB, CHR 0xB3, CHR 0xB4, CHR 0xEC, CHR 0x9D, CHR 0xB4, CHR 0xEB, CHR 0x8A,
       CHR 0x94, CHR 0x2C, CHR 0x20, CHR 0xEC, CHR 0x9D, CHR 0xB4, CHR 0x20, CHR 0xED, CHR 0x98, CHR 0xB8, CHR 0xEC, CHR 0xB6,
       CHR 0x9C, CHR 0xEC, CHR 0x9D, CHR 0x84, CHR 0x20, CHR 0xED, CHR 0x95, CHR 0x98, CHR 0xEB, CHR 0xA0, CHR 0xA4, CHR 0xEB,
       CHR 0x8A, CHR 0x94, CHR 0x20, CHR 0xEC, CHR 0x9D, CHR 0xB4, CHR 0xEC, CHR 0x9C, CHR 0xA0, CHR 0x2E, CHR 0x20, CHR 0xED,
       CHR 0x95, CHR 0x9C, CHR 0xEA, CHR 0xB5, CHR 0xAD, CHR 0xEC, CHR 0x96, CHR 0xB4, CHR 0x20, CHR 0xED, CHR 0x95, CHR 0x9C,
       CHR 0xEB, CHR 0x91, CHR 0x90, CHR 0x20, CHR 0xEB, CHR 0xAC, CHR 0xB8, CHR 0xEC, CHR 0x9E, CHR 0xA5, CHR 0x2E, CHR 0x20,
       CHR 0xED, CHR 0x95, CHR 0x84, CHR 0xEC, CHR 0x88, CHR 0x98, CHR 0x20, CHR 0xE2, CHR 0x80, CHR 0x94, CHR 0x20, CHR 0xEC,
       CHR 0x9D, CHR 0xB4, CHR 0x20, CHR 0xEB, CHR 0x8F, CHR 0x84, CHR 0xEA, CHR 0xB5, CHR 0xAC, CHR 0xEC, CHR 0x9D, CHR 0x98,
       CHR 0x20, CHR 0xED, CHR 0x98, CHR 0xB8, CHR 0xEC, CHR 0xB6, CHR 0x9C, CHR 0xEC, CHR 0x9D, CHR 0x80, CHR 0x20, CHR 0xEC,
       CHR 0x96, CHR 0xB8, CHR 0xEC, CHR 0xA0, CHR 0x9C, CHR 0xEB, CHR 0x82, CHR 0x98, CHR 0x20, CHR 0xEC, CHR 0x82, CHR 0xAC,
       CHR 0xEB, CHR 0x9E, CHR 0x8C, CHR 0xEC, CHR 0x9D, CHR 0x98, CHR 0x20, CHR 0xEC, CHR 0x8A, CHR 0xB9, CHR 0xEC, CHR 0x9D,
       CHR 0xB8, CHR 0xEC, CHR 0x9D, CHR 0x84, CHR 0x20, CHR 0xEA, CHR 0xB1, CHR 0xB0, CHR 0xEC, CHR 0xB9, CHR 0x9C, CHR 0xEB,
       CHR 0x8B, CHR 0xA4, CHR 0x2E]"

definition reasonDescriptionSensitiveOnly :: string where
  "reasonDescriptionSensitiveOnly =
     [
       CHR 0xEC, CHR 0x9A, CHR 0xB4, CHR 0xEC, CHR 0x98, CHR 0x81, CHR 0xEC, CHR 0x9E, CHR 0x90, CHR 0xEC, CHR 0x9D, CHR 0x98,
       CHR 0x20, CHR 0xEC, CHR 0x8A, CHR 0xB9, CHR 0xEC, CHR 0x9D, CHR 0xB8, CHR 0x20, CHR 0xED, CHR 0x99, CHR 0x94, CHR 0xEB,
       CHR 0xA9, CHR 0xB4, CHR 0xEC, CHR 0x97, CHR 0x90, CHR 0x20, CHR 0xEA, CHR 0xB7, CHR 0xB8, CHR 0xEB, CHR 0x8C, CHR 0x80,
       CHR 0xEB, CHR 0xA1, CHR 0x9C, CHR 0x20, CHR 0xEB, CHR 0xB3, CHR 0xB4, CHR 0xEC, CHR 0x9D, CHR 0xB4, CHR 0xEB, CHR 0x8A,
       CHR 0x94, CHR 0x2C, CHR 0x20, CHR 0xEC, CHR 0x9D, CHR 0xB4, CHR 0x20, CHR 0xED, CHR 0x98, CHR 0xB8, CHR 0xEC, CHR 0xB6,
       CHR 0x9C, CHR 0xEC, CHR 0x9D, CHR 0x84, CHR 0x20, CHR 0xED, CHR 0x95, CHR 0x98, CHR 0xEB, CHR 0xA0, CHR 0xA4, CHR 0xEB,
       CHR 0x8A, CHR 0x94, CHR 0x20, CHR 0xEC, CHR 0x9D, CHR 0xB4, CHR 0xEC, CHR 0x9C, CHR 0xA0, CHR 0x2E, CHR 0x20, CHR 0xED,
       CHR 0x95, CHR 0x9C, CHR 0xEA, CHR 0xB5, CHR 0xAD, CHR 0xEC, CHR 0x96, CHR 0xB4, CHR 0x20, CHR 0xED, CHR 0x95, CHR 0x9C,
       CHR 0xEB, CHR 0x91, CHR 0x90, CHR 0x20, CHR 0xEB, CHR 0xAC, CHR 0xB8, CHR 0xEC, CHR 0x9E, CHR 0xA5, CHR 0x2E, CHR 0x20,
       CHR 0xEB, CHR 0xAF, CHR 0xBC, CHR 0xEA, CHR 0xB0, CHR 0x90, CHR 0x20, CHR 0xEC, CHR 0xA2, CHR 0x85, CHR 0xEB, CHR 0xA5,
       CHR 0x98, CHR 0x28, CHR 0xEC, CHR 0x98, CHR 0x88, CHR 0x3A, CHR 0x20, CHR 0x53, CHR 0x65, CHR 0x63, CHR 0x72, CHR 0x65,
       CHR 0x74, CHR 0x29, CHR 0xEB, CHR 0xA5, CHR 0xBC, CHR 0x20, CHR 0xEC, CHR 0x9D, CHR 0xBD, CHR 0xEC, CHR 0x9D, CHR 0x84,
       CHR 0x20, CHR 0xEB, CHR 0x95, CHR 0x8C, CHR 0xEB, CHR 0x8A, CHR 0x94, CHR 0x20, CHR 0xED, CHR 0x95, CHR 0x84, CHR 0xEC,
       CHR 0x88, CHR 0x98, CHR 0x20, CHR 0xE2, CHR 0x80, CHR 0x94, CHR 0x20, CHR 0xEA, CHR 0xB7, CHR 0xB8, CHR 0x20, CHR 0xED,
       CHR 0x98, CHR 0xB8, CHR 0xEC, CHR 0xB6, CHR 0x9C, CHR 0xEC, CHR 0x9D, CHR 0x80, CHR 0x20, CHR 0xEC, CHR 0x82, CHR 0xAC,
       CHR 0xEB, CHR 0x9E, CHR 0x8C, CHR 0xEC, CHR 0x9D, CHR 0x98, CHR 0x20, CHR 0xEC, CHR 0x8A, CHR 0xB9, CHR 0xEC, CHR 0x9D,
       CHR 0xB8, CHR 0xEC, CHR 0x9D, CHR 0x84, CHR 0x20, CHR 0xEA, CHR 0xB1, CHR 0xB0, CHR 0xEC, CHR 0xB9, CHR 0x9C, CHR 0xEB,
       CHR 0x8B, CHR 0xA4, CHR 0x2E, CHR 0x20, CHR 0xEA, CHR 0xB7, CHR 0xB8, CHR 0x20, CHR 0xEB, CHR 0xB0, CHR 0x96, CHR 0xEC,
       CHR 0x9D, CHR 0x98, CHR 0x20, CHR 0xEC, CHR 0xA2, CHR 0x85, CHR 0xEB, CHR 0xA5, CHR 0x98, CHR 0xEC, CHR 0x97, CHR 0x90,
       CHR 0xEC, CHR 0x84, CHR 0x9C, CHR 0xEB, CHR 0x8A, CHR 0x94, CHR 0x20, CHR 0xEC, CHR 0x93, CHR 0xB0, CHR 0xEC, CHR 0x9D,
       CHR 0xB4, CHR 0xEC, CHR 0xA7, CHR 0x80, CHR 0x20, CHR 0xEC, CHR 0x95, CHR 0x8A, CHR 0xEB, CHR 0x8A, CHR 0x94, CHR 0xEB,
       CHR 0x8B, CHR 0xA4, CHR 0x2E]"

definition tool_ping :: json where
  "tool_ping =
     JObj [(''name'', JStr ''ping''),
       (''inputSchema'', JObj [(''type'', JStr ''object''),
        (''properties'', JObj []),
        (''additionalProperties'', JBool False)]),
       (''annotations'', JObj [(''title'', JStr ''Ping''), (''readOnlyHint'', JBool True), (''idempotentHint'', JBool True), (''openWorldHint'', JBool False)])]"

definition tool_api_resources :: json where
  "tool_api_resources =
     JObj [(''name'', JStr ''api_resources''),
       (''inputSchema'', JObj [(''type'', JStr ''object''),
        (''properties'', JObj []),
        (''additionalProperties'', JBool False)]),
       (''annotations'', JObj [(''title'', JStr ''API Resources''), (''readOnlyHint'', JBool True), (''idempotentHint'', JBool True), (''openWorldHint'', JBool False)])]"

definition tool_resource_list :: json where
  "tool_resource_list =
     JObj [(''name'', JStr ''resource_list''),
       (''inputSchema'', JObj [(''type'', JStr ''object''),
        (''properties'', JObj [
         (''apiVersion'', JObj [(''type'', JStr ''string'')]),
         (''kind'', JObj [(''type'', JStr ''string'')]),
         (''namespace'', JObj [(''type'', JStr ''string'')]),
         (''labelSelector'', JObj [(''type'', JStr ''string'')]),
         (''fieldSelector'', JObj [(''type'', JStr ''string'')]),
         (''limit'', JObj [(''type'', JStr ''integer''), (''minimum'', JNum ''1''), (''maximum'', JNum ''500'')]),
         (''continue'', JObj [(''type'', JStr ''string'')])]),
        (''required'', JArr [JStr ''apiVersion'', JStr ''kind'']),
        (''additionalProperties'', JBool False)]),
       (''annotations'', JObj [(''title'', JStr ''List Resources''), (''readOnlyHint'', JBool True), (''idempotentHint'', JBool True), (''openWorldHint'', JBool False)])]"

definition tool_resource_watch :: json where
  "tool_resource_watch =
     JObj [(''name'', JStr ''resource_watch''),
       (''inputSchema'', JObj [(''type'', JStr ''object''),
        (''properties'', JObj [
         (''apiVersion'', JObj [(''type'', JStr ''string'')]),
         (''kind'', JObj [(''type'', JStr ''string'')]),
         (''namespace'', JObj [(''type'', JStr ''string'')]),
         (''labelSelector'', JObj [(''type'', JStr ''string'')]),
         (''fieldSelector'', JObj [(''type'', JStr ''string'')]),
         (''watchSeconds'', JObj [(''type'', JStr ''integer''), (''minimum'', JNum ''1''), (''maximum'', JNum ''60'')]),
         (''resourceVersion'', JObj [(''type'', JStr ''string'')]),
         (''reason'', JObj [(''type'', JStr ''string''), (''maxLength'', JNum ''2000''), (''description'', JStr reasonDescriptionSensitiveOnly)])]),
        (''required'', JArr [JStr ''apiVersion'', JStr ''kind'']),
        (''additionalProperties'', JBool False)]),
       (''annotations'', JObj [(''title'', JStr ''Watch Resources''), (''readOnlyHint'', JBool True), (''idempotentHint'', JBool False), (''openWorldHint'', JBool False)])]"

definition tool_resource_get :: json where
  "tool_resource_get =
     JObj [(''name'', JStr ''resource_get''),
       (''inputSchema'', JObj [(''type'', JStr ''object''),
        (''properties'', JObj [
         (''apiVersion'', JObj [(''type'', JStr ''string'')]),
         (''kind'', JObj [(''type'', JStr ''string'')]),
         (''namespace'', JObj [(''type'', JStr ''string'')]),
         (''name'', JObj [(''type'', JStr ''string'')]),
         (''subresource'', JObj [(''type'', JStr ''string''), (''enum'', JArr [JStr ''log'', JStr ''scale'', JStr ''status''])]),
         (''container'', JObj [(''type'', JStr ''string'')]),
         (''tailLines'', JObj [(''type'', JStr ''integer''), (''minimum'', JNum ''1''), (''maximum'', JNum ''5000'')]),
         (''previous'', JObj [(''type'', JStr ''boolean'')]),
         (''timestamps'', JObj [(''type'', JStr ''boolean'')]),
         (''sinceSeconds'', JObj [(''type'', JStr ''integer''), (''minimum'', JNum ''1'')]),
         (''reason'', JObj [(''type'', JStr ''string''), (''maxLength'', JNum ''2000''), (''description'', JStr reasonDescriptionSensitiveOnly)])]),
        (''required'', JArr [JStr ''apiVersion'', JStr ''kind'', JStr ''name'']),
        (''additionalProperties'', JBool False)]),
       (''annotations'', JObj [(''title'', JStr ''Get Resource''), (''readOnlyHint'', JBool True), (''idempotentHint'', JBool True), (''openWorldHint'', JBool False)])]"

definition tool_resource_create :: json where
  "tool_resource_create =
     JObj [(''name'', JStr ''resource_create''),
       (''inputSchema'', JObj [(''type'', JStr ''object''),
        (''properties'', JObj [
         (''manifest'', JObj [(''oneOf'', JArr [JObj [(''type'', JStr ''object'')], JObj [(''type'', JStr ''string''), (''minLength'', JNum ''1'')]])]),
         (''reason'', JObj [(''type'', JStr ''string''), (''maxLength'', JNum ''2000''), (''description'', JStr reasonDescriptionAlways)])]),
        (''required'', JArr [JStr ''manifest'', JStr ''reason'']),
        (''additionalProperties'', JBool False)]),
       (''annotations'', JObj [(''title'', JStr ''Create Resource''), (''readOnlyHint'', JBool False), (''destructiveHint'', JBool False), (''idempotentHint'', JBool False), (''openWorldHint'', JBool False)])]"

definition tool_resource_update :: json where
  "tool_resource_update =
     JObj [(''name'', JStr ''resource_update''),
       (''inputSchema'', JObj [(''type'', JStr ''object''),
        (''properties'', JObj [
         (''apiVersion'', JObj [(''type'', JStr ''string'')]),
         (''kind'', JObj [(''type'', JStr ''string'')]),
         (''namespace'', JObj [(''type'', JStr ''string'')]),
         (''name'', JObj [(''type'', JStr ''string'')]),
         (''subresource'', JObj [(''type'', JStr ''string''), (''enum'', JArr [JStr ''scale''])]),
         (''manifest'', JObj [(''type'', JStr ''object'')]),
         (''replicas'', JObj [(''type'', JStr ''integer''), (''minimum'', JNum ''0'')]),
         (''reason'', JObj [(''type'', JStr ''string''), (''maxLength'', JNum ''2000''), (''description'', JStr reasonDescriptionAlways)])]),
        (''required'', JArr [JStr ''apiVersion'', JStr ''kind'', JStr ''name'', JStr ''reason'']),
        (''additionalProperties'', JBool False)]),
       (''annotations'', JObj [(''title'', JStr ''Update Resource''), (''readOnlyHint'', JBool False), (''destructiveHint'', JBool True), (''idempotentHint'', JBool True), (''openWorldHint'', JBool False)])]"

definition tool_resource_patch :: json where
  "tool_resource_patch =
     JObj [(''name'', JStr ''resource_patch''),
       (''inputSchema'', JObj [(''type'', JStr ''object''),
        (''properties'', JObj [
         (''apiVersion'', JObj [(''type'', JStr ''string'')]),
         (''kind'', JObj [(''type'', JStr ''string'')]),
         (''namespace'', JObj [(''type'', JStr ''string'')]),
         (''name'', JObj [(''type'', JStr ''string'')]),
         (''patchType'', JObj [(''type'', JStr ''string''), (''enum'', JArr [JStr ''merge'', JStr ''strategic'', JStr ''json'', JStr ''apply''])]),
         (''patch'', JObj [(''type'', JArr [JStr ''object'', JStr ''array''])]),
         (''fieldManager'', JObj [(''type'', JStr ''string'')]),
         (''reason'', JObj [(''type'', JStr ''string''), (''maxLength'', JNum ''2000''), (''description'', JStr reasonDescriptionAlways)])]),
        (''required'', JArr [JStr ''apiVersion'', JStr ''kind'', JStr ''name'', JStr ''patchType'', JStr ''patch'', JStr ''reason'']),
        (''additionalProperties'', JBool False)]),
       (''annotations'', JObj [(''title'', JStr ''Patch Resource''), (''readOnlyHint'', JBool False), (''destructiveHint'', JBool True), (''idempotentHint'', JBool False), (''openWorldHint'', JBool False)])]"

definition tool_resource_delete :: json where
  "tool_resource_delete =
     JObj [(''name'', JStr ''resource_delete''),
       (''inputSchema'', JObj [(''type'', JStr ''object''),
        (''properties'', JObj [
         (''apiVersion'', JObj [(''type'', JStr ''string'')]),
         (''kind'', JObj [(''type'', JStr ''string'')]),
         (''namespace'', JObj [(''type'', JStr ''string'')]),
         (''name'', JObj [(''type'', JStr ''string'')]),
         (''gracePeriodSeconds'', JObj [(''type'', JStr ''integer''), (''minimum'', JNum ''0'')]),
         (''reason'', JObj [(''type'', JStr ''string''), (''maxLength'', JNum ''2000''), (''description'', JStr reasonDescriptionAlways)])]),
        (''required'', JArr [JStr ''apiVersion'', JStr ''kind'', JStr ''name'', JStr ''reason'']),
        (''additionalProperties'', JBool False)]),
       (''annotations'', JObj [(''title'', JStr ''Delete Resource''), (''readOnlyHint'', JBool False), (''destructiveHint'', JBool True), (''idempotentHint'', JBool True), (''openWorldHint'', JBool False)])]"

definition tool_resource_delete_collection :: json where
  "tool_resource_delete_collection =
     JObj [(''name'', JStr ''resource_delete_collection''),
       (''inputSchema'', JObj [(''type'', JStr ''object''),
        (''properties'', JObj [
         (''apiVersion'', JObj [(''type'', JStr ''string'')]),
         (''kind'', JObj [(''type'', JStr ''string'')]),
         (''namespace'', JObj [(''type'', JStr ''string'')]),
         (''labelSelector'', JObj [(''type'', JStr ''string'')]),
         (''fieldSelector'', JObj [(''type'', JStr ''string'')]),
         (''gracePeriodSeconds'', JObj [(''type'', JStr ''integer''), (''minimum'', JNum ''0'')]),
         (''reason'', JObj [(''type'', JStr ''string''), (''maxLength'', JNum ''2000''), (''description'', JStr reasonDescriptionAlways)])]),
        (''required'', JArr [JStr ''apiVersion'', JStr ''kind'', JStr ''namespace'', JStr ''reason'']),
        (''additionalProperties'', JBool False)]),
       (''annotations'', JObj [(''title'', JStr ''Delete Resource Collection''), (''readOnlyHint'', JBool False), (''destructiveHint'', JBool True), (''idempotentHint'', JBool True), (''openWorldHint'', JBool False)])]"

definition tool_resource_exec :: json where
  "tool_resource_exec =
     JObj [(''name'', JStr ''resource_exec''),
       (''inputSchema'', JObj [(''type'', JStr ''object''),
        (''properties'', JObj [
         (''apiVersion'', JObj [(''type'', JStr ''string'')]),
         (''kind'', JObj [(''type'', JStr ''string'')]),
         (''namespace'', JObj [(''type'', JStr ''string'')]),
         (''name'', JObj [(''type'', JStr ''string'')]),
         (''container'', JObj [(''type'', JStr ''string'')]),
         (''command'', JObj [(''type'', JStr ''array''), (''items'', JObj [(''type'', JStr ''string'')]), (''minItems'', JNum ''1'')]),
         (''reason'', JObj [(''type'', JStr ''string''), (''maxLength'', JNum ''2000''), (''description'', JStr reasonDescriptionAlways)])]),
        (''required'', JArr [JStr ''apiVersion'', JStr ''kind'', JStr ''name'', JStr ''command'', JStr ''reason'']),
        (''additionalProperties'', JBool False)]),
       (''annotations'', JObj [(''title'', JStr ''Exec Resource''), (''readOnlyHint'', JBool False), (''destructiveHint'', JBool True), (''idempotentHint'', JBool False), (''openWorldHint'', JBool False)])]"

definition tool_resource_attach :: json where
  "tool_resource_attach =
     JObj [(''name'', JStr ''resource_attach''),
       (''inputSchema'', JObj [(''type'', JStr ''object''),
        (''properties'', JObj [
         (''apiVersion'', JObj [(''type'', JStr ''string'')]),
         (''kind'', JObj [(''type'', JStr ''string'')]),
         (''namespace'', JObj [(''type'', JStr ''string'')]),
         (''name'', JObj [(''type'', JStr ''string'')]),
         (''container'', JObj [(''type'', JStr ''string'')]),
         (''stdin'', JObj [(''type'', JStr ''string'')]),
         (''readSeconds'', JObj [(''type'', JStr ''integer''), (''minimum'', JNum ''1''), (''maximum'', JNum ''30'')]),
         (''reason'', JObj [(''type'', JStr ''string''), (''maxLength'', JNum ''2000''), (''description'', JStr reasonDescriptionAlways)])]),
        (''required'', JArr [JStr ''apiVersion'', JStr ''kind'', JStr ''name'', JStr ''reason'']),
        (''additionalProperties'', JBool False)]),
       (''annotations'', JObj [(''title'', JStr ''Attach Resource''), (''readOnlyHint'', JBool False), (''destructiveHint'', JBool True), (''idempotentHint'', JBool False), (''openWorldHint'', JBool False)])]"

definition tool_resource_port_forward :: json where
  "tool_resource_port_forward =
     JObj [(''name'', JStr ''resource_port_forward''),
       (''inputSchema'', JObj [(''type'', JStr ''object''),
        (''properties'', JObj [
         (''apiVersion'', JObj [(''type'', JStr ''string'')]),
         (''kind'', JObj [(''type'', JStr ''string'')]),
         (''namespace'', JObj [(''type'', JStr ''string'')]),
         (''name'', JObj [(''type'', JStr ''string'')]),
         (''port'', JObj [(''type'', JStr ''integer''), (''minimum'', JNum ''1''), (''maximum'', JNum ''65535'')]),
         (''payload'', JObj [(''type'', JStr ''string'')]),
         (''payloadBase64'', JObj [(''type'', JStr ''string'')]),
         (''readSeconds'', JObj [(''type'', JStr ''integer''), (''minimum'', JNum ''1''), (''maximum'', JNum ''30'')]),
         (''reason'', JObj [(''type'', JStr ''string''), (''maxLength'', JNum ''2000''), (''description'', JStr reasonDescriptionAlways)])]),
        (''required'', JArr [JStr ''apiVersion'', JStr ''kind'', JStr ''name'', JStr ''port'', JStr ''reason'']),
        (''additionalProperties'', JBool False)]),
       (''annotations'', JObj [(''title'', JStr ''Port Forward Resource''), (''readOnlyHint'', JBool False), (''destructiveHint'', JBool True), (''idempotentHint'', JBool False), (''openWorldHint'', JBool False)])]"

definition tool_resource_proxy :: json where
  "tool_resource_proxy =
     JObj [(''name'', JStr ''resource_proxy''),
       (''inputSchema'', JObj [(''type'', JStr ''object''),
        (''properties'', JObj [
         (''apiVersion'', JObj [(''type'', JStr ''string'')]),
         (''kind'', JObj [(''type'', JStr ''string'')]),
         (''namespace'', JObj [(''type'', JStr ''string'')]),
         (''name'', JObj [(''type'', JStr ''string'')]),
         (''port'', JObj [(''type'', JArr [JStr ''integer'', JStr ''string''])]),
         (''method'', JObj [(''type'', JStr ''string''), (''enum'', JArr [JStr ''GET'', JStr ''POST'', JStr ''PUT'', JStr ''PATCH'', JStr ''DELETE''])]),
         (''path'', JObj [(''type'', JStr ''string'')]),
         (''body'', JObj [(''type'', JStr ''string'')]),
         (''bodyBase64'', JObj [(''type'', JStr ''string'')]),
         (''contentType'', JObj [(''type'', JStr ''string'')]),
         (''readSeconds'', JObj [(''type'', JStr ''integer''), (''minimum'', JNum ''1''), (''maximum'', JNum ''30'')]),
         (''reason'', JObj [(''type'', JStr ''string''), (''maxLength'', JNum ''2000''), (''description'', JStr reasonDescriptionAlways)])]),
        (''required'', JArr [JStr ''apiVersion'', JStr ''kind'', JStr ''name'', JStr ''method'', JStr ''path'', JStr ''reason'']),
        (''additionalProperties'', JBool False)]),
       (''annotations'', JObj [(''title'', JStr ''Proxy Resource''), (''readOnlyHint'', JBool False), (''destructiveHint'', JBool True), (''idempotentHint'', JBool False), (''openWorldHint'', JBool False)])]"

definition tool_dear_baby_reset_user :: json where
  "tool_dear_baby_reset_user =
     JObj [(''name'', JStr ''dear_baby_reset_user''),
       (''inputSchema'', JObj [(''type'', JStr ''object''),
        (''properties'', JObj [
         (''namespace'', JObj [(''type'', JStr ''string'')]),
         (''email'', JObj [(''type'', JStr ''string'')]),
         (''selector'', JObj [(''type'', JStr ''string'')]),
         (''container'', JObj [(''type'', JStr ''string'')])]),
        (''required'', JArr [JStr ''namespace'', JStr ''email'']),
        (''additionalProperties'', JBool False)]),
       (''annotations'', JObj [(''title'', JStr ''Reset dear-baby User''), (''readOnlyHint'', JBool False), (''destructiveHint'', JBool True), (''idempotentHint'', JBool True), (''openWorldHint'', JBool False)])]"

definition tool_github_app_installation_token :: json where
  "tool_github_app_installation_token =
     JObj [(''name'', JStr ''github_app_installation_token''),
       (''inputSchema'', JObj [(''type'', JStr ''object''),
        (''properties'', JObj [
         (''repositories'', JObj [(''type'', JStr ''array''), (''items'', JObj [(''type'', JStr ''string'')])]),
         (''permissions'', JObj [(''type'', JStr ''object''), (''additionalProperties'', JObj [(''type'', JStr ''string'')])])]),
        (''additionalProperties'', JBool False)]),
       (''annotations'', JObj [(''title'', JStr ''GitHub App Installation Token''), (''readOnlyHint'', JBool False), (''destructiveHint'', JBool False), (''idempotentHint'', JBool False), (''openWorldHint'', JBool True)])]"

definition tool_github_commit_status_create :: json where
  "tool_github_commit_status_create =
     JObj [(''name'', JStr ''github_commit_status_create''),
       (''inputSchema'', JObj [(''type'', JStr ''object''),
        (''properties'', JObj [
         (''repository'', JObj [(''type'', JStr ''string'')]),
         (''sha'', JObj [(''type'', JStr ''string'')]),
         (''state'', JObj [(''type'', JStr ''string''), (''enum'', JArr [JStr ''error'', JStr ''failure'', JStr ''pending'', JStr ''success''])]),
         (''context'', JObj [(''type'', JStr ''string'')]),
         (''description'', JObj [(''type'', JStr ''string'')]),
         (''target_url'', JObj [(''type'', JStr ''string'')])]),
        (''required'', JArr [JStr ''repository'', JStr ''sha'', JStr ''state'', JStr ''context'']),
        (''additionalProperties'', JBool False)]),
       (''annotations'', JObj [(''title'', JStr ''Create GitHub Commit Status''), (''readOnlyHint'', JBool False), (''destructiveHint'', JBool False), (''idempotentHint'', JBool False), (''openWorldHint'', JBool True)])]"

definition tool_aws_config_get :: json where
  "tool_aws_config_get =
     JObj [(''name'', JStr ''aws_config_get''),
       (''inputSchema'', JObj [(''type'', JStr ''object''),
        (''properties'', JObj []),
        (''additionalProperties'', JBool False)]),
       (''annotations'', JObj [(''title'', JStr ''Get AWS Config File''), (''readOnlyHint'', JBool True), (''idempotentHint'', JBool True), (''openWorldHint'', JBool True)])]"

definition tool_opensearch_search :: json where
  "tool_opensearch_search =
     JObj [(''name'', JStr ''opensearch_search''),
       (''inputSchema'', JObj [(''type'', JStr ''object''),
        (''properties'', JObj [
         (''query'', JObj [(''type'', JStr ''string'')]),
         (''index'', JObj [(''type'', JStr ''string'')]),
         (''size'', JObj [(''type'', JStr ''integer''), (''minimum'', JNum ''1''), (''maximum'', JNum ''50'')])]),
        (''required'', JArr [JStr ''query'']),
        (''additionalProperties'', JBool False)]),
       (''annotations'', JObj [(''title'', JStr ''Search OpenSearch''), (''readOnlyHint'', JBool True), (''idempotentHint'', JBool True), (''openWorldHint'', JBool True)])]"

definition tool_opensearch_document_put :: json where
  "tool_opensearch_document_put =
     JObj [(''name'', JStr ''opensearch_document_put''),
       (''inputSchema'', JObj [(''type'', JStr ''object''),
        (''properties'', JObj [
         (''index'', JObj [(''type'', JStr ''string'')]),
         (''document'', JObj [(''type'', JStr ''object'')]),
         (''id'', JObj [(''type'', JStr ''string'')])]),
        (''required'', JArr [JStr ''index'', JStr ''document'']),
        (''additionalProperties'', JBool False)]),
       (''annotations'', JObj [(''title'', JStr ''Put OpenSearch Document''), (''readOnlyHint'', JBool False), (''destructiveHint'', JBool True), (''idempotentHint'', JBool False), (''openWorldHint'', JBool True)])]"

definition tool_opensearch_document_delete :: json where
  "tool_opensearch_document_delete =
     JObj [(''name'', JStr ''opensearch_document_delete''),
       (''inputSchema'', JObj [(''type'', JStr ''object''),
        (''properties'', JObj [
         (''index'', JObj [(''type'', JStr ''string'')]),
         (''id'', JObj [(''type'', JStr ''string'')])]),
        (''required'', JArr [JStr ''index'', JStr ''id'']),
        (''additionalProperties'', JBool False)]),
       (''annotations'', JObj [(''title'', JStr ''Delete OpenSearch Document''), (''readOnlyHint'', JBool False), (''destructiveHint'', JBool True), (''idempotentHint'', JBool True), (''openWorldHint'', JBool True)])]"

definition tool_grafana_token :: json where
  "tool_grafana_token =
     JObj [(''name'', JStr ''grafana_token''),
       (''inputSchema'', JObj [(''type'', JStr ''object''),
        (''properties'', JObj []),
        (''additionalProperties'', JBool False)]),
       (''annotations'', JObj [(''title'', JStr ''Grafana Cloud Read Token''), (''readOnlyHint'', JBool False), (''destructiveHint'', JBool False), (''idempotentHint'', JBool False), (''openWorldHint'', JBool True)])]"

definition tool_session_create :: json where
  "tool_session_create =
     JObj [(''name'', JStr ''session_create''),
       (''inputSchema'', JObj [(''type'', JStr ''object''),
        (''properties'', JObj [
         (''name'', JObj [(''type'', JStr ''string''), (''minLength'', JNum ''1'')]),
         (''workloadType'', JObj [(''type'', JStr ''string''), (''minLength'', JNum ''1'')]),
         (''model'', JObj [(''type'', JStr ''string'')]),
         (''plugins'', JObj [(''type'', JStr ''array''), (''minItems'', JNum ''1''), (''maxItems'', JNum ''16''), (''uniqueItems'', JBool True), (''items'', JObj [(''type'', JStr ''string''), (''pattern'', JStr ''^[A-Za-z0-9][A-Za-z0-9._-]{0,63}$'')])])]),
        (''required'', JArr [JStr ''name'']),
        (''additionalProperties'', JBool False)]),
       (''annotations'', JObj [(''title'', JStr ''Create Session''), (''readOnlyHint'', JBool False), (''destructiveHint'', JBool False), (''idempotentHint'', JBool False), (''openWorldHint'', JBool True)])]"

definition tool_session_list :: json where
  "tool_session_list =
     JObj [(''name'', JStr ''session_list''),
       (''inputSchema'', JObj [(''type'', JStr ''object''),
        (''properties'', JObj []),
        (''additionalProperties'', JBool False)]),
       (''annotations'', JObj [(''title'', JStr ''List Sessions''), (''readOnlyHint'', JBool True), (''destructiveHint'', JBool False), (''idempotentHint'', JBool True), (''openWorldHint'', JBool True)])]"

definition tool_session_read :: json where
  "tool_session_read =
     JObj [(''name'', JStr ''session_read''),
       (''inputSchema'', JObj [(''type'', JStr ''object''),
        (''properties'', JObj [
         (''id'', JObj [(''type'', JStr ''string'')]),
         (''offset'', JObj [(''type'', JStr ''integer''), (''minimum'', JNum ''0'')])]),
        (''required'', JArr [JStr ''id'']),
        (''additionalProperties'', JBool False)]),
       (''annotations'', JObj [(''title'', JStr ''Read Session Output''), (''readOnlyHint'', JBool False), (''destructiveHint'', JBool False), (''idempotentHint'', JBool True), (''openWorldHint'', JBool True)])]"

definition tool_session_write :: json where
  "tool_session_write =
     JObj [(''name'', JStr ''session_write''),
       (''inputSchema'', JObj [(''type'', JStr ''object''),
        (''properties'', JObj [
         (''id'', JObj [(''type'', JStr ''string'')]),
         (''payload'', JObj [(''type'', JStr ''string'')])]),
        (''required'', JArr [JStr ''id'', JStr ''payload'']),
        (''additionalProperties'', JBool False)]),
       (''annotations'', JObj [(''title'', JStr ''Write to Session''), (''readOnlyHint'', JBool False), (''destructiveHint'', JBool True), (''idempotentHint'', JBool False), (''openWorldHint'', JBool True)])]"

definition tool_session_delete :: json where
  "tool_session_delete =
     JObj [(''name'', JStr ''session_delete''),
       (''inputSchema'', JObj [(''type'', JStr ''object''),
        (''properties'', JObj [
         (''id'', JObj [(''type'', JStr ''string'')])]),
        (''required'', JArr [JStr ''id'']),
        (''additionalProperties'', JBool False)]),
       (''annotations'', JObj [(''title'', JStr ''Delete Session''), (''readOnlyHint'', JBool False), (''destructiveHint'', JBool True), (''idempotentHint'', JBool True), (''openWorldHint'', JBool True)])]"

definition tool_pocket_aide_notification_send :: json where
  "tool_pocket_aide_notification_send =
     JObj [(''name'', JStr ''pocket_aide_notification_send''),
       (''inputSchema'', JObj [(''type'', JStr ''object''),
        (''properties'', JObj [
         (''title'', JObj [(''type'', JStr ''string'')]),
         (''body'', JObj [(''type'', JStr ''string'')]),
         (''requester'', JObj [(''type'', JStr ''string'')])]),
        (''required'', JArr [JStr ''title'', JStr ''requester'']),
        (''additionalProperties'', JBool False)]),
       (''annotations'', JObj [(''title'', JStr ''Send PocketAide Notification''), (''readOnlyHint'', JBool False), (''destructiveHint'', JBool False), (''idempotentHint'', JBool False), (''openWorldHint'', JBool True)])]"

definition tool_drop_token_issue :: json where
  "tool_drop_token_issue =
     JObj [(''name'', JStr ''drop_token_issue''),
       (''inputSchema'', JObj [(''type'', JStr ''object''),
        (''properties'', JObj [
         (''valid_minutes'', JObj [(''type'', JStr ''integer''), (''minimum'', JNum ''1''), (''maximum'', JNum ''1440''), (''default'', JNum ''60'')]),
         (''max_days'', JObj [(''type'', JStr ''integer''), (''minimum'', JNum ''1''), (''maximum'', JNum ''30'')]),
         (''label'', JObj [(''type'', JStr ''string''), (''maxLength'', JNum ''40'')])]),
        (''additionalProperties'', JBool False)]),
       (''annotations'', JObj [(''title'', JStr ''Issue drop Token''), (''readOnlyHint'', JBool False), (''destructiveHint'', JBool False), (''idempotentHint'', JBool False), (''openWorldHint'', JBool True)])]"

definition tools_list :: "json list" where
  "tools_list =
   [
    tool_ping, tool_api_resources, tool_resource_list, tool_resource_watch,
    tool_resource_get, tool_resource_create, tool_resource_update, tool_resource_patch,
    tool_resource_delete, tool_resource_delete_collection, tool_resource_exec, tool_resource_attach,
    tool_resource_port_forward, tool_resource_proxy, tool_dear_baby_reset_user, tool_github_app_installation_token,
    tool_github_commit_status_create, tool_aws_config_get, tool_opensearch_search, tool_opensearch_document_put,
    tool_opensearch_document_delete, tool_grafana_token, tool_session_create, tool_session_list,
    tool_session_read, tool_session_write, tool_session_delete, tool_pocket_aide_notification_send,
    tool_drop_token_issue
   ]"

definition toolsListJSON :: json where
  "toolsListJSON = JObj [(''tools'', JArr tools_list)]"

section \<open>What the code reads of an entry\<close>

fun members :: "json \<Rightarrow> obj" where
  "members (JObj kvs) = kvs"
| "members _ = []"

definition tool_entry_name :: "json \<Rightarrow> string" where
  "tool_entry_name t = string_or_empty (members t) ''name''"

definition input_schema :: "json \<Rightarrow> obj" where
  "input_schema t = object_or_empty (members t) ''inputSchema''"

definition schema_properties :: "json \<Rightarrow> obj" where
  "schema_properties t = object_or_empty (input_schema t) ''properties''"

definition schema_required :: "json \<Rightarrow> string list" where
  "schema_required t =
     (case lookup (input_schema t) ''required'' of
        Some (JArr xs) \<Rightarrow> map (\<lambda>x. case x of JStr s \<Rightarrow> s | _ \<Rightarrow> []) xs
      | _ \<Rightarrow> [])"

definition tool_hint :: "json \<Rightarrow> string \<Rightarrow> bool option" where
  "tool_hint t k = (case lookup (object_or_empty (members t) ''annotations'') k of Some (JBool b) \<Rightarrow> Some b | _ \<Rightarrow> None)"

text \<open>\<open>mustSplitToolsList\<close>: the entries by their names.\<close>

definition mustSplitToolsList :: "(string \<times> raw) list" where
  "mustSplitToolsList =
     (case lookup (members toolsListJSON) ''tools'' of Some (JArr ts) \<Rightarrow> map (\<lambda>t. (tool_entry_name t, t)) ts | _ \<Rightarrow> [])"

text \<open>
  The shape the start-up check wants of an advertised \<open>reason\<close> (the last case of its switch), and
  what it asks of the entry besides (\<open>advertisedReason\<close>).
\<close>

definition reason_shape_ok :: "approval_need \<Rightarrow> json \<Rightarrow> bool" where
  "reason_shape_ok need' prop \<longleftrightarrow>
     string_or_empty (members prop) ''type'' = ''string'' \<and>
     lookup (members prop) ''maxLength'' = Some (JNum (itoa (int maxReasonRunes))) \<and>
     string_or_empty (members prop) ''description'' =
       (if need' = alwaysApproved then reasonDescriptionAlways else reasonDescriptionSensitiveOnly)"

definition reason_entry :: "json \<Rightarrow> string \<times> bool \<times> bool" where
  "reason_entry t =
     (tool_entry_name t, present (schema_properties t) ''reason'', ''reason'' \<in> set (schema_required t))"

lemmas tool_defs = tool_ping_def tool_api_resources_def tool_resource_list_def tool_resource_watch_def
  tool_resource_get_def tool_resource_create_def tool_resource_update_def tool_resource_patch_def
  tool_resource_delete_def tool_resource_delete_collection_def tool_resource_exec_def tool_resource_attach_def
  tool_resource_port_forward_def tool_resource_proxy_def tool_dear_baby_reset_user_def
  tool_github_app_installation_token_def tool_github_commit_status_create_def tool_aws_config_get_def
  tool_opensearch_search_def tool_opensearch_document_put_def tool_opensearch_document_delete_def tool_grafana_token_def
  tool_session_create_def tool_session_list_def tool_session_read_def tool_session_write_def tool_session_delete_def
  tool_pocket_aide_notification_send_def tool_drop_token_issue_def

lemmas entry_defs = tool_entry_name_def input_schema_def schema_properties_def schema_required_def tool_hint_def
  reason_entry_def

end
