(* ===== verification/ToolsProperties.thy ===== *)
theory ToolsProperties
  imports ToolsList Sample
begin

text \<open>What the advertised list says of the tools, against what the server does with them.\<close>

lemma advertised_entries: "map reason_entry tools_list = advertisedReason"
  by code_simp

lemma advertised_limit: "itoa (int maxReasonRunes) = ''2000''"
proof -
  have "char_of (50::nat) = CHR ''2''" "char_of (48::nat) = CHR ''0''" unfolding atomize_conj by code_simp
  then show ?thesis by (simp add: itoa_def maxReasonRunes_def nat_digits.simps)
qed

lemma advertised_shapes:
  "list_all (\<lambda>t. case lookup (schema_properties t) ''reason'' of
       None \<Rightarrow> True | Some prop \<Rightarrow> reason_shape_ok (advertised_need (tool_entry_name t)) prop) tools_list"
  by (simp add: tools_list_def tool_defs entry_defs reason_shape_ok_def advertised_limit advertised_need_def advertisedReason_def
      object_or_empty_def string_or_empty_def lookup_Cons)

lemma advertised_required:
  "list_all (\<lambda>t. set (schema_required t) \<subseteq> fst ` set (schema_properties t)) tools_list"
  by code_simp

section \<open>Schemas and declarations\<close>

lemma advertised_entry: "t \<in> set tools_list \<Longrightarrow> reason_entry t \<in> set advertisedReason"
  unfolding advertised_entries [symmetric] by simp

lemma entry_of_tool:
  assumes "t \<in> set tools_list"
  shows "\<exists>entry. map_of (toolRegistry am) (tool_entry_name t) = Some entry"
proof -
  have "tool_entry_name t \<in> set advertisedToolNames"
    using advertised_entry [OF assms] unfolding advertisedToolNames_def by (force simp: reason_entry_def)
  then show ?thesis using dom_toolRegistry [of am] by (metis map_of_eq_None_iff not_Some_eq)
qed

lemma reason_of_tool:
  assumes "t \<in> set tools_list"
  shows "advertised_need (tool_entry_name t) =
    (if \<not> present (schema_properties t) ''reason'' then neverApproved
     else if ''reason'' \<in> set (schema_required t) then alwaysApproved else approvedForSensitiveKinds)"
proof -
  from advertised_needs advertised_entry [OF assms] show ?thesis by (auto simp: list_all_iff reason_entry_def)
qed

lemma present_member: "k \<in> fst ` set kvs \<Longrightarrow> present kvs k"
  by (metis lookup_None_iff present_def)

lemma need_of_tool:
  assumes "core_names am" and "map_of (toolRegistry am) name = Some entry"
  shows "approvalNeed (decl entry) = advertised_need name"
proof -
  have "list_all (\<lambda>(n, e). approvalNeed (decl e) = advertised_need n) (toolRegistry am)"
    by (rule toolRegistry_all) (use declared_needs [OF assms(1)] in simp)
  with assms(2) show ?thesis by (auto simp: list_all_iff dest: map_of_SomeD)
qed

text \<open>
  C38. Every advertised tool is registered with a handler, and its schema asks for a reason exactly
  when a call of it may ask for approval, as a required member exactly when every call does; the
  property is then the shared one, whose limit is the limit that is enforced. What a schema
  requires it also describes.
\<close>

theorem advertised_schemas_fit_the_declarations:
  assumes "core_names am" and "t \<in> set tools_list"
  shows "\<exists>entry. map_of (toolRegistry am) (tool_entry_name t) = Some entry \<and> handle entry \<noteq> None \<and>
    (present (schema_properties t) ''reason'' \<longleftrightarrow> approvalNeed (decl entry) \<noteq> neverApproved) \<and>
    (''reason'' \<in> set (schema_required t) \<longleftrightarrow> approvalNeed (decl entry) = alwaysApproved) \<and>
    (\<forall>prop. lookup (schema_properties t) ''reason'' = Some prop \<longrightarrow> reason_shape_ok (approvalNeed (decl entry)) prop) \<and>
    set (schema_required t) \<subseteq> fst ` set (schema_properties t)"
proof -
  obtain entry where e: "map_of (toolRegistry am) (tool_entry_name t) = Some entry" using entry_of_tool [OF assms(2)] by blast
  note need = need_of_tool [OF assms(1) e] and reason = reason_of_tool [OF assms(2)]
  have "handle entry \<noteq> None" using toolRegistry_ready [of am] e by (auto simp: list_all_iff dest: map_of_SomeD)
  moreover have sub: "set (schema_required t) \<subseteq> fst ` set (schema_properties t)"
    using advertised_required assms(2) by (simp add: list_all_iff)
  moreover have "\<forall>p. lookup (schema_properties t) ''reason'' = Some p \<longrightarrow> reason_shape_ok (approvalNeed (decl entry)) p"
    using advertised_shapes assms(2) need by (auto simp: list_all_iff)
  moreover have "''reason'' \<in> set (schema_required t) \<Longrightarrow> present (schema_properties t) ''reason''"
    using present_member sub by blast
  ultimately show ?thesis using e need reason by auto
qed

theorem advertised_schemas_fit_the_declarations_witness:
  "\<exists>entry. map_of (toolRegistry sample_am) ''resource_get'' = Some entry \<and>
     present (schema_properties tool_resource_get) ''reason'' \<and> approvalNeed (decl entry) \<noteq> neverApproved"
proof -
  have core: "core_names sample_am" by (rule sample_core)
  have t: "tool_resource_get \<in> set tools_list" by (simp add: tools_list_def)
  have "tool_entry_name tool_resource_get = ''resource_get''" "present (schema_properties tool_resource_get) ''reason''"
    unfolding atomize_conj by code_simp
  with advertised_schemas_fit_the_declarations [OF core t] show ?thesis by auto
qed

section \<open>Hints\<close>

definition read_only_tools :: "string list" where
  "read_only_tools = map tool_entry_name (filter (\<lambda>t. tool_hint t ''readOnlyHint'' = Some True) tools_list)"

definition read_verbs :: "string list" where
  "read_verbs = [''get'', ''list'', ''watch'']"

definition reads_only :: "api_machinery \<Rightarrow> tool_declaration \<Rightarrow> bool" where
  "reads_only am d \<longleftrightarrow>
     (case resolve d of None \<Rightarrow> td_pairs d = [] | Some f \<Rightarrow> \<exists>verb\<in>set read_verbs. f = genericPairs am verb)"

lemma read_only_names:
  "read_only_tools = [''ping'', ''api_resources'', ''resource_list'', ''resource_watch'', ''resource_get'', ''aws_config_get'',
     ''opensearch_search'', ''session_list'']"
  by code_simp

lemma declared_reads:
  assumes "is_declared am name d" and "name \<in> set read_only_tools"
  shows "reads_only am d"
proof -
  have "list_all (\<lambda>(n, d, _). n \<in> set read_only_tools \<longrightarrow> reads_only am d) (declaredTools am)"
    by (simp add: read_only_names declared_defs reads_only_def read_verbs_def)
  from is_declared_all [OF this assms(1)] assms(2) show ?thesis by blast
qed

lemma reads_only_pairs: "reads_only am d \<Longrightarrow> callPairs d r = Inr qs \<Longrightarrow> p \<in> set qs \<Longrightarrow> Verb p \<in> set read_verbs"
  by (auto simp: reads_only_def callPairs_def genericPairs_Inr split: option.splits)

text \<open>
  C18. The read-only hints are kept: a call of a tool that is advertised as read-only makes no request
  in the cluster but to discover its API, to get, to list or to watch.
\<close>

theorem read_only_hints_are_kept:
  assumes "toolsCall (served dp) ctx params w = (r, w')" and "called_tool params \<in> set read_only_tools"
    and "K8sCall k \<in> set (new_effects w w')"
  shows "case exercises (dp_am dp) k of None \<Rightarrow> k = CAPIResources | Some ps \<Rightarrow> \<forall>p\<in>set ps. Verb p \<in> set read_verbs"
proof -
  from srv.toolsCall_declared [OF assms(1,3)] obtain entry rawArgs
    where reg: "map_of (toolRegistry (dp_am dp)) (called_tool params) = Some entry"
      and ec: "entry_call (served dp) (called_tool params) entry rawArgs k" by auto
  have decl: "is_declared (dp_am dp) (called_tool params) (decl entry)" by (rule map_of_toolRegistry(1) [OF reg])
  note reads = declared_reads [OF decl assms(2)]
  show ?thesis
  proof (cases "exercises (dp_am dp) k")
    case (Some ps)
    with srv.entry_call_pairs [of dp "called_tool params" entry rawArgs k ps] reg ec
    obtain qs where "callPairs (decl entry) rawArgs = Inr qs" "set ps \<subseteq> set qs" by auto
    with reads_only_pairs [OF reads] Some show ?thesis by auto
  next
    case None
    from ec obtain r' where "declared_call (served dp) (called_tool params) (decl entry) r' k"
      by (auto simp: entry_call_def split: if_splits)
    from declared_call_discovery [OF this] None show ?thesis by simp
  qed
qed

theorem read_only_hints_are_kept_witness:
  "\<exists>k ps. exercises sample_am k = Some ps \<and> ps \<noteq> [] \<and> (\<forall>p\<in>set ps. Verb p \<in> set read_verbs)"
proof -
  let ?params = "call_params ''resource_list'' [(''apiVersion'', JStr ''v1''), (''kind'', JStr ''ConfigMap'')]"
  have name: "called_tool ?params = ''resource_list''"
    and calls: "list_ex (\<lambda>x. case x of K8sCall k \<Rightarrow> exercises sample_am k \<notin> {None, Some []} | _ \<Rightarrow> False)
      (new_effects init_world (snd (sample_run [] ?params)))"
    unfolding atomize_conj by code_simp
  from calls obtain x where x: "x \<in> set (new_effects init_world (snd (sample_run [] ?params)))"
    and good: "case x of K8sCall k \<Rightarrow> exercises sample_am k \<notin> {None, Some []} | _ \<Rightarrow> False"
    unfolding list_ex_iff by (rule bexE)
  from good obtain k where "x = K8sCall k" and k: "exercises sample_am k \<notin> {None, Some []}" by (cases x) simp_all
  with x have call: "K8sCall k \<in> set (new_effects init_world (snd (sample_run [] ?params)))" by simp
  from name have "called_tool ?params \<in> set read_only_tools" by (simp add: read_only_names)
  from read_only_hints_are_kept [OF sample_run_eq this call] k show ?thesis
    by (auto simp: sample_deployment_def split: option.splits)
qed

end
