(* ===== verification/Wire.thy ===== *)
theory Wire
  imports Server
begin

text \<open>
  What leaves the service over HTTP: the JSON of the answers (\<open>writeResponse\<close>, \<open>successResponse\<close>,
  \<open>errorResponse\<close> and the result maps of internal/mcp mcp.go, the bodies of internal/server and
  internal/auth), the status of each reply, and the access log that \<open>logging\<close> puts around the routes.
\<close>

section \<open>Bodies\<close>

definition protocolVersion :: string where "protocolVersion = ''2025-06-18''"

definition initializeResult :: json where
  "initializeResult = JObj
     [(''capabilities'', JObj [(''tools'', JObj [(''listChanged'', JBool False)])]),
      (''protocolVersion'', JStr protocolVersion),
      (''serverInfo'', JObj [(''name'', JStr version_Name), (''version'', JStr server_version)])]"

text \<open>A result map, its members in the order the encoder writes them.\<close>

fun content_json :: "content_item \<Rightarrow> json" where
  "content_json (CText s) = JObj [(''text'', JStr s), (''type'', JStr ''text'')]"
| "content_json (CResource uri mime s) =
     JObj [(''resource'', JObj [(''mimeType'', JStr mime), (''text'', JStr s), (''uri'', JStr uri)]),
           (''type'', JStr ''resource'')]"

definition tool_result_json :: "tool_result \<Rightarrow> json" where
  "tool_result_json r = JObj
     ([(''content'', JArr (map content_json (content r))), (''isError'', JBool (isError r))]
      @ (case structured r of None \<Rightarrow> [] | Some kvs \<Rightarrow> [(''structuredContent'', canon (JObj kvs))]))"

fun dispatch_json :: "dispatch_result \<Rightarrow> json" where
  "dispatch_json RInitialize = initializeResult"
| "dispatch_json (RTools tools) = JObj [(''tools'', JArr (map snd tools))]"
| "dispatch_json (RCall r) = tool_result_json r"
| "dispatch_json REmpty = JObj []"

definition successResponse :: "raw \<Rightarrow> json \<Rightarrow> json" where
  "successResponse rid result = JObj [(''jsonrpc'', JStr ''2.0''), (''id'', rid), (''result'', result)]"

definition errorResponse :: "raw \<Rightarrow> int \<Rightarrow> string \<Rightarrow> json" where
  "errorResponse rid c msg = JObj
     [(''jsonrpc'', JStr ''2.0''), (''id'', rid),
      (''error'', JObj [(''code'', j_int c), (''message'', JStr msg)])]"

fun rpc_json :: "rpc_response \<Rightarrow> json" where
  "rpc_json (RpcResult rid r) = successResponse rid (dispatch_json r)"
| "rpc_json (RpcError rid c msg) = errorResponse rid c msg"

text \<open>A reply with its status and body. A multiplexer's own answer has a text of the standard library.\<close>

datatype reply_body = TextBody string | JsonBody json | LibraryBody

definition health_json :: "string \<Rightarrow> string \<Rightarrow> json" where
  "health_json status version = JObj [(''status'', JStr status), (''version'', JStr version)]"

definition metadata_json :: "string \<Rightarrow> string \<Rightarrow> json" where
  "metadata_json resource issuer = JObj
     [(''resource'', JStr resource), (''authorization_servers'', JArr [JStr issuer]),
      (''bearer_methods_supported'', JArr [JStr ''header''])]"

fun written :: "http_reply \<Rightarrow> (int \<times> reply_body) option" where
  "written (TextReply s) = Some (200, TextBody s)"
| "written (HealthReply status version) = Some (200, JsonBody (health_json status version))"
| "written (MetadataReply resource issuer) = Some (200, JsonBody (metadata_json resource issuer))"
| "written (McpReply a) = Some (200, JsonBody (rpc_json a))"
| "written (UnauthorizedReply ch e) = Some (401, TextBody e)"
| "written NotFoundReply = Some (404, LibraryBody)"
| "written MethodNotAllowedReply = Some (405, LibraryBody)"
| "written NoReply = None"

section \<open>The access log\<close>

text \<open>
  \<open>logging\<close>: one line per request, after it was served, with the status the recorder saw; none for
  the probes. A handler that panics unwinds past the line.
\<close>

record access_line =
  al_method :: string
  al_path :: string
  al_status :: int
  al_duration_ms :: int

definition silentPaths :: "string list" where "silentPaths = [''/healthz'', ''/readyz'']"

definition logging ::
  "(http_request \<Rightarrow> auth_state \<Rightarrow> world \<Rightarrow> http_reply \<times> auth_state \<times> world) \<Rightarrow>
   http_request \<Rightarrow> auth_state \<Rightarrow> world \<Rightarrow> (http_reply \<times> access_line option) \<times> auth_state \<times> world"
where
  "logging serve r st w =
     (case serve r st w of
        (a, st1, w1) \<Rightarrow>
          ((a, if rq_path r \<in> set silentPaths then None
               else (case written a of
                       None \<Rightarrow> None
                     | Some (status, _) \<Rightarrow>
                         Some \<lparr>al_method = rq_method r, al_path = rq_path r, al_status = status,
                               al_duration_ms = (int (clock w1) - int (clock w)) div 1000000\<rparr>)), st1, w1))"

definition logged_app ::
  "jwt_lib \<Rightarrow> fetcher \<Rightarrow> auth_config option \<Rightarrow> mcp_handler \<Rightarrow> (string \<times> raw) list \<Rightarrow> (world \<Rightarrow> bool) \<Rightarrow>
   http_request \<Rightarrow> auth_state \<Rightarrow> world \<Rightarrow> (http_reply \<times> access_line option) \<times> auth_state \<times> world"
where
  "logged_app jwt get authCfg h advertised cancelled =
     logging (App jwt get authCfg h advertised cancelled)"

lemma logging_serves:
  "logging serve r st w = ((a, line), st1, w1) \<Longrightarrow> serve r st w = (a, st1, w1)"
  by (auto simp: logging_def split: prod.splits)

lemma logging_line:
  assumes "logging serve r st w = ((a, line), st1, w1)"
  shows "(line \<noteq> None) \<longleftrightarrow> rq_path r \<notin> set silentPaths \<and> a \<noteq> NoReply"
    and "line = Some l \<Longrightarrow> al_method l = rq_method r \<and> al_path l = rq_path r \<and>
           al_status l \<in> {200, 401, 404, 405} \<and> (al_status l = 401 \<longleftrightarrow> (\<exists>ch e. a = UnauthorizedReply ch e))"
  using assms by (cases a; auto simp: logging_def split: if_splits prod.splits)+

text \<open>The status tells a refused caller apart: such a request did nothing but leave its record.\<close>

lemma refused_line_did_nothing:
  assumes "logged_app jwt get authCfg h advertised cancelled r st w = ((a, Some l), st', w')"
    and "al_status l = 401"
  shows "w' = recordRefusal r w"
proof -
  note served' = logging_serves [OF assms(1) [unfolded logged_app_def]]
  obtain ch e where a: "a = UnauthorizedReply ch e"
    using logging_line(2) [OF assms(1) [unfolded logged_app_def] refl] assms(2) by blast
  have "\<exists>c b. authCfg = Some c \<and>
      RequireBearer jwt get c (mcp_endpoint h advertised) (request_ctx cancelled) r st w = (b, st', w') \<and> b = Unauthorized ch e"
    using served' unfolding a
    by (auto simp: App_def get_route_def root_def healthz_def readyz_def MetadataHandler_def
        split: if_splits option.splits prod.splits bearer_answer.splits)
  then show ?thesis by (auto elim: RequireBearer_cases)
qed

section \<open>The answers of the endpoint\<close>

text \<open>
  JSON-RPC: an answer carries the id of its request, and exactly one of a result and an error.
\<close>

definition request_id :: "raw option \<Rightarrow> raw" where
  "request_id body = (case decode_request body of None \<Rightarrow> JNull | Some (_, rid, _, _) \<Rightarrow> rid)"

lemma rpc_json_members:
  "\<exists>kvs. rpc_json a = JObj kvs \<and> lookup kvs ''jsonrpc'' = Some (JStr ''2.0'') \<and>
     (lookup kvs ''result'' = None \<longleftrightarrow> lookup kvs ''error'' \<noteq> None)"
  by (cases a) (simp_all add: successResponse_def errorResponse_def lookup_Cons)

lemma answers_carry_the_request_id:
  assumes "ServeHTTP h advertised ctx sessionHeader body w = (a, w')"
  shows "\<exists>kvs. rpc_json a = JObj kvs \<and> lookup kvs ''id'' = Some (request_id body)"
  using assms
  by (auto simp: ServeHTTP_def request_id_def successResponse_def errorResponse_def lookup_Cons
      split: option.splits prod.splits if_splits sum.splits)

end
