(* ===== verification/Process.thy ===== *)
theory Process
  imports Wire
begin

text \<open>
  The process around the service (main.go, internal/telemetry, the sink of internal/eventlog): the
  log level and what it does to the records, the listener of the metrics, tracing, the life of the
  two listeners until the process ends, and the build that carries an undeclared tool
  (internal/mcp undeclared_tool_probe.go).
\<close>

section \<open>The log level\<close>

definition LevelDebug :: int where "LevelDebug = -4"
definition LevelInfo :: int where "LevelInfo = 0"
definition LevelWarn :: int where "LevelWarn = 4"
definition LevelError :: int where "LevelError = 8"

text \<open>\<open>slog.Level.UnmarshalText\<close>: a name in any case with an optional signed offset; an error changes nothing.\<close>

definition unmarshal_level :: "string \<Rightarrow> int option" where
  "unmarshal_level s =
     (let name = takeWhile (\<lambda>c. c \<noteq> CHR ''+'' \<and> c \<noteq> CHR ''-'') s;
          tail = drop (length name) s;
          base = (let n = to_upper name in
                  if n = ''DEBUG'' then Some LevelDebug else if n = ''INFO'' then Some LevelInfo
                  else if n = ''WARN'' then Some LevelWarn else if n = ''ERROR'' then Some LevelError else None)
      in if tail = [] then base
         else (case parse_int64 tail of
                 None \<Rightarrow> None
               | Some offset \<Rightarrow> map_option (\<lambda>b. wrap64 (b + offset)) base))"

definition initLogger :: "(string \<Rightarrow> string) \<Rightarrow> int" where
  "initLogger getenv =
     (let lv = getenv ''LOG_LEVEL'' in
      if lv = [] then LevelInfo else or_else (unmarshal_level (to_lower lv)) LevelInfo)"

text \<open>A line of the default logger comes out when its level is at least the logger's.\<close>

type_synonym log_line = "(string \<times> attr_value) list"

definition slog_line :: "int \<Rightarrow> int \<Rightarrow> log_line \<Rightarrow> log_line list \<Rightarrow> log_line list" where
  "slog_line threshold level line out = (if threshold \<le> level then out @ [line] else out)"

section \<open>The sink\<close>

text \<open>\<open>Log.Emit\<close>, and the sink \<open>buildMetrics\<close> makes of it and of the counters.\<close>

definition log_emit :: "int \<Rightarrow> (log_line list \<times> metrics) sink" where
  "log_emit threshold r s = (slog_line threshold LevelInfo (Attrs r) (fst s), snd s)"

definition metrics_sink :: "(log_line list \<times> metrics) sink" where
  "metrics_sink r s = (fst s, metrics_emit r (snd s))"

definition buildMetrics :: "string list \<Rightarrow> int \<Rightarrow> string + metrics \<times> (log_line list \<times> metrics) sink" where
  "buildMetrics tools threshold =
     (case new_metrics tools of
        Inl e \<Rightarrow> Inl (''refusing to start: '' @ e)
      | Inr surface \<Rightarrow> Inr (surface, Fanout [log_emit threshold, metrics_sink]))"

definition emitted :: "(log_line list \<times> metrics) sink \<Rightarrow> event_record list \<Rightarrow> log_line list \<times> metrics \<Rightarrow> log_line list \<times> metrics" where
  "emitted sink rs s = fold sink rs s"

text \<open>The lines that tell of a call of a tool label with a result.\<close>

definition tells_of :: "string list \<Rightarrow> string \<Rightarrow> result_kind \<Rightarrow> log_line \<Rightarrow> bool" where
  "tells_of tools t k line \<longleftrightarrow>
     (case map_of line ''tool'' of Some (AText s) \<Rightarrow> folded_tool tools s = t | _ \<Rightarrow> False) \<and>
     map_of line ''result'' = Some (AResult k)"

definition lines_of :: "string list \<Rightarrow> string \<Rightarrow> result_kind \<Rightarrow> log_line list \<Rightarrow> nat" where
  "lines_of tools t k out = length (filter (tells_of tools t k) out)"

definition counted :: "metrics \<Rightarrow> string \<Rightarrow> result_kind \<Rightarrow> nat" where
  "counted m t k = or_else (calls m (t, k)) 0"

lemma emitted_parts:
  "emitted (Fanout [log_emit threshold, metrics_sink]) rs (out, m) =
     (out @ (if threshold \<le> LevelInfo then map Attrs rs else []), fold metrics_emit rs m)"
  by (induction rs arbitrary: out m)
     (simp_all add: emitted_def log_emit_def metrics_sink_def slog_line_def)

lemma tells_of_Attrs: "tells_of tools t k (Attrs r) \<longleftrightarrow> folded_tool tools (Tool r) = t \<and> Result r = k"
  by (simp add: tells_of_def Attrs_def)

lemma lines_of_records:
  "lines_of tools t k (map Attrs rs) = length (filter (\<lambda>r. folded_tool tools (Tool r) = t \<and> Result r = k) rs)"
  by (simp add: lines_of_def filter_map comp_def tells_of_Attrs)

section \<open>The listener of the metrics\<close>

datatype 'm exposition_reply = Exposition 'm | ExpositionNotFound | ExpositionMethodNotAllowed

definition MetricsApp :: "'m \<Rightarrow> string \<Rightarrow> string \<Rightarrow> 'm exposition_reply" where
  "MetricsApp surface method path =
     (if path \<noteq> ''/metrics'' then ExpositionNotFound
      else if method = ''GET'' \<or> method = ''HEAD'' then Exposition surface
      else ExpositionMethodNotAllowed)"

definition listen_addr :: "(string \<Rightarrow> string) \<Rightarrow> string" where
  "listen_addr getenv = (let addr = getenv ''LISTEN_ADDR'' in if addr = [] then ''0.0.0.0:3000'' else addr)"

definition buildMetricsServer :: "(string \<Rightarrow> string) \<Rightarrow> string option" where
  "buildMetricsServer getenv =
     (let disabled = getenv ''METRICS_DISABLED''; addr = getenv ''METRICS_LISTEN_ADDR'' in
      if disabled = ''1'' \<or> disabled = ''true'' then None
      else Some (if addr = [] then ''0.0.0.0:9090'' else addr))"

section \<open>Tracing\<close>

definition tracing_Enabled :: "(string \<Rightarrow> string) \<Rightarrow> bool" where
  "tracing_Enabled getenv \<longleftrightarrow>
     getenv ''OTEL_EXPORTER_OTLP_ENDPOINT'' \<noteq> [] \<or> getenv ''OTEL_EXPORTER_OTLP_TRACES_ENDPOINT'' \<noteq> []"

text \<open>The span of a request, if it gets one, by its name; a handler wrapped this way answers as before.\<close>

definition telemetry_Handler :: "string list \<Rightarrow> http_request \<Rightarrow> string option" where
  "telemetry_Handler skipPaths r =
     (if rq_path r \<in> set skipPaths then None else Some (rq_method r @ '' '' @ rq_path r))"

definition KubeTransport :: "string \<Rightarrow> string \<Rightarrow> string" where
  "KubeTransport method path = ''k8s '' @ method @ '' '' @ path"

text \<open>The span of a request to the service: \<open>main\<close> skips the probes, as the access log does.\<close>

definition service_span :: "http_request \<Rightarrow> string option" where
  "service_span = telemetry_Handler [''/healthz'', ''/readyz'']"

lemma probes_leave_no_trace:
  "service_span r = None \<longleftrightarrow> rq_path r \<in> set silentPaths"
  by (auto simp: service_span_def telemetry_Handler_def silentPaths_def)

section \<open>The life of the process\<close>

text \<open>
  \<open>main\<close> after the set-up: two goroutines that listen, and the main one, which waits for a signal and
  then shuts the listeners and the tracer down in turn. A failure of the listener of the service ends
  the process with status 1; \<open>http.ErrServerClosed\<close>, which a listener returns once its shutdown has
  begun, does not.
\<close>

datatype stage = Serving | Signalled | ServiceClosed | ListenersClosed | Returned | Exited nat

record process =
  pr_stage :: stage
  pr_service :: bool
  pr_exposition :: bool

datatype happening = ServiceFails | ExpositionFails | Terminate | ShutService bool | ShutExposition | ShutTracing bool

definition started :: "(string \<Rightarrow> string) \<Rightarrow> process" where
  "started getenv = \<lparr>pr_stage = Serving, pr_service = True, pr_exposition = (buildMetricsServer getenv \<noteq> None)\<rparr>"

inductive process_step :: "process \<Rightarrow> happening \<Rightarrow> process \<Rightarrow> bool" where
  service_fails: "pr_service p \<Longrightarrow> pr_stage p \<in> {Serving, Signalled} \<Longrightarrow>
    process_step p ServiceFails \<lparr>pr_stage = Exited 1, pr_service = False, pr_exposition = False\<rparr>"
| exposition_fails: "pr_exposition p \<Longrightarrow> process_step p ExpositionFails (p\<lparr>pr_exposition := False\<rparr>)"
| terminate: "pr_stage p = Serving \<Longrightarrow> process_step p Terminate (p\<lparr>pr_stage := Signalled\<rparr>)"
| shut_service: "pr_stage p = Signalled \<Longrightarrow>
    process_step p (ShutService graceful) (p\<lparr>pr_stage := ServiceClosed, pr_service := False\<rparr>)"
| shut_exposition: "pr_stage p = ServiceClosed \<Longrightarrow>
    process_step p ShutExposition (p\<lparr>pr_stage := ListenersClosed, pr_exposition := False\<rparr>)"
| shut_tracing: "pr_stage p = ListenersClosed \<Longrightarrow>
    process_step p (ShutTracing flushed) (p\<lparr>pr_stage := Returned\<rparr>)"

inductive_cases process_stepE: "process_step p h p'"

inductive process_run :: "process \<Rightarrow> happening list \<Rightarrow> process \<Rightarrow> bool" where
  still: "process_run p [] p"
| onward: "process_run p hs q \<Longrightarrow> process_step q h q' \<Longrightarrow> process_run p (hs @ [h]) q'"

text \<open>The service is up as long as the process is in the stage of serving, and closed once it ended.\<close>

definition process_ok :: "process \<Rightarrow> bool" where
  "process_ok p \<longleftrightarrow>
     (pr_service p \<longleftrightarrow> pr_stage p \<in> {Serving, Signalled}) \<and>
     (pr_stage p \<in> {ListenersClosed, Returned} \<or> (\<exists>n. pr_stage p = Exited n) \<longrightarrow> \<not> pr_exposition p)"

lemma process_step_ok: "process_step p h q \<Longrightarrow> process_ok p \<Longrightarrow> process_ok q"
  by (induction rule: process_step.induct) (auto simp: process_ok_def)

lemma process_run_ok: "process_run p hs q \<Longrightarrow> process_ok p \<Longrightarrow> process_ok q"
  by (induction rule: process_run.induct) (auto intro: process_step_ok)

lemma started_ok: "process_ok (started getenv)"
  by (simp add: process_ok_def started_def)

text \<open>
  What becomes of the metrics does not matter to the service: the run without their failures is one
  of the process as well, and it leads to the same stage with the same service.
\<close>

definition same_service :: "process \<Rightarrow> process \<Rightarrow> bool" where
  "same_service p q \<longleftrightarrow> pr_stage p = pr_stage q \<and> pr_service p = pr_service q"

lemma process_step_same:
  assumes "process_step q h q'" and "same_service q r" and "h \<noteq> ExpositionFails"
  shows "\<exists>r'. process_step r h r' \<and> same_service q' r'"
  using assms(1)
proof (cases rule: process_step.cases)
  case service_fails
  with assms(2) have "process_step r h q'"
    using process_step.service_fails [of r] by (auto simp: same_service_def)
  then show ?thesis by (auto simp: same_service_def)
next
  case exposition_fails
  with assms(3) show ?thesis by simp
next
  case terminate
  with assms(2) have "process_step r h (r\<lparr>pr_stage := Signalled\<rparr>)"
    by (simp add: same_service_def process_step.terminate)
  with terminate assms(2) show ?thesis by (auto simp: same_service_def)
next
  case (shut_service g)
  with assms(2) have "process_step r h (r\<lparr>pr_stage := ServiceClosed, pr_service := False\<rparr>)"
    by (simp add: same_service_def process_step.shut_service)
  with shut_service show ?thesis by (auto simp: same_service_def)
next
  case shut_exposition
  with assms(2) have "process_step r h (r\<lparr>pr_stage := ListenersClosed, pr_exposition := False\<rparr>)"
    by (simp add: same_service_def process_step.shut_exposition)
  with shut_exposition assms(2) show ?thesis by (auto simp: same_service_def)
next
  case (shut_tracing f)
  with assms(2) have "process_step r h (r\<lparr>pr_stage := Returned\<rparr>)"
    by (simp add: same_service_def process_step.shut_tracing)
  with shut_tracing assms(2) show ?thesis by (auto simp: same_service_def)
qed

lemma exposition_failure_same: "process_step q ExpositionFails q' \<Longrightarrow> same_service q q'"
  by (auto simp: same_service_def elim: process_stepE)

lemma same_service_trans: "same_service p q \<Longrightarrow> same_service q r \<Longrightarrow> same_service p r"
  by (simp add: same_service_def)

lemma process_run_same:
  "process_run p hs q \<Longrightarrow> \<exists>r. process_run p (filter (\<lambda>h. h \<noteq> ExpositionFails) hs) r \<and> same_service q r"
proof (induction rule: process_run.induct)
  case (still p)
  then show ?case by (auto intro: process_run.still simp: same_service_def)
next
  case (onward p hs q h q')
  then obtain r where r: "process_run p (filter (\<lambda>h. h \<noteq> ExpositionFails) hs) r" "same_service q r" by blast
  show ?case
  proof (cases "h = ExpositionFails")
    case True
    with onward(2) r(2) have "same_service q' r"
      using exposition_failure_same by (auto simp: same_service_def)
    with r(1) True show ?thesis by auto
  next
    case False
    with process_step_same [OF onward(2) r(2)] obtain r'
      where "process_step r h r'" "same_service q' r'" by blast
    with r(1) False show ?thesis by (auto intro: process_run.onward)
  qed
qed

lemma process_run_serving:
  assumes "process_run p hs q" and "pr_stage p = Serving" and "ServiceFails \<notin> set hs" and "Terminate \<notin> set hs"
  shows "pr_stage q = Serving"
  using assms by (induction rule: process_run.induct) (auto elim: process_stepE)

text \<open>Only a failure of the service's own listener ends the process with an error.\<close>

lemma process_run_exited:
  "process_run p hs q \<Longrightarrow> pr_stage q = Exited n \<Longrightarrow> pr_stage p \<noteq> Exited n \<Longrightarrow> n = 1 \<and> ServiceFails \<in> set hs"
  by (induction rule: process_run.induct) (auto elim!: process_stepE)

section \<open>The build with the undeclared tool\<close>

definition UndeclaredProbeTool :: string where "UndeclaredProbeTool = ''e2e_undeclared_probe''"

definition undeclared_probe :: handler where
  "undeclared_probe sv ctx r =
     respond (ListResources (sv_k8s sv) \<lparr>lq_APIVersion = [], lq_Kind = [], lq_Namespace = None, lq_LabelSelector = None,
        lq_FieldSelector = None, lq_Limit = 0, lq_Continue = []\<rparr>)
       (\<lambda>_. toolText ''unreachable: this deployment never finishes starting'' False)"

definition probe_registry :: "api_machinery \<Rightarrow> (string \<times> handler tool_entry) list" where
  "probe_registry am = toolRegistry am @
     [(UndeclaredProbeTool,
       \<lparr>decl = no_declaration, handle = Some undeclared_probe, createBatch = False, collectionGate = False\<rparr>)]"

text \<open>The one rule that refuses it is the one of declarations: the names of the two tables agree.\<close>

lemma undeclared_tool_is_refused:
  "validateRegistry (probe_registry am) (advertisedToolNames @ [UndeclaredProbeTool]) =
     Some (''tool registry is inconsistent: '' @ UndeclaredProbeTool @
       '' declares no (verb, resource) pair and carries no no-resource-permission marker'')"
proof -
  have core: "validateDeclarations (toolRegistry am) = []" "list_all (\<lambda>(n, e). handle e \<noteq> None) (toolRegistry am)"
    and names: "fst ` set (toolRegistry am) = set advertisedToolNames"
    using registry_consistent [of am] by (auto simp: validateRegistry_None validateDeclarations_Nil list_all_iff)
  have problems: "concat (map (\<lambda>(name, entry). declaration_problems name (decl entry)) (toolRegistry am)) = []"
    using core(1) by (simp add: validateDeclarations_def del: concat_eq_Nil_conv)
  have handled: "concat (map (\<lambda>(name, entry). if handle entry = None then [name @ '' has no handler''] else [])
      (toolRegistry am)) = []"
    using core(2) by (auto simp: list_all_iff)
  have none: "filter (\<lambda>n. n \<notin> fst ` set (probe_registry am)) (advertisedToolNames @ [UndeclaredProbeTool]) = []"
    "filter (\<lambda>n. n \<notin> set (advertisedToolNames @ [UndeclaredProbeTool])) (map fst (probe_registry am)) = []"
    using names by (auto simp: probe_registry_def filter_empty_conv)
  show ?thesis
    unfolding validateRegistry_def Let_def none
    using problems handled
    by (simp add: probe_registry_def validateDeclarations_def declaration_problems_def no_declaration_def del: concat_eq_Nil_conv)
qed

end
