(* ===== verification/ProcessProperties.thy ===== *)
theory ProcessProperties
  imports Process
begin

text \<open>
  Properties of the process around the service (theory \<open>Process\<close>): the log and the counters agree,
  as long as the log level lets the records through, and what becomes of the metrics does not reach
  the service.
\<close>

lemma buildMetrics_Inr:
  "buildMetrics tools threshold = Inr (surface, sink) \<Longrightarrow>
     new_metrics tools = Inr surface \<and> m_tools surface = tools \<and> sink = Fanout [log_emit threshold, metrics_sink]"
  by (auto simp: buildMetrics_def new_metrics_def Let_def split: sum.splits if_splits)

text \<open>
  C40. The log and the counters agree. Over any stretch of a process, as many lines tell of the calls
  of a tool with a result as its counter grew, which is the number of those records, a name that is no
  tool counting as the one label for such names. This holds as long as the log level lets the records
  through: at any level above info, the counters grow alike and not a line is written.
\<close>

theorem log_lines_and_counters_agree:
  assumes "buildMetrics tools (initLogger getenv) = Inr (surface, sink)"
    and "s = emitted sink before ([], surface)" and "s' = emitted sink rs s"
  shows "counted (snd s') t k = counted (snd s) t k +
           length (filter (\<lambda>r. folded_tool tools (Tool r) = t \<and> Result r = k) rs) \<and>
         (if initLogger getenv \<le> LevelInfo
          then lines_of tools t k (fst s') + counted (snd s) t k = lines_of tools t k (fst s) + counted (snd s') t k
          else fst s' = [])"
proof -
  from buildMetrics_Inr [OF assms(1)] have tools: "m_tools surface = tools"
    and sink: "sink = Fanout [log_emit (initLogger getenv), metrics_sink]" by simp_all
  have "counted (fold metrics_emit rs m) t k = counted m t k +
      length (filter (\<lambda>r. folded_tool tools (Tool r) = t \<and> Result r = k) rs)" if "m_tools m = tools" for m
    using calls_fold_emit [of rs m t k] that by (simp add: counted_def)
  then show ?thesis unfolding assms(2,3) sink
    by (simp add: emitted_parts tools lines_of_records [symmetric]) (simp add: lines_of_def)
qed

definition sample_call_record :: event_record where
  "sample_call_record = \<lparr>Tool = ''ping'', Principal = Anonymous, Target = no_target, Result = ResultSuccess,
     Reason = None, Gate = no_gate, Duration = 1, GateWait = 0\<rparr>"

definition at_level :: "string \<Rightarrow> string \<Rightarrow> string" where
  "at_level lv key = (if key = ''LOG_LEVEL'' then lv else [])"

lemma sample_levels:
  "initLogger (at_level []) = 0" "initLogger (at_level ''Warn'') = 4" "initLogger (at_level ''info-4'') = -4"
  "initLogger (at_level ''verbose'') = 0"
  unfolding atomize_conj by code_simp

definition sample_surface :: "metrics \<times> (log_line list \<times> metrics) sink" where
  "sample_surface = projr (buildMetrics [''ping''] 0)"

lemma sample_buildMetrics: "buildMetrics [''ping''] 0 = Inr (fst sample_surface, snd sample_surface)"
  by (simp add: sample_surface_def buildMetrics_def new_metrics_def Unregistered_def Let_def)

theorem log_lines_and_counters_agree_witness:
  "\<exists>sink surface. buildMetrics [''ping''] (initLogger (at_level [])) = Inr (surface, sink) \<and>
     counted (snd (emitted sink [sample_call_record] ([], surface))) ''ping'' ResultSuccess
       = counted surface ''ping'' ResultSuccess + 1 \<and>
     lines_of [''ping''] ''ping'' ResultSuccess (fst (emitted sink [sample_call_record] ([], surface))) = 1"
proof -
  note b = sample_buildMetrics [folded sample_levels(1)]
  let ?s = "snd sample_surface"
  have e: "emitted ?s [] ([], fst sample_surface) = ([], fst sample_surface)" by (simp add: emitted_def)
  have "counted (snd (emitted ?s [sample_call_record] ([], fst sample_surface))) ''ping'' ResultSuccess
      = counted (fst sample_surface) ''ping'' ResultSuccess + 1 \<and>
    lines_of [''ping''] ''ping'' ResultSuccess (fst (emitted ?s [sample_call_record] ([], fst sample_surface))) = 1"
    using log_lines_and_counters_agree [OF b e [symmetric] refl, of "[sample_call_record]" "''ping''" ResultSuccess]
    by (simp add: sample_levels LevelInfo_def sample_call_record_def folded_tool_def lines_of_def)
  with b show ?thesis by blast
qed

text \<open>The same record at the level \<open>warn\<close> is counted, and no line tells of it.\<close>

theorem quiet_levels_lose_the_records:
  assumes "buildMetrics tools (initLogger (at_level ''Warn'')) = Inr (surface, sink)"
  shows "fst (emitted sink rs ([], surface)) = []"
    and "counted (snd (emitted sink [sample_call_record] ([], surface))) (folded_tool tools ''ping'') ResultSuccess
       = Suc (counted surface (folded_tool tools ''ping'') ResultSuccess)"
proof -
  from buildMetrics_Inr [OF assms] have tools: "m_tools surface = tools"
    and sink: "sink = Fanout [log_emit 4, metrics_sink]" by (simp_all add: sample_levels)
  show "fst (emitted sink rs ([], surface)) = []"
    by (simp add: sink emitted_parts LevelInfo_def)
  show "counted (snd (emitted sink [sample_call_record] ([], surface))) (folded_tool tools ''ping'') ResultSuccess
       = Suc (counted surface (folded_tool tools ''ping'') ResultSuccess)"
    using calls_metrics_emit [of sample_call_record surface]
    by (simp add: sink emitted_parts counted_def tools sample_call_record_def)
qed

text \<open>
  C39. The metrics cannot stop the service. Whatever befalls the process, the failures of the metrics
  listener change neither the stage it is in nor whether the service is up: the run without them is
  one of the process too, and ends alike. The service stays up until a signal or a failure of its own
  listener, it is up exactly while the process serves or has just been signalled, and the process
  exits with a status, which is 1, only when that listener failed.
\<close>

theorem exposition_cannot_stop_the_service:
  assumes "process_run (started getenv) hs p"
  shows "(\<exists>q. process_run (started getenv) (filter (\<lambda>h. h \<noteq> ExpositionFails) hs) q \<and> same_service p q) \<and>
     (ServiceFails \<notin> set hs \<and> Terminate \<notin> set hs \<longrightarrow> pr_service p) \<and>
     (pr_service p \<longleftrightarrow> pr_stage p \<in> {Serving, Signalled}) \<and>
     (pr_stage p = Exited n \<longrightarrow> n = 1 \<and> ServiceFails \<in> set hs)"
proof -
  have s: "pr_stage (started getenv) = Serving" by (simp add: started_def)
  have up: "pr_service p \<longleftrightarrow> pr_stage p \<in> {Serving, Signalled}"
    using process_run_ok [OF assms started_ok] by (simp add: process_ok_def)
  moreover have "pr_stage p = Serving" if "ServiceFails \<notin> set hs" "Terminate \<notin> set hs"
    using process_run_serving [OF assms s] that by blast
  moreover have "n = 1 \<and> ServiceFails \<in> set hs" if "pr_stage p = Exited n"
    using process_run_exited [OF assms that] s by simp
  ultimately show ?thesis using process_run_same [OF assms] by blast
qed

theorem exposition_cannot_stop_the_service_witness:
  "process_run (started (at_level [])) [ExpositionFails] (started (at_level [])\<lparr>pr_exposition := False\<rparr>) \<and>
   pr_service (started (at_level [])\<lparr>pr_exposition := False\<rparr>)"
proof -
  have "process_step (started (at_level [])) ExpositionFails (started (at_level [])\<lparr>pr_exposition := False\<rparr>)"
    by (rule process_step.exposition_fails) (simp add: started_def buildMetricsServer_def at_level_def)
  from process_run.onward [OF process_run.still this]
  have r: "process_run (started (at_level [])) [ExpositionFails] (started (at_level [])\<lparr>pr_exposition := False\<rparr>)"
    by simp
  from exposition_cannot_stop_the_service [OF r] r show ?thesis by simp
qed

end
