(* ===== verification/KubeBuild.thy ===== *)
theory KubeBuild
  imports K8sTypes
begin

text \<open>
  How the clients of the cluster are set up (\<open>New\<close>, \<open>upgradeConfig\<close>, \<open>restClientFor\<close> and
  \<open>discoveryClient\<close> of internal/k8s). client-go is a parameter: what loads a configuration, and what
  makes a client of one. A configuration is the part of a \<open>rest.Config\<close> the code reads or sets, with
  the wrappers around its transport, the outermost first.
\<close>

section \<open>Configurations\<close>

datatype wrapper = SpanWrapper

record rest_config =
  rc_host :: string
  rc_wrappers :: "wrapper list"
  rc_GroupVersion :: "(string \<times> string) option"
  rc_APIPath :: string

definition config_Wrap :: "wrapper \<Rightarrow> rest_config \<Rightarrow> rest_config" where
  "config_Wrap x cfg = cfg\<lparr>rc_wrappers := x # rc_wrappers cfg\<rparr>"

record 'c client_go =
  cg_InClusterConfig :: "string + rest_config"
  cg_ClientConfig :: "string + rest_config"
  cg_NewForConfig :: "rest_config \<Rightarrow> string + 'c"
  cg_RESTClientFor :: "rest_config \<Rightarrow> string + 'c"
  cg_NewDiscoveryClientForConfig :: "rest_config \<Rightarrow> string + 'c"

record 'c cluster_client =
  cc_clientset :: 'c
  cc_config :: rest_config
  cc_streamConfig :: "rest_config option"

text \<open>
  \<open>New\<close>. The copy for the streams is taken before the transport is wrapped: what upgrades a connection
  must keep a plain one.
\<close>

definition kube_New :: "'c client_go \<Rightarrow> go_err + 'c cluster_client" where
  "kube_New lib =
     (case (case cg_InClusterConfig lib of
              Inr cfg \<Rightarrow> Inr cfg
            | Inl _ \<Rightarrow> (case cg_ClientConfig lib of
                         Inl e \<Rightarrow> Inl (unavailableErr (''init kube client: '' @ e))
                       | Inr cfg \<Rightarrow> Inr cfg)) of
        Inl e \<Rightarrow> Inl e
      | Inr loaded \<Rightarrow>
          (let streamConfig = loaded; cfg = config_Wrap SpanWrapper loaded in
           case cg_NewForConfig lib cfg of
             Inl e \<Rightarrow> Inl (unavailableErr (''init kube client: '' @ e))
           | Inr clientset \<Rightarrow>
               Inr \<lparr>cc_clientset = clientset, cc_config = cfg, cc_streamConfig = Some streamConfig\<rparr>))"

definition upgradeConfig :: "'c cluster_client \<Rightarrow> rest_config" where
  "upgradeConfig s = (case cc_streamConfig s of Some c \<Rightarrow> c | None \<Rightarrow> cc_config s)"

definition discoveryClient :: "'c client_go \<Rightarrow> 'c cluster_client \<Rightarrow> go_err + 'c" where
  "discoveryClient lib s =
     (case cg_NewDiscoveryClientForConfig lib (cc_config s) of
        Inl e \<Rightarrow> Inl (unavailableErr (''init discovery client: '' @ e))
      | Inr dc \<Rightarrow> Inr dc)"

definition rest_config_for :: "'c cluster_client \<Rightarrow> string \<times> string \<Rightarrow> rest_config" where
  "rest_config_for s gv =
     (cc_config s)\<lparr>rc_GroupVersion := Some gv, rc_APIPath := (if fst gv = [] then ''/api'' else ''/apis'')\<rparr>"

definition restClientFor :: "'c client_go \<Rightarrow> 'c cluster_client \<Rightarrow> string \<times> string \<Rightarrow> go_err + 'c" where
  "restClientFor lib s gv =
     (case cg_RESTClientFor lib (rest_config_for s gv) of
        Inl e \<Rightarrow> Inl (unavailableErr (''init rest client: '' @ e))
      | Inr client \<Rightarrow> Inr client)"

text \<open>\<open>buildK8sService\<close> of main.go: the client, or the text the unavailable service has as its reason.\<close>

definition build_cluster :: "(string \<Rightarrow> string) \<Rightarrow> 'c client_go \<Rightarrow> string + 'c cluster_client" where
  "build_cluster getenv lib =
     (let disabled = getenv ''MCP_K8S_DISABLED'' in
      if disabled = ''1'' \<or> disabled = ''true'' then Inl ''kubernetes integration is disabled''
      else (case kube_New lib of Inl e \<Rightarrow> Inl (err_text e) | Inr s \<Rightarrow> Inr s))"

definition loaded_config :: "'c client_go \<Rightarrow> rest_config option" where
  "loaded_config lib =
     (case cg_InClusterConfig lib of
        Inr cfg \<Rightarrow> Some cfg
      | Inl _ \<Rightarrow> (case cg_ClientConfig lib of Inl _ \<Rightarrow> None | Inr cfg \<Rightarrow> Some cfg))"

lemma kube_New_Inr:
  assumes "kube_New lib = Inr s"
  obtains cfg where "loaded_config lib = Some cfg" "cc_config s = config_Wrap SpanWrapper cfg"
    "cc_streamConfig s = Some cfg" "cg_NewForConfig lib (config_Wrap SpanWrapper cfg) = Inr (cc_clientset s)"
  using assms by (auto simp: kube_New_def loaded_config_def Let_def split: sum.splits)

text \<open>
  Requests are traced, streams are not: of the two configurations a client has, the one of plain
  requests has exactly one wrapper more than the one that was loaded, and the one that upgrades a
  connection is the one that was loaded.
\<close>

lemma streams_are_not_wrapped:
  assumes "kube_New lib = Inr s"
  shows "loaded_config lib = Some (upgradeConfig s)"
    and "rc_wrappers (cc_config s) = SpanWrapper # rc_wrappers (upgradeConfig s)"
    and "rc_host (cc_config s) = rc_host (upgradeConfig s)"
  using assms by (auto elim!: kube_New_Inr simp: upgradeConfig_def config_Wrap_def)

lemma rest_config_for_simps [simp]:
  "rc_wrappers (rest_config_for s gv) = rc_wrappers (cc_config s)"
  "rc_host (rest_config_for s gv) = rc_host (cc_config s)"
  "rc_GroupVersion (rest_config_for s gv) = Some gv"
  by (simp_all add: rest_config_for_def)

text \<open>A failure while a client is built is one of an integration that is not available.\<close>

lemma build_failures_are_unavailable:
  "kube_New lib = Inl e \<Longrightarrow> is_unavailable e"
  "discoveryClient lib s = Inl e \<Longrightarrow> is_unavailable e"
  "restClientFor lib s gv = Inl e \<Longrightarrow> is_unavailable e"
  by (auto simp: kube_New_def discoveryClient_def restClientFor_def unavailableErr_def Let_def split: sum.splits)

end
