(* ===== verification/Boot.thy ===== *)
theory Boot
  imports Process
begin

text \<open>
  What the process does and says before it listens: \<open>Setup\<close> of internal/telemetry, the lines \<open>main\<close>
  writes on its way to \<open>server_main\<close>, and the lines of the approvals (\<open>approvalLog\<close>). OpenTelemetry is
  a parameter: whether its exporter and its resource could be made.
\<close>

section \<open>Tracing\<close>

text \<open>
  The state is what the process has installed: the provider, by the name and the version of the service
  it has as defaults, the propagators and the wrapper around the default transport.
\<close>

record tracing_state =
  tc_provider :: "(string \<times> string) option"
  tc_propagators :: "string list"
  tc_default_wrapped :: bool

datatype resource_result = CompleteResource | PartialResource | ResourceFails string

record otel =
  ot_exporter :: "string option"
  ot_resource :: "string \<Rightarrow> string \<Rightarrow> resource_result"

datatype shutdown_of = NoopShutdown | ProviderShutdown

definition untraced :: tracing_state where
  "untraced = \<lparr>tc_provider = None, tc_propagators = [], tc_default_wrapped = False\<rparr>"

definition install_tracing :: "string \<Rightarrow> string \<Rightarrow> tracing_state \<Rightarrow> tracing_state" where
  "install_tracing serviceName serviceVersion st =
     st\<lparr>tc_provider := Some (serviceName, serviceVersion), tc_propagators := [''tracecontext'', ''baggage''],
       tc_default_wrapped := True\<rparr>"

definition telemetry_Setup ::
  "otel \<Rightarrow> (string \<Rightarrow> string) \<Rightarrow> string \<Rightarrow> string \<Rightarrow> tracing_state \<Rightarrow>
     (shutdown_of \<times> string option) \<times> tracing_state"
where
  "telemetry_Setup lib getenv serviceName serviceVersion st =
     (if \<not> tracing_Enabled getenv then ((NoopShutdown, None), st)
      else
        (case ot_exporter lib of
           Some e \<Rightarrow> ((NoopShutdown, Some e), st)
         | None \<Rightarrow>
             (case ot_resource lib serviceName serviceVersion of
                ResourceFails e \<Rightarrow> ((NoopShutdown, Some e), st)
              | _ \<Rightarrow> ((ProviderShutdown, None), install_tracing serviceName serviceVersion st))))"

text \<open>The provider the AWS clients trace with is the one installed when they are made.\<close>

definition AWSTracerProvider :: "tracing_state \<Rightarrow> (string \<times> string) option" where
  "AWSTracerProvider st = tc_provider st"

text \<open>Tracing is installed as a whole or not at all, and only what was installed is shut down.\<close>

lemma tracing_is_all_or_nothing:
  assumes "telemetry_Setup lib getenv name version untraced = ((stop, e), st)"
  shows "(st = untraced \<and> stop = NoopShutdown) \<or>
     (e = None \<and> stop = ProviderShutdown \<and> st = install_tracing name version untraced)"
  using assms by (auto simp: telemetry_Setup_def split: if_splits option.splits resource_result.splits)

lemma tracing_off: "\<not> tracing_Enabled getenv \<Longrightarrow> telemetry_Setup lib getenv name version st = ((NoopShutdown, None), st)"
  by (simp add: telemetry_Setup_def)

section \<open>The lines of a start\<close>

text \<open>A line of the logger: its level, its message and its attributes.\<close>

type_synonym entry = "int \<times> string \<times> (string \<times> string) list"

definition tracing_lines :: "(string \<Rightarrow> string) \<Rightarrow> string option \<Rightarrow> entry list" where
  "tracing_lines getenv err =
     (case err of
        Some e \<Rightarrow> [(LevelError, ''tracing setup failed; continuing without traces'', [(''error'', e)])]
      | None \<Rightarrow> if tracing_Enabled getenv then [(LevelInfo, ''tracing enabled'', [])] else [])"

definition unauthenticated_line :: entry where
  "unauthenticated_line = (LevelWarn, ''MCP_AUTH_DISABLED is set: serving /mcp without authentication'', [])"

definition auth_lines :: "auth_config option \<Rightarrow> entry list" where
  "auth_lines authCfg =
     (case authCfg of
        None \<Rightarrow> [unauthenticated_line]
      | Some c \<Rightarrow>
          [(LevelInfo, ''mcp authentication enabled'',
             [(''api_keys'', itoa (int (APIKeyCount c))),
              (''oauth'', if OAuthConfigured c then ''true'' else ''false''),
              (''github_oidc_rules'', itoa (int (GitHubOIDCRuleCount c)))])] @
          (if OAuthConfigured c then [] else [(LevelInfo, ''MCP_OAUTH_* not set: OAuth discovery disabled'', [])]))"

definition exemption_line :: "string \<times> string \<Rightarrow> entry" where
  "exemption_line = (\<lambda>(tool, reason').
     (LevelWarn, ''tool exercises a gated verb but runs outside the approval gate'',
       [(''tool'', tool), (''reason'', reason')]))"

definition gatePairsText :: string where
  "gatePairsText = join '', '' (map pair_string GatePairs)"

definition refusing_line :: "string \<Rightarrow> entry" where
  "refusing_line e = (LevelError, ''refusing to start'', [(''error'', e)])"

definition invalid_auth_line :: "string \<Rightarrow> entry" where
  "invalid_auth_line e = (LevelError, ''invalid auth config'', [(''error'', e)])"

text \<open>The lines of \<open>main\<close> from the configuration of the authentication to the metrics, in order.\<close>

definition start_lines ::
  "(string \<Rightarrow> json option) \<Rightarrow> fetcher \<Rightarrow> string list \<Rightarrow> deployment \<Rightarrow> entry list"
where
  "start_lines read_json get environ dp =
     (let registry = toolRegistry (dp_am dp) in
      case fst (auth_FromEnv read_json get (dp_getenv dp) environ) of
        Inl e \<Rightarrow> [invalid_auth_line (fetch_error_text e)]
      | Inr authCfg \<Rightarrow>
     (case (case authCfg of None \<Rightarrow> None | Some c \<Rightarrow> CheckToolScopes (map_option go_rules (ac_github c)) (map fst registry)) of
        Some e \<Rightarrow> [invalid_auth_line e]
      | None \<Rightarrow> auth_lines authCfg @
     (case validate_startup (dp_am dp) of
        Some e \<Rightarrow> [refusing_line e]
      | None \<Rightarrow>
          map exemption_line (Exemptions registry) @
          [(LevelInfo, ''approval gate exercises these pairs before any verdict'', [(''pairs'', gatePairsText)])] @
     (case new_metrics (map fst registry) of
        Inl e \<Rightarrow> [refusing_line e]
      | Inr _ \<Rightarrow> []))))"

definition logged :: "int \<Rightarrow> entry list \<Rightarrow> entry list" where
  "logged threshold lines' = filter (\<lambda>(level, _). threshold \<le> level) lines'"

text \<open>The start of \<open>main\<close>: a failure to set tracing up is a line, not an end.\<close>

definition main_start ::
  "otel \<Rightarrow> (string \<Rightarrow> json option) \<Rightarrow> fetcher \<Rightarrow> string list \<Rightarrow> deployment \<Rightarrow>
     (string + running) \<times> shutdown_of \<times> tracing_state \<times> entry list"
where
  "main_start lib read_json get environ dp =
     (let ((stop, err), st) = telemetry_Setup lib (dp_getenv dp) version_Name server_version untraced in
      (server_main read_json get environ dp, stop, st,
       logged (initLogger (dp_getenv dp)) (tracing_lines (dp_getenv dp) err @ start_lines read_json get environ dp)))"

lemmas line_defs = auth_lines_def unauthenticated_line_def exemption_line_def refusing_line_def invalid_auth_line_def

lemma level_order: "LevelDebug < LevelInfo" "LevelInfo < LevelWarn" "LevelWarn < LevelError"
  by (simp_all add: LevelDebug_def LevelInfo_def LevelWarn_def LevelError_def)

lemma auth_lines_no_error: "l \<in> set (auth_lines authCfg) \<Longrightarrow> fst l \<noteq> LevelError"
  using level_order by (auto simp: line_defs split: option.splits if_splits)

lemma line_levels:
  "fst (exemption_line x) \<noteq> LevelError" "fst (refusing_line e) = LevelError" "fst (invalid_auth_line e) = LevelError"
  using level_order by (simp_all add: line_defs split_def)

text \<open>
  A start has an error line exactly when it fails; one that succeeds has told of each tool that
  runs outside the gate, and that \<open>/mcp\<close> has no authentication exactly when it has none.
\<close>

lemma failed_starts_say_why:
  "(\<exists>e. server_main read_json get environ dp = Inl e) \<longleftrightarrow>
     (\<exists>l \<in> set (start_lines read_json get environ dp). fst l = LevelError)"
proof -
  obtain res st where auth: "auth_FromEnv read_json get (dp_getenv dp) environ = (res, st)" by fastforce
  note simps = server_main_def start_lines_def Let_def auth line_levels
  show ?thesis
  proof (cases res)
    case (Inl e)
    then show ?thesis by (simp add: simps)
  next
    case (Inr authCfg)
    have quiet: "\<not> (\<exists>l \<in> set (auth_lines authCfg). fst l = LevelError)" using auth_lines_no_error by blast
    show ?thesis
      using level_order
      by (simp add: simps Inr bex_Un quiet refusing_line_def split: option.split sum.split)
  qed
qed

lemma starts_tell_the_exemptions:
  assumes "server_main read_json get environ dp = Inr rn"
    and "(tool, why) \<in> set (Exemptions (toolRegistry (dp_am dp)))"
  shows "exemption_line (tool, why) \<in> set (start_lines read_json get environ dp)"
  using assms by (auto simp: server_main_def start_lines_def Let_def split: sum.splits option.splits prod.splits)

lemma starts_tell_of_no_authentication:
  assumes "server_main read_json get environ dp = Inr rn"
  shows "unauthenticated_line \<in> set (start_lines read_json get environ dp) \<longleftrightarrow> rn_auth rn = None"
  using assms
  by (auto simp: server_main_def start_lines_def Let_def line_defs LevelWarn_def LevelInfo_def LevelError_def
      split: sum.splits option.splits prod.splits if_splits)

text \<open>A logger that lets warnings out lets these lines out.\<close>

lemma logged_warnings: "l \<in> set ls \<Longrightarrow> threshold \<le> fst l \<Longrightarrow> l \<in> set (logged threshold ls)"
  by (auto simp: logged_def split_def)

section \<open>Where the records go\<close>

text \<open>
  The handler and the authentication have a sink each, which is the log until \<open>WithEventSink\<close> and
  \<open>RecordTo\<close> install one; \<open>main\<close> gives both the sink that also counts.
\<close>

type_synonym record_sink = "(log_line list \<times> metrics) sink"

definition WithEventSink :: "record_sink option \<Rightarrow> record_sink option \<Rightarrow> record_sink option" where
  "WithEventSink sink events = (case sink of None \<Rightarrow> events | Some s \<Rightarrow> Some s)"

definition RecordTo :: "record_sink option \<Rightarrow> record_sink option \<Rightarrow> record_sink option" where
  "RecordTo sink events = (case sink of None \<Rightarrow> events | Some s \<Rightarrow> Some s)"

definition sink_of :: "int \<Rightarrow> record_sink option \<Rightarrow> record_sink" where
  "sink_of threshold events = (case events of None \<Rightarrow> log_emit threshold | Some s \<Rightarrow> s)"

lemma records_are_logged_and_counted:
  assumes "buildMetrics tools threshold = Inr (surface, sink)"
  shows "sink_of threshold (WithEventSink (Some sink) None) r (out, m) =
      (fst (log_emit threshold r (out, m)), metrics_emit r m)"
    and "sink_of threshold (RecordTo (Some sink) None) r (out, m) =
      (fst (log_emit threshold r (out, m)), metrics_emit r m)"
  using assms emitted_parts [of threshold "[r]" out m]
  by (auto simp: buildMetrics_def sink_of_def WithEventSink_def RecordTo_def emitted_def log_emit_def slog_line_def
      split: sum.splits)

section \<open>The lines of the approvals\<close>

text \<open>\<open>approvalLog\<close>: what is logged of an approval names the session and the reason, where there are any.\<close>

definition approvalLog :: "call_ctx \<Rightarrow> int \<Rightarrow> string \<Rightarrow> (string \<times> string) list \<Rightarrow> entry" where
  "approvalLog ctx level msg args =
     (level, msg,
      args @ (if cx_sessionID ctx = [] then [] else [(''session_id'', cx_sessionID ctx)])
           @ (if cx_reason ctx = [] then [] else [(''reason'', cx_reason ctx)]))"

lemma approvals_name_their_reason:
  "snd (snd (approvalLog (withReason ctx r) level msg args)) =
     (if r = [] then snd (snd (approvalLog ctx level msg args))
      else snd (snd (approvalLog (ctx\<lparr>cx_reason := []\<rparr>) level msg args)) @ [(''reason'', r)])"
  by (simp add: approvalLog_def withReason_def)

end
