(* ===== verification/Spec2Isabelle.thy ===== *)
theory Spec2Isabelle
  imports GateLiveness CallProperties AccessProperties KubeReadProperties ClientProperties ToolsProperties ProcessProperties KubeBuild Boot
begin

text \<open>
  A verification development for homelab-k3s-mcp, a server that offers the operation of a
  kubernetes cluster and a few integrations as tools over the Model Context Protocol. A human
  operator stands between the tools and the cluster: a call that changes the state of the cluster,
  or reads a sensitive kind, is put before the operator, and is executed if and as it was approved.

  The program and the theories. A request passes through the parts of the program in this order.

  \<^item> internal/server and main.go: \<open>Server\<close> (routes, \<open>App\<close>; the checks of \<open>main\<close> before it
    listens, \<open>server_main\<close>) and \<open>Serve\<close> (the gate, the readers and the handler \<open>main\<close> builds from its
    environment, \<open>served\<close>; \<open>Validate\<close>); \<open>Wire\<close> (the JSON and the status of every reply, the access log
    of \<open>logging\<close>), \<open>Process\<close> (the log level and the sink, the metrics listener, the names of spans,
    and the life of the two listeners as a step relation, \<open>process_step\<close>) and \<open>Boot\<close> (the set-up of
    tracing, the lines of a start, where the records go).
  \<^item> internal/auth: \<open>GithubRules\<close> (the rules that admit workflows, their parsing and their grants),
    \<open>Auth\<close> (configuration, key sets and their refresh), \<open>Bearer\<close> (the three credentials and
    \<open>RequireBearer\<close>). What it learns of a caller travels in the context: \<open>Toolscope\<close>
    (internal/toolscope) and \<open>call_ctx\<close> of \<open>Provenance\<close>.
  \<^item> internal/mcp: \<open>Dispatch\<close> (\<open>ServeHTTP\<close>, \<open>toolsCall\<close>, \<open>callCreateBatch\<close>, \<open>callDeleteCollection\<close>),
    \<open>Declaration\<close> and \<open>Registry\<close> (which permissions a call of a tool exercises; \<open>toolRegistry\<close>),
    \<open>Provenance\<close> (reason and session id), \<open>Authorize\<close> (\<open>authorize\<close>, reading the target before and
    after the approval), \<open>Screen\<close> (what the operator is shown, and what is masked), \<open>Confine\<close> (the
    client that refuses what was not declared), \<open>ToolArgs\<close>, \<open>ResourceHandlers\<close>,
    \<open>IntegrationHandlers\<close> and \<open>TokenCaps\<close> (arguments and handlers of the tools), \<open>Results\<close>.
  \<^item> internal/approvalgate: \<open>ApprovalGate\<close>, the client that posts a request for approval and polls
    it until it is decided, a timer fires or the caller goes away.
  \<^item> internal/eventlog and internal/metrics: \<open>EventLog\<close>, \<open>Metrics\<close>.
  \<^item> internal/k8s: \<open>K8sTypes\<close> has the interface (\<open>Service\<close>, references, results, errors). The client
    behind it is \<open>KubeState\<close> (its state and monad), \<open>KubeKinds\<close> (from kinds to resources),
    \<open>KubeTargets\<close> (the gate's reads), \<open>KubePatch\<close> and \<open>KubeWrites\<close>, \<open>KubeReads\<close>, \<open>KubeStreams\<close>
    (exec, attach, port forward, proxy), and \<open>KubeService\<close>, which makes them one service;
    \<open>KubeConfine\<close> bounds what this service sends under the confinement of a call. \<open>KubeBuild\<close> is how
    the client is built: requests are traced, the streams keep an unwrapped configuration.
  \<^item> \<open>Services\<close> has the interfaces of the integrations. The clients behind them are \<open>GithubClient\<close>
    (internal/github), \<open>SessionClient\<close> (internal/sessionplatform), \<open>DropClient\<close>, \<open>PocketAideClient\<close>,
    \<open>OpenSearchClient\<close>, \<open>GrafanaClient\<close> and \<open>AwsClient\<close>, over \<open>HttpClient\<close> (requests, answers, tokens in
    files); \<open>Clients\<close> builds them from the environment as main.go does and makes their answers those of
    the interfaces (\<open>client_oracle\<close>).
  \<^item> toolslist.go: \<open>ToolsList\<close>, the advertised tools with their schemas and hints.

  \<open>GoBase\<close>, \<open>Json\<close>, \<open>Decode\<close>, \<open>GoURL\<close> and \<open>GoTime\<close> are the Go library the program leans on (strings,
  UTF-8, integers of 64 bits, decoding of JSON into maps and structs, addresses, dates); \<open>Acts\<close> sequences
  functions that fail with an error; \<open>World\<close> is the state a call runs in.

  The state. A world has the trace of everything that left the process (requests to the cluster and
  to integrations, posts and polls of the gate, records), a clock, the approvals spent, and the
  variables that Go closures of one call share. What the environment answers is a function of the
  whole world, an argument of the model: the theorems hold for every such function, so for every
  order in which concurrent calls of other requests could have changed what is answered. The calls
  of one request are sequential in the code. The key caches of the authentication are the second
  piece of state, \<open>auth_state\<close>.

  The lemmas. Contracts are locales: \<open>bounded_service\<close> (a cluster client that makes only permitted
  calls), \<open>approval_gate\<close> (a decision has evidence, is fresh and unspent), \<open>gate_readers\<close>,
  \<open>gated_dispatch\<close> and \<open>registry_dispatcher\<close>, which extend one another; each is interpreted on the
  program's own definitions, the last on the handler \<open>main\<close> serves. \<open>DispatchProps\<close> and
  \<open>RegistryProps\<close> follow the effects of a call through the dispatcher, \<open>HandlerProps\<close> those of each
  handler. The properties are in \<open>GateProperties\<close> (gate and batches), \<open>GateLiveness\<close> (an operator's
  decision in time arrives), \<open>CallProperties\<close> (scope,
  confinement, start-up checks, reason, masking, tokens, arguments, metrics), \<open>AccessProperties\<close>
  (authentication, workflows, start), \<open>KubeProperties\<close> and \<open>KubeReadProperties\<close> (the cluster
  client), \<open>GithubProperties\<close>, \<open>SessionProperties\<close> and \<open>ClientProperties\<close> (the clients of the
  integrations), \<open>ToolsProperties\<close> (what is advertised), \<open>ProcessProperties\<close> (records and counters, the two
  listeners) and here (what they add up to). \<open>Sample\<close> and
  \<open>ClientSample\<close> are what each property with a hypothesis is exercised on.

  The requests of a client are bounded by \<open>requests\<close>, with rules for each way acts are put together,
  in terms of what had been sent and what files and clock showed when the request was sent. The tokens of the
  GitHub App have an abstract specification, \<open>GithubLedger\<close>: the set of living tokens, as the answers tell it,
  and the steps it may take; the client's operations refine it, and rule induction over
  sequences of operations gives the invariant.

  Bounds. Nothing is cut off by fuel. The loop that polls the backend is a function whose
  termination is proved from the code's own deadline, the only assumption being the one the code
  makes, that a ticker's interval is positive. Integers are unbounded where the code's are bounded by
  what they count; parsed numbers and durations are kept to 64 bits, with the wrap-around of a
  duration written out.

  Parameters. apimachinery's parser of an API version and guess of a plural (\<open>api_machinery\<close>), the
  reader of YAML, the JWT library (\<open>jwt_lib\<close>), HTTP answers, the random ids, the clock. The hypothesis
  \<open>core_names\<close> states of apimachinery that it names three resources of the core API as documented.

  For the cluster client: what discovery, the apiserver, a stream and a proxied target answer, as
  functions of the request and of all requests before it (\<open>kube_env\<close>, \<open>stream_env\<close>, \<open>client_env\<close>);
  the hypothesis \<open>guesses\<close> states that discovery names a resource as the gate guesses from its kind.
  For the other clients: the answer to each request, the files and the clock as functions of the requests
  before it, the text of a body read as JSON (\<open>http_env\<close>), the App's key (\<open>signer\<close>), the AWS SDK
  (\<open>aws_sdk\<close>, \<open>s3_backend\<close>), random bytes; the hypothesis \<open>revocations_work\<close> states that GitHub accepts
  the revocation of a token it issued. The hypothesis \<open>decides_at\<close> states that the approval service answers
  polls, pending before the operator decided and with the decision afterwards.

  Simplifications. Texts of errors and messages are kept to their leading clause. Case mapping and
  white space are those of ASCII. JSON is abstract syntax; a Go map is an association list, so a loop
  over a map has one order where Go's is unspecified (it decides which of several messages is given,
  not whether one is). What an
  integration answers at one moment of the world is what its client makes of the requests it sends
  then; how many requests of it had gone before is any function of the world. A request that follows
  redirects is one request. The descriptions in the advertised schemas are left out.

  Not modelled: HTTP framing, the exporter and propagators of tracing, timeouts of the HTTP clients, and
  what client-go, AWS, JWT and prometheus libraries do inside, which are parameters; the log lines that
  are not about approvals, records, requests or the start; the shell commands \<open>dropUsage\<close> suggests.
\<close>

section \<open>The gate around the cluster\<close>



text \<open>
  C6. A server whose approval backend is not configured, or configured wrongly, makes no gated
  request at all, but for the tool held out of the gate.
\<close>

theorem unconfigured_gate_refuses:
  assumes "\<forall>cfg. FromEnv (dp_getenv dp) (dp_files dp) \<noteq> Inr (Some cfg)"
    and "toolsCall (served dp) ctx params w = (r, w')"
    and "called_tool params \<noteq> ''dear_baby_reset_user''"
    and "exercises (dp_am dp) k = Some ps" and "p \<in> set ps"
    and "pair_gated (h_sensitiveKinds (served dp)) p"
  shows "K8sCall k \<notin> set (new_effects w w')"
  using srv.toolsCall_approved [OF assms(2)] assms by (auto simp: approved_for_def built_evidence_def)


text \<open>The sample deployment without its variables.\<close>

theorem unconfigured_gate_refuses_witness:
  "K8sCall (CDelete sample_delete_ref) \<notin> set (new_effects init_world
     (snd (toolsCall (served ((sample_deployment [])\<lparr>dp_getenv := (\<lambda>_. [])\<rparr>)) sample_ctx sample_delete init_world)))"
proof -
  let ?dp = "(sample_deployment [])\<lparr>dp_getenv := (\<lambda>_. [])\<rparr>"
  have env: "\<forall>cfg. FromEnv (dp_getenv ?dp) (dp_files ?dp) \<noteq> Inr (Some cfg)"
    by (simp add: FromEnv_def trim_space_def trim_right_def Let_def)
  have ex: "exercises (dp_am ?dp) (CDelete sample_delete_ref) = Some [mk_pair ''delete'' ''configmaps'']"
    using sample_delete_exercises by simp
  have name: "called_tool sample_delete \<noteq> ''dear_baby_reset_user''" by (simp add: sample_delete_tool)
  show ?thesis
    by (rule unconfigured_gate_refuses [OF env prod.collapse [symmetric] name ex _ delete_is_gated]) simp
qed

text \<open>
  C5. Every call of a tool leaves exactly one record, after everything else it did. The record is
  well formed (a refusal has a reason and nothing else has one) and names the caller. A call that
  ends in a JSON-RPC error is recorded as a refusal, and no request of the tool itself, to the
  cluster or to an integration, was made.
\<close>

theorem every_call_leaves_one_record:
  assumes "toolsCall (served dp) ctx params w = (r, w')"
  shows "\<exists>es record. trace w' = trace w @ es @ [Emitted record] \<and>
     list_all (\<lambda>x. \<forall>rec. x \<noteq> Emitted rec) es \<and> well_formed_record record \<and>
     Principal record = cx_principal ctx \<and>
     (\<forall>e. r = Inl e \<longrightarrow> Result record = ResultRefused \<and> list_all (\<lambda>x. \<not> tool_effect x) es)"
  using srv.toolsCall_record [OF assms] .

theorem every_call_leaves_one_record_witness:
  "\<exists>es record. trace (snd (sample_run [] (call_params ''no_such_tool'' []))) = es @ [Emitted record] \<and>
     Result record = ResultRefused \<and> list_all (\<lambda>x. \<not> tool_effect x) es"
proof -
  obtain e where e: "fst (sample_run [] (call_params ''no_such_tool'' [])) = Inl e"
    using sample_unknown_fails by (auto simp: isl_def)
  have "trace init_world = []" by (simp add: init_world_def)
  with every_call_leaves_one_record [OF sample_run_eq, of "[]" "call_params ''no_such_tool'' []"] e
  show ?thesis by auto
qed





end
